(* ===== verification/CBase.thy ===== *)
theory CBase
  imports Main "HOL-Library.Signed_Division"
begin

text \<open>
  The prelude of the development: the outcome type and sequencing of C code, characters as the
  signed bytes they are on the platform the Makefile targets (gcc on x86-64 Linux), the character
  and number routines of the C library the sources call, and the lemmas on decimal digit strings
  that the arithmetic components share.
\<close>

section \<open>Collections\<close>

named_theorems c_run \<comment> \<open>rules that execute one C operation on a state that permits it\<close>
named_theorems c_frame \<comment> \<open>what an operation leaves unchanged\<close>

lemma nat_one_int [simp]: "nat (1 + int k) = Suc k"
  by simp

section \<open>Outcomes of C code\<close>

text \<open>
  A piece of C code takes a state. It may not return (\<open>None\<close>), it may run into behaviour the C
  standard leaves undefined (\<open>Inl\<close> with the kind of the error), or it may return a value and a
  new state (\<open>Inr\<close>).
\<close>

datatype cerr =
    NullDeref
  | OutOfBounds
  | Uninit
  | ReadOnly
  | UseAfterFree
  | BadFree
  | SignedOverflow

type_synonym ('s, 'a) c = "'s \<Rightarrow> (cerr + 'a \<times> 's) option"

abbreviation ok :: "'a \<Rightarrow> 's \<Rightarrow> (cerr + 'a \<times> 's) option" where
  "ok a s \<equiv> Some (Inr (a, s))"

abbreviation ub :: "cerr \<Rightarrow> (cerr + 'a \<times> 's) option" where
  "ub e \<equiv> Some (Inl e)"

definition bind :: "('s, 'a) c \<Rightarrow> ('a \<Rightarrow> ('s, 'b) c) \<Rightarrow> ('s, 'b) c" where
  "bind m f s =
     (case m s of
        None \<Rightarrow> None
      | Some (Inl e) \<Rightarrow> Some (Inl e)
      | Some (Inr (a, s')) \<Rightarrow> f a s')"

definition return :: "'a \<Rightarrow> ('s, 'a) c" where
  "return a s = ok a s"

definition undefined_behaviour :: "cerr \<Rightarrow> ('s, 'a) c" where
  "undefined_behaviour e s = ub e"

lemma bind_ok [simp]: "m s = ok a s' \<Longrightarrow> bind m f s = f a s'"
  by (simp add: bind_def)

lemma bind_ub [simp]: "m s = ub e \<Longrightarrow> bind m f s = ub e"
  by (simp add: bind_def)

lemma bind_None [simp]: "m s = None \<Longrightarrow> bind m f s = None"
  by (simp add: bind_def)

lemma return_ok [simp]: "return a s = ok a s"
  by (simp add: return_def)

lemma undefined_behaviour_ub [simp]: "undefined_behaviour e s = ub e"
  by (simp add: undefined_behaviour_def)

lemma bind_return [simp]: "bind (return a) f s = f a s"
  by (simp add: bind_def)

lemma bind_undefined_behaviour [simp]: "bind (undefined_behaviour e) f s = ub e"
  by (simp add: bind_def)

lemma bind_if [simp]:
  "bind (if b then m1 else m2) f s = (if b then bind m1 f s else bind m2 f s)"
  by simp

lemma bind_eq_ok_iff:
  "bind m f s = ok b s' \<longleftrightarrow> (\<exists>a s1. m s = ok a s1 \<and> f a s1 = ok b s')"
  by (auto simp: bind_def split: option.splits sum.splits prod.splits)

lemma bind_assoc [simp]: "bind (bind m f) g s = bind m (\<lambda>a. bind (f a) g) s"
  by (simp add: bind_def split: option.splits sum.splits prod.splits)

text \<open>The continuation is simplified only once the value it is applied to is known.\<close>

lemma bind_weak_cong [cong]: "m = m' \<Longrightarrow> s = s' \<Longrightarrow> bind m f s = bind m' f s'"
  by simp

text \<open>A recursive call under \<open>bind\<close> is monotone: loops with no bound are partial functions.\<close>

lemma bind_mono [partial_function_mono]:
  assumes "\<And>a s'. monotone (fun_ord option_ord) option_ord (\<lambda>f. C f a s')"
  shows "monotone (fun_ord option_ord) option_ord (\<lambda>f. bind M (C f) s)"
  using assms
  by (auto simp: monotone_def bind_def flat_ord_def split: option.splits sum.splits prod.splits)

section \<open>Characters as signed bytes\<close>

abbreviation NUL :: char where
  "NUL \<equiv> CHR 0x00"

abbreviation CR :: char where
  "CR \<equiv> CHR 0x0D"

abbreviation LF :: char where
  "LF \<equiv> CHR 0x0A"

text \<open>
  \<open>cint\<close> is the promotion of a \<open>char\<close> to \<open>int\<close> (char is signed), \<open>cchr\<close> the conversion of an
  \<open>int\<close> stored into a \<open>char\<close>, which keeps the low eight bits.
\<close>

definition cint :: "char \<Rightarrow> int" where
  "cint c = (if of_char c < (128 :: int) then of_char c else of_char c - 256)"

definition cchr :: "int \<Rightarrow> char" where
  "cchr i = char_of i"

lemma of_char_int_range: "0 \<le> (of_char c :: int) \<and> of_char c < (256 :: int)"
proof -
  have "(of_char c :: int) = of_char c mod 256"
    by (metis of_char_of char_of_char)
  then show ?thesis
    by (metis pos_mod_bound pos_mod_sign zero_less_numeral)
qed

lemma cint_range: "-128 \<le> cint c \<and> cint c < 128"
  using of_char_int_range [of c] by (auto simp: cint_def)

lemma cchr_cint [simp]: "cchr (cint c) = c"
proof (cases "of_char c < (128 :: int)")
  case True
  then show ?thesis by (simp add: cchr_def cint_def)
next
  case False
  have "(char_of (of_char c - 256 :: int) :: char) = char_of ((of_char c - 256 :: int) mod 256)"
    by (simp only: char_of_mod_256)
  also have "(of_char c - 256 :: int) mod 256 = of_char c mod 256"
    by simp
  finally show ?thesis
    using False by (simp add: cchr_def cint_def)
qed

lemma cint_cchr [simp]:
  assumes "-128 \<le> i" and "i < 128"
  shows "cint (cchr i) = i"
proof (cases "0 \<le> i")
  case True
  with assms have "i mod 256 = i" by simp
  with True assms show ?thesis by (simp add: cint_def cchr_def)
next
  case False
  have "i mod 256 = (i + 256) mod 256" by simp
  also have "\<dots> = i + 256"
    using False assms by (intro mod_pos_pos_trivial) auto
  finally show ?thesis using False assms by (simp add: cint_def cchr_def)
qed

lemma cint_inject [simp]: "cint a = cint b \<longleftrightarrow> a = b"
  by (metis cchr_cint)

text \<open>The C string at the start of an array.\<close>

definition cstring :: "string \<Rightarrow> string" where
  "cstring buf = takeWhile (\<lambda>c. c \<noteq> NUL) buf"

lemma cstring_no_NUL: "NUL \<notin> set l \<Longrightarrow> cstring l = l"
  by (simp add: cstring_def takeWhile_eq_all_conv) metis

section \<open>Character classes and numbers of the C library\<close>

definition isspace :: "char \<Rightarrow> bool" where
  "isspace c \<longleftrightarrow> c = CHR '' '' \<or> (9 \<le> cint c \<and> cint c \<le> 13)"

definition is_digit :: "char \<Rightarrow> bool" where
  "is_digit c \<longleftrightarrow> 48 \<le> cint c \<and> cint c \<le> 57"

definition to_lower :: "char \<Rightarrow> char" where
  "to_lower c = (if 65 \<le> cint c \<and> cint c \<le> 90 then cchr (cint c + 32) else c)"

text \<open>\<open>strcasecmp(a, b) == 0\<close> on the contents of two C strings.\<close>

definition strcasecmp_eq :: "string \<Rightarrow> string \<Rightarrow> bool" where
  "strcasecmp_eq a b \<longleftrightarrow> map to_lower a = map to_lower b"

text \<open>The digit a character stands for, and the value of a string of them.\<close>

definition dig :: "char \<Rightarrow> int" where
  "dig c = cint c - 48"

fun dval :: "string \<Rightarrow> int" where
  "dval [] = 0"
| "dval (c # cs) = dig c * 10 ^ length cs + dval cs"

definition digits :: "string \<Rightarrow> bool" where
  "digits s \<longleftrightarrow> list_all is_digit s"

text \<open>
  glibc's \<open>atoi\<close> is \<open>strtol\<close> in base ten, saturated at the bounds of \<open>long\<close> and converted to
  \<open>int\<close> by keeping the low 32 bits.
\<close>

definition strtol10 :: "string \<Rightarrow> int" where
  "strtol10 s =
     (let t = dropWhile isspace s;
          neg = (take 1 t = ''-'');
          u = (if take 1 t = ''-'' \<or> take 1 t = ''+'' then drop 1 t else t);
          v = dval (takeWhile is_digit u)
      in max (- (2 ^ 63)) (min (2 ^ 63 - 1) (if neg then - v else v)))"

definition atoi :: "string \<Rightarrow> int" where
  "atoi s = (strtol10 s + 2 ^ 31) mod 2 ^ 32 - 2 ^ 31"

text \<open>C divides integers towards zero, which is rounding down where the dividend is not negative.\<close>

lemma sdiv_nonneg [simp]: "0 \<le> a \<Longrightarrow> 0 \<le> b \<Longrightarrow> a sdiv b = a div (b :: int)"
  by (cases "a = 0"; cases "b = 0") (auto simp: signed_divide_int_def sgn_if)

lemma smod_nonneg [simp]: "0 \<le> a \<Longrightarrow> 0 \<le> b \<Longrightarrow> a smod b = a mod (b :: int)"
  by (cases "a = 0") (auto simp: signed_modulo_int_def sgn_if)

section \<open>Decimal digit strings\<close>

lemma digits_simps [simp]:
  "digits []"
  "digits (c # cs) \<longleftrightarrow> is_digit c \<and> digits cs"
  "digits (xs @ ys) \<longleftrightarrow> digits xs \<and> digits ys"
  by (auto simp: digits_def)

lemma digits_nth: "digits s \<Longrightarrow> i < length s \<Longrightarrow> is_digit (s ! i)"
  by (simp add: digits_def list_all_length)

lemma digits_take [simp]: "digits s \<Longrightarrow> digits (take n s)"
  by (metis append_take_drop_id digits_simps(3))

lemma digits_drop [simp]: "digits s \<Longrightarrow> digits (drop n s)"
  by (metis append_take_drop_id digits_simps(3))

lemma digits_update: "digits s \<Longrightarrow> is_digit c \<Longrightarrow> digits (s[i := c])"
  by (induction s arbitrary: i) (auto split: nat.splits)

lemma is_digit_dig: "is_digit c \<longleftrightarrow> 0 \<le> dig c \<and> dig c \<le> 9"
  by (auto simp: is_digit_def dig_def)

lemma dig_cchr [simp]: "0 \<le> d \<Longrightarrow> d \<le> 9 \<Longrightarrow> dig (cchr (d + 48)) = d"
  by (simp add: dig_def)

lemma dval_append: "dval (xs @ ys) = dval xs * 10 ^ length ys + dval ys"
  by (induction xs) (auto simp: power_add algebra_simps)

lemma dval_snoc: "dval (xs @ [c]) = 10 * dval xs + dig c"
  by (simp add: dval_append)

lemma dval_bounds: "digits s \<Longrightarrow> 0 \<le> dval s \<and> dval s < 10 ^ length s"
proof (induction s)
  case (Cons c cs)
  then have "0 \<le> dig c" "dig c \<le> 9" "0 \<le> dval cs" "dval cs < 10 ^ length cs"
    by (auto simp: is_digit_dig)
  moreover from this have "dig c * 10 ^ length cs \<le> 9 * 10 ^ length cs"
    by (intro mult_right_mono) auto
  moreover from calculation have "0 \<le> dig c * 10 ^ length cs" by simp
  ultimately have "0 \<le> dig c * 10 ^ length cs + dval cs"
    and "dig c * 10 ^ length cs + dval cs < 10 * 10 ^ length cs"
    by linarith+
  then show ?case by simp
qed simp

lemma dval_nonneg: "digits s \<Longrightarrow> 0 \<le> dval s"
  and dval_less: "digits s \<Longrightarrow> dval s < 10 ^ length s"
  using dval_bounds by auto

lemma dval_update:
  "i < length s \<Longrightarrow> dval (s[i := c]) = dval s + (dig c - dig (s ! i)) * 10 ^ (length s - 1 - i)"
proof (induction s arbitrary: i)
  case (Cons a s)
  then show ?case by (cases i) (auto simp: algebra_simps)
qed simp

lemma dval_drop_step:
  assumes "i < length s"
  shows "dval (drop i s) = dig (s ! i) * 10 ^ (length s - 1 - i) + dval (drop (Suc i) s)"
  using assms by (simp add: Cons_nth_drop_Suc [symmetric])

lemma carry_split: "t mod 10 * P + t div 10 * (10 * P) = t * (P :: int)"
proof -
  have "(t mod 10 + 10 * (t div 10)) * P = t * P" by simp
  then show ?thesis by (simp only: distrib_left distrib_right ac_simps)
qed

text \<open>Taking one more digit from the right: how the loops over \<open>size - index\<close> advance.\<close>

lemma dval_drop_back:
  "dval (drop (length s - Suc k) s)
     = (if k < length s then dig (s ! (length s - Suc k)) * 10 ^ k else 0)
       + dval (drop (length s - k) s)"
  using dval_drop_step [of "length s - Suc k" s] by (auto simp: Suc_diff_Suc)

lemma dval_replicate_zero [simp]: "dval (replicate n (CHR ''0'')) = 0"
  by (induction n) (auto simp: dig_def cint_def)

lemma dval_strip_zeros: "dval (dropWhile (\<lambda>c. c = CHR ''0'') s) = dval s"
  by (induction s) (auto simp: dig_def cint_def)

lemma dval_lower: "digits s \<Longrightarrow> s \<noteq> [] \<Longrightarrow> hd s \<noteq> CHR ''0'' \<Longrightarrow> 10 ^ (length s - 1) \<le> dval s"
proof (cases s)
  case (Cons c cs)
  assume h: "digits s" "hd s \<noteq> CHR ''0''"
  have "dig c \<noteq> 0"
  proof
    assume "dig c = 0"
    then have "cint c = cint (CHR ''0'')" by (simp add: dig_def cint_def)
    with h Cons show False by simp
  qed
  with h Cons have "1 \<le> dig c" and "0 \<le> dval cs"
    by (auto simp: is_digit_dig dval_nonneg)
  then have "1 * 10 ^ length cs \<le> dig c * 10 ^ length cs"
    by (intro mult_right_mono) auto
  with \<open>0 \<le> dval cs\<close> have "10 ^ length cs \<le> dig c * 10 ^ length cs + dval cs" by linarith
  with Cons show ?thesis by simp
qed simp

text \<open>
  Strings of digits of the same length are ordered as their values; without leading zeros the
  longer one is the larger.
\<close>

lemma dval_lex:
  assumes "digits (c # cs)" and "digits (d # ds)" and "length cs = length ds" and "dig c < dig d"
  shows "dval (c # cs) < dval (d # ds)"
proof -
  have "(dig c + 1) * 10 ^ length ds \<le> dig d * 10 ^ length ds"
    using assms(4) by (intro mult_right_mono) auto
  with assms dval_less [of cs] dval_nonneg [of ds] show ?thesis
    by (auto simp: algebra_simps)
qed

lemma dval_longer:
  assumes "digits s" and "digits t" and "length s < length t" and "hd t \<noteq> CHR ''0''"
  shows "dval s < dval t"
proof -
  have "dval s < 10 ^ length s" using assms(1) by (rule dval_less)
  also have "\<dots> \<le> (10 :: int) ^ (length t - 1)"
    using assms(3) by (intro power_increasing) auto
  also have "\<dots> \<le> dval t"
    using assms by (intro dval_lower) auto
  finally show ?thesis .
qed

text \<open>The decimal numeral of a number, which a digit string without leading zeros is.\<close>

fun show_nat :: "nat \<Rightarrow> string" where
  "show_nat n = (if n < 10 then [cchr (int n + 48)]
                 else show_nat (n div 10) @ [cchr (int (n mod 10) + 48)])"

declare show_nat.simps [simp del]

definition show_int :: "int \<Rightarrow> string" where
  "show_int i = (if i < 0 then ''-'' @ show_nat (nat (- i)) else show_nat (nat i))"

lemma digits_show_nat: "digits (show_nat n)"
proof (induction n rule: show_nat.induct)
  case (1 n)
  then show ?case
    by (subst show_nat.simps) (auto simp: is_digit_dig)
qed

lemma dval_show_nat: "dval (show_nat n) = int n"
proof (induction n rule: show_nat.induct)
  case (1 n)
  then show ?case
    by (subst show_nat.simps) (auto simp: dval_snoc of_nat_div of_nat_mod)
qed

lemma show_nat_dval:
  "digits s \<Longrightarrow> s \<noteq> [] \<Longrightarrow> hd s \<noteq> CHR ''0'' \<Longrightarrow> show_nat (nat (dval s)) = s"
proof (induction s rule: rev_induct)
  case (snoc c cs)
  then have c: "0 \<le> dig c" "dig c \<le> 9" and "digits cs"
    by (auto simp: is_digit_dig)
  have cc: "cchr (dig c + 48) = c" by (simp add: dig_def)
  show ?case
  proof (cases "cs = []")
    case True
    moreover from c have "nat (dig c) < 10" by simp
    ultimately show ?thesis using c cc by (subst show_nat.simps) simp
  next
    case False
    with snoc have "10 ^ (length cs - 1) \<le> dval cs" by (intro dval_lower) auto
    moreover have "(1 :: int) \<le> 10 ^ (length cs - 1)" by simp
    ultimately have pos: "1 \<le> dval cs" by linarith
    have n: "nat (dval (cs @ [c])) = 10 * nat (dval cs) + nat (dig c)"
      using pos c by (simp add: dval_snoc nat_add_distrib nat_mult_distrib)
    have "show_nat (nat (dval cs)) = cs"
      using snoc False by simp
    moreover have "nat (dval (cs @ [c])) div 10 = nat (dval cs)"
      and "int (nat (dval (cs @ [c])) mod 10) = dig c"
      and "\<not> nat (dval (cs @ [c])) < 10"
      using n c pos by auto
    ultimately show ?thesis
      using cc by (subst show_nat.simps) simp
  qed
qed simp

lemma strip_zeros_show:
  assumes "digits s"
  shows "dropWhile (\<lambda>c. c = CHR ''0'') s = (if dval s = 0 then [] else show_nat (nat (dval s)))"
proof -
  let ?t = "dropWhile (\<lambda>c. c = CHR ''0'') s"
  have "digits ?t"
    using assms by (metis digits_simps(3) takeWhile_dropWhile_id)
  show ?thesis
  proof (cases "?t = []")
    case True
    then have "dval s = 0" using dval_strip_zeros [of s] by (metis dval.simps(1))
    with True show ?thesis by simp
  next
    case False
    then have hd: "hd ?t \<noteq> CHR ''0''" by (rule hd_dropWhile)
    have "10 ^ (length ?t - 1) \<le> dval ?t"
      using \<open>digits ?t\<close> False hd by (rule dval_lower)
    moreover have "(1 :: int) \<le> 10 ^ (length ?t - 1)" by simp
    ultimately have "dval s \<noteq> 0" using dval_strip_zeros [of s] by linarith
    with show_nat_dval [OF \<open>digits ?t\<close> False hd] show ?thesis
      by (simp add: dval_strip_zeros)
  qed
qed

section \<open>Canonical numerals\<close>

text \<open>What \<open>ExtractData\<close> delivers: digits with no leading zero, or the single digit zero.\<close>

definition canonical :: "string \<Rightarrow> bool" where
  "canonical s \<longleftrightarrow> digits s \<and> s \<noteq> [] \<and> (hd s = CHR ''0'' \<longrightarrow> s = ''0'')"

lemma canonical_digits: "canonical s \<Longrightarrow> digits s"
  and canonical_nonempty: "canonical s \<Longrightarrow> s \<noteq> []"
  by (auto simp: canonical_def)

lemma canonical_hd: "canonical s \<Longrightarrow> s \<noteq> ''0'' \<Longrightarrow> hd s \<noteq> CHR ''0''"
  by (auto simp: canonical_def)

lemma dig_zero [simp]: "dig (CHR ''0'') = 0"
  by (simp add: dig_def cint_def)

lemma cint_zero [simp]: "cint (CHR ''0'') = 48"
  by (simp add: cint_def)

lemma cchr_zero [simp]: "cchr 48 = CHR ''0''"
  by (simp add: cchr_def char_of_def)

lemma dval_zero: "dval ''0'' = 0"
  by simp

lemma canonical_dval_0: "canonical s \<Longrightarrow> dval s = 0 \<longleftrightarrow> s = ''0''"
proof
  assume c: "canonical s" and z: "dval s = 0"
  show "s = ''0''"
  proof (rule ccontr)
    assume "s \<noteq> ''0''"
    with c have "10 ^ (length s - 1) \<le> dval s"
      using canonical_digits canonical_nonempty canonical_hd by (intro dval_lower)
    moreover have "(1 :: int) \<le> 10 ^ (length s - 1)" by simp
    ultimately show False using z by linarith
  qed
qed (simp add: dval_zero)

lemma canonical_longer:
  assumes "canonical s" and "canonical t" and "length s < length t"
  shows "dval s < dval t"
proof -
  have "t \<noteq> ''0''" using assms(3) canonical_nonempty [OF assms(1)] by (cases s) auto
  with assms show ?thesis
    using canonical_digits canonical_hd by (intro dval_longer)
qed

lemma canonical_show_nat: "canonical s \<Longrightarrow> show_nat (nat (dval s)) = s"
proof (cases "s = ''0''")
  case True
  then show ?thesis by (subst show_nat.simps) simp
next
  case False
  assume "canonical s"
  with False show ?thesis
    using canonical_digits canonical_nonempty canonical_hd by (intro show_nat_dval)
qed

end
