(* ===== verification/CMem.thy ===== *)
theory CMem
  imports CBase
begin

text \<open>
  The memory of a C process, as the CGI programs use it: allocated objects that are byte arrays
  with indeterminate bytes, pointers with an offset, string literals that must not be written,
  the bytes waiting on file descriptor 0 and the bytes written to standard output. Every access
  the C standard leaves undefined is an error value. The allocator is a parameter, and what the
  code may rely on is the locale \<open>allocator\<close>.
\<close>

section \<open>Objects, pointers and the process state\<close>

text \<open>A byte of an object is indeterminate (\<open>None\<close>) until it is written.\<close>

datatype block = Live "char option list" | Freed

datatype ptr = NULL | Lit string int | Obj nat int

record cstate =
  blocks :: "block list"
  stdout :: string
  stdin :: string
  environ :: "string \<Rightarrow> ptr option"

fun padd :: "ptr \<Rightarrow> int \<Rightarrow> ptr" where
  "padd NULL k = NULL"
| "padd (Lit t i) k = Lit t (i + k)"
| "padd (Obj b i) k = Obj b (i + k)"

fun load :: "ptr \<Rightarrow> (cstate, char) c" where
  "load NULL s = ub NullDeref"
| "load (Lit t i) s =
     (if 0 \<le> i \<and> i \<le> int (length t) then ok ((t @ [NUL]) ! nat i) s else ub OutOfBounds)"
| "load (Obj b i) s =
     (if b < length (blocks s) then
        (case blocks s ! b of
           Freed \<Rightarrow> ub UseAfterFree
         | Live bs \<Rightarrow>
             (if 0 \<le> i \<and> i < int (length bs) then
                (case bs ! nat i of None \<Rightarrow> ub Uninit | Some c \<Rightarrow> ok c s)
              else ub OutOfBounds))
      else ub OutOfBounds)"

definition set_block :: "nat \<Rightarrow> char option list \<Rightarrow> cstate \<Rightarrow> cstate" where
  "set_block b bs s = s\<lparr>blocks := (blocks s)[b := Live bs]\<rparr>"

fun store :: "ptr \<Rightarrow> char \<Rightarrow> (cstate, unit) c" where
  "store NULL c s = ub NullDeref"
| "store (Lit t i) c s = ub ReadOnly"
| "store (Obj b i) c s =
     (if b < length (blocks s) then
        (case blocks s ! b of
           Freed \<Rightarrow> ub UseAfterFree
         | Live bs \<Rightarrow>
             (if 0 \<le> i \<and> i < int (length bs) then ok () (set_block b (bs[nat i := Some c]) s)
              else ub OutOfBounds))
      else ub OutOfBounds)"

section \<open>The allocator\<close>

text \<open>
  \<open>al k n\<close> is what the allocator hands out for the \<open>k\<close>-th object when \<open>n\<close> bytes are requested:
  no object, or the bytes that are usable from the returned address on.
\<close>

type_synonym alloc = "nat \<Rightarrow> nat \<Rightarrow> char option list option"

definition malloc :: "alloc \<Rightarrow> nat \<Rightarrow> (cstate, ptr) c" where
  "malloc al n s =
     (case al (length (blocks s)) n of
        None \<Rightarrow> ok NULL s
      | Some bs \<Rightarrow> ok (Obj (length (blocks s)) 0) (s\<lparr>blocks := blocks s @ [Live bs]\<rparr>))"

fun free :: "ptr \<Rightarrow> (cstate, unit) c" where
  "free NULL s = ok () s"
| "free (Lit t i) s = ub BadFree"
| "free (Obj b i) s =
     (if b < length (blocks s) \<and> i = 0 then
        (case blocks s ! b of
           Freed \<Rightarrow> ub UseAfterFree
         | Live bs \<Rightarrow> ok () (s\<lparr>blocks := (blocks s)[b := Freed]\<rparr>))
      else ub BadFree)"

text \<open>What the standard promises of a successful \<open>malloc\<close>: at least the bytes asked for.\<close>

locale allocator =
  fixes al :: alloc
  assumes room: "\<exists>bs. al k n = Some bs \<and> n \<le> length bs"

text \<open>
  More than the standard promises, and what the CGI programs silently rely on: the object is
  followed by a readable and writable byte that holds zero.
\<close>

locale padded_allocator = allocator +
  assumes pad: "al k n = Some bs \<Longrightarrow> n < length bs \<and> bs ! n = Some NUL"

definition iso_alloc :: alloc where
  "iso_alloc k n = Some (replicate n None)"

definition spare_alloc :: alloc where
  "spare_alloc k n = Some (replicate n None @ [Some NUL])"

interpretation iso: allocator iso_alloc
  by unfold_locales (simp add: iso_alloc_def)

interpretation spare: padded_allocator spare_alloc
  by unfold_locales (auto simp: spare_alloc_def nth_append)

section \<open>C strings\<close>

text \<open>The string at the start of a run of bytes: up to the terminator, which must be there.\<close>

fun scan :: "char option list \<Rightarrow> cerr + string" where
  "scan [] = Inl OutOfBounds"
| "scan (None # bs) = Inl Uninit"
| "scan (Some c # bs) =
     (if c = NUL then Inr []
      else (case scan bs of Inl e \<Rightarrow> Inl e | Inr t \<Rightarrow> Inr (c # t)))"

fun cstr :: "ptr \<Rightarrow> (cstate, string) c" where
  "cstr NULL s = ub NullDeref"
| "cstr (Lit t i) s =
     (if 0 \<le> i \<and> i \<le> int (length t) then ok (takeWhile (\<lambda>c. c \<noteq> NUL) (drop (nat i) t)) s
      else ub OutOfBounds)"
| "cstr (Obj b i) s =
     (if b < length (blocks s) then
        (case blocks s ! b of
           Freed \<Rightarrow> ub UseAfterFree
         | Live bs \<Rightarrow>
             (if 0 \<le> i \<and> i < int (length bs) then
                (case scan (drop (nat i) bs) of Inl e \<Rightarrow> ub e | Inr t \<Rightarrow> ok t s)
              else ub OutOfBounds))
      else ub OutOfBounds)"

definition strlen :: "ptr \<Rightarrow> (cstate, nat) c" where
  "strlen p = bind (cstr p) (\<lambda>t. return (length t))"

text \<open>\<open>strcmp\<close> compares as unsigned bytes; the difference at the first mismatch is its value.\<close>

fun cmp_str :: "string \<Rightarrow> string \<Rightarrow> int" where
  "cmp_str [] [] = 0"
| "cmp_str [] (d # ds) = - of_char d"
| "cmp_str (c # cs) [] = of_char c"
| "cmp_str (c # cs) (d # ds) = (if c = d then cmp_str cs ds else of_char c - of_char d)"

definition strcmp :: "ptr \<Rightarrow> ptr \<Rightarrow> (cstate, int) c" where
  "strcmp p q = bind (cstr p) (\<lambda>a. bind (cstr q) (\<lambda>b. return (cmp_str a b)))"

fun strncmp :: "ptr \<Rightarrow> ptr \<Rightarrow> nat \<Rightarrow> (cstate, int) c" where
  "strncmp p q 0 = return 0"
| "strncmp p q (Suc n) =
     bind (load p) (\<lambda>a. bind (load q) (\<lambda>b.
       if a \<noteq> b then return (of_char a - of_char b)
       else if a = NUL then return 0
       else strncmp (padd p 1) (padd q 1) n))"

fun store_str :: "ptr \<Rightarrow> string \<Rightarrow> (cstate, unit) c" where
  "store_str p [] = return ()"
| "store_str p (c # cs) = bind (store p c) (\<lambda>_. store_str (padd p 1) cs)"

definition strcpy :: "ptr \<Rightarrow> ptr \<Rightarrow> (cstate, unit) c" where
  "strcpy dst src = bind (cstr src) (\<lambda>t. store_str dst (t @ [NUL]))"

section \<open>Standard streams and the environment\<close>

definition put :: "string \<Rightarrow> (cstate, unit) c" where
  "put t s = ok () (s\<lparr>stdout := stdout s @ t\<rparr>)"

definition put_cstr :: "ptr \<Rightarrow> (cstate, unit) c" where
  "put_cstr p = bind (cstr p) put"

text \<open>\<open>read(0, p, 1)\<close>: the next byte of standard input, or 0 at its end.\<close>

definition read_byte :: "ptr \<Rightarrow> (cstate, nat) c" where
  "read_byte p s =
     (case stdin s of
        [] \<Rightarrow> ok 0 s
      | c # cs \<Rightarrow> bind (store p c) (\<lambda>_. return 1) (s\<lparr>stdin := cs\<rparr>))"

definition getenv :: "string \<Rightarrow> (cstate, ptr option) c" where
  "getenv name s = ok (environ s name) s"

section \<open>Objects under reads and writes\<close>

text \<open>
  Proofs work with the rules below on objects of known content; the equations of the accesses
  themselves are kept to evaluate closed programs.
\<close>

lemmas c_eval = load.simps store.simps cstr.simps free.simps malloc_def set_block_def
  strlen_def strcmp_def strcpy_def put_def put_cstr_def read_byte_def getenv_def

declare load.simps(3) [simp del] store.simps(3) [simp del] cstr.simps(3) [simp del]
  free.simps(3) [simp del]


definition at_block :: "cstate \<Rightarrow> nat \<Rightarrow> char option list \<Rightarrow> bool" where
  "at_block s b bs \<longleftrightarrow> b < length (blocks s) \<and> blocks s ! b = Live bs"

lemma load_obj [c_run]:
  "at_block s b bs \<Longrightarrow> 0 \<le> i \<Longrightarrow> i < int (length bs) \<Longrightarrow> bs ! nat i = Some c \<Longrightarrow>
   load (Obj b i) s = ok c s"
  by (simp add: at_block_def load.simps)

lemma store_obj [c_run]:
  "at_block s b bs \<Longrightarrow> 0 \<le> i \<Longrightarrow> i < int (length bs) \<Longrightarrow>
   store (Obj b i) c s = ok () (set_block b (bs[nat i := Some c]) s)"
  by (simp add: at_block_def store.simps)

lemma load_outside:
  "at_block s b bs \<Longrightarrow> int (length bs) \<le> i \<Longrightarrow> load (Obj b i) s = ub OutOfBounds"
  by (simp add: at_block_def load.simps)

lemma at_block_set_same [simp]:
  "at_block s b bs \<Longrightarrow> at_block (set_block b bs' s) b bs'"
  by (simp add: at_block_def set_block_def)

lemma at_block_set_other [c_frame]:
  "b' \<noteq> b \<Longrightarrow> at_block (set_block b bs s) b' bs' \<longleftrightarrow> at_block s b' bs'"
  by (simp add: at_block_def set_block_def)

lemma set_block_set_block [simp]: "set_block b x (set_block b y s) = set_block b x s"
  by (simp add: set_block_def)

lemma set_block_commute:
  "b \<noteq> b' \<Longrightarrow> set_block b x (set_block b' y s) = set_block b' y (set_block b x s)"
  by (simp add: set_block_def list_update_swap)

lemma set_block_same [simp]: "at_block s b bs \<Longrightarrow> set_block b bs s = s"
  by (metis at_block_def cstate.surjective cstate.update_convs(1) list_update_id set_block_def)

lemma set_block_fields [simp]:
  "length (blocks (set_block b bs s)) = length (blocks s)"
  "stdout (set_block b bs s) = stdout s"
  "stdin (set_block b bs s) = stdin s"
  "environ (set_block b bs s) = environ s"
  by (simp_all add: set_block_def)

lemma at_block_bound: "at_block s b bs \<Longrightarrow> b < length (blocks s)"
  by (simp add: at_block_def)

lemma at_block_unique: "at_block s b bs \<Longrightarrow> at_block s b bs' \<Longrightarrow> bs = bs'"
  by (simp add: at_block_def)

definition push_block :: "char option list \<Rightarrow> cstate \<Rightarrow> cstate" where
  "push_block bs s = s\<lparr>blocks := blocks s @ [Live bs]\<rparr>"

lemma at_block_push_new [simp]: "at_block (push_block bs s) (length (blocks s)) bs"
  by (simp add: at_block_def push_block_def)

lemma at_block_push_old [c_frame]:
  "at_block s b bs' \<Longrightarrow> at_block (push_block bs s) b bs'"
  by (simp add: at_block_def push_block_def nth_append)

lemma push_block_fields [simp]:
  "length (blocks (push_block bs s)) = Suc (length (blocks s))"
  "stdout (push_block bs s) = stdout s"
  "stdin (push_block bs s) = stdin s"
  "environ (push_block bs s) = environ s"
  by (simp_all add: push_block_def)

lemma set_block_push [simp]:
  "set_block (length (blocks s)) x (push_block bs s) = push_block x s"
  by (simp add: set_block_def push_block_def)

lemma malloc_push:
  "al (length (blocks s)) n = Some bs \<Longrightarrow>
   malloc al n s = ok (Obj (length (blocks s)) 0) (push_block bs s)"
  by (simp add: malloc_def push_block_def)

section \<open>C strings under reads and writes\<close>

lemma scan_InrD: "scan bs = Inr t \<Longrightarrow> \<exists>rest. bs = map Some t @ Some NUL # rest \<and> NUL \<notin> set t"
proof (induction bs arbitrary: t rule: scan.induct)
  case (3 c bs)
  then show ?case
    by (cases "c = NUL") (auto split: sum.splits)
qed auto

lemma scan_ok: "NUL \<notin> set t \<Longrightarrow> scan (map Some t @ Some NUL # rest) = Inr t"
  by (induction t) auto

lemma cstr_obj_iff:
  "cstr (Obj b i) s = ok t s' \<longleftrightarrow>
   s' = s \<and> NUL \<notin> set t \<and> 0 \<le> i \<and>
   (\<exists>bs rest. at_block s b bs \<and> nat i < length bs \<and> drop (nat i) bs = map Some t @ Some NUL # rest)"
  (is "?l \<longleftrightarrow> ?r")
proof
  assume ?l
  then show ?r
    by (auto simp: at_block_def cstr.simps(3) split: if_splits block.splits sum.splits dest!: scan_InrD)
next
  assume ?r
  then show ?l
    by (auto simp: at_block_def cstr.simps(3) scan_ok zless_nat_eq_int_zless nat_less_iff)
qed

lemma cstr_state: "cstr p s = ok t s' \<Longrightarrow> s' = s"
  by (cases p) (auto simp: cstr.simps(3) split: if_splits block.splits sum.splits)

lemma cstr_no_nul: "cstr p s = ok t s' \<Longrightarrow> NUL \<notin> set t"
  by (cases p) (auto simp: cstr_obj_iff split: if_splits dest!: set_takeWhileD)

text \<open>Reading a byte of a C string, the terminator included.\<close>

lemma load_cstr:
  assumes "cstr p s = ok t s" and "k \<le> length t"
  shows "load (padd p (int k)) s = ok ((t @ [NUL]) ! k) s"
proof (cases p)
  case NULL
  with assms show ?thesis by simp
next
  case (Lit u i)
  with assms(1) have i: "0 \<le> i" "i \<le> int (length u)"
    and t: "t = takeWhile (\<lambda>c. c \<noteq> NUL) (drop (nat i) u)"
    by (auto split: if_splits)
  have len: "length t \<le> length (drop (nat i) u)" unfolding t by (rule length_takeWhile_le)
  have "(u @ [NUL]) ! (nat i + k) = (t @ [NUL]) ! k"
  proof (cases "k < length t")
    case True
    then have "t ! k = drop (nat i) u ! k" by (simp add: t takeWhile_nth)
    moreover have "nat i + k < length u" using True len by simp
    ultimately show ?thesis using True i by (simp add: nth_append)
  next
    case False
    with assms(2) have k: "k = length t" by simp
    show ?thesis
    proof (cases "length t < length (drop (nat i) u)")
      case True
      then have "drop (nat i) u ! length t = NUL"
        unfolding t using nth_length_takeWhile by blast
      with True k i show ?thesis by (simp add: nth_append)
    next
      case False
      with len k i show ?thesis by (simp add: nth_append)
    qed
  qed
  moreover have "nat (i + int k) = nat i + k" using i by simp
  ultimately show ?thesis using Lit i len assms(2) by auto
next
  case (Obj b i)
  with assms(1) obtain bs rest where i: "0 \<le> i" and at: "at_block s b bs"
    and d: "drop (nat i) bs = map Some t @ Some NUL # rest"
    by (auto simp: cstr_obj_iff)
  have "length bs - nat i = length t + Suc (length rest)"
    using arg_cong [OF d, of length] by simp
  then have b: "nat i + k < length bs" using assms(2) by simp
  have "bs ! (nat i + k) = drop (nat i) bs ! k" using b by simp
  also have "\<dots> = Some ((t @ [NUL]) ! k)"
    unfolding d using assms(2) by (auto simp: nth_append)
  finally have "bs ! nat (i + int k) = Some ((t @ [NUL]) ! k)"
    using i by (simp add: nat_add_distrib)
  with at b i Obj show ?thesis
    by (simp add: load_obj)
qed

lemma load_cstr_nth [c_run]:
  "cstr p s = ok t s \<Longrightarrow> k < length t \<Longrightarrow> load (padd p (int k)) s = ok (t ! k) s"
  using load_cstr [of p s t k] by (simp add: nth_append)

definition off_block :: "ptr \<Rightarrow> nat \<Rightarrow> bool" where
  "off_block p b = (case p of Obj b' _ \<Rightarrow> b' \<noteq> b | _ \<Rightarrow> True)"

lemma off_block_padd [simp]: "off_block (padd p k) b = off_block p b"
  by (cases p) (auto simp: off_block_def)

lemma cstr_set_other [c_frame]:
  assumes "off_block p b" and "cstr p s = ok t s"
  shows "cstr p (set_block b bs s) = ok t (set_block b bs s)"
  using assms
  by (cases p) (auto simp: cstr_obj_iff off_block_def c_frame
      split: if_splits)

lemma cstr_push [c_frame]:
  assumes "cstr p s = ok t s"
  shows "cstr p (push_block bs s) = ok t (push_block bs s)"
  using assms
  by (cases p) (auto simp: cstr_obj_iff split: if_splits
      intro!: at_block_push_old)

lemma cstr_off_new: "cstr p s = ok t s \<Longrightarrow> off_block p (length (blocks s))"
  by (cases p) (auto simp: off_block_def cstr.simps(3) split: if_splits)

lemma strlen_ok [c_run]: "cstr p s = ok t s \<Longrightarrow> strlen p s = ok (length t) s"
  by (simp add: strlen_def)

lemma strcmp_ok [c_run]:
  "cstr p s = ok a s \<Longrightarrow> cstr q s = ok b s \<Longrightarrow> strcmp p q s = ok (cmp_str a b) s"
  by (simp add: strcmp_def)

lemma of_char_int_eq: "of_char c = (of_char d :: int) \<longleftrightarrow> c = d"
  by (metis char_of_char)

lemma of_char_int_0: "of_char c = (0 :: int) \<longleftrightarrow> c = NUL"
  using of_char_int_eq [of c NUL] by simp

lemma cmp_str_eq_0 [simp]:
  "NUL \<notin> set a \<Longrightarrow> NUL \<notin> set b \<Longrightarrow> cmp_str a b = 0 \<longleftrightarrow> a = b"
  by (induction a b rule: cmp_str.induct) (auto simp: of_char_int_eq of_char_int_0)

text \<open>Writing a text into a part of an object.\<close>

lemma store_str_window:
  assumes "at_block s b (pre @ xs @ post)" and "length xs = length t"
  shows "store_str (Obj b (int (length pre))) t s = ok () (set_block b (pre @ map Some t @ post) s)"
  using assms
proof (induction t arbitrary: pre xs s)
  case (Cons c t)
  then obtain x ys where xs: "xs = x # ys" by (cases xs) auto
  let ?s = "set_block b ((pre @ [Some c]) @ ys @ post) s"
  have st: "store (Obj b (int (length pre))) c s = ok () ?s"
    using store_obj [OF Cons.prems(1), of "int (length pre)" c] xs
    by (simp add: list_update_append)
  have "store_str (Obj b (int (length (pre @ [Some c])))) t ?s
      = ok () (set_block b ((pre @ [Some c]) @ map Some t @ post) ?s)"
    using Cons.prems xs by (intro Cons.IH) auto
  with st show ?case by (simp add: bind_def add.commute)
qed simp

text \<open>On decimal digit strings of one length, \<open>strcmp\<close> orders the values.\<close>

lemma of_char_digit: "is_digit c \<Longrightarrow> of_char c = cint c"
  using of_char_int_range [of c] by (auto simp: is_digit_def cint_def split: if_splits)

lemma cmp_str_digits:
  assumes "digits a" and "digits b" and "length a = length b"
  shows "(cmp_str a b < 0) = (dval a < dval b)"
  using assms
proof (induction a b rule: cmp_str.induct)
  case (4 c cs d ds)
  show ?case
  proof (cases "c = d")
    case True
    with 4 show ?thesis by simp
  next
    case False
    from 4 have o: "of_char c = cint c" "of_char d = cint d"
      by (auto simp: of_char_digit)
    from False have ne: "dig c \<noteq> dig d" by (simp add: dig_def)
    show ?thesis
    proof (cases "dig c < dig d")
      case True
      with 4 dval_lex [of c cs d ds] o False show ?thesis by (auto simp: dig_def)
    next
      case not: False
      with ne have "dig d < dig c" by simp
      with 4 dval_lex [of d ds c cs] o False show ?thesis by (auto simp: dig_def)
    qed
  qed
qed simp_all

end
