(* ===== verification/MathAddSub.thy ===== *)
theory MathAddSub
  imports CMem
begin

text \<open>
  Addition and subtraction of decimal digit strings in \<open>cgi_bin/math_cgi.c\<close>: \<open>ADD\<close> and \<open>SUB\<close>,
  statement by statement on the process memory. Both write their result into a fresh object, most
  significant digit first, after a byte that holds the sign.
\<close>

section \<open>ADD\<close>

text \<open>The loop of \<open>ADD\<close> from \<open>index\<close> on, with the carry \<open>step\<close>; its value is the last carry.\<close>

function add_loop :: "ptr \<Rightarrow> ptr \<Rightarrow> nat \<Rightarrow> nat \<Rightarrow> ptr \<Rightarrow> nat \<Rightarrow> int \<Rightarrow> (cstate, int) c" where
  "add_loop data1 data2 size1 size2 ret index step =
     (if index \<le> size1 then
        bind (load (padd data1 (int (size1 - index)))) (\<lambda>c1.
        bind (if index \<le> size2 then
                bind (load (padd data2 (int (size2 - index)))) (\<lambda>c2.
                return (cint c1 - 48 + step + (cint c2 - 48)))
              else return (cint c1 - 48 + step)) (\<lambda>tmp.
        bind (store (padd ret (int (size1 - index + 2))) (cchr (tmp smod 10 + 48))) (\<lambda>_.
        add_loop data1 data2 size1 size2 ret (index + 1) (tmp sdiv 10))))
      else return step)"
  by pat_completeness auto
termination
  by (relation "measure (\<lambda>(data1, data2, size1, size2, ret, index, step). size1 + 1 - index)") auto

declare add_loop.simps [simp del]

definition ADD :: "alloc \<Rightarrow> ptr \<Rightarrow> ptr \<Rightarrow> char \<Rightarrow> char \<Rightarrow> (cstate, ptr) c" where
  "ADD al data1 data2 sybom1 sybom2 =
     bind (strlen data1) (\<lambda>size1.
     bind (strlen data2) (\<lambda>size2.
     bind (if size1 < size2 then
             bind (strlen data2) (\<lambda>size1.
             bind (strlen data1) (\<lambda>size2.
             return (data2, data1, size1, size2)))
           else return (data1, data2, size1, size2)) (\<lambda>(data1, data2, size1, size2).
     bind (malloc al (size1 + 2)) (\<lambda>ret.
     bind (store ret sybom1) (\<lambda>_.
     bind (add_loop data1 data2 size1 size2 ret 1 0) (\<lambda>step.
     bind (store (padd ret 1) (cchr (step + 48))) (\<lambda>_.
     return ret)))))))"

lemma add_loop_correct:
  assumes "cstr p s = ok a s" and "cstr q s = ok b s" and "digits a" and "digits b"
    and "off_block p r" and "off_block q r"
    and "at_block s r (pre @ map Some ds @ rest)"
    and "length pre + index = length a + 3" and "length ds + 1 = index" and "index \<le> length a + 1"
    and "digits ds" and "0 \<le> step" and "step \<le> 1" and "length b \<le> length a"
    and "dval ds + step * 10 ^ length ds
           = dval (drop (length a - length ds) a) + dval (drop (length b - length ds) b)"
  shows "\<exists>ds' step'. add_loop p q (length a) (length b) (Obj r 0) index step s
            = ok step' (set_block r (take 2 pre @ map Some ds' @ rest) s)
         \<and> digits ds' \<and> length ds' = length a \<and> 0 \<le> step' \<and> step' \<le> 1
         \<and> dval ds' + step' * 10 ^ length a = dval a + dval b"
  using assms
proof (induction "length a + 1 - index" arbitrary: index step pre ds s)
  case 0
  then have i: "index = length a + 1" by simp
  with 0 have "length ds = length a" "length pre = 2" by auto
  with 0 i show ?case
    by (subst add_loop.simps) (auto intro!: exI [of _ ds])
next
  case (Suc k)
  let ?n = "length a" and ?m = "length b"
  from Suc.hyps(2) Suc.prems have i: "1 \<le> index" "index \<le> ?n" by auto
  define x where "x = dig (a ! (?n - index))"
  define y where "y = (if index \<le> ?m then dig (b ! (?m - index)) else 0)"
  define tmp where "tmp = x + step + y"
  from i have x: "0 \<le> x" "x \<le> 9"
    using digits_nth [OF Suc.prems(3), of "?n - index"] by (auto simp: x_def is_digit_dig)
  have y: "0 \<le> y" "y \<le> 9"
    using i digits_nth [OF Suc.prems(4), of "?m - index"] by (auto simp: y_def is_digit_dig)
  have tmp: "0 \<le> tmp" "tmp \<le> 19"
    using x y Suc.prems by (auto simp: tmp_def)
  obtain pre0 z where pre: "pre = pre0 @ [z]"
    using Suc.prems i by (cases pre rule: rev_cases) auto
  have pos: "?n - index + 2 = length pre0"
    using Suc.prems i pre by simp
  let ?d = "cchr (tmp mod 10 + 48)"
  let ?s = "set_block r (pre0 @ map Some (?d # ds) @ rest) s"
  have ld1: "load (padd p (int (?n - index))) s = ok (a ! (?n - index)) s"
    using Suc.prems(1) i by (intro load_cstr_nth) auto
  have ld2: "load (padd q (int (?m - index))) s = ok (b ! (?m - index)) s" if "index \<le> ?m"
    using Suc.prems(2) i that by (intro load_cstr_nth) auto
  have st: "store (padd (Obj r 0) (int (?n - index + 2))) ?d s = ok () ?s"
    using Suc.prems(7) pre pos by (simp add: store_obj list_update_append)
  have cx: "cint (a ! (?n - index)) = x + 48" by (simp add: x_def dig_def)
  have cy: "cint (b ! (?m - index)) = y + 48" if "index \<le> ?m"
    using that by (simp add: y_def dig_def)
  have run: "add_loop p q ?n ?m (Obj r 0) index step s
        = add_loop p q ?n ?m (Obj r 0) (index + 1) (tmp div 10) ?s"
  proof (cases "index \<le> ?m")
    case True
    then have "x + (step + y) = tmp" by (simp add: tmp_def)
    with i ld1 ld2 [OF True] st tmp cx cy [OF True] True show ?thesis
      by (subst add_loop.simps) (simp add: bind_def)
  next
    case False
    then have "x + step = tmp" by (simp add: tmp_def y_def)
    with i ld1 st tmp cx False show ?thesis
      by (subst add_loop.simps) (simp add: bind_def)
  qed
  have ix: "index = Suc (length ds)" using Suc.prems(9) by simp
  have "dval (drop (?n - Suc (length ds)) a) = x * 10 ^ length ds + dval (drop (?n - length ds) a)"
    using i ix by (subst dval_drop_back) (simp add: x_def)
  moreover have "dval (drop (?m - Suc (length ds)) b)
      = y * 10 ^ length ds + dval (drop (?m - length ds) b)"
    using ix by (subst dval_drop_back) (simp add: y_def Suc_le_eq)
  moreover have "dig ?d = tmp mod 10" using tmp by simp
  moreover have "tmp mod 10 * 10 ^ length ds + tmp div 10 * (10 * 10 ^ length ds)
      = x * 10 ^ length ds + step * 10 ^ length ds + y * 10 ^ length ds"
    by (simp only: carry_split) (simp add: tmp_def distrib_right)
  ultimately have val: "dval (?d # ds) + tmp div 10 * 10 ^ length (?d # ds)
      = dval (drop (?n - length (?d # ds)) a) + dval (drop (?m - length (?d # ds)) b)"
    using Suc.prems(15) by simp
  have eq: "take 2 pre0 = take 2 pre" using pre pos by simp
  have "\<exists>ds' step'. add_loop p q ?n ?m (Obj r 0) (index + 1) (tmp div 10) ?s
            = ok step' (set_block r (take 2 pre0 @ map Some ds' @ rest) ?s)
         \<and> digits ds' \<and> length ds' = ?n \<and> 0 \<le> step' \<and> step' \<le> 1
         \<and> dval ds' + step' * 10 ^ ?n = dval a + dval b"
    by (rule Suc.hyps(1) [where ds = "?d # ds" and pre = pre0])
      (use Suc.prems(1-14) Suc.hyps(2) i pre tmp val in \<open>auto simp: c_frame is_digit_dig\<close>)
  then show ?case by (simp add: run eq)
qed

text \<open>
  \<open>number_block bs sy ds n al_bs\<close>: the object holds the sign \<open>sy\<close>, then the digits \<open>ds\<close>, and
  from byte \<open>n\<close> on what the allocator put there.
\<close>

definition number_block :: "char option list \<Rightarrow> char \<Rightarrow> string \<Rightarrow> char option list \<Rightarrow> bool" where
  "number_block bs sy ds fresh \<longleftrightarrow>
     digits ds \<and> bs = Some sy # map Some ds @ drop (Suc (length ds)) fresh"

context allocator
begin

lemma ADD_ordered:
  assumes "cstr p s = ok a s" and "cstr q s = ok b s" and "digits a" and "digits b"
    and "length b \<le> length a" and fresh: "al (length (blocks s)) (length a + 2) = Some fresh"
  shows "\<exists>bs ds. bind (malloc al (length a + 2)) (\<lambda>ret.
      bind (store ret sy) (\<lambda>_.
      bind (add_loop p q (length a) (length b) ret 1 0) (\<lambda>step.
      bind (store (padd ret 1) (cchr (step + 48))) (\<lambda>_. return ret)))) s
        = ok (Obj (length (blocks s)) 0) (push_block bs s)
      \<and> number_block bs sy ds fresh \<and> length ds = length a + 1 \<and> dval ds = dval a + dval b"
proof -
  let ?r = "length (blocks s)" and ?n = "length a"
  have room: "?n + 2 \<le> length fresh"
    using room [of ?r "?n + 2"] fresh by simp
  then obtain f0 f1 rest0 where f: "fresh = f0 # f1 # rest0" and rest0: "?n \<le> length rest0"
    by (cases fresh; cases "tl fresh") auto
  let ?s1 = "push_block fresh s" and ?s2 = "push_block (Some sy # f1 # rest0) s"
  have m: "malloc al (?n + 2) s = ok (Obj ?r 0) ?s1"
    using fresh by (rule malloc_push)
  have st1: "store (Obj ?r 0) sy ?s1 = ok () ?s2"
    using store_obj [OF at_block_push_new, of 0 fresh s sy] by (simp add: f)
  have fr: "cstr p ?s2 = ok a ?s2" "cstr q ?s2 = ok b ?s2"
    using assms(1,2) by (simp_all add: cstr_push)
  have "\<exists>ds' step'. add_loop p q ?n (length b) (Obj ?r 0) 1 0 ?s2
            = ok step' (set_block ?r (take 2 (Some sy # f1 # take ?n rest0) @ map Some ds'
                @ drop ?n rest0) ?s2)
         \<and> digits ds' \<and> length ds' = ?n \<and> 0 \<le> step' \<and> step' \<le> 1
         \<and> dval ds' + step' * 10 ^ ?n = dval a + dval b"
    by (rule add_loop_correct [where ds = "[]" and pre = "Some sy # f1 # take ?n rest0"])
      (use assms rest0 fr in \<open>auto simp: cstr_off_new at_block_push_new\<close>)
  then obtain ds step where run: "add_loop p q ?n (length b) (Obj ?r 0) 1 0 ?s2
        = ok step (push_block (Some sy # f1 # map Some ds @ drop ?n rest0) s)"
    and ds: "digits ds" "length ds = ?n" "0 \<le> step" "step \<le> 1"
      "dval ds + step * 10 ^ ?n = dval a + dval b"
    by auto
  let ?bs = "Some sy # Some (cchr (step + 48)) # map Some ds @ drop ?n rest0"
  have st2: "store (Obj ?r 1) (cchr (step + 48))
        (push_block (Some sy # f1 # map Some ds @ drop ?n rest0) s) = ok () (push_block ?bs s)"
    using store_obj [OF at_block_push_new, of 1 "Some sy # f1 # map Some ds @ drop ?n rest0" s]
    by simp
  have "number_block ?bs sy (cchr (step + 48) # ds) fresh"
    using ds by (auto simp: number_block_def f is_digit_dig)
  moreover have "dval (cchr (step + 48) # ds) = dval a + dval b"
    using ds by simp
  ultimately show ?thesis
    using m st1 run st2 ds(2)
    by (intro exI [of _ ?bs] exI [of _ "cchr (step + 48) # ds"]) (simp add: bind_def)
qed

theorem ADD_correct:
  assumes a: "cstr p s = ok a s" and b: "cstr q s = ok b s" and "digits a" and "digits b"
  shows "\<exists>bs ds fresh. ADD al p q sy1 sy2 s = ok (Obj (length (blocks s)) 0) (push_block bs s)
      \<and> al (length (blocks s)) (max (length a) (length b) + 2) = Some fresh
      \<and> number_block bs sy1 ds fresh \<and> length ds = max (length a) (length b) + 1
      \<and> dval ds = dval a + dval b"
proof -
  obtain fresh where f: "al (length (blocks s)) (max (length a) (length b) + 2) = Some fresh"
    using room by blast
  have la: "strlen p s = ok (length a) s" and lb: "strlen q s = ok (length b) s"
    using a b by (simp_all add: strlen_ok)
  show ?thesis
  proof (cases "length a < length b")
    case True
    then show ?thesis
      using ADD_ordered [OF b a assms(4,3), of fresh sy1] f la lb
      by (auto simp: ADD_def bind_def max_def add.commute simp del: One_nat_def)
  next
    case False
    then show ?thesis
      using ADD_ordered [OF a b assms(3,4), of fresh sy1] f la lb
      by (auto simp: ADD_def bind_def max_def simp del: One_nat_def)
  qed
qed

end

section \<open>SUB\<close>

text \<open>The test \<open>SUB\<close> and \<open>DIV\<close> begin with: the left number is shorter, or as long and smaller.\<close>

definition left_smaller :: "ptr \<Rightarrow> ptr \<Rightarrow> nat \<Rightarrow> nat \<Rightarrow> (cstate, bool) c" where
  "left_smaller data1 data2 size1 size2 =
     (if size1 < size2 then return True
      else if size1 = size2 then bind (strcmp data1 data2) (\<lambda>r. return (r < 0))
      else return False)"

function sub_loop :: "ptr \<Rightarrow> ptr \<Rightarrow> nat \<Rightarrow> nat \<Rightarrow> ptr \<Rightarrow> nat \<Rightarrow> int \<Rightarrow> (cstate, int) c" where
  "sub_loop data1 data2 size1 size2 ret index step =
     (if index \<le> size1 then
        bind (load (padd data1 (int (size1 - index)))) (\<lambda>c1.
        bind (if index \<le> size2 then
                bind (load (padd data2 (int (size2 - index)))) (\<lambda>c2.
                return (cint c1 - 48 - step - (cint c2 - 48)))
              else return (cint c1 - 48 - step)) (\<lambda>tmp.
        bind (store (padd ret (int (size1 - index + 1)))
                (cchr ((if tmp < 0 then tmp + 10 else tmp) + 48))) (\<lambda>_.
        sub_loop data1 data2 size1 size2 ret (index + 1) (if tmp < 0 then 1 else 0))))
      else return step)"
  by pat_completeness auto
termination
  by (relation "measure (\<lambda>(data1, data2, size1, size2, ret, index, step). size1 + 1 - index)") auto

declare sub_loop.simps [simp del]

definition SUB :: "alloc \<Rightarrow> ptr \<Rightarrow> ptr \<Rightarrow> char \<Rightarrow> char \<Rightarrow> (cstate, ptr) c" where
  "SUB al data1 data2 sybom1 sybom2 =
     bind (strlen data1) (\<lambda>size1.
     bind (strlen data2) (\<lambda>size2.
     bind (left_smaller data1 data2 size1 size2) (\<lambda>swap.
     bind (if swap then
             bind (strlen data2) (\<lambda>size1.
             bind (strlen data1) (\<lambda>size2.
             return (data2, data1, size1, size2, sybom2)))
           else return (data1, data2, size1, size2, sybom1)) (\<lambda>(data1, data2, size1, size2, sybom).
     bind (malloc al (size1 + 1)) (\<lambda>ret.
     bind (store ret sybom) (\<lambda>_.
     bind (sub_loop data1 data2 size1 size2 ret 1 0) (\<lambda>_.
     return ret)))))))"

lemma left_smaller_ok:
  assumes "cstr p s = ok a s" and "cstr q s = ok b s" and "canonical a" and "canonical b"
  shows "left_smaller p q (length a) (length b) s = ok (dval a < dval b) s"
proof (cases "length a = length b")
  case True
  then show ?thesis
    using assms strcmp_ok [OF assms(1,2)] cmp_str_digits [of a b]
      canonical_digits [OF assms(3)] canonical_digits [OF assms(4)]
    by (simp add: left_smaller_def bind_def)
next
  case False
  then show ?thesis
    using assms canonical_longer [of a b] canonical_longer [of b a]
    by (auto simp: left_smaller_def)
qed

lemma sub_loop_correct:
  assumes "cstr p s = ok a s" and "cstr q s = ok b s" and "digits a" and "digits b"
    and "off_block p r" and "off_block q r"
    and "at_block s r (pre @ map Some ds @ rest)"
    and "length pre + index = length a + 2" and "length ds + 1 = index" and "index \<le> length a + 1"
    and "digits ds" and "0 \<le> step" and "step \<le> 1" and "length b \<le> length a"
    and "dval ds - step * 10 ^ length ds
           = dval (drop (length a - length ds) a) - dval (drop (length b - length ds) b)"
  shows "\<exists>ds' step'. sub_loop p q (length a) (length b) (Obj r 0) index step s
            = ok step' (set_block r (take 1 pre @ map Some ds' @ rest) s)
         \<and> digits ds' \<and> length ds' = length a \<and> 0 \<le> step' \<and> step' \<le> 1
         \<and> dval ds' - step' * 10 ^ length a = dval a - dval b"
  using assms
proof (induction "length a + 1 - index" arbitrary: index step pre ds s)
  case 0
  then have i: "index = length a + 1" by simp
  with 0 have "length ds = length a" "length pre = 1" by auto
  with 0 i show ?case
    by (subst sub_loop.simps) (auto intro!: exI [of _ ds])
next
  case (Suc k)
  let ?n = "length a" and ?m = "length b"
  have ix: "index = Suc (length ds)" using Suc.prems(9) by simp
  from Suc.hyps(2) Suc.prems have i: "1 \<le> index" "index \<le> ?n" by auto
  define x where "x = dig (a ! (?n - index))"
  define y where "y = (if index \<le> ?m then dig (b ! (?m - index)) else 0)"
  define tmp where "tmp = x - step - y"
  define e where "e = (if tmp < 0 then tmp + 10 else tmp)"
  define st where "st = (if tmp < 0 then 1 else 0 :: int)"
  from i have x: "0 \<le> x" "x \<le> 9"
    using digits_nth [OF Suc.prems(3), of "?n - index"] by (auto simp: x_def is_digit_dig)
  have y: "0 \<le> y" "y \<le> 9"
    using i digits_nth [OF Suc.prems(4), of "?m - index"] by (auto simp: y_def is_digit_dig)
  have e: "0 \<le> e" "e \<le> 9" and st: "0 \<le> st" "st \<le> 1" and est: "e - 10 * st = x - step - y"
    using x y Suc.prems by (auto simp: tmp_def e_def st_def)
  obtain pre0 z where pre: "pre = pre0 @ [z]"
    using Suc.prems i by (cases pre rule: rev_cases) auto
  have pos: "?n - index + 1 = length pre0"
    using Suc.prems i pre by simp
  let ?d = "cchr (e + 48)"
  let ?s = "set_block r (pre0 @ map Some (?d # ds) @ rest) s"
  have ld1: "load (padd p (int (?n - index))) s = ok (a ! (?n - index)) s"
    using Suc.prems(1) i by (intro load_cstr_nth) auto
  have ld2: "load (padd q (int (?m - index))) s = ok (b ! (?m - index)) s" if "index \<le> ?m"
    using Suc.prems(2) i that by (intro load_cstr_nth) auto
  have sto: "store (padd (Obj r 0) (int (?n - index + 1))) ?d s = ok () ?s"
    using Suc.prems(7) pre pos by (simp add: store_obj list_update_append)
  have cx: "cint (a ! (?n - index)) = x + 48" by (simp add: x_def dig_def)
  have cy: "cint (b ! (?m - index)) = y + 48" if "index \<le> ?m"
    using that by (simp add: y_def dig_def)
  have run: "sub_loop p q ?n ?m (Obj r 0) index step s
        = sub_loop p q ?n ?m (Obj r 0) (index + 1) st ?s"
  proof (cases "index \<le> ?m")
    case True
    then have "x + (- step - y) = tmp" by (simp add: tmp_def)
    with i ld1 ld2 [OF True] sto cx cy [OF True] True show ?thesis
      unfolding e_def st_def
      by (subst sub_loop.simps) (simp add: bind_def del: if_split)
  next
    case False
    then have "x - step = tmp" by (simp add: tmp_def y_def)
    with i ld1 sto cx False show ?thesis
      unfolding e_def st_def
      by (subst sub_loop.simps) (simp add: bind_def del: if_split)
  qed
  have "dval (drop (?n - Suc (length ds)) a) = x * 10 ^ length ds + dval (drop (?n - length ds) a)"
    using i ix by (subst dval_drop_back) (simp add: x_def)
  moreover have "dval (drop (?m - Suc (length ds)) b)
      = y * 10 ^ length ds + dval (drop (?m - length ds) b)"
    using ix by (subst dval_drop_back) (simp add: y_def Suc_le_eq)
  moreover have "dig ?d = e" using e by simp
  moreover have "e * 10 ^ length ds - st * (10 * 10 ^ length ds)
      = x * 10 ^ length ds - step * 10 ^ length ds - y * 10 ^ length ds"
    using arg_cong [OF est, of "\<lambda>t. t * 10 ^ length ds"] by (simp add: algebra_simps)
  ultimately have val: "dval (?d # ds) - st * 10 ^ length (?d # ds)
      = dval (drop (?n - length (?d # ds)) a) - dval (drop (?m - length (?d # ds)) b)"
    using Suc.prems(15) by simp
  have eq: "take 1 pre0 = take 1 pre" using pre pos by simp
  have "\<exists>ds' step'. sub_loop p q ?n ?m (Obj r 0) (index + 1) st ?s
            = ok step' (set_block r (take 1 pre0 @ map Some ds' @ rest) ?s)
         \<and> digits ds' \<and> length ds' = ?n \<and> 0 \<le> step' \<and> step' \<le> 1
         \<and> dval ds' - step' * 10 ^ ?n = dval a - dval b"
    by (rule Suc.hyps(1) [where ds = "?d # ds" and pre = pre0])
      (use Suc.prems(1-14) Suc.hyps(2) i pre e st val in \<open>auto simp: c_frame is_digit_dig\<close>)
  then show ?case by (simp add: run eq [unfolded One_nat_def])
qed

context allocator
begin

lemma SUB_ordered:
  assumes "cstr p s = ok a s" and "cstr q s = ok b s" and "canonical a" and "canonical b"
    and ge: "dval b \<le> dval a" and fresh: "al (length (blocks s)) (length a + 1) = Some fresh"
  shows "\<exists>bs ds. bind (malloc al (length a + 1)) (\<lambda>ret.
      bind (store ret sy) (\<lambda>_.
      bind (sub_loop p q (length a) (length b) ret 1 0) (\<lambda>_. return ret))) s
        = ok (Obj (length (blocks s)) 0) (push_block bs s)
      \<and> number_block bs sy ds fresh \<and> length ds = length a \<and> dval ds = dval a - dval b"
proof -
  let ?r = "length (blocks s)" and ?n = "length a"
  have len: "length b \<le> ?n"
    using canonical_longer [of a b] assms by force
  have room: "?n + 1 \<le> length fresh"
    using room [of ?r "?n + 1"] fresh by simp
  then obtain f0 rest0 where f: "fresh = f0 # rest0" and rest0: "?n \<le> length rest0"
    by (cases fresh) auto
  let ?s1 = "push_block fresh s" and ?s2 = "push_block (Some sy # rest0) s"
  have m: "malloc al (?n + 1) s = ok (Obj ?r 0) ?s1"
    using fresh by (rule malloc_push)
  have st1: "store (Obj ?r 0) sy ?s1 = ok () ?s2"
    using store_obj [OF at_block_push_new, of 0 fresh s sy] by (simp add: f)
  have fr: "cstr p ?s2 = ok a ?s2" "cstr q ?s2 = ok b ?s2"
    using assms(1,2) by (simp_all add: cstr_push)
  have "\<exists>ds' step'. sub_loop p q ?n (length b) (Obj ?r 0) 1 0 ?s2
            = ok step' (set_block ?r (take 1 (Some sy # take ?n rest0) @ map Some ds'
                @ drop ?n rest0) ?s2)
         \<and> digits ds' \<and> length ds' = ?n \<and> 0 \<le> step' \<and> step' \<le> 1
         \<and> dval ds' - step' * 10 ^ ?n = dval a - dval b"
    by (rule sub_loop_correct [where ds = "[]" and pre = "Some sy # take ?n rest0"])
      (use assms rest0 fr len canonical_digits in \<open>auto simp: cstr_off_new at_block_push_new\<close>)
  then obtain ds step where run: "sub_loop p q ?n (length b) (Obj ?r 0) 1 0 ?s2
        = ok step (push_block (Some sy # map Some ds @ drop ?n rest0) s)"
    and ds: "digits ds" "length ds = ?n" "0 \<le> step" "step \<le> 1"
      "dval ds - step * 10 ^ ?n = dval a - dval b"
    by auto
  have "step = 0"
  proof (rule ccontr)
    assume "step \<noteq> 0"
    with ds have "step = 1" by simp
    with ds dval_less [OF ds(1)] ge show False by simp
  qed
  moreover have "number_block (Some sy # map Some ds @ drop ?n rest0) sy ds fresh"
    using ds by (auto simp: number_block_def f)
  ultimately show ?thesis
    using m st1 run ds
    by (intro exI [of _ "Some sy # map Some ds @ drop ?n rest0"] exI [of _ ds])
      (simp add: bind_def)
qed

theorem SUB_correct:
  assumes a: "cstr p s = ok a s" and b: "cstr q s = ok b s" and "canonical a" and "canonical b"
  shows "\<exists>bs ds fresh. SUB al p q sy1 sy2 s = ok (Obj (length (blocks s)) 0) (push_block bs s)
      \<and> al (length (blocks s)) (max (length a) (length b) + 1) = Some fresh
      \<and> number_block bs (if dval a < dval b then sy2 else sy1) ds fresh
      \<and> length ds = max (length a) (length b) \<and> dval ds = \<bar>dval a - dval b\<bar>"
proof -
  obtain fresh where f: "al (length (blocks s)) (max (length a) (length b) + 1) = Some fresh"
    using room by blast
  have la: "strlen p s = ok (length a) s" and lb: "strlen q s = ok (length b) s"
    using a b by (simp_all add: strlen_ok)
  note sm = left_smaller_ok [OF assms]
  show ?thesis
  proof (cases "dval a < dval b")
    case True
    then have "length a \<le> length b"
      using canonical_longer [OF assms(4,3)] by force
    with True show ?thesis
      using SUB_ordered [OF b a assms(4,3), of fresh sy2] f la lb sm
      by (auto simp: SUB_def bind_def max_def simp del: One_nat_def split: if_splits)
  next
    case False
    then have "length b \<le> length a"
      using canonical_longer [OF assms(3,4)] by force
    with False show ?thesis
      using SUB_ordered [OF a b assms(3,4), of fresh sy1] f la lb sm
      by (auto simp: SUB_def bind_def max_def simp del: One_nat_def split: if_splits)
  qed
qed

end

end
