(* ===== verification/MathMul.thy ===== *)
theory MathMul
  imports MathAddSub
begin

text \<open>
  Multiplication of decimal digit strings in \<open>cgi_bin/math_cgi.c\<close>: \<open>MUL\<close>, schoolbook
  multiplication that accumulates the partial products in place in the result object.
\<close>

section \<open>MUL\<close>

text \<open>The loop that sets every byte of the result to the digit zero.\<close>

function fill_zeros :: "ptr \<Rightarrow> nat \<Rightarrow> nat \<Rightarrow> (cstate, unit) c" where
  "fill_zeros ret k retlen =
     (if k < retlen then
        bind (store (padd ret (int k)) (CHR ''0'')) (\<lambda>_. fill_zeros ret (k + 1) retlen)
      else return ())"
  by pat_completeness auto
termination
  by (relation "measure (\<lambda>(ret, k, retlen). retlen - k)") auto

text \<open>The inner loop: one digit \<open>tmp\<close> of the second number times the first number.\<close>

function mul_row :: "ptr \<Rightarrow> nat \<Rightarrow> ptr \<Rightarrow> nat \<Rightarrow> nat \<Rightarrow> int \<Rightarrow> nat \<Rightarrow> int \<Rightarrow> (cstate, int) c" where
  "mul_row data1 size1 ret retlen offset tmp i step =
     (if i \<le> size1 then
        bind (load (padd data1 (int (size1 - i)))) (\<lambda>c1.
        bind (load (padd ret (int retlen - int offset - int i))) (\<lambda>r.
        let onebyone = tmp * (cint c1 - 48) + step + (cint r - 48) in
        bind (store (padd ret (int retlen - int offset - int i)) (cchr (onebyone smod 10 + 48))) (\<lambda>_.
        mul_row data1 size1 ret retlen offset tmp (i + 1) (onebyone sdiv 10))))
      else return step)"
  by pat_completeness auto
termination
  by (relation "measure (\<lambda>(data1, size1, ret, retlen, offset, tmp, i, step). size1 + 1 - i)") auto

text \<open>The outer loop over the digits of the second number, from the right.\<close>

function mul_loop :: "ptr \<Rightarrow> ptr \<Rightarrow> nat \<Rightarrow> nat \<Rightarrow> ptr \<Rightarrow> nat \<Rightarrow> nat \<Rightarrow> nat \<Rightarrow> (cstate, unit) c" where
  "mul_loop data1 data2 size1 size2 ret retlen index offset =
     (if index \<le> size2 then
        bind (load (padd data2 (int (size2 - index)))) (\<lambda>c2.
        let tmp = cint c2 - 48 in
        if tmp = 0 then mul_loop data1 data2 size1 size2 ret retlen (index + 1) (offset + 1)
        else
          bind (mul_row data1 size1 ret retlen offset tmp 1 0) (\<lambda>step.
          bind (load (padd ret (int retlen - int offset - int size1 - 1))) (\<lambda>r.
          bind (store (padd ret (int retlen - int offset - int size1 - 1)) (cchr (cint r + step))) (\<lambda>_.
          mul_loop data1 data2 size1 size2 ret retlen (index + 1) (offset + 1)))))
      else return ())"
  by pat_completeness auto
termination
  by (relation "measure (\<lambda>(data1, data2, size1, size2, ret, retlen, index, offset). size2 + 1 - index)")
    auto

declare fill_zeros.simps [simp del] mul_row.simps [simp del] mul_loop.simps [simp del]

definition MUL :: "alloc \<Rightarrow> ptr \<Rightarrow> ptr \<Rightarrow> char \<Rightarrow> char \<Rightarrow> (cstate, ptr) c" where
  "MUL al data1 data2 sybom1 sybom2 =
     bind (strcmp data1 (Lit ''0'' 0)) (\<lambda>r1.
     bind (if r1 = 0 then return True
           else bind (strcmp data2 (Lit ''0'' 0)) (\<lambda>r2. return (r2 = 0))) (\<lambda>zero.
     if zero then
       bind (malloc al 1) (\<lambda>ret. bind (store ret (CHR ''0'')) (\<lambda>_. return ret))
     else
       bind (strlen data1) (\<lambda>size1.
       bind (strlen data2) (\<lambda>size2.
       bind (if size1 < size2 then
               bind (strlen data2) (\<lambda>size1.
               bind (strlen data1) (\<lambda>size2.
               return (data2, data1, size1, size2)))
             else return (data1, data2, size1, size2)) (\<lambda>(data1, data2, size1, size2).
       let retlen = size1 + size2 + 1 in
       bind (malloc al retlen) (\<lambda>ret.
       bind (fill_zeros ret 0 retlen) (\<lambda>_.
       bind (store ret (if sybom1 = sybom2 then CHR ''+'' else CHR ''-'')) (\<lambda>_.
       bind (mul_loop data1 data2 size1 size2 ret retlen 1 0) (\<lambda>_.
       return ret)))))))))"

lemma fill_zeros_correct:
  assumes "at_block s r (replicate k (Some (CHR ''0'')) @ bs)" and "k \<le> n" and "n - k \<le> length bs"
  shows "fill_zeros (Obj r 0) k n s
    = ok () (set_block r (replicate n (Some (CHR ''0'')) @ drop (n - k) bs) s)"
  using assms
proof (induction "n - k" arbitrary: k bs s)
  case 0
  then show ?case by (subst fill_zeros.simps) simp
next
  case (Suc m)
  then have "k < n" by simp
  from Suc obtain b bs' where bs: "bs = b # bs'" by (cases bs) auto
  let ?s = "set_block r (replicate (Suc k) (Some (CHR ''0'')) @ bs') s"
  have st: "store (Obj r (int k)) (CHR ''0'') s = ok () ?s"
    using Suc.prems(1) bs
    by (simp add: store_obj list_update_append replicate_app_Cons_same)
  have "fill_zeros (Obj r 0) k n s = fill_zeros (Obj r 0) (Suc k) n ?s"
    using \<open>k < n\<close> st by (subst fill_zeros.simps) (simp add: bind_def)
  also have "\<dots> = ok () (set_block r (replicate n (Some (CHR ''0'')) @ drop (n - Suc k) bs') ?s)"
    using Suc.prems Suc.hyps(2) bs by (intro Suc.hyps(1)) auto
  finally show ?case
    using Suc.hyps(2) bs by (simp add: Suc_diff_Suc drop_Cons')
qed

text \<open>
  The result object while \<open>MUL\<close> runs: the sign byte, then the digits \<open>ds\<close>. Byte \<open>j\<close> of the object
  is digit \<open>j - 1\<close>.
\<close>

lemma load_digit:
  assumes "at_block s r (Some sg # map Some ds @ rest)" and "j = int (Suc k)" and "k < length ds"
  shows "load (padd (Obj r 0) j) s = ok (ds ! k) s"
  using assms load_obj [of s r "Some sg # map Some ds @ rest" j "ds ! k"]
  by (simp add: nth_append)

lemma store_digit:
  assumes "at_block s r (Some sg # map Some ds @ rest)" and "j = int (Suc k)" and "k < length ds"
  shows "store (padd (Obj r 0) j) c s
    = ok () (set_block r (Some sg # map Some (ds[k := c]) @ rest) s)"
  using assms store_obj [of s r "Some sg # map Some ds @ rest" j c]
  by (simp add: list_update_append map_update)

lemma mul_row_correct:
  assumes "cstr p s = ok a s" and "digits a" and "off_block p r"
    and "at_block s r (Some sg # map Some ds @ rest)" and "digits ds" and "length ds = n"
    and "offset + length a \<le> n" and "1 \<le> i" and "i \<le> length a + 1"
    and "0 \<le> step" and "step \<le> 9" and t: "0 \<le> t" "t \<le> 9"
  shows "\<exists>ds' step'. mul_row p (length a) (Obj r 0) (n + 1) offset t i step s
            = ok step' (set_block r (Some sg # map Some ds' @ rest) s)
         \<and> digits ds' \<and> length ds' = n \<and> 0 \<le> step' \<and> step' \<le> 9
         \<and> (\<forall>k. k + offset + length a < n \<longrightarrow> ds' ! k = ds ! k)
         \<and> dval ds' + step' * 10 ^ (offset + length a)
           = dval ds + (step + t * dval (take (length a + 1 - i) a)) * 10 ^ (offset + i - 1)"
  using assms(1-11)
proof (induction "length a + 1 - i" arbitrary: i step ds s)
  case 0
  then have "i = length a + 1" by simp
  with 0 show ?case
    by (subst mul_row.simps) (auto intro!: exI [of _ ds])
next
  case (Suc m)
  let ?la = "length a"
  from Suc.hyps(2) have i: "i \<le> ?la" by simp
  let ?k = "n - offset - i"
  have k: "?k < n" "n - 1 - ?k = offset + i - 1"
    and j: "int (n + 1) - int offset - int i = int (Suc ?k)"
    using Suc.prems i by auto
  define x where "x = dig (a ! (?la - i))"
  define y where "y = dig (ds ! ?k)"
  define e where "e = t * x + step + y"
  have x: "0 \<le> x" "x \<le> 9"
    using i Suc.prems(8) digits_nth [OF Suc.prems(2), of "?la - i"] by (auto simp: x_def is_digit_dig)
  have y: "0 \<le> y" "y \<le> 9"
    using k Suc.prems(6) digits_nth [OF Suc.prems(5), of ?k] by (auto simp: y_def is_digit_dig)
  have "0 \<le> t * x" and "t * x \<le> 9 * 9"
    using x t mult_mono [of t 9 x 9] by simp_all
  then have e: "0 \<le> e" "e \<le> 99"
    using y Suc.prems by (auto simp: e_def)
  let ?d = "cchr (e mod 10 + 48)"
  let ?ds = "ds[?k := ?d]"
  let ?s = "set_block r (Some sg # map Some ?ds @ rest) s"
  have ld1: "load (padd p (int (?la - i))) s = ok (a ! (?la - i)) s"
    using Suc.prems(1,8) i by (intro load_cstr_nth) auto
  have ld2: "load (padd (Obj r 0) (int (n + 1) - int offset - int i)) s = ok (ds ! ?k) s"
    using Suc.prems(4) j k(1) Suc.prems(6) by (intro load_digit) auto
  have st: "store (padd (Obj r 0) (int (n + 1) - int offset - int i)) ?d s = ok () ?s"
    using Suc.prems(4) j k(1) Suc.prems(6) by (intro store_digit) auto
  have v: "t * (cint (a ! (?la - i)) - 48) + step + (cint (ds ! ?k) - 48) = e"
    by (simp add: e_def x_def y_def dig_def)
  have run: "mul_row p ?la (Obj r 0) (n + 1) offset t i step s
      = mul_row p ?la (Obj r 0) (n + 1) offset t (i + 1) (e div 10) ?s"
    using i e
    by (subst mul_row.simps) (simp only: bind_def ld1 ld2 st v Let_def if_True option.case
        sum.case prod.case smod_nonneg sdiv_nonneg zero_le_numeral)
  have dd: "dig ?d = e mod 10" using e by simp
  have digs: "digits ?ds"
    using Suc.prems(5) dd e by (intro digits_update) (auto simp: is_digit_dig)
  have val: "dval ?ds = dval ds + (e mod 10 - y) * 10 ^ (offset + i - 1)"
    using k Suc.prems(6) by (simp add: dval_update y_def dd del: dig_cchr)
  have tk: "dval (take (?la + 1 - i) a) = 10 * dval (take (?la - i) a) + x"
    using i Suc.prems(8) take_Suc_conv_app_nth [of "?la - i" a]
    by (simp add: Suc_diff_le dval_snoc x_def)
  have pw: "(10 :: int) ^ (offset + (i + 1) - 1) = 10 * 10 ^ (offset + i - 1)"
    using Suc.prems(8) by (cases i) auto
  have "\<exists>ds' step'. mul_row p ?la (Obj r 0) (n + 1) offset t (i + 1) (e div 10) ?s
            = ok step' (set_block r (Some sg # map Some ds' @ rest) ?s)
         \<and> digits ds' \<and> length ds' = n \<and> 0 \<le> step' \<and> step' \<le> 9
         \<and> (\<forall>k. k + offset + ?la < n \<longrightarrow> ds' ! k = ?ds ! k)
         \<and> dval ds' + step' * 10 ^ (offset + ?la)
           = dval ?ds + (e div 10 + t * dval (take (?la + 1 - (i + 1)) a)) * 10 ^ (offset + (i + 1) - 1)"
    by (rule Suc.hyps(1))
      (use Suc.prems Suc.hyps(2) i e digs in \<open>auto simp: cstr_set_other\<close>)
  moreover have "dval ?ds + (e div 10 + t * dval (take (?la + 1 - (i + 1)) a)) * 10 ^ (offset + (i + 1) - 1)
      = dval ds + (step + t * dval (take (?la + 1 - i) a)) * 10 ^ (offset + i - 1)"
    using carry_split [of e "10 ^ (offset + i - 1)"]
    unfolding val pw tk by (simp add: e_def algebra_simps)
  moreover have "?ds ! k' = ds ! k'" if "k' + offset + ?la < n" for k'
    using that i by (intro nth_list_update_neq) auto
  ultimately show ?case unfolding run by simp
qed

lemma mul_loop_correct:
  assumes "cstr p s = ok a s" and "cstr q s = ok b s" and "digits a" and "digits b"
    and "off_block p r" and "off_block q r"
    and "at_block s r (Some sg # map Some ds @ rest)" and "digits ds"
    and "length ds = length a + length b"
    and "index = offset + 1" and "offset \<le> length b"
    and "\<forall>k. k < length b - offset \<longrightarrow> ds ! k = CHR ''0''"
    and "dval ds = dval a * dval (drop (length b - offset) b)"
  shows "\<exists>ds'. mul_loop p q (length a) (length b) (Obj r 0) (length a + length b + 1) index offset s
            = ok () (set_block r (Some sg # map Some ds' @ rest) s)
         \<and> digits ds' \<and> length ds' = length a + length b \<and> dval ds' = dval a * dval b"
  using assms
proof (induction "length b - offset" arbitrary: index offset ds s)
  case 0
  then show ?case
    by (subst mul_loop.simps) (auto intro!: exI [of _ ds])
next
  case (Suc m)
  let ?la = "length a" and ?lb = "length b"
  let ?n = "?la + ?lb"
  from Suc have o: "offset < ?lb" by simp
  then have ix: "index \<le> ?lb" using Suc.prems(10) by simp
  define x where "x = dig (b ! (?lb - index))"
  have x: "0 \<le> x" "x \<le> 9"
    using o Suc.prems(10) digits_nth [OF Suc.prems(4), of "?lb - index"]
    by (auto simp: x_def is_digit_dig)
  have ld: "load (padd q (int (?lb - index))) s = ok (b ! (?lb - index)) s"
    using Suc.prems(2,10) o by (intro load_cstr_nth) auto
  have cx: "cint (b ! (?lb - index)) - 48 = x" by (simp add: x_def dig_def)
  have dr: "dval (drop (?lb - Suc offset) b) = x * 10 ^ offset + dval (drop (?lb - offset) b)"
    using o Suc.prems(10) by (subst dval_drop_back) (simp add: x_def)
  show ?case
  proof (cases "x = 0")
    case True
    then have run: "mul_loop p q ?la ?lb (Obj r 0) (?n + 1) index offset s
        = mul_loop p q ?la ?lb (Obj r 0) (?n + 1) (index + 1) (offset + 1) s"
      using o Suc.prems(10) ld cx by (subst mul_loop.simps) (simp add: bind_def)
    show ?thesis
      unfolding run
      by (rule Suc.hyps(1)) (use Suc.prems Suc.hyps(2) o dr True in auto)
  next
    case False
    have "\<exists>ds' step'. mul_row p ?la (Obj r 0) (?n + 1) offset x 1 0 s
            = ok step' (set_block r (Some sg # map Some ds' @ rest) s)
         \<and> digits ds' \<and> length ds' = ?n \<and> 0 \<le> step' \<and> step' \<le> 9
         \<and> (\<forall>k. k + offset + ?la < ?n \<longrightarrow> ds' ! k = ds ! k)
         \<and> dval ds' + step' * 10 ^ (offset + ?la)
           = dval ds + (0 + x * dval (take (?la + 1 - 1) a)) * 10 ^ (offset + 1 - 1)"
      by (rule mul_row_correct) (use Suc.prems o x in auto)
    then obtain ds1 step where row: "mul_row p ?la (Obj r 0) (?n + 1) offset x 1 0 s
            = ok step (set_block r (Some sg # map Some ds1 @ rest) s)"
      and ds1: "digits ds1" "length ds1 = ?n" "0 \<le> step" "step \<le> 9"
        "\<forall>k. k + offset + ?la < ?n \<longrightarrow> ds1 ! k = ds ! k"
        "dval ds1 + step * 10 ^ (offset + ?la) = dval ds + x * dval a * 10 ^ offset"
      by auto
    let ?s1 = "set_block r (Some sg # map Some ds1 @ rest) s"
    let ?k = "?lb - offset - 1"
    have k: "?k < length ds1" "?n - 1 - ?k = offset + ?la"
      and j: "int (?n + 1) - int offset - int ?la - 1 = int (Suc ?k)"
      using o ds1(2) by auto
    have z: "ds1 ! ?k = CHR ''0''"
      using ds1(5) Suc.prems(12) o by auto
    have at1: "at_block ?s1 r (Some sg # map Some ds1 @ rest)"
      using Suc.prems(7) by simp
    let ?d = "cchr (cint (ds1 ! ?k) + step)"
    let ?ds = "ds1[?k := ?d]"
    let ?s2 = "set_block r (Some sg # map Some ?ds @ rest) s"
    have d: "dig ?d = step"
      unfolding z using ds1(3,4) by (simp add: dig_def)
    have ld2: "load (padd (Obj r 0) (int (?n + 1) - int offset - int ?la - 1)) ?s1 = ok (ds1 ! ?k) ?s1"
      using at1 j k(1) by (rule load_digit)
    have st: "store (padd (Obj r 0) (int (?n + 1) - int offset - int ?la - 1)) ?d ?s1 = ok () ?s2"
      using store_digit [OF at1 j k(1), of ?d] by simp
    have run: "mul_loop p q ?la ?lb (Obj r 0) (?n + 1) index offset s
        = mul_loop p q ?la ?lb (Obj r 0) (?n + 1) (index + 1) (offset + 1) ?s2"
      by (subst mul_loop.simps) (simp only: bind_def ix ld cx row ld2 st Let_def False if_False
          if_True option.case sum.case prod.case)
    have digs: "digits ?ds"
      using ds1 d by (intro digits_update) (auto simp: is_digit_dig)
    have zero: "\<forall>k. k < ?lb - (offset + 1) \<longrightarrow> ?ds ! k = CHR ''0''"
      using ds1(5) Suc.prems(12) by auto
    have d0: "dig (ds1 ! ?k) = 0" unfolding z by simp
    have "dval ?ds = dval ds1 + step * 10 ^ (offset + ?la)"
      unfolding dval_update [OF k(1)] by (simp only: d d0 ds1(2) k(2) diff_0_right)
    also have "\<dots> = dval a * (x * 10 ^ offset + dval (drop (?lb - offset) b))"
      using ds1(6) Suc.prems(13) by (simp add: algebra_simps)
    finally have val: "dval ?ds = dval a * dval (drop (?lb - (offset + 1)) b)"
      by (simp add: dr)
    have "\<exists>ds'. mul_loop p q ?la ?lb (Obj r 0) (?n + 1) (index + 1) (offset + 1) ?s2
            = ok () (set_block r (Some sg # map Some ds' @ rest) ?s2)
         \<and> digits ds' \<and> length ds' = ?n \<and> dval ds' = dval a * dval b"
      by (rule Suc.hyps(1))
        (use Suc.prems(1-11) Suc.hyps(2) o digs zero val ds1(2) in \<open>auto simp: cstr_set_other\<close>)
    then show ?thesis unfolding run by simp
  qed
qed

context allocator
begin

lemma MUL_ordered:
  assumes "cstr p s = ok a s" and "cstr q s = ok b s" and "digits a" and "digits b"
    and fresh: "al (length (blocks s)) (length a + length b + 1) = Some fresh"
  shows "\<exists>bs ds. bind (malloc al (length a + length b + 1)) (\<lambda>ret.
      bind (fill_zeros ret 0 (length a + length b + 1)) (\<lambda>_.
      bind (store ret sg) (\<lambda>_.
      bind (mul_loop p q (length a) (length b) ret (length a + length b + 1) 1 0) (\<lambda>_.
      return ret)))) s
        = ok (Obj (length (blocks s)) 0) (push_block bs s)
      \<and> number_block bs sg ds fresh \<and> length ds = length a + length b \<and> dval ds = dval a * dval b"
proof -
  let ?r = "length (blocks s)" and ?n = "length a + length b" and ?z = "Some (CHR ''0'')"
  have rm: "?n + 1 \<le> length fresh"
    using room [of ?r "?n + 1"] fresh by simp
  let ?rest = "drop (?n + 1) fresh" and ?ds0 = "replicate ?n (CHR ''0'')"
  let ?s1 = "push_block (?z # map Some ?ds0 @ ?rest) s"
  let ?s2 = "push_block (Some sg # map Some ?ds0 @ ?rest) s"
  have m: "malloc al (?n + 1) s = ok (Obj ?r 0) (push_block fresh s)"
    using fresh by (rule malloc_push)
  have fz: "fill_zeros (Obj ?r 0) 0 (?n + 1) (push_block fresh s) = ok () ?s1"
    using rm by (subst fill_zeros_correct [where bs = fresh]) (auto simp: map_replicate)
  have st: "store (Obj ?r 0) sg ?s1 = ok () ?s2"
    using store_obj [OF at_block_push_new, of 0 "?z # map Some ?ds0 @ ?rest" s sg] by simp
  have fr: "cstr p ?s2 = ok a ?s2" "cstr q ?s2 = ok b ?s2"
    using assms(1,2) by (simp_all add: cstr_push)
  have "\<exists>ds'. mul_loop p q (length a) (length b) (Obj ?r 0) (?n + 1) 1 0 ?s2
            = ok () (set_block ?r (Some sg # map Some ds' @ ?rest) ?s2)
         \<and> digits ds' \<and> length ds' = ?n \<and> dval ds' = dval a * dval b"
    by (rule mul_loop_correct [where ds = ?ds0])
      (use assms fr in \<open>auto simp: cstr_off_new is_digit_dig digits_def list_all_length\<close>)
  then obtain ds where run: "mul_loop p q (length a) (length b) (Obj ?r 0) (?n + 1) 1 0 ?s2
            = ok () (push_block (Some sg # map Some ds @ ?rest) s)"
    and ds: "digits ds" "length ds = ?n" "dval ds = dval a * dval b"
    by auto
  have "number_block (Some sg # map Some ds @ ?rest) sg ds fresh"
    using ds by (simp add: number_block_def)
  with ds show ?thesis
    by (intro exI [of _ "Some sg # map Some ds @ ?rest"] exI [of _ ds])
      (simp only: bind_def m fz st run return_ok option.case sum.case prod.case simp_thms)
qed

theorem MUL_correct:
  assumes a: "cstr p s = ok a s" and b: "cstr q s = ok b s" and "canonical a" and "canonical b"
    and nz: "a \<noteq> ''0''" "b \<noteq> ''0''"
  shows "\<exists>bs ds fresh. MUL al p q sy1 sy2 s = ok (Obj (length (blocks s)) 0) (push_block bs s)
      \<and> al (length (blocks s)) (length a + length b + 1) = Some fresh
      \<and> number_block bs (if sy1 = sy2 then CHR ''+'' else CHR ''-'') ds fresh
      \<and> length ds = length a + length b \<and> dval ds = dval a * dval b"
proof -
  let ?sg = "if sy1 = sy2 then CHR ''+'' else CHR ''-''"
  obtain fresh where f: "al (length (blocks s)) (length a + length b + 1) = Some fresh"
    using room by blast
  then have f': "al (length (blocks s)) (length b + length a + 1) = Some fresh"
    by (simp add: add.commute)
  have la: "strlen p s = ok (length a) s" and lb: "strlen q s = ok (length b) s"
    using a b by (simp_all add: strlen_ok)
  have z: "cstr (Lit ''0'' 0) s = ok ''0'' s" by simp
  have c1: "strcmp p (Lit ''0'' 0) s = ok (cmp_str a ''0'') s" "cmp_str a ''0'' \<noteq> 0"
    using strcmp_ok [OF a z] nz(1) cstr_no_nul [OF a] by simp_all
  have c2: "strcmp q (Lit ''0'' 0) s = ok (cmp_str b ''0'') s" "cmp_str b ''0'' \<noteq> 0"
    using strcmp_ok [OF b z] nz(2) cstr_no_nul [OF b] by simp_all
  have dg: "digits a" "digits b"
    using assms canonical_digits by auto
  show ?thesis
  proof (cases "length a < length b")
    case True
    then show ?thesis
      using MUL_ordered [OF b a dg(2,1) f', of ?sg] f' la lb c1 c2
      by (simp add: MUL_def bind_def Let_def add.commute [of "length a" "length b"]
          mult.commute [of "dval a" "dval b"] del: One_nat_def if_split)
  next
    case False
    then show ?thesis
      using MUL_ordered [OF a b dg f, of ?sg] f la lb c1 c2
      by (simp add: MUL_def bind_def Let_def del: One_nat_def if_split)
  qed
qed

theorem MUL_zero:
  assumes a: "cstr p s = ok a s" and b: "cstr q s = ok b s"
    and z: "a = ''0'' \<or> b = ''0''"
  shows "\<exists>fresh. MUL al p q sy1 sy2 s
      = ok (Obj (length (blocks s)) 0) (push_block (fresh[0 := Some (CHR ''0'')]) s)
      \<and> al (length (blocks s)) 1 = Some fresh"
proof -
  obtain fresh where f: "al (length (blocks s)) 1 = Some fresh" and l: "1 \<le> length fresh"
    using room by blast
  have m: "malloc al 1 s = ok (Obj (length (blocks s)) 0) (push_block fresh s)"
    using f by (rule malloc_push)
  have st: "store (Obj (length (blocks s)) 0) (CHR ''0'') (push_block fresh s)
      = ok () (push_block (fresh[0 := Some (CHR ''0'')]) s)"
    using store_obj [OF at_block_push_new, of 0 fresh s "CHR ''0''"] l by (cases fresh) simp_all
  have z': "cstr (Lit ''0'' 0) s = ok ''0'' s" by simp
  show ?thesis
    using z f m st strcmp_ok [OF a z'] strcmp_ok [OF b z'] cstr_no_nul [OF a] cstr_no_nul [OF b]
    by (cases "a = ''0''") (auto simp: MUL_def bind_def simp del: One_nat_def)
qed

end

end
