(* ===== verification/MathDiv.thy ===== *)
theory MathDiv
  imports MathMul
begin

text \<open>
  Long division in \<open>cgi_bin/math_cgi.c\<close>: \<open>IsLeftStrBig\<close>, \<open>SubLoop\<close> and \<open>DIV\<close>. The dividend is
  copied into a scratch object and reduced in place; \<open>index\<close> and \<open>datalen\<close> delimit the window
  of it that is being compared with the divisor.
\<close>

section \<open>IsLeftStrBig and SubLoop\<close>

definition IsLeftStrBig :: "ptr \<Rightarrow> nat \<Rightarrow> ptr \<Rightarrow> nat \<Rightarrow> (cstate, int) c" where
  "IsLeftStrBig pleft lsize pright rsize =
     (if rsize < lsize then return 0
      else if lsize = rsize then
        bind (strncmp pleft pright lsize) (\<lambda>r. if 0 \<le> r then return 0 else return (- 1))
      else return (- 1))"

text \<open>The subtraction inside \<open>SubLoop\<close>, from the last digit of both numbers on.\<close>

function sub_digits :: "ptr \<Rightarrow> ptr \<Rightarrow> int \<Rightarrow> int \<Rightarrow> (cstate, unit) c" where
  "sub_digits pleft pright ldatalen rdatalen =
     (if 0 \<le> rdatalen \<and> 0 \<le> ldatalen then
        bind (load (padd pleft ldatalen)) (\<lambda>a.
        bind (load (padd pright rdatalen)) (\<lambda>b.
        bind (if cint a < cint b then
                bind (load (padd pleft (ldatalen - 1))) (\<lambda>z.
                bind (store (padd pleft (ldatalen - 1)) (cchr (cint z - 1))) (\<lambda>_.
                bind (load (padd pleft ldatalen)) (\<lambda>a.
                store (padd pleft ldatalen) (cchr (cint a + 10)))))
              else return ()) (\<lambda>_.
        bind (load (padd pleft ldatalen)) (\<lambda>a.
        bind (load (padd pright rdatalen)) (\<lambda>b.
        bind (store (padd pleft ldatalen) (cchr (cint a - cint b + 48))) (\<lambda>_.
        sub_digits pleft pright (ldatalen - 1) (rdatalen - 1)))))))
      else return ())"
  by pat_completeness auto
termination
  by (relation "measure (\<lambda>(pleft, pright, l, r). nat (r + 1))") auto

declare sub_digits.simps [simp del]

text \<open>
  The loop that drops leading zeros of the window. The byte is read before the size is tested, as
  in the source.
\<close>

fun strip_left :: "ptr \<Rightarrow> nat \<Rightarrow> (cstate, ptr \<times> nat) c" where
  "strip_left pleft 0 = bind (load pleft) (\<lambda>_. return (pleft, 0))"
| "strip_left pleft (Suc lsize) =
     bind (load pleft) (\<lambda>c.
     if c = CHR ''0'' then strip_left (padd pleft 1) lsize else return (pleft, Suc lsize))"

partial_function (option) SubLoop_from ::
  "ptr \<Rightarrow> nat \<Rightarrow> ptr \<Rightarrow> nat \<Rightarrow> char \<Rightarrow> cstate \<Rightarrow> (cerr + char \<times> cstate) option" where
  "SubLoop_from pleft lsize pright rsize ret s =
     bind (IsLeftStrBig pleft lsize pright rsize) (\<lambda>big s.
       if big < 0 then ok ret s
       else bind (sub_digits pleft pright (int lsize - 1) (int rsize - 1)) (\<lambda>_ s.
            bind (strip_left pleft lsize) (\<lambda>w s.
            SubLoop_from (fst w) (snd w) pright rsize (cchr (cint ret + 1)) s) s) s) s"

declare SubLoop_from.simps [code]

definition SubLoop :: "ptr \<Rightarrow> nat \<Rightarrow> ptr \<Rightarrow> nat \<Rightarrow> (cstate, char) c" where
  "SubLoop pleft lsize pright rsize = SubLoop_from pleft lsize pright rsize (CHR ''0'')"

section \<open>DIV\<close>

text \<open>
  The main loop. Every turn moves \<open>index + datalen\<close>, the number of digits of the dividend taken
  so far, up by one.
\<close>

function div_loop ::
  "ptr \<Rightarrow> ptr \<Rightarrow> ptr \<Rightarrow> nat \<Rightarrow> nat \<Rightarrow> nat \<Rightarrow> nat \<Rightarrow> (cstate, unit) c" where
  "div_loop ret pleft pright size1 size2 index datalen =
     (if index < size1 then
        bind (IsLeftStrBig pleft datalen pright size2) (\<lambda>big.
        if big < 0 then
          (if size1 < index + (datalen + 1) then return ()
           else div_loop ret pleft pright size1 size2 index (datalen + 1))
        else
          bind (SubLoop pleft datalen pright size2) (\<lambda>c.
          bind (store (padd ret (int (index + datalen))) c) (\<lambda>_.
          bind (strip_left pleft datalen) (\<lambda>(p, n).
          if size1 < index + (datalen - n) + (n + 1) then return ()
          else div_loop ret p pright size1 size2 (index + (datalen - n)) (n + 1)))))
      else return ())"
  by pat_completeness auto
termination
  by (relation "measure (\<lambda>(ret, pleft, pright, size1, size2, index, datalen). size1 - (index + datalen))")
    auto

declare div_loop.simps [simp del]

definition DIV :: "alloc \<Rightarrow> ptr \<Rightarrow> ptr \<Rightarrow> char \<Rightarrow> char \<Rightarrow> (cstate, ptr) c" where
  "DIV al data1 data2 sybom1 sybom2 =
     bind (strcmp data2 (Lit ''0'' 0)) (\<lambda>r.
     if r = 0 then return NULL
     else
       bind (strlen data1) (\<lambda>size1.
       bind (strlen data2) (\<lambda>size2.
       bind (left_smaller data1 data2 size1 size2) (\<lambda>smaller.
       if smaller then
         bind (malloc al 1) (\<lambda>ret. bind (store ret (CHR ''0'')) (\<lambda>_. return ret))
       else
         let retlen = size1 + 1 in
         bind (malloc al retlen) (\<lambda>ret.
         bind (fill_zeros ret 0 retlen) (\<lambda>_.
         bind (store ret (if sybom1 = sybom2 then CHR ''+'' else CHR ''-'')) (\<lambda>_.
         bind (malloc al size1) (\<lambda>pleft.
         bind (strcpy pleft data1) (\<lambda>_.
         bind (malloc al size2) (\<lambda>pright.
         bind (strcpy pright data2) (\<lambda>_.
         bind (div_loop ret pleft pright size1 size2 0 1) (\<lambda>_.
         bind (free pleft) (\<lambda>_.
         bind (free pright) (\<lambda>_.
         return ret))))))))))))))"

section \<open>Windows of an object\<close>

text \<open>The bytes \<open>w\<close> inside an object, after the bytes \<open>pre\<close> and before the bytes \<open>post\<close>.\<close>

lemma load_window:
  assumes "at_block s lb (pre @ map Some w @ post)" and "j = int k" and "k < length w"
  shows "load (padd (Obj lb (int (length pre))) j) s = ok (w ! k) s"
  using assms load_obj [of s lb "pre @ map Some w @ post" "int (length pre + k)" "w ! k"]
  by (simp add: nth_append nat_int_add)

lemma store_window:
  assumes "at_block s lb (pre @ map Some w @ post)" and "j = int k" and "k < length w"
  shows "store (padd (Obj lb (int (length pre))) j) c s
    = ok () (set_block lb (pre @ map Some (w[k := c]) @ post) s)"
  using assms store_obj [of s lb "pre @ map Some w @ post" "int (length pre + k)" c]
  by (simp add: list_update_append map_update nat_int_add)

lemma is_digit_not_NUL: "is_digit c \<Longrightarrow> c \<noteq> NUL"
  by (auto simp: is_digit_def cint_def)

lemma strncmp_digits:
  assumes "\<And>k. k < n \<Longrightarrow> load (padd p (int k)) s = ok (a ! k) s"
    and "\<And>k. k < n \<Longrightarrow> load (padd q (int k)) s = ok (b ! k) s"
    and "digits a" and "digits b" and "length a = n" and "length b = n"
  shows "strncmp p q n s = ok (cmp_str a b) s"
  using assms
proof (induction n arbitrary: p q a b)
  case (Suc n)
  from Suc.prems obtain c cs d ds where a: "a = c # cs" and b: "b = d # ds"
    by (metis length_Suc_conv)
  have lp: "load p s = ok c s" and lq: "load q s = ok d s"
    using Suc.prems(1,2) [of 0] a b by (cases p; cases q; simp)+
  have "padd (padd r 1) (int k) = padd r (int (Suc k))" for r k
    by (cases r) auto
  then have "strncmp (padd p 1) (padd q 1) n s = ok (cmp_str cs ds) s"
    using Suc.prems(1,2) [of "Suc _"] Suc.prems(3-6) a b by (intro Suc.IH) auto
  then show ?case
    using lp lq Suc.prems(3) a b is_digit_not_NUL [of c] by (simp add: bind_def)
qed simp

lemma IsLeftStrBig_ok:
  assumes w: "at_block s lb (pre @ map Some w @ post)" and "digits w"
    and b: "cstr q s = ok b s" and "digits b"
  shows "IsLeftStrBig (Obj lb (int (length pre))) (length w) q (length b) s
    = ok (if length b < length w \<or> (length w = length b \<and> dval b \<le> dval w) then 0 else - 1) s"
proof (cases "length w = length b")
  case True
  have "strncmp (Obj lb (int (length pre))) q (length w) s = ok (cmp_str w b) s"
    using load_window [OF w refl] load_cstr_nth [OF b] True assms(2,4)
    by (intro strncmp_digits) auto
  then show ?thesis
    using True cmp_str_digits [OF assms(2,4) True] by (auto simp: IsLeftStrBig_def bind_def)
qed (auto simp: IsLeftStrBig_def)

text \<open>
  One turn of the subtraction, without and with a borrow. After a borrow the next digit to the left
  may be one below zero, which the following turn repairs.
\<close>

lemma sub_step_plain:
  assumes w: "at_block s lb (pre @ map Some w @ post)" and q: "cstr q s = ok b s"
    and "l < length w" and "k < length b" and ge: "dig (b ! k) \<le> dig (w ! l)"
  shows "sub_digits (Obj lb (int (length pre))) q (int l) (int k) s
    = sub_digits (Obj lb (int (length pre))) q (int l - 1) (int k - 1)
        (set_block lb (pre @ map Some (w[l := cchr (dig (w ! l) - dig (b ! k) + 48)]) @ post) s)"
proof -
  have ld: "load (padd (Obj lb (int (length pre))) (int l)) s = ok (w ! l) s"
    using load_window [OF w refl] assms(3) by simp
  have ldq: "load (padd q (int k)) s = ok (b ! k) s"
    using load_cstr_nth [OF q] assms(4) by simp
  have eq: "cint (w ! l) - cint (b ! k) + 48 = dig (w ! l) - dig (b ! k) + 48"
    by (simp add: dig_def)
  have st: "store (padd (Obj lb (int (length pre))) (int l)) (cchr (cint (w ! l) - cint (b ! k) + 48)) s
      = ok () (set_block lb (pre @ map Some (w[l := cchr (dig (w ! l) - dig (b ! k) + 48)]) @ post) s)"
    unfolding eq using w refl assms(3) by (rule store_window)
  have lt: "(cint (w ! l) < cint (b ! k)) = False"
    using ge by (simp add: dig_def)
  show ?thesis
    by (subst sub_digits.simps) (simp only: bind_def ld ldq lt st if_False if_True return_ok
        of_nat_0_le_iff simp_thms option.case sum.case prod.case)
qed

lemma sub_step_borrow:
  assumes w: "at_block s lb (pre @ map Some w @ post)" and q: "cstr q s = ok b s"
    and off: "off_block q lb"
    and l: "Suc l < length w" and "k < length b" and lt: "dig (w ! Suc l) < dig (b ! k)"
    and x: "- 1 \<le> dig (w ! Suc l)" "dig (w ! Suc l) \<le> 9"
  shows "sub_digits (Obj lb (int (length pre))) q (int (Suc l)) (int k) s
    = sub_digits (Obj lb (int (length pre))) q (int (Suc l) - 1) (int k - 1)
        (set_block lb (pre @ map Some (w[l := cchr (dig (w ! l) - 1 + 48),
            Suc l := cchr (dig (w ! Suc l) + 10 - dig (b ! k) + 48)]) @ post) s)"
proof -
  let ?p = "Obj lb (int (length pre))"
  let ?c1 = "cchr (cint (w ! l) - 1)" and ?c2 = "cchr (cint (w ! Suc l) + 10)"
  let ?w1 = "w[l := ?c1]"
  let ?w2 = "w[l := ?c1, Suc l := ?c2]"
  let ?s1 = "set_block lb (pre @ map Some ?w1 @ post) s"
  let ?s2 = "set_block lb (pre @ map Some ?w2 @ post) s"
  have at1: "at_block ?s1 lb (pre @ map Some ?w1 @ post)"
    and at2: "at_block ?s2 lb (pre @ map Some ?w2 @ post)"
    using w by simp_all
  have j: "int (Suc l) - 1 = int l" by simp
  have ld: "load (padd ?p (int (Suc l))) s = ok (w ! Suc l) s"
    using load_window [OF w refl, of "Suc l"] l by simp
  have ldl: "load (padd ?p (int l)) s = ok (w ! l) s"
    using load_window [OF w refl, of l] l by simp
  have st1: "store (padd ?p (int l)) ?c1 s = ok () ?s1"
    using store_window [OF w refl, of l ?c1] l by simp
  have ld1: "load (padd ?p (int (Suc l))) ?s1 = ok (w ! Suc l) ?s1"
    using load_window [OF at1 refl, of "Suc l"] l by simp
  have st2: "store (padd ?p (int (Suc l))) ?c2 ?s1 = ok () ?s2"
    using store_window [OF at1 refl, of "Suc l" ?c2] l by simp
  have ld2: "load (padd ?p (int (Suc l))) ?s2 = ok ?c2 ?s2"
    using load_window [OF at2 refl, of "Suc l"] l by simp
  have ldq: "load (padd q (int k)) s = ok (b ! k) s"
    using load_cstr_nth [OF q] assms(5) by simp
  have ldq2: "load (padd q (int k)) ?s2 = ok (b ! k) ?s2"
    using load_cstr_nth [OF cstr_set_other [OF off q]] assms(5) by simp
  have "cint (w ! Suc l) + 10 < 128" and "- 128 \<le> cint (w ! Suc l) + 10"
    using x by (simp_all add: dig_def)
  then have e2: "cint ?c2 - cint (b ! k) + 48 = dig (w ! Suc l) + 10 - dig (b ! k) + 48"
    by (simp add: dig_def)
  have e1: "cint (w ! l) - 1 = dig (w ! l) - 1 + 48" by (simp add: dig_def)
  have st3: "store (padd ?p (int (Suc l))) (cchr (cint ?c2 - cint (b ! k) + 48)) ?s2
      = ok () (set_block lb (pre @ map Some (w[l := ?c1,
            Suc l := cchr (dig (w ! Suc l) + 10 - dig (b ! k) + 48)]) @ post) s)"
    using store_window [OF at2 refl, of "Suc l" "cchr (cint ?c2 - cint (b ! k) + 48)"] l
    unfolding e2 by simp
  have lt': "(cint (w ! Suc l) < cint (b ! k)) = True"
    using lt by (simp add: dig_def)
  show ?thesis
    unfolding e1 [symmetric]
    by (subst sub_digits.simps) (simp only: bind_def ld ldq lt' j ldl st1 ld1 st2 ld2 ldq2 st3
        if_True return_ok of_nat_0_le_iff simp_thms option.case sum.case prod.case)
qed

text \<open>Taking one multiple of the divisor off the window.\<close>

lemma sub_digits_correct:
  assumes "at_block s lb (pre @ map Some w @ post)" and "cstr q s = ok b s" and "off_block q lb"
    and "digits b" and "k \<le> length b" and "d \<le> 1" and "k + d + j = length w"
    and "\<And>i. i < length w \<Longrightarrow> Suc i \<noteq> k + d \<Longrightarrow> is_digit (w ! i)"
    and "\<And>i. i < length w \<Longrightarrow> Suc i = k + d \<Longrightarrow> - 1 \<le> dig (w ! i) \<and> dig (w ! i) \<le> 9"
    and "dval (take k b) * 10 ^ j \<le> dval w"
  shows "\<exists>w'. sub_digits (Obj lb (int (length pre))) q (int (k + d) - 1) (int k - 1) s
            = ok () (set_block lb (pre @ map Some w' @ post) s)
         \<and> length w' = length w \<and> digits w' \<and> dval w' = dval w - dval (take k b) * 10 ^ j"
  using assms
proof (induction k arbitrary: w j s)
  case 0
  have h: "\<And>i. i < length w \<Longrightarrow> Suc i \<noteq> d \<Longrightarrow> is_digit (w ! i)"
    "\<And>i. i < length w \<Longrightarrow> Suc i = d \<Longrightarrow> - 1 \<le> dig (w ! i) \<and> dig (w ! i) \<le> 9"
    and nonneg: "0 \<le> dval w"
    using 0(8,9,10) by auto
  have "is_digit (w ! i)" if i: "i < length w" for i
  proof (cases "Suc i = d")
    case True
    with \<open>d \<le> 1\<close> have d: "d = 1" "i = 0" by auto
    then obtain c cs where w: "w = c # cs" using i by (cases w) auto
    have "is_digit (cs ! k)" if "k < length cs" for k
      using h(1) [of "Suc k"] that d(1) w by simp
    then have cs: "digits cs" by (simp add: digits_def list_all_length)
    have wi: "w ! i = c" unfolding d(2) w by simp
    have c: "- 1 \<le> dig c" "dig c \<le> 9" using h(2) [OF i True] unfolding wi by simp_all
    have "dig c \<noteq> - 1"
      using nonneg dval_less [OF cs] unfolding w by auto
    with c show ?thesis unfolding wi by (simp add: is_digit_dig)
  qed (rule h(1) [OF i])
  then have "digits w" by (auto simp: digits_def list_all_length)
  moreover have "sub_digits (Obj lb (int (length pre))) q (int (0 + d) - 1) (int 0 - 1) s = ok () s"
    by (subst sub_digits.simps) simp
  ultimately show ?case
    using 0(1) by (intro exI [of _ w]) simp
next
  case (Suc k)
  let ?p = "Obj lb (int (length pre))" and ?l = "k + d"
  define x where "x = dig (w ! ?l)"
  define y where "y = dig (b ! k)"
  have l: "?l < length w" and j: "length w - 1 - ?l = j"
    using Suc.prems(7) by auto
  have x: "- 1 \<le> x" "x \<le> 9" using Suc.prems(9) l by (auto simp: x_def)
  have y: "0 \<le> y" "y \<le> 9"
    using digits_nth [OF Suc.prems(4), of k] Suc.prems(5) by (auto simp: y_def is_digit_dig)
  have cx: "cint (w ! ?l) = x + 48" and cy: "cint (b ! k) = y + 48"
    by (simp_all add: x_def y_def dig_def)
  have ia: "int (Suc k + d) - 1 = int ?l" and ib: "int (Suc k) - 1 = int k" by auto
  have lb: "load (padd q (int k)) s' = ok (b ! k) s'" if "cstr q s' = ok b s'" for s'
    using that Suc.prems(5) by (intro load_cstr_nth) auto
  have tk: "dval (take (Suc k) b) * 10 ^ j = dval (take k b) * 10 ^ Suc j + y * 10 ^ j"
    using Suc.prems(5) by (simp add: take_Suc_conv_app_nth dval_snoc y_def algebra_simps)
  have low: "dval (take k b) * 10 ^ Suc j + y * 10 ^ j \<le> dval w"
    using Suc.prems(10) tk by simp
  have "\<exists>w1. sub_digits ?p q (int (Suc k + d) - 1) (int (Suc k) - 1) s
        = sub_digits ?p q (int ?l - 1) (int k - 1) (set_block lb (pre @ map Some w1 @ post) s)
      \<and> length w1 = length w \<and> dval w1 = dval w - y * 10 ^ j
      \<and> (\<forall>i < length w. Suc i \<noteq> ?l \<longrightarrow> is_digit (w1 ! i))
      \<and> (\<forall>i < length w. Suc i = ?l \<longrightarrow> - 1 \<le> dig (w1 ! i) \<and> dig (w1 ! i) \<le> 9)"
  proof (cases "y \<le> x")
    case True
    let ?w1 = "w[?l := cchr (x - y + 48)]"
    have d: "dig (cchr (x - y + 48)) = x - y" using True x y by simp
    have "dval ?w1 = dval w - y * 10 ^ j"
      unfolding dval_update [OF l] j d by (simp add: x_def algebra_simps)
    moreover have "\<forall>i < length w. Suc i \<noteq> ?l \<longrightarrow> is_digit (?w1 ! i)"
      using Suc.prems(8) d x y True l by (auto simp: nth_list_update is_digit_dig)
    moreover have "\<forall>i < length w. Suc i = ?l \<longrightarrow> - 1 \<le> dig (?w1 ! i) \<and> dig (?w1 ! i) \<le> 9"
      using Suc.prems(8) by (force simp: is_digit_dig)
    moreover note sub_step_plain [OF Suc.prems(1,2) l, of k]
    ultimately show ?thesis
      unfolding ia ib using True Suc.prems(5)
      by (intro exI [of _ ?w1]) (simp add: x_def y_def)
  next
    case False
    have "?l \<noteq> 0"
    proof
      assume z: "?l = 0"
      then obtain c cs where w: "w = c # cs" using l by (cases w) auto
      have "is_digit (cs ! i)" if "i < length cs" for i
        using Suc.prems(8) [of "Suc i"] that z w by simp
      then have "dval cs < 10 ^ length cs"
        by (intro dval_less) (simp add: digits_def list_all_length)
      moreover have "length cs = j" and "dig c = x" using j z w by (simp_all add: x_def)
      moreover have "dval (take k b) = 0" using z by simp
      moreover have "(x + 1) * 10 ^ j \<le> y * 10 ^ j"
        using False by (intro mult_right_mono) auto
      ultimately show False using low w by (simp add: algebra_simps)
    qed
    then obtain l' where l': "?l = Suc l'" by (cases ?l) auto
    let ?c1 = "cchr (dig (w ! l') - 1 + 48)" and ?c2 = "cchr (x + 10 - y + 48)"
    let ?w1 = "w[l' := ?c1, Suc l' := ?c2]"
    have l'w: "l' < length w" "Suc l' < length w" using l l' by auto
    have "is_digit (w ! l')" using Suc.prems(8) [of l'] l'w l' by auto
    then have z: "0 \<le> dig (w ! l')" "dig (w ! l') \<le> 9" by (auto simp: is_digit_dig)
    have d1: "dig ?c1 = dig (w ! l') - 1"
      unfolding dig_def using z by (simp add: dig_def)
    have d2: "dig ?c2 = x + 10 - y"
      by (rule dig_cchr) (use False x y in auto)
    have "length w - 1 - l' = Suc j" using j l' l by simp
    then have "dval (w[l' := ?c1]) = dval w - 10 ^ Suc j"
      unfolding dval_update [OF l'w(1)] d1 by simp
    moreover have "dval ?w1 = dval (w[l' := ?c1]) + (10 - y) * 10 ^ j"
      using dval_update [of "Suc l'" "w[l' := ?c1]" ?c2] l'w j l' d2
      by (simp add: x_def del: dig_cchr)
    ultimately have "dval ?w1 = dval w - y * 10 ^ j" by (simp add: algebra_simps)
    moreover have "\<forall>i < length w. Suc i \<noteq> ?l \<longrightarrow> is_digit (?w1 ! i)"
      using Suc.prems(8) d2 x y False l'w l' by (auto simp: nth_list_update is_digit_dig)
    moreover have "\<forall>i < length w. Suc i = ?l \<longrightarrow> - 1 \<le> dig (?w1 ! i) \<and> dig (?w1 ! i) \<le> 9"
      using d1 z l'w l' by (auto simp: nth_list_update simp del: dig_cchr)
    moreover have "sub_digits ?p q (int ?l) (int k) s
        = sub_digits ?p q (int ?l - 1) (int k - 1) (set_block lb (pre @ map Some ?w1 @ post) s)"
      using sub_step_borrow [OF Suc.prems(1-3) l'w(2), of k] Suc.prems(5) False x l'
      unfolding x_def y_def by simp
    ultimately show ?thesis
      unfolding ia ib by (intro exI [of _ ?w1]) simp
  qed
  then obtain w1 where run: "sub_digits ?p q (int (Suc k + d) - 1) (int (Suc k) - 1) s
        = sub_digits ?p q (int ?l - 1) (int k - 1) (set_block lb (pre @ map Some w1 @ post) s)"
    and w1: "length w1 = length w" "dval w1 = dval w - y * 10 ^ j"
      "\<forall>i < length w. Suc i \<noteq> ?l \<longrightarrow> is_digit (w1 ! i)"
      "\<forall>i < length w. Suc i = ?l \<longrightarrow> - 1 \<le> dig (w1 ! i) \<and> dig (w1 ! i) \<le> 9"
    by blast
  let ?s1 = "set_block lb (pre @ map Some w1 @ post) s"
  have "\<exists>w'. sub_digits ?p q (int ?l - 1) (int k - 1) ?s1
            = ok () (set_block lb (pre @ map Some w' @ post) ?s1)
         \<and> length w' = length w1 \<and> digits w' \<and> dval w' = dval w1 - dval (take k b) * 10 ^ Suc j"
  proof (rule Suc.IH)
    show "at_block ?s1 lb (pre @ map Some w1 @ post)" using Suc.prems(1) by simp
    show "cstr q ?s1 = ok b ?s1" using Suc.prems(2,3) by (rule cstr_set_other [rotated])
    show "dval (take k b) * 10 ^ Suc j \<le> dval w1" using low w1(2) by simp
  qed (use Suc.prems(3-7) w1 in auto)
  then show ?case
    unfolding run tk using w1 by auto
qed

section \<open>Leading zeros of the window\<close>

lemma strip_left_correct:
  assumes "at_block s lb (pre @ map Some w @ Some z # post)"
  shows "strip_left (Obj lb (int (length pre))) (length w) s
    = ok (Obj lb (int (length pre + length (takeWhile (\<lambda>c. c = CHR ''0'') w))),
          length (dropWhile (\<lambda>c. c = CHR ''0'') w)) s"
  using assms
proof (induction w arbitrary: pre)
  case Nil
  have "load (Obj lb (int (length pre))) s = ok z s"
    using load_window [of s lb pre "[z]" post 0 0] Nil by simp
  then show ?case by (simp add: bind_def)
next
  case (Cons c w)
  have ld: "load (Obj lb (int (length pre))) s = ok c s"
    using load_window [of s lb pre "c # w" "Some z # post" 0 0] Cons.prems by simp
  show ?case
  proof (cases "c = CHR ''0''")
    case True
    have "strip_left (Obj lb (int (length (pre @ [Some c])))) (length w) s
        = ok (Obj lb (int (length (pre @ [Some c]) + length (takeWhile (\<lambda>c. c = CHR ''0'') w))),
              length (dropWhile (\<lambda>c. c = CHR ''0'') w)) s"
      using Cons.prems by (intro Cons.IH) simp
    with True ld show ?thesis by (simp add: bind_def add.commute)
  next
    case False
    with ld show ?thesis by (simp add: bind_def)
  qed
qed

text \<open>
  The test of \<open>IsLeftStrBig\<close> compares sizes first, so on a window with leading zeros it can
  answer yes for a smaller number. On a window of the kind below it compares the values.
\<close>

definition good_window :: "string \<Rightarrow> string \<Rightarrow> bool" where
  "good_window w b \<longleftrightarrow> digits w \<and> length w \<le> length b + 1 \<and>
     (w = [] \<or> hd w \<noteq> CHR ''0'' \<or> (dval b \<le> dval w \<and> length b \<le> length w))"

lemma good_window_test:
  assumes g: "good_window w b" and "digits b" and "b \<noteq> []" and "hd b \<noteq> CHR ''0''"
  shows "(length b < length w \<or> (length w = length b \<and> dval b \<le> dval w)) = (dval b \<le> dval w)"
proof -
  have dw: "digits w" using g by (simp add: good_window_def)
  have short: "dval w < dval b" if "length w < length b"
    using dw assms(2,4) that by (intro dval_longer)
  consider "w = []" | "w \<noteq> []" "hd w \<noteq> CHR ''0''" | "dval b \<le> dval w" "length b \<le> length w"
    using g by (auto simp: good_window_def)
  then show ?thesis
  proof cases
    case 1
    with short assms(3) show ?thesis by auto
  next
    case 2
    then have "dval b < dval w" if "length b < length w"
      using dw assms(2) that by (intro dval_longer)
    with short show ?thesis by (cases "length w" "length b" rule: linorder_cases) auto
  qed auto
qed

text \<open>\<open>SubLoop\<close> divides the window by the divisor: the quotient is the count, the rest stays.\<close>

lemma SubLoop_from_correct:
  assumes "at_block s lb (pre @ map Some w @ Some z # post)" and "cstr q s = ok b s"
    and "off_block q lb" and "digits b" and "b \<noteq> []" and "hd b \<noteq> CHR ''0''"
    and "good_window w b" and "- 128 \<le> cint c" and "cint c + dval w div dval b < 128"
  shows "\<exists>w'. SubLoop_from (Obj lb (int (length pre))) (length w) q (length b) c s
            = ok (cchr (cint c + dval w div dval b))
                (set_block lb (pre @ map Some w' @ Some z # post) s)
         \<and> length w' = length w \<and> digits w' \<and> dval w' = dval w mod dval b"
  using assms
proof (induction "nat (dval w)" arbitrary: w pre c s rule: less_induct)
  case less
  let ?p = "Obj lb (int (length pre))" and ?D = "dval b"
  note g = less.prems(7)
  have dw: "digits w" and len: "length w \<le> length b + 1"
    using g by (auto simp: good_window_def)
  have "10 ^ (length b - 1) \<le> ?D" using less.prems(4-6) by (intro dval_lower)
  moreover have "(1 :: int) \<le> 10 ^ (length b - 1)" by simp
  ultimately have D: "0 < ?D" by linarith
  have w0: "0 \<le> dval w" using dw by (rule dval_nonneg)
  have big: "IsLeftStrBig ?p (length w) q (length b) s = ok (if ?D \<le> dval w then 0 else - 1) s"
    using IsLeftStrBig_ok [OF less.prems(1) dw less.prems(2,4)]
      good_window_test [OF g less.prems(4-6)] by simp
  show ?case
  proof (cases "?D \<le> dval w")
    case False
    then have "dval w div ?D = 0" "dval w mod ?D = dval w" using w0 by auto
    moreover have "SubLoop_from ?p (length w) q (length b) c s = ok c s"
      using False big by (subst SubLoop_from.simps) (simp add: bind_def)
    ultimately show ?thesis
      using less.prems(1) dw by (intro exI [of _ w]) simp
  next
    case True
    have lw: "length b \<le> length w"
    proof (rule ccontr)
      assume "\<not> length b \<le> length w"
      then have "dval w < ?D" using dw less.prems(4,6) by (intro dval_longer) auto
      with True show False by simp
    qed
    define d where "d = length w - length b"
    have d: "d \<le> 1" "length b + d + 0 = length w" and ld: "length b + d = length w"
      using lw len by (auto simp: d_def)
    have "\<exists>w'. sub_digits ?p q (int (length b + d) - 1) (int (length b) - 1) s
            = ok () (set_block lb (pre @ map Some w' @ Some z # post) s)
         \<and> length w' = length w \<and> digits w' \<and> dval w' = dval w - dval (take (length b) b) * 10 ^ 0"
      using less.prems(1-4) le_refl d
    proof (rule sub_digits_correct)
      show "is_digit (w ! i)" if "i < length w" for i using dw that by (rule digits_nth)
      show "- 1 \<le> dig (w ! i) \<and> dig (w ! i) \<le> 9" if "i < length w" for i
        using digits_nth [OF dw that] by (simp add: is_digit_dig)
      show "dval (take (length b) b) * 10 ^ 0 \<le> dval w" using True by simp
    qed
    then obtain w1 where sub: "sub_digits ?p q (int (length w) - 1) (int (length b) - 1) s
            = ok () (set_block lb (pre @ map Some w1 @ Some z # post) s)"
      and w1: "length w1 = length w" "digits w1" "dval w1 = dval w - ?D"
      unfolding ld by auto
    let ?s1 = "set_block lb (pre @ map Some w1 @ Some z # post) s"
    define z1 where "z1 = takeWhile (\<lambda>c. c = CHR ''0'') w1"
    define w2 where "w2 = dropWhile (\<lambda>c. c = CHR ''0'') w1"
    have split: "w1 = z1 @ w2" by (simp add: z1_def w2_def)
    have dz: "dval w2 = dval w - ?D" using w1(3) by (simp add: w2_def dval_strip_zeros)
    have at1: "at_block ?s1 lb ((pre @ map Some z1) @ map Some w2 @ Some z # post)"
      using less.prems(1) arg_cong [OF split, of "map Some"] by simp
    have st: "strip_left ?p (length w) ?s1
        = ok (Obj lb (int (length (pre @ map Some z1))), length w2) ?s1"
      using strip_left_correct [of ?s1 lb pre w1 z post] less.prems(1) w1(1)
      by (simp add: z1_def w2_def)
    have cq: "cstr q ?s1 = ok b ?s1" using less.prems(3,2) by (rule cstr_set_other)
    have "w2 = [] \<or> hd w2 \<noteq> CHR ''0''"
      unfolding w2_def by (metis (mono_tags) hd_dropWhile)
    moreover have "digits w2" "length w2 \<le> length w"
      using w1(1,2) arg_cong [OF split, of length] arg_cong [OF split, of digits] by auto
    ultimately have g2: "good_window w2 b"
      using len by (auto simp: good_window_def)
    have div: "dval w div ?D = dval w2 div ?D + 1" and md: "dval w mod ?D = dval w2 mod ?D"
      using D div_add_self2 [of ?D "dval w - ?D"] mod_add_self2 [of "dval w - ?D" ?D]
      by (simp_all add: dz)
    have "0 \<le> dval w2 div ?D" using D True by (simp add: dz pos_imp_zdiv_nonneg_iff)
    then have c1: "cint (cchr (cint c + 1)) = cint c + 1"
      using less.prems(8,9) div by (intro cint_cchr) auto
    have run: "SubLoop_from ?p (length w) q (length b) c s
        = SubLoop_from (Obj lb (int (length (pre @ map Some z1)))) (length w2) q (length b)
            (cchr (cint c + 1)) ?s1"
      using True by (subst SubLoop_from.simps) (simp add: bind_def big sub st)
    have "\<exists>w'. SubLoop_from (Obj lb (int (length (pre @ map Some z1)))) (length w2) q (length b)
              (cchr (cint c + 1)) ?s1
            = ok (cchr (cint (cchr (cint c + 1)) + dval w2 div ?D))
                (set_block lb ((pre @ map Some z1) @ map Some w' @ Some z # post) ?s1)
         \<and> length w' = length w2 \<and> digits w' \<and> dval w' = dval w2 mod ?D"
      by (rule less.hyps)
        (use dz D True at1 cq less.prems(3-6,8,9) g2 c1 div in auto)
    then obtain w3 where w3: "SubLoop_from ?p (length w) q (length b) c s
            = ok (cchr (cint c + dval w div ?D))
                (set_block lb (pre @ map Some (z1 @ w3) @ Some z # post) s)"
      "length w3 = length w2" "digits w3" "dval w3 = dval w2 mod ?D"
      unfolding run c1 div by (auto simp: ac_simps)
    have "digits z1" using w1(2) arg_cong [OF split, of digits] by simp
    have "dval z1 = 0"
      unfolding z1_def by (induction w1) auto
    then have "dval (z1 @ w3) = dval w3" by (simp add: dval_append)
    moreover have "length (z1 @ w3) = length w"
      using w3(2) w1(1) arg_cong [OF split, of length] by simp
    ultimately show ?thesis
      using w3 \<open>digits z1\<close> md by (intro exI [of _ "z1 @ w3"]) simp
  qed
qed

section \<open>The main loop of DIV\<close>

text \<open>
  When the rest becomes zero and the next digit is zero, \<open>DIV\<close> grows a window with a leading zero;
  once that window is longer than the divisor, \<open>IsLeftStrBig\<close> calls it the larger number. The
  division is exact where such a window is never smaller than the divisor: for every prefix of
  length \<open>p\<close> that ends in a nonzero quotient digit and leaves no rest, with a zero behind it.
\<close>

definition div_clean :: "string \<Rightarrow> string \<Rightarrow> bool" where
  "div_clean a b \<longleftrightarrow>
     (\<forall>p < length a.
        dval (take p a) mod dval b = 0 \<and> dval (take p a) div dval b mod 10 \<noteq> 0
        \<and> a ! p = CHR ''0'' \<and> p + length b < length a
        \<longrightarrow> dval b \<le> dval (take (length b + 1) (drop p a)))"

lemma long_division_step:
  fixes A D d w :: int
  assumes "0 < D" and w: "w = 10 * (A mod D) + d" and "0 \<le> d" and "d \<le> 9"
  shows "(10 * A + d) div D = 10 * (A div D) + w div D" and "(10 * A + d) mod D = w mod D"
    and "0 \<le> w div D" and "w div D \<le> 9"
proof -
  define Q R where "Q = A div D" and "R = A mod D"
  have "A = Q * D + R" by (simp add: Q_def R_def)
  then have e: "10 * A + d = w + 10 * (A div D) * D"
    unfolding w Q_def [symmetric] R_def [symmetric] by (simp add: algebra_simps)
  show "(10 * A + d) div D = 10 * (A div D) + w div D" and "(10 * A + d) mod D = w mod D"
    unfolding e using assms(1) by simp_all
  have m: "0 \<le> A mod D" "A mod D < D" using assms(1) by simp_all
  then show "0 \<le> w div D" using assms by (simp add: pos_imp_zdiv_nonneg_iff)
  have "w < 10 * D" using m assms(3,4) unfolding w by linarith
  moreover have "w div D * D \<le> w"
    using div_mult_mod_eq [of w D] pos_mod_sign [OF assms(1), of w] by linarith
  moreover have "10 * D \<le> w div D * D" if "10 \<le> w div D"
    using that assms(1) by (intro mult_right_mono) auto
  ultimately show "w div D \<le> 9" by force
qed

text \<open>The window the loop looks at is compared by value.\<close>

lemma div_window_test:
  assumes "digits w" and "length w = n" and "1 \<le> n" and "n \<le> length b + 1"
    and "digits b" and "b \<noteq> []" and "hd b \<noteq> CHR ''0''"
    and z: "hd w \<noteq> CHR ''0'' \<or> (w = take n (drop i a) \<and> dval (take i a) mod dval b = 0
              \<and> dval (take i a) div dval b mod 10 \<noteq> 0)"
    and clean: "div_clean a b" and "i + n \<le> length a"
  shows "(length b < length w \<or> (length w = length b \<and> dval b \<le> dval w)) = (dval b \<le> dval w)"
proof (cases "hd w \<noteq> CHR ''0''")
  case True
  then have "good_window w b"
    unfolding good_window_def using assms(1,2,4) by blast
  then show ?thesis using assms(5-7) by (rule good_window_test)
next
  case False
  with z have w: "w = take n (drop i a)" and i: "dval (take i a) mod dval b = 0"
    "dval (take i a) div dval b mod 10 \<noteq> 0" by auto
  have ai: "a ! i = CHR ''0''"
    using False w assms(2,3,10) by (simp add: hd_conv_nth)
  have short: "dval w < dval b" if "length w < length b"
    using assms(1,5,7) that by (intro dval_longer)
  have long: "dval b \<le> dval w" if "length b < length w"
  proof -
    have n: "n = length b + 1" using that assms(2,4) by simp
    then have "i < length a" "i + length b < length a" using assms(10) by auto
    then have "dval b \<le> dval (take (length b + 1) (drop i a))"
      using clean [unfolded div_clean_def, rule_format, of i] i ai by blast
    then show ?thesis unfolding w unfolding n .
  qed
  show ?thesis
    using short long by (cases "length w" "length b" rule: linorder_cases) auto
qed

lemma quotient_digit_step:
  assumes "digits qs" and "k - 1 < length qs" and "1 \<le> k" and "0 \<le> Q" and "Q \<le> 9"
    and "\<forall>j. k - 1 \<le> j \<and> j < length qs \<longrightarrow> qs ! j = CHR ''0''"
  defines "qs1 \<equiv> qs[k - 1 := cchr (Q + 48)]"
  shows "digits qs1" and "length qs1 = length qs"
    and "dval (take k qs1) = 10 * dval (take (k - 1) qs) + Q"
    and "\<forall>j. k \<le> j \<and> j < length qs \<longrightarrow> qs1 ! j = CHR ''0''"
    and "Q = 0 \<Longrightarrow> qs1 = qs"
proof -
  have d: "dig (cchr (Q + 48)) = Q" using assms(4,5) by simp
  show "digits qs1"
    unfolding qs1_def using assms(1,4,5) d by (intro digits_update) (auto simp: is_digit_dig)
  show "length qs1 = length qs" by (simp add: qs1_def)
  have "take (Suc (k - 1)) qs1 = take (k - 1) qs @ [cchr (Q + 48)]"
    unfolding qs1_def using assms(2) by (subst take_Suc_conv_app_nth) auto
  moreover have "Suc (k - 1) = k" using assms(3) by simp
  ultimately show "dval (take k qs1) = 10 * dval (take (k - 1) qs) + Q"
    by (simp add: dval_snoc d del: dig_cchr)
  show "\<forall>j. k \<le> j \<and> j < length qs \<longrightarrow> qs1 ! j = CHR ''0''"
    using assms(3,6) by (auto simp: qs1_def)
  show "qs1 = qs" if "Q = 0"
    using assms(2,6) that unfolding qs1_def by (simp add: list_update_same_conv)
qed

lemma div_loop_correct:
  assumes "at_block s lb (pre @ map Some w @ map Some (drop k a) @ Some NUL # slack)"
    and "at_block s r (Some sg # map Some qs @ rest)" and "lb \<noteq> r"
    and "cstr q s = ok b s" and "off_block q lb" and "off_block q r"
    and "digits a" and b: "digits b" "b \<noteq> []" "hd b \<noteq> CHR ''0''" and clean: "div_clean a b"
    and "digits qs" and "length qs = length a"
    and "k = length pre + length w" and "k \<le> length a" and "1 \<le> length w"
    and "digits w" and "length w \<le> length b + 1"
    and "dval w = 10 * (dval (take (k - 1) a) mod dval b) + dig (a ! (k - 1))"
    and "dval (take (k - 1) qs) = dval (take (k - 1) a) div dval b"
    and "\<forall>j. k - 1 \<le> j \<and> j < length a \<longrightarrow> qs ! j = CHR ''0''"
    and "hd w \<noteq> CHR ''0'' \<or> (w = take (length w) (drop (length pre) a)
            \<and> dval (take (length pre) a) mod dval b = 0
            \<and> dval (take (length pre) a) div dval b mod 10 \<noteq> 0)"
  shows "\<exists>qs' ls. div_loop (Obj r 0) (Obj lb (int (length pre))) q (length a) (length b)
              (length pre) (length w) s
            = ok () (set_block lb ls (set_block r (Some sg # map Some qs' @ rest) s))
         \<and> digits qs' \<and> length qs' = length a \<and> dval qs' = dval a div dval b"
  using assms(1-7,12-)
proof (induction "length a - k" arbitrary: k pre w qs s rule: less_induct)
  case less
  let ?D = "dval b" and ?i = "length pre" and ?n = "length w"
  let ?p = "Obj lb (int ?i)"
  note at_l = less.prems(1) and at_r = less.prems(2) and ne = less.prems(3)
    and cq = less.prems(4) and ql = less.prems(5) and qr = less.prems(6) and da = less.prems(7)
    and dq = less.prems(8) and lq = less.prems(9) and k = less.prems(10) and ka = less.prems(11)
    and n1 = less.prems(12) and dw = less.prems(13) and nb = less.prems(14) and wv = less.prems(15)
    and qv = less.prems(16) and qz = less.prems(17) and hdw = less.prems(18)
  have "10 ^ (length b - 1) \<le> ?D" using b by (intro dval_lower)
  moreover have "(1 :: int) \<le> 10 ^ (length b - 1)" by simp
  ultimately have D: "0 < ?D" by linarith
  have i: "?i < length a" using k ka n1 by simp
  have k1: "k - 1 < length a" "Suc (k - 1) = k" using k ka n1 by auto
  have d: "0 \<le> dig (a ! (k - 1))" "dig (a ! (k - 1)) \<le> 9"
    using digits_nth [OF da k1(1)] by (auto simp: is_digit_dig)
  have tka: "dval (take k a) = 10 * dval (take (k - 1) a) + dig (a ! (k - 1))"
    using take_Suc_conv_app_nth [OF k1(1)] unfolding k1(2) by (simp add: dval_snoc)
  note st = long_division_step [OF D wv d, folded tka]
  have ik: "?i + ?n \<le> length a" using k ka by simp
  note tw = div_window_test [OF dw refl n1 nb b hdw clean ik]
  have test: "IsLeftStrBig ?p ?n q (length b) s = ok (if ?D \<le> dval w then 0 else - 1) s"
    using IsLeftStrBig_ok [OF at_l dw cq b(1)] tw by simp
  define Q where "Q = dval w div ?D"
  define qs1 where "qs1 = qs[k - 1 := cchr (Q + 48)]"
  have kq: "k - 1 < length qs" "1 \<le> k" using k1 lq by auto
  note q1 = quotient_digit_step [OF dq kq st(3,4) qz [folded lq], folded Q_def, folded qs1_def]
  have qv1: "dval (take k qs1) = dval (take k a) div ?D"
    unfolding q1(3) qv st(1) Q_def ..
  let ?post = "map Some (drop k a) @ Some NUL # slack"
  show ?case
  proof (cases "?D \<le> dval w")
    case False
    have "0 \<le> dval w" using dw by (rule dval_nonneg)
    with False D have Q0: "Q = 0" by (simp add: Q_def)
    have run: "div_loop (Obj r 0) ?p q (length a) (length b) ?i ?n s
        = (if length a < ?i + (?n + 1) then ok () s
           else div_loop (Obj r 0) ?p q (length a) (length b) ?i (?n + 1) s)"
      using False i by (subst div_loop.simps) (simp add: bind_def test)
    show ?thesis
    proof (cases "k = length a")
      case True
      then have "dval qs = dval a div ?D"
        using qv1 q1(5) [OF Q0] q1(2) lq by simp
      with run True k at_l at_r dq lq ne show ?thesis
        by (intro exI [of _ qs] exI [of _ "pre @ map Some w @ ?post"]) (simp add: c_frame)
    next
      case not: False
      then have kl: "k < length a" using ka by simp
      let ?w = "w @ [a ! k]"
      have "\<exists>qs' ls. div_loop (Obj r 0) ?p q (length a) (length b) ?i (length ?w) s
            = ok () (set_block lb ls (set_block r (Some sg # map Some qs' @ rest) s))
         \<and> digits qs' \<and> length qs' = length a \<and> dval qs' = dval a div dval b"
      proof (rule less.hyps [where k = "k + 1" and qs = qs])
        show "length a - (k + 1) < length a - k" using kl by simp
        show "at_block s lb (pre @ map Some ?w @ map Some (drop (k + 1) a) @ Some NUL # slack)"
          using at_l kl by (simp flip: Cons_nth_drop_Suc)
        show "length ?w \<le> length b + 1" using tw False by auto
        have "dval (take k a) mod ?D = dval w"
          using st(2) \<open>0 \<le> dval w\<close> False by simp
        then show "dval ?w = 10 * (dval (take (k + 1 - 1) a) mod ?D) + dig (a ! (k + 1 - 1))"
          by (simp add: dval_snoc)
        show "dval (take (k + 1 - 1) qs) = dval (take (k + 1 - 1) a) div ?D"
          using qv1 q1(5) [OF Q0] by simp
        show "\<forall>j. k + 1 - 1 \<le> j \<and> j < length a \<longrightarrow> qs ! j = CHR ''0''"
          using q1(4) q1(5) [OF Q0] lq by simp
        show "hd ?w \<noteq> CHR ''0'' \<or> (?w = take (length ?w) (drop ?i a)
            \<and> dval (take ?i a) mod ?D = 0 \<and> dval (take ?i a) div ?D mod 10 \<noteq> 0)"
          using hdw n1 kl k by (cases w) (auto simp: take_Suc_conv_app_nth)
        show "digits ?w" using dw digits_nth [OF da kl] by simp
        show "k + 1 = ?i + length ?w" using k by simp
      qed (use at_r ne cq ql qr da dq lq kl in auto)
      then show ?thesis using run kl k by simp
    qed
  next
    case True
    obtain z post where post: "?post = Some z # post"
      by (cases "map Some (drop k a)") auto
    have mn: "length b \<le> ?n"
    proof (rule ccontr)
      assume "\<not> length b \<le> ?n"
      then have "dval w < ?D" using dw b by (intro dval_longer) auto
      with True show False by simp
    qed
    have g: "good_window w b" using dw nb True mn by (simp add: good_window_def)
    have "\<exists>w'. SubLoop_from ?p ?n q (length b) (CHR ''0'') s
            = ok (cchr (cint (CHR ''0'') + dval w div ?D))
                (set_block lb (pre @ map Some w' @ Some z # post) s)
         \<and> length w' = ?n \<and> digits w' \<and> dval w' = dval w mod ?D"
      by (rule SubLoop_from_correct) (use at_l post cq ql b g st(4) in auto)
    then obtain w1 where sub: "SubLoop ?p ?n q (length b) s
            = ok (cchr (Q + 48)) (set_block lb (pre @ map Some w1 @ Some z # post) s)"
      and w1: "length w1 = ?n" "digits w1" "dval w1 = dval w mod ?D"
      by (auto simp: SubLoop_def Q_def add.commute)
    let ?s1 = "set_block lb (pre @ map Some w1 @ Some z # post) s"
    let ?s2 = "set_block r (Some sg # map Some qs1 @ rest) ?s1"
    have at_r1: "at_block ?s1 r (Some sg # map Some qs @ rest)"
      using at_r ne by (simp add: c_frame)
    have sto: "store (padd (Obj r 0) (int (?i + ?n))) (cchr (Q + 48)) ?s1 = ok () ?s2"
      using store_digit [OF at_r1 _ kq(1)] k1(2) k unfolding qs1_def by simp
    have at_l2: "at_block ?s2 lb (pre @ map Some w1 @ Some z # post)"
      using at_l ne by (simp add: c_frame)
    define z1 where "z1 = takeWhile (\<lambda>c. c = CHR ''0'') w1"
    define w2 where "w2 = dropWhile (\<lambda>c. c = CHR ''0'') w1"
    have split: "w1 = z1 @ w2" by (simp add: z1_def w2_def)
    have l12: "length z1 + length w2 = ?n"
      using arg_cong [OF split, of length] w1(1) by simp
    have strip: "strip_left ?p ?n ?s2 = ok (Obj lb (int (?i + length z1)), length w2) ?s2"
      using strip_left_correct [OF at_l2] w1(1) by (simp add: z1_def w2_def)
    have test0: "IsLeftStrBig ?p ?n q (length b) s = ok 0 s" and neg0: "((0 :: int) < 0) = False"
      using test True by simp_all
    have run: "div_loop (Obj r 0) ?p q (length a) (length b) ?i ?n s
        = (if length a < ?i + (?n - length w2) + (length w2 + 1) then ok () ?s2
           else div_loop (Obj r 0) (Obj lb (int (?i + length z1))) q (length a) (length b)
                  (?i + (?n - length w2)) (length w2 + 1) ?s2)"
      by (subst div_loop.simps, simp only: bind_def i test0 neg0 sub sto strip if_True if_False
          option.case sum.case prod.case) simp
    have swap: "set_block lb X (set_block r Y ?s2) = set_block lb X (set_block r Y s)" for X Y
      using ne by (simp add: set_block_commute [of r lb])
    have ix: "?i + (?n - length w2) = length (pre @ map Some z1)"
      and ixk: "?i + (?n - length w2) + (length w2 + 1) = k + 1"
      using l12 k by auto
    show ?thesis
    proof (cases "k = length a")
      case True
      then have "dval qs1 = dval a div ?D" using qv1 q1(2) lq by simp
      moreover have "?s2 = set_block lb (pre @ map Some w1 @ Some z # post)
          (set_block r (Some sg # map Some qs1 @ rest) s)"
        using ne by (simp add: set_block_commute)
      ultimately show ?thesis
        using run ixk True q1(1,2) lq by auto
    next
      case not: False
      then have kl: "k < length a" using ka by simp
      let ?w = "w2 @ [a ! k]" and ?pre = "pre @ map Some z1"
      have "digits w2" using w1(2) arg_cong [OF split, of digits] by simp
      have h2: "w2 = [] \<or> hd w2 \<noteq> CHR ''0''"
        unfolding w2_def by (metis (mono_tags) hd_dropWhile)
      have v2: "dval w2 = dval (take k a) mod ?D"
        using w1(3) st(2) by (simp add: w2_def dval_strip_zeros)
      have "\<exists>qs' ls. div_loop (Obj r 0) (Obj lb (int (length ?pre))) q (length a) (length b)
              (length ?pre) (length ?w) ?s2
            = ok () (set_block lb ls (set_block r (Some sg # map Some qs' @ rest) ?s2))
         \<and> digits qs' \<and> length qs' = length a \<and> dval qs' = dval a div dval b"
      proof (rule less.hyps [where k = "k + 1" and qs = qs1])
        show "length a - (k + 1) < length a - k" using kl by simp
        show "at_block ?s2 lb (?pre @ map Some ?w @ map Some (drop (k + 1) a) @ Some NUL # slack)"
          using at_l2 kl post arg_cong [OF split, of "map Some"]
          by (simp flip: Cons_nth_drop_Suc)
        show "length ?w \<le> length b + 1"
        proof (rule ccontr)
          assume "\<not> length ?w \<le> length b + 1"
          then have "?D < dval w2"
            using h2 b(1) \<open>digits w2\<close> by (intro dval_longer) auto
          with v2 pos_mod_bound [OF D, of "dval (take k a)"] show False by simp
        qed
        show "dval ?w = 10 * (dval (take (k + 1 - 1) a) mod ?D) + dig (a ! (k + 1 - 1))"
          by (simp add: dval_snoc v2)
        show "dval (take (k + 1 - 1) qs1) = dval (take (k + 1 - 1) a) div ?D"
          using qv1 by simp
        show "\<forall>j. k + 1 - 1 \<le> j \<and> j < length a \<longrightarrow> qs1 ! j = CHR ''0''"
          using q1(4) lq by simp
        show "hd ?w \<noteq> CHR ''0'' \<or> (?w = take (length ?w) (drop (length ?pre) a)
            \<and> dval (take (length ?pre) a) mod ?D = 0
            \<and> dval (take (length ?pre) a) div ?D mod 10 \<noteq> 0)"
        proof (cases "w2 = []")
          case True
          then have pk: "length ?pre = k" using l12 k by simp
          have "1 \<le> Q" using \<open>?D \<le> dval w\<close> D by (simp add: Q_def pos_imp_zdiv_pos_iff int_one_le_iff_zero_less)
          then have "dval (take k a) div ?D mod 10 \<noteq> 0"
            using st(1,4) unfolding Q_def [symmetric] by simp
          moreover have "dval (take k a) mod ?D = 0" using v2 True by simp
          moreover have "?w = take (length ?w) (drop k a)"
            using True kl by (simp flip: Cons_nth_drop_Suc)
          ultimately show ?thesis unfolding pk by blast
        next
          case False
          with h2 show ?thesis by simp
        qed
        show "digits ?w" using \<open>digits w2\<close> digits_nth [OF da kl] by simp
        show "k + 1 = length ?pre + length ?w" using k l12 by simp
      qed (use at_r1 ne cq ql qr da q1(1,2) lq kl in \<open>auto simp: cstr_set_other\<close>)
      moreover have "div_loop (Obj r 0) ?p q (length a) (length b) ?i ?n s
          = div_loop (Obj r 0) (Obj lb (int (length ?pre))) q (length a) (length b)
              (length ?pre) (length ?w) ?s2"
        using run ixk kl ix by simp
      ultimately show ?thesis unfolding swap by simp
    qed
  qed
qed

section \<open>Results of DIV\<close>

lemma strcpy_push:
  assumes "cstr p s = ok t s" and "length t < length f"
  shows "strcpy (Obj (length (blocks s)) 0) p (push_block f s)
    = ok () (push_block (map Some t @ Some NUL # drop (Suc (length t)) f) s)"
proof -
  have "store_str (Obj (length (blocks s)) (int (length ([] :: char option list)))) (t @ [NUL]) (push_block f s)
    = ok () (set_block (length (blocks s)) ([] @ map Some (t @ [NUL]) @ drop (Suc (length t)) f) (push_block f s))"
    by (rule store_str_window [where xs = "take (Suc (length t)) f"]) (use assms(2) in auto)
  then show ?thesis
    using cstr_push [OF assms(1)] by (simp add: strcpy_def bind_def)
qed

lemma cstr_push_str:
  "NUL \<notin> set t \<Longrightarrow>
   cstr (Obj (length (blocks s)) 0) (push_block (map Some t @ Some NUL # sl) s)
     = ok t (push_block (map Some t @ Some NUL # sl) s)"
  by (simp add: cstr_obj_iff, rule exI [of _ "map Some t @ Some NUL # sl"], simp)

lemma digits_no_NUL: "digits t \<Longrightarrow> NUL \<notin> set t"
  using is_digit_not_NUL by (auto simp: digits_def list_all_iff)

lemma free_block:
  "at_block s b bs \<Longrightarrow> free (Obj b 0) s = ok () (s\<lparr>blocks := (blocks s)[b := Freed]\<rparr>)"
  by (simp add: at_block_def free.simps)

text \<open>Division by zero gives the null pointer.\<close>

lemma free_second:
  "free (Obj (Suc (length (blocks s))) 0) (s\<lparr>blocks := blocks s @ [x, Live y, z]\<rparr>)
   = ok () (s\<lparr>blocks := blocks s @ [x, Freed, z]\<rparr>)"
  by (simp add: free.simps nth_append list_update_append)

lemma free_third:
  "free (Obj (Suc (Suc (length (blocks s)))) 0) (s\<lparr>blocks := blocks s @ [x, y, Live z]\<rparr>)
   = ok () (s\<lparr>blocks := blocks s @ [x, y, Freed]\<rparr>)"
  by (simp add: free.simps nth_append list_update_append)

lemma DIV_zero:
  assumes "cstr q s = ok ''0'' s"
  shows "DIV al p q sy1 sy2 s = ok NULL s"
  using strcmp_ok [OF assms, of "Lit ''0'' 0" "''0''"] by (simp add: DIV_def bind_def)

lemma DIV_prefix:
  assumes a: "cstr p s = ok a s" and b: "cstr q s = ok b s"
    and "canonical a" and "canonical b" and "b \<noteq> ''0''"
  shows "strcmp q (Lit ''0'' 0) s = ok (cmp_str b ''0'') s" and "cmp_str b ''0'' \<noteq> 0"
    and "strlen p s = ok (length a) s" and "strlen q s = ok (length b) s"
    and "left_smaller p q (length a) (length b) s = ok (dval a < dval b) s"
proof -
  have z: "cstr (Lit ''0'' 0) s = ok ''0'' s" by simp
  show "strcmp q (Lit ''0'' 0) s = ok (cmp_str b ''0'') s" "cmp_str b ''0'' \<noteq> 0"
    using strcmp_ok [OF b z] assms(5) cstr_no_nul [OF b] by simp_all
  show "strlen p s = ok (length a) s" "strlen q s = ok (length b) s"
    using a b by (simp_all add: strlen_ok)
  show "left_smaller p q (length a) (length b) s = ok (dval a < dval b) s"
    using assms(1-4) by (rule left_smaller_ok)
qed

context allocator
begin

theorem DIV_less:
  assumes a: "cstr p s = ok a s" and b: "cstr q s = ok b s"
    and "canonical a" and "canonical b" and "b \<noteq> ''0''" and "dval a < dval b"
  shows "\<exists>fresh. DIV al p q sy1 sy2 s
      = ok (Obj (length (blocks s)) 0) (push_block (fresh[0 := Some (CHR ''0'')]) s)
      \<and> al (length (blocks s)) 1 = Some fresh"
proof -
  obtain fresh where f: "al (length (blocks s)) 1 = Some fresh" and l: "1 \<le> length fresh"
    using room by blast
  have m: "malloc al 1 s = ok (Obj (length (blocks s)) 0) (push_block fresh s)"
    using f by (rule malloc_push)
  have st: "store (Obj (length (blocks s)) 0) (CHR ''0'') (push_block fresh s)
      = ok () (push_block (fresh[0 := Some (CHR ''0'')]) s)"
    using store_obj [OF at_block_push_new, of 0 fresh s "CHR ''0''"] l by (cases fresh) simp_all
  show ?thesis
    using DIV_prefix [OF assms(1-5)] assms(6) m st f
    by (auto simp: DIV_def bind_def simp del: One_nat_def)
qed

end

context padded_allocator
begin

theorem DIV_correct:
  assumes a: "cstr p s = ok a s" and b: "cstr q s = ok b s"
    and ca: "canonical a" and cb: "canonical b" and "b \<noteq> ''0''" and "dval b \<le> dval a"
    and clean: "div_clean a b"
  shows "\<exists>bs ds fresh. DIV al p q sy1 sy2 s
      = ok (Obj (length (blocks s)) 0) (s\<lparr>blocks := blocks s @ [Live bs, Freed, Freed]\<rparr>)
      \<and> al (length (blocks s)) (length a + 1) = Some fresh
      \<and> number_block bs (if sy1 = sy2 then CHR ''+'' else CHR ''-'') ds fresh
      \<and> length ds = length a \<and> dval ds = dval a div dval b"
proof -
  let ?r = "length (blocks s)" and ?n = "length a" and ?z = "Some (CHR ''0'')"
  let ?sg = "if sy1 = sy2 then CHR ''+'' else CHR ''-''"
  obtain f0 f1 f2 where f: "al ?r (?n + 1) = Some f0" "al (Suc ?r) ?n = Some f1"
    "al (Suc (Suc ?r)) (length b) = Some f2"
    using room by blast
  then have len: "?n + 1 < length f0" "?n < length f1" "length b < length f2"
    using pad by auto
  let ?rest = "drop (?n + 1) f0" and ?qs0 = "replicate ?n (CHR ''0'')"
  let ?sl1 = "drop (Suc ?n) f1" and ?sl2 = "drop (Suc (length b)) f2"
  let ?t0 = "push_block (Some ?sg # map Some ?qs0 @ ?rest) s"
  let ?t1 = "push_block (map Some a @ Some NUL # ?sl1) ?t0"
  let ?t2 = "push_block (map Some b @ Some NUL # ?sl2) ?t1"
  have r1: "length (blocks ?t0) = Suc ?r" and r2: "length (blocks ?t1) = Suc (Suc ?r)" by simp_all
  have m0: "malloc al (?n + 1) s = ok (Obj ?r 0) (push_block f0 s)"
    using f(1) by (rule malloc_push)
  have fz: "fill_zeros (Obj ?r 0) 0 (?n + 1) (push_block f0 s)
      = ok () (push_block (?z # map Some ?qs0 @ ?rest) s)"
    using len by (subst fill_zeros_correct [where bs = f0]) (auto simp: map_replicate)
  have sgn: "store (Obj ?r 0) ?sg (push_block (?z # map Some ?qs0 @ ?rest) s) = ok () ?t0"
    using store_obj [OF at_block_push_new, of 0 "?z # map Some ?qs0 @ ?rest" s ?sg] by simp
  have m1: "malloc al ?n ?t0 = ok (Obj (Suc ?r) 0) (push_block f1 ?t0)"
    using malloc_push [of al ?t0 ?n f1] f(2) r1 by simp
  have a0: "cstr p ?t0 = ok a ?t0" and b0: "cstr q ?t0 = ok b ?t0"
    using a b by (simp_all only: cstr_push)
  have c1: "strcpy (Obj (Suc ?r) 0) p (push_block f1 ?t0) = ok () ?t1"
    using strcpy_push [OF a0 len(2)] unfolding r1 .
  have m2: "malloc al (length b) ?t1 = ok (Obj (Suc (Suc ?r)) 0) (push_block f2 ?t1)"
    using malloc_push [of al ?t1 "length b" f2] f(3) r2 by simp
  have b1: "cstr q ?t1 = ok b ?t1" using b0 by (rule cstr_push)
  have c2: "strcpy (Obj (Suc (Suc ?r)) 0) q (push_block f2 ?t1) = ok () ?t2"
    using strcpy_push [OF b1 len(3)] unfolding r2 .
  have "dval a \<noteq> 0"
    using assms(6) canonical_dval_0 [OF cb] assms(5) dval_nonneg [OF canonical_digits [OF cb]] by auto
  then have "a \<noteq> ''0''" by (metis dval_zero)
  then have hda: "hd a \<noteq> CHR ''0''" by (rule canonical_hd [OF ca])
  have hdb: "hd b \<noteq> CHR ''0''" using canonical_hd [OF cb assms(5)] .
  obtain x xs where ax: "a = x # xs" using canonical_nonempty [OF ca] by (cases a) auto
  have "\<exists>qs' ls. div_loop (Obj ?r 0) (Obj (Suc ?r) (int (length ([] :: char option list))))
        (Obj (Suc (Suc ?r)) 0) ?n (length b) (length ([] :: char option list)) (length [x]) ?t2
      = ok () (set_block (Suc ?r) ls (set_block ?r (Some ?sg # map Some qs' @ ?rest) ?t2))
      \<and> digits qs' \<and> length qs' = ?n \<and> dval qs' = dval a div dval b"
  proof (rule div_loop_correct [where k = 1 and slack = ?sl1 and qs = ?qs0])
    show "at_block ?t2 (Suc ?r) ([] @ map Some [x] @ map Some (drop 1 a) @ Some NUL # ?sl1)"
      using at_block_push_old [OF at_block_push_new [of "map Some a @ Some NUL # ?sl1" ?t0]] ax r1
      by simp
    show "at_block ?t2 ?r (Some ?sg # map Some ?qs0 @ ?rest)"
      by (intro at_block_push_old at_block_push_new)
    show "cstr (Obj (Suc (Suc ?r)) 0) ?t2 = ok b ?t2"
      using cstr_push_str [OF digits_no_NUL [OF canonical_digits [OF cb]], of ?t1 ?sl2] r2 by simp
    show "digits ?qs0" by (simp add: digits_def list_all_length is_digit_dig)
    show "dval [x] = 10 * (dval (take (1 - 1) a) mod dval b) + dig (a ! (1 - 1))"
      by (simp add: ax)
    show "\<forall>j. 1 - 1 \<le> j \<and> j < ?n \<longrightarrow> ?qs0 ! j = CHR ''0''" by simp
  qed (use canonical_digits [OF ca] canonical_digits [OF cb] canonical_nonempty [OF cb] hdb hda ax
      clean in \<open>auto simp: off_block_def\<close>)
  then obtain qs ls where run: "div_loop (Obj ?r 0) (Obj (Suc ?r) 0)
        (Obj (Suc (Suc ?r)) 0) ?n (length b) 0 1 ?t2
      = ok () (set_block (Suc ?r) ls (set_block ?r (Some ?sg # map Some qs @ ?rest) ?t2))"
    and qs: "digits qs" "length qs = ?n" "dval qs = dval a div dval b"
    by auto
  let ?t3 = "set_block (Suc ?r) ls (set_block ?r (Some ?sg # map Some qs @ ?rest) ?t2)"
  let ?X = "Live (Some ?sg # map Some qs @ ?rest)" and ?Y = "Live (map Some b @ Some NUL # ?sl2)"
  let ?t4 = "s\<lparr>blocks := blocks s @ [?X, Freed, ?Y]\<rparr>"
  have t3: "?t3 = s\<lparr>blocks := blocks s @ [?X, Live ls, ?Y]\<rparr>"
    by (simp only: set_block_def push_block_def) (simp add: list_update_append)
  have fr1: "free (Obj (Suc ?r) 0) ?t3 = ok () ?t4"
    unfolding t3 by (rule free_second)
  have fr2: "free (Obj (Suc (Suc ?r)) 0) ?t4 = ok () (s\<lparr>blocks := blocks s @ [?X, Freed, Freed]\<rparr>)"
    by (rule free_third)
  have "number_block (Some ?sg # map Some qs @ ?rest) ?sg qs f0"
    using qs by (simp add: number_block_def)
  moreover have "DIV al p q sy1 sy2 s
      = ok (Obj ?r 0) (s\<lparr>blocks := blocks s @ [Live (Some ?sg # map Some qs @ ?rest), Freed, Freed]\<rparr>)"
    using assms(6)
    by (simp only: DIV_def bind_def DIV_prefix [OF a b ca cb assms(5)] Let_def m0 fz sgn m1 c1 m2 c2
        run fr1 fr2 not_le [symmetric] simp_thms if_True if_False return_ok
        option.case sum.case prod.case)
  ultimately show ?thesis using f(1) qs by blast
qed

end

end
