(* ===== verification/MathCgi.thy ===== *)
theory MathCgi
  imports MathDiv
begin

text \<open>
  The calculator \<open>cgi_bin/math_cgi.c\<close> as a whole: the operands are cut out of the query in place
  (\<open>ExtractData\<close>), the result is brought into the form it is printed in (\<open>AdjustmentData\<close>),
  \<open>handle_data\<close> splits the query and picks the operation, \<open>echo_result\<close> writes the page, and
  \<open>main\<close> finds the query in the environment or on standard input.
\<close>

section \<open>Cutting out an operand\<close>

partial_function (option) skip_zeros :: "ptr \<Rightarrow> cstate \<Rightarrow> (cerr + ptr \<times> cstate) option" where
  "skip_zeros p s =
     bind (load p) (\<lambda>c s. if c = CHR ''0'' then skip_zeros (padd p 1) s else ok p s) s"

text \<open>The scan that ends the number at its first character that is no digit.\<close>

partial_function (option) cut_number :: "ptr \<Rightarrow> cstate \<Rightarrow> (cerr + unit \<times> cstate) option" where
  "cut_number p s =
     bind (load p) (\<lambda>c s.
       if c = NUL then ok () s
       else if cint c < 48 \<or> 57 < cint c then store p NUL s
       else cut_number (padd p 1) s) s"

declare skip_zeros.simps [code] cut_number.simps [code]

text \<open>\<open>sybom\<close> is passed by reference in the source; here its last value is returned.\<close>

definition ExtractData :: "ptr \<Rightarrow> char \<Rightarrow> (cstate, ptr \<times> char) c" where
  "ExtractData data sybom =
     bind (if sybom = CHR ''+'' \<or> sybom = CHR ''-'' then return (padd data 1, sybom)
           else bind (load data) (\<lambda>c.
             if 48 \<le> cint c \<and> cint c \<le> 57 then return (data, CHR ''+'')
             else return (Lit ''0'' 0, sybom))) (\<lambda>(data, sybom).
     bind (skip_zeros data) (\<lambda>data.
     bind (cut_number data) (\<lambda>_.
     bind (load data) (\<lambda>c.
     if c = NUL then return (Lit ''0'' 0, sybom) else return (data, sybom)))))"

definition AdjustmentData :: "ptr \<Rightarrow> (cstate, ptr) c" where
  "AdjustmentData data =
     bind (load data) (\<lambda>sybom.
     bind (skip_zeros (if sybom = CHR ''-'' \<or> sybom = CHR ''+'' then padd data 1 else data)) (\<lambda>data.
     bind (load data) (\<lambda>c.
     if c = NUL then return (Lit ''0'' 0)
     else if sybom = CHR ''-'' then
       bind (store (padd data (- 1)) (CHR ''-'')) (\<lambda>_. return (padd data (- 1)))
     else return data)))"

section \<open>The page\<close>

text \<open>The sentence, in UTF-8, that the page holds when the divisor is zero.\<close>

definition divisor_message :: string where
  "divisor_message = ''ERROR: '' @
     [CHR 0xE9, CHR 0x99, CHR 0xA4, CHR 0xE6, CHR 0x95, CHR 0xB0, CHR 0xE4, CHR 0xB8, CHR 0x8D,
      CHR 0xE8, CHR 0x83, CHR 0xBD, CHR 0xE4, CHR 0xB8, CHR 0xBA] @
     ''0'' @ [CHR 0xEF, CHR 0xBC, CHR 0x81]"

definition page_head :: string where
  "page_head = ''HTTP/1.1 200 OK'' @ [CR, LF, CR, LF] @ ''<html>'' @ [LF] @ ''<head>'' @ [LF]
     @ [CHR 0x09] @ ''<h1>Calculation result:</h1>'' @ [LF] @ ''</head>'' @ [LF] @ ''<body>'' @ [LF]"

definition page_foot :: string where
  "page_foot = ''</body>'' @ [LF] @ ''</html>'' @ [LF]"

definition echo_result :: "ptr \<Rightarrow> ptr \<Rightarrow> ptr \<Rightarrow> ptr \<Rightarrow> (cstate, unit) c" where
  "echo_result data1 data2 opr res =
     bind (put page_head) (\<lambda>_.
     bind (strcmp opr (Lit ''/'' 0)) (\<lambda>r1.
     bind (if r1 = 0 then strcmp data2 (Lit ''0'' 0) else return 1) (\<lambda>r2.
     bind (if r1 = 0 \<and> r2 = 0 then put ([CHR 0x09] @ ''<p>'' @ divisor_message @ ''</p>'')
           else
             bind (put ([CHR 0x09] @ ''<p> '')) (\<lambda>_.
             bind (put_cstr data1) (\<lambda>_.
             bind (put '' '') (\<lambda>_.
             bind (put_cstr opr) (\<lambda>_.
             bind (put '' '') (\<lambda>_.
             bind (put_cstr data2) (\<lambda>_.
             bind (put '' = '') (\<lambda>_.
             bind (put_cstr res) (\<lambda>_.
             put '' </p>''))))))))) (\<lambda>_.
     put page_foot))))"

section \<open>The request\<close>

text \<open>
  The loop that ends every parameter at its \<open>&\<close> and collects what follows each \<open>=\<close> in the array
  \<open>val\<close> of three pointers, which are indeterminate until they are assigned. \<open>k\<close> is the distance
  of \<open>tmp\<close>, and \<open>n\<close> that of \<open>tail\<close>, from the start of the query.
\<close>

function split_query :: "ptr \<Rightarrow> nat \<Rightarrow> nat \<Rightarrow> ptr option list \<Rightarrow> nat \<Rightarrow> (cstate, ptr option list) c" where
  "split_query q k n val index =
     (if k < n then
        bind (load (padd q (int k))) (\<lambda>c.
        if c = CHR ''='' then
          (if index < length val then
             split_query q (k + 1) n (val[index := Some (padd q (int (k + 1)))]) (index + 1)
           else undefined_behaviour OutOfBounds)
        else
          bind (if c = CHR ''&'' then store (padd q (int k)) NUL else return ()) (\<lambda>_.
          split_query q (k + 1) n val index))
      else return val)"
  by pat_completeness auto
termination
  by (relation "measure (\<lambda>(q, k, n, val, index). n - k)") auto

declare split_query.simps [simp del]

definition pointer_value :: "ptr option \<Rightarrow> (cstate, ptr) c" where
  "pointer_value v = (case v of None \<Rightarrow> undefined_behaviour Uninit | Some p \<Rightarrow> return p)"

text \<open>
  The \<open>switch\<close> on the first character of \<open>op\<close>: the result object and the text \<open>op\<close> is set to.
\<close>

definition calculate ::
  "alloc \<Rightarrow> ptr \<Rightarrow> ptr \<Rightarrow> char \<Rightarrow> char \<Rightarrow> ptr \<Rightarrow> char \<Rightarrow> (cstate, ptr \<times> ptr) c" where
  "calculate al data1 data2 sybom1 sybom2 opr c =
     (if c = CHR ''a'' then
        bind (if sybom1 = sybom2 then ADD al data1 data2 sybom1 sybom2
              else SUB al data1 data2 sybom1 sybom2) (\<lambda>res. return (res, Lit ''+'' 0))
      else if c = CHR ''s'' then
        bind (if sybom1 = sybom2 then SUB al data1 data2 sybom1 sybom2
              else ADD al data1 data2 sybom1 sybom2) (\<lambda>res. return (res, Lit ''-'' 0))
      else if c = CHR ''m'' then
        bind (MUL al data1 data2 sybom1 sybom2) (\<lambda>res. return (res, Lit ''*'' 0))
      else if c = CHR ''d'' then
        bind (DIV al data1 data2 sybom1 sybom2) (\<lambda>res. return (res, Lit ''/'' 0))
      else return (NULL, opr))"

text \<open>
  \<open>answer_query\<close> is \<open>handle_data\<close> from where the operands are taken up to its end; \<open>opr\<close>, \<open>val1\<close>
  and \<open>val0\<close> are the pointers \<open>op\<close>, \<open>val[1]\<close> and \<open>val[0]\<close>. The arguments of the call of
  \<open>echo_result\<close> are evaluated from left to right here; C leaves the order open, and the three
  calls touch different bytes.
\<close>

definition answer_query :: "alloc \<Rightarrow> ptr \<Rightarrow> ptr \<Rightarrow> ptr \<Rightarrow> (cstate, unit) c" where
  "answer_query al opr val1 val0 =
     bind (load val0) (\<lambda>sybom1.
     bind (ExtractData val0 sybom1) (\<lambda>(data1, sybom1).
     bind (load val1) (\<lambda>sybom2.
     bind (ExtractData val1 sybom2) (\<lambda>(data2, sybom2).
     bind (load opr) (\<lambda>c.
     bind (calculate al data1 data2 sybom1 sybom2 opr c) (\<lambda>(res, opr).
     bind (AdjustmentData val0) (\<lambda>shown1.
     bind (AdjustmentData val1) (\<lambda>shown2.
     bind (AdjustmentData res) (\<lambda>shown.
     bind (echo_result shown1 shown2 opr shown) (\<lambda>_.
     if res \<noteq> NULL then free res else return ()))))))))))"

definition handle_data :: "alloc \<Rightarrow> ptr \<Rightarrow> (cstate, unit) c" where
  "handle_data al query_string =
     bind (strcmp query_string (Lit '''' 0)) (\<lambda>r.
     if r = 0 then return ()
     else
       bind (strlen query_string) (\<lambda>n.
       bind (split_query query_string 0 (n - 1) [None, None, None] 0) (\<lambda>val.
       bind (pointer_value (val ! 1)) (\<lambda>opr.
       bind (pointer_value (val ! 2)) (\<lambda>val1.
       bind (pointer_value (val ! 0)) (\<lambda>val0.
       answer_query al opr val1 val0))))))"

section \<open>The program\<close>

text \<open>
  The loop \<open>while(len)\<close> of the POST branch. It counts \<open>len\<close> down to zero, through all negative
  numbers when \<open>len\<close> is negative; the address of \<open>buf[index]\<close> is defined up to one past the end.
\<close>

function read_body :: "ptr \<Rightarrow> int \<Rightarrow> nat \<Rightarrow> (cstate, unit) c" where
  "read_body buf len index =
     (if len = 0 then return ()
      else if 1024 < index then undefined_behaviour OutOfBounds
      else bind (read_byte (padd buf (int index))) (\<lambda>_. read_body buf (len - 1) (index + 1)))"
  by pat_completeness auto
termination
  by (relation "measure (\<lambda>(buf, len, index). 1025 - index)") auto

declare read_body.simps [simp del]

text \<open>The local array \<open>buf\<close>, cleared by \<open>memset\<close>, is an object of its own.\<close>

definition main_math :: "alloc \<Rightarrow> (cstate, int) c" where
  "main_math al =
     bind (malloc (\<lambda>k n. Some (replicate n (Some NUL))) 1024) (\<lambda>buf.
     bind (getenv ''METHOD'') (\<lambda>m.
     bind (pointer_value m) (\<lambda>meth.
     bind (cstr meth) (\<lambda>mt.
     bind (if strcasecmp_eq mt ''GET'' then
             bind (getenv ''QUERY_STRING'') (\<lambda>v.
             return (Some (case v of Some p \<Rightarrow> p | None \<Rightarrow> Lit '''' 0)))
           else if strcasecmp_eq mt ''POST'' then
             bind (getenv ''CONTENT_LENGTH'') (\<lambda>v.
             case v of
               None \<Rightarrow> return None
             | Some p \<Rightarrow>
                 bind (cstr p) (\<lambda>t.
                 bind (read_body buf (atoi t) 0) (\<lambda>_. return (Some buf))))
           else return None) (\<lambda>query_string.
     bind (pointer_value query_string) (\<lambda>q.
     bind (handle_data al q) (\<lambda>_.
     return 0)))))))"

section \<open>Operands and their values\<close>

text \<open>
  An operand is an optional sign and digits, with at least one digit where there is no sign. What
  follows the digits, up to the end of the parameter, is cut off.
\<close>

definition operand :: "string \<Rightarrow> string \<Rightarrow> bool" where
  "operand sg ds \<longleftrightarrow>
     digits ds \<and> (sg = [] \<and> ds \<noteq> [] \<or> sg = ''+'' \<or> sg = ''-'')"

definition sign_of :: "string \<Rightarrow> char" where
  "sign_of sg = (if sg = ''-'' then CHR ''-'' else CHR ''+'')"

definition signed_value :: "char \<Rightarrow> int \<Rightarrow> int" where
  "signed_value sy v = (if sy = CHR ''-'' then - v else v)"

definition operand_value :: "string \<Rightarrow> string \<Rightarrow> int" where
  "operand_value sg ds = signed_value (sign_of sg) (dval ds)"

text \<open>The digits without the zeros in front, or the digit zero.\<close>

definition numeral_of :: "string \<Rightarrow> string" where
  "numeral_of ds =
     (let d = dropWhile (\<lambda>c. c = CHR ''0'') ds in if d = [] then ''0'' else d)"

lemma digits_dropWhile [simp]: "digits ds \<Longrightarrow> digits (dropWhile P ds)"
  by (metis digits_simps(3) takeWhile_dropWhile_id)

lemma canonical_numeral_of: "digits ds \<Longrightarrow> canonical (numeral_of ds)"
proof -
  assume d: "digits ds"
  have "digits (dropWhile (\<lambda>c. c = CHR ''0'') ds)"
    using d by (metis digits_simps(3) takeWhile_dropWhile_id)
  then show ?thesis
    using hd_dropWhile [of "\<lambda>c. c = CHR ''0''" ds]
    by (auto simp: canonical_def numeral_of_def Let_def is_digit_def)
qed

lemma dval_numeral_of [simp]: "dval (numeral_of ds) = dval ds"
proof (cases "dropWhile (\<lambda>c. c = CHR ''0'') ds = []")
  case True
  then show ?thesis
    by (metis dval.simps(1) dval_strip_zeros dval_zero numeral_of_def)
next
  case False
  then show ?thesis using dval_strip_zeros [of ds] by (auto simp: numeral_of_def Let_def)
qed

lemma numeral_of_show: "digits ds \<Longrightarrow> numeral_of ds = show_nat (nat (dval ds))"
  using canonical_show_nat [OF canonical_numeral_of, of ds] by simp

lemma numeral_of_zero: "digits ds \<Longrightarrow> numeral_of ds = ''0'' \<longleftrightarrow> dval ds = 0"
  using canonical_dval_0 [OF canonical_numeral_of, of ds] by simp

lemma NUL_numeral_of: "digits ds \<Longrightarrow> NUL \<notin> set (numeral_of ds)"
  using digits_no_NUL [OF canonical_digits [OF canonical_numeral_of]] by simp

section \<open>Bytes at a place in an object\<close>

lemma load_here:
  "at_block s b (pre @ Some c # post) \<Longrightarrow> load (Obj b (int (length pre))) s = ok c s"
  by (rule load_obj, assumption) simp_all

lemma store_here:
  "at_block s b (pre @ x # post) \<Longrightarrow>
   store (Obj b (int (length pre))) c s = ok () (set_block b (pre @ Some c # post) s)"
  by (simp add: store_obj)

lemma cstr_here:
  "at_block s b (pre @ map Some t @ Some NUL # post) \<Longrightarrow> NUL \<notin> set t \<Longrightarrow>
   cstr (Obj b (int (length pre))) s = ok t s"
  by (auto simp: cstr_obj_iff)

lemma load_first:
  "at_block s b (pre @ map Some t @ Some x # post) \<Longrightarrow>
   load (Obj b (int (length pre))) s = ok (hd (t @ [x])) s"
  using load_here [of s b pre] by (cases t) auto

lemma skip_zeros_correct:
  assumes "at_block s b (pre @ map Some ds @ Some x # post)" and "x \<noteq> CHR ''0''"
  shows "skip_zeros (Obj b (int (length pre))) s
    = ok (Obj b (int (length pre + (length ds - length (dropWhile (\<lambda>c. c = CHR ''0'') ds))))) s"
  using assms(1)
proof (induction ds arbitrary: pre)
  case Nil
  then show ?case
    using assms(2) load_here [of s b pre x post] by (subst skip_zeros.simps) simp
next
  case (Cons d ds)
  have ld: "load (Obj b (int (length pre))) s = ok d s"
    using Cons.prems by (intro load_here) simp
  have le: "length (dropWhile (\<lambda>c. c = CHR ''0'') ds) \<le> length ds" by (rule length_dropWhile_le)
  show ?case
  proof (cases "d = CHR ''0''")
    case True
    have "skip_zeros (Obj b (int (length (pre @ [Some d])))) s
      = ok (Obj b (int (length (pre @ [Some d])
              + (length ds - length (dropWhile (\<lambda>c. c = CHR ''0'') ds))))) s"
      using Cons.prems by (intro Cons.IH) simp
    with True ld le show ?thesis
      by (subst skip_zeros.simps) (simp add: bind_def Suc_diff_le add.commute)
  next
    case False
    with ld show ?thesis
      by (subst skip_zeros.simps) simp
  qed
qed

lemma cut_number_correct:
  assumes "at_block s b (pre @ map Some ds @ Some x # post)" and "digits ds" and "\<not> is_digit x"
  shows "cut_number (Obj b (int (length pre))) s
    = ok () (set_block b (pre @ map Some ds @ Some NUL # post) s)"
  using assms(1,2)
proof (induction ds arbitrary: pre)
  case Nil
  with assms(3) load_here [of s b pre x post] store_here [of s b pre "Some x" post NUL] show ?case
    by (subst cut_number.simps) (auto simp: is_digit_def)
next
  case (Cons d ds)
  have ld: "load (Obj b (int (length pre))) s = ok d s"
    using Cons.prems by (intro load_here) simp
  have "cut_number (Obj b (int (length (pre @ [Some d])))) s
    = ok () (set_block b ((pre @ [Some d]) @ map Some ds @ Some NUL # post) s)"
    using Cons.prems by (intro Cons.IH) simp_all
  moreover have "d \<noteq> NUL" "\<not> (cint d < 48 \<or> 57 < cint d)"
    using Cons.prems is_digit_not_NUL [of d] by (auto simp: is_digit_def)
  ultimately show ?case
    using ld by (subst cut_number.simps) (simp add: bind_def add.commute)
qed

lemma hd_digits_NUL: "digits t \<Longrightarrow> hd (t @ [NUL]) = NUL \<longleftrightarrow> t = []"
  by (cases t) (auto dest: is_digit_not_NUL)

text \<open>
  \<open>ExtractData\<close> on an operand: it returns a pointer to the canonical numeral, the sign that was
  written or plus, and has ended the operand at the first character \<open>x\<close> that is no digit.
\<close>

lemma skip_ds_lengths:
  "length ds = length (takeWhile P ds) + length (dropWhile P ds)"
  "map f ds = map f (takeWhile P ds) @ map f (dropWhile P ds)"
  by (metis length_append takeWhile_dropWhile_id, metis map_append takeWhile_dropWhile_id)

lemma ExtractData_correct:
  assumes at: "at_block s b (pre @ map Some (sg @ ds) @ Some x # post)"
    and op: "operand sg ds" and x: "\<not> is_digit x"
  shows "\<exists>p. ExtractData (Obj b (int (length pre))) (hd (sg @ ds)) s
        = ok (p, sign_of sg) (set_block b (pre @ map Some (sg @ ds) @ Some NUL # post) s)
      \<and> (p = Lit ''0'' 0 \<and> numeral_of ds = ''0''
         \<or> (\<exists>zs. p = Obj b (int (length (pre @ map Some (sg @ zs)))) \<and> ds = zs @ numeral_of ds))"
proof -
  let ?P = "\<lambda>c. c = CHR ''0''"
  let ?zs = "takeWhile ?P ds" and ?nd = "dropWhile ?P ds"
  let ?pre = "pre @ map Some sg" and ?pn = "pre @ map Some (sg @ ?zs)"
  let ?s = "set_block b (pre @ map Some (sg @ ds) @ Some NUL # post) s"
  have d: "digits ds" "digits ?nd" and sg: "sg = [] \<and> ds \<noteq> [] \<or> sg = ''+'' \<or> sg = ''-''"
    using op by (auto simp: operand_def)
  have split: "ds = ?zs @ ?nd" by simp
  have x0: "x \<noteq> CHR ''0''" using x by (auto simp: is_digit_def)
  have at1: "at_block s b (?pre @ map Some ds @ Some x # post)" using at by simp
  have at2: "at_block s b (?pn @ map Some ?nd @ Some x # post)"
    using at skip_ds_lengths(2) [of Some ds ?P] by simp
  have pn: "length ?pre + (length ds - length ?nd) = length ?pn"
    using skip_ds_lengths(1) [of ds ?P] by simp
  have sk: "skip_zeros (Obj b (int (length ?pre))) s = ok (Obj b (int (length ?pn))) s"
    using skip_zeros_correct [OF at1 x0] unfolding pn .
  have e: "?pn @ map Some ?nd @ Some NUL # post = pre @ map Some (sg @ ds) @ Some NUL # post"
    using skip_ds_lengths(2) [of Some ds ?P] by simp
  have ct: "cut_number (Obj b (int (length ?pn))) s = ok () ?s"
    using cut_number_correct [OF at2 d(2) x] unfolding e .
  have at3: "at_block ?s b (?pn @ map Some ?nd @ Some NUL # post)"
    unfolding e using at by (rule at_block_set_same)
  let ?y = "hd (?nd @ [NUL])"
  have ld: "load (Obj b (int (length ?pn))) ?s = ok ?y ?s"
    using at3 by (rule load_first)
  have first: "bind (if hd (sg @ ds) = CHR ''+'' \<or> hd (sg @ ds) = CHR ''-''
           then return (padd (Obj b (int (length pre))) 1, hd (sg @ ds))
           else bind (load (Obj b (int (length pre)))) (\<lambda>c.
             if 48 \<le> cint c \<and> cint c \<le> 57 then return (Obj b (int (length pre)), CHR ''+'')
             else return (Lit ''0'' 0, hd (sg @ ds)))) f s
      = f (Obj b (int (length ?pre)), sign_of sg) s" for f :: "_ \<Rightarrow> (cstate, ptr \<times> char) c"
  proof (cases "sg = []")
    case True
    with sg obtain c cs where c: "ds = c # cs" by (cases ds) auto
    then have l: "load (Obj b (int (length pre))) s = ok c s"
      using at True by (intro load_here) simp
    have "is_digit c" using d c by simp
    moreover from this have "c \<noteq> CHR ''+''" "c \<noteq> CHR ''-''"
      by (auto simp: is_digit_def cint_def)
    ultimately show ?thesis
      using l True c by (simp add: is_digit_def sign_of_def bind_def)
  next
    case False
    with sg show ?thesis by (auto simp: sign_of_def bind_def add.commute)
  qed
  have run: "ExtractData (Obj b (int (length pre))) (hd (sg @ ds)) s
      = ok (if ?y = NUL then Lit ''0'' 0 else Obj b (int (length ?pn)), sign_of sg) ?s"
    unfolding ExtractData_def first using sk ct ld by (simp add: bind_def)
  show ?thesis
  proof (cases "?nd = []")
    case True
    with run show ?thesis by (simp add: numeral_of_def)
  next
    case False
    then have "?y \<noteq> NUL" and "numeral_of ds = ?nd"
      using hd_digits_NUL [OF d(2)] by (simp, simp only: numeral_of_def Let_def if_False)
    with run split show ?thesis by auto
  qed
qed


text \<open>
  \<open>AdjustmentData\<close> drops the plus sign and the zeros in front, and moves the minus sign next to the
  first digit, so that what it returns is the decimal numeral of the value.
\<close>

lemma NUL_show_int [simp]: "NUL \<notin> set (show_int v)"
  using digits_no_NUL [OF digits_show_nat] by (simp add: show_int_def)

lemma show_int_operand:
  assumes "digits ds" and "dval ds \<noteq> 0"
  shows "show_int (operand_value sg ds)
    = (if sg = ''-'' then ''-'' else []) @ dropWhile (\<lambda>c. c = CHR ''0'') ds"
proof -
  have "0 < dval ds" using assms dval_nonneg [of ds] by simp
  then show ?thesis
    using strip_zeros_show [OF assms(1)] assms(2)
    by (simp add: show_int_def operand_value_def signed_value_def sign_of_def)
qed

lemma AdjustmentData_correct:
  assumes at: "at_block s b (pre @ map Some (sg @ ds) @ Some NUL # post)"
    and d: "digits ds" and sg: "sg = [] \<or> sg = ''+'' \<or> sg = ''-''"
  shows "\<exists>p w m. AdjustmentData (Obj b (int (length pre))) s
        = ok p (set_block b (pre @ w @ map Some m @ Some NUL # post) s)
      \<and> length w + length m = length (sg @ ds)
      \<and> (p = Obj b (int (length (pre @ w))) \<and> m = show_int (operand_value sg ds)
         \<or> p = Lit ''0'' 0 \<and> operand_value sg ds = 0)"
proof -
  let ?P = "\<lambda>c. c = CHR ''0''"
  let ?zs = "takeWhile ?P ds" and ?nd = "dropWhile ?P ds"
  let ?pre = "pre @ map Some sg" and ?pn = "pre @ map Some (sg @ ?zs)"
  let ?c = "hd (sg @ ds @ [NUL])"
  have c: "load (Obj b (int (length pre))) s = ok ?c s"
    using load_first [OF at] by simp
  have cm: "?c = CHR ''-'' \<longleftrightarrow> sg = ''-''" and cp: "?c = CHR ''+'' \<longleftrightarrow> sg = ''+''"
    using sg d by (cases ds; auto simp: is_digit_def cint_def)+
  have first: "(if ?c = CHR ''-'' \<or> ?c = CHR ''+'' then padd (Obj b (int (length pre))) 1
      else Obj b (int (length pre))) = Obj b (int (length ?pre))"
    using sg unfolding cm cp by (auto simp: add.commute)
  have at1: "at_block s b (?pre @ map Some ds @ Some NUL # post)" using at by simp
  have pn: "length ?pre + (length ds - length ?nd) = length ?pn"
    using skip_ds_lengths(1) [of ds ?P] by simp
  have sk: "skip_zeros (Obj b (int (length ?pre))) s = ok (Obj b (int (length ?pn))) s"
    using skip_zeros_correct [OF at1] unfolding pn by simp
  have at2: "at_block s b (?pn @ map Some ?nd @ Some NUL # post)"
    using at skip_ds_lengths(2) [of Some ds ?P] by simp
  let ?y = "hd (?nd @ [NUL])"
  have ld: "load (Obj b (int (length ?pn))) s = ok ?y s"
    using at2 by (rule load_first)
  have run: "AdjustmentData (Obj b (int (length pre))) s
      = (if ?y = NUL then return (Lit ''0'' 0)
         else if sg = ''-'' then
           bind (store (padd (Obj b (int (length ?pn))) (- 1)) (CHR ''-''))
             (\<lambda>_. return (padd (Obj b (int (length ?pn))) (- 1)))
         else return (Obj b (int (length ?pn)))) s"
    by (simp only: AdjustmentData_def bind_def c first [unfolded cm] sk ld cm option.case sum.case prod.case)
  show ?thesis
  proof (cases "?nd = []")
    case True
    then have "dval ds = 0" by (metis dval.simps(1) dval_strip_zeros)
    moreover have "?y = NUL" using hd_digits_NUL [OF digits_dropWhile [OF d], of ?P] True by blast
    with run have "AdjustmentData (Obj b (int (length pre))) s = ok (Lit ''0'' 0) s"
      by (simp only: simp_thms if_True return_ok)
    ultimately show ?thesis
      using at by (intro exI [of _ "Lit ''0'' 0"] exI [of _ "map Some (sg @ ds)"] exI [of _ "[]"])
        (simp add: operand_value_def signed_value_def)
  next
    case False
    then have y: "?y \<noteq> NUL"
      using hd_digits_NUL [OF digits_dropWhile [OF d], of ?P] by blast
    from False have nz: "dval ds \<noteq> 0"
      using strip_zeros_show [OF d] by auto
    note sh = show_int_operand [OF d nz, of sg]
    show ?thesis
    proof (cases "sg = ''-''")
      case True
      let ?w = "map Some (butlast (sg @ ?zs))"
      have w: "map Some (sg @ ?zs) = ?w @ [Some (last (sg @ ?zs))]"
        using True by (metis append_butlast_last_id append_is_Nil_conv list.discI list.simps(8,9) map_append)
      have at3: "at_block s b ((pre @ ?w) @ Some (last (sg @ ?zs)) # map Some ?nd @ Some NUL # post)"
        using at2 unfolding w by simp
      have p: "padd (Obj b (int (length ?pn))) (- 1) = Obj b (int (length (pre @ ?w)))"
        unfolding w by simp
      have st: "store (Obj b (int (length (pre @ ?w)))) (CHR ''-'') s
          = ok () (set_block b (pre @ ?w @ map Some (''-'' @ ?nd) @ Some NUL # post) s)"
        using store_here [OF at3] by simp
      have l: "length ?w + length (''-'' @ ?nd) = length (sg @ ds)"
        using True skip_ds_lengths(1) [of ds ?P] by simp
      show ?thesis
        using run y True st l sh unfolding p
        by (intro exI [of _ "Obj b (int (length (pre @ ?w)))"] exI [of _ ?w]
            exI [of _ "''-'' @ ?nd"]) (simp add: bind_def)
    next
      case False
      have e: "set_block b (pre @ map Some (sg @ ?zs) @ map Some ?nd @ Some NUL # post) s = s"
        using set_block_same [OF at2] by (simp only: append_assoc)
      show ?thesis
        using run y False sh e skip_ds_lengths(1) [of ds ?P]
        by (intro exI [of _ "Obj b (int (length ?pn))"] exI [of _ "map Some (sg @ ?zs)"]
            exI [of _ ?nd]) simp
    qed
  qed
qed


end
