(* ===== verification/MathPage.thy ===== *)
theory MathPage
  imports MathCgi
begin

text \<open>
  What the calculator prints: the query is split in place, the operation computes on the numerals,
  and the page shows both operands and the result in decimal. The theorems are about an allocator
  that leaves a zero byte behind every object (\<open>padded_allocator\<close>), which is what the source
  relies on; the last section states what happens under one that does not.
\<close>

section \<open>Splitting the query\<close>

definition plain :: "string \<Rightarrow> bool" where
  "plain t \<longleftrightarrow> CHR ''='' \<notin> set t \<and> CHR ''&'' \<notin> set t \<and> NUL \<notin> set t"

lemma plain_simps [simp]:
  "plain []"
  "plain (c # t) \<longleftrightarrow> c \<noteq> CHR ''='' \<and> c \<noteq> CHR ''&'' \<and> c \<noteq> NUL \<and> plain t"
  "plain (t @ u) \<longleftrightarrow> plain t \<and> plain u"
  by (auto simp: plain_def)

lemma split_query_plain:
  assumes "at_block s b (pre @ map Some u @ rest)" and "length pre = j + k"
    and "plain u" and "k + length u \<le> n"
  shows "split_query (Obj b (int j)) k n val i s = split_query (Obj b (int j)) (k + length u) n val i s"
  using assms
proof (induction u arbitrary: pre k)
  case (Cons c u)
  have ld: "load (padd (Obj b (int j)) (int k)) s = ok c s"
    using load_here [of s b pre c "map Some u @ rest"] Cons.prems(1,2) by simp
  have "split_query (Obj b (int j)) (k + 1) n val i s
      = split_query (Obj b (int j)) (k + 1 + length u) n val i s"
    using Cons.prems by (intro Cons.IH [where pre = "pre @ [Some c]"]) simp_all
  with ld Cons.prems show ?case
    by (subst split_query.simps) (simp add: bind_def)
qed simp

lemma split_query_eq:
  assumes "at_block s b (pre @ Some (CHR ''='') # rest)" and "length pre = j + k"
    and "k < n" and "i < length val"
  shows "split_query (Obj b (int j)) k n val i s
    = split_query (Obj b (int j)) (k + 1) n (val[i := Some (Obj b (int (length pre + 1)))]) (i + 1) s"
  using assms load_here [OF assms(1)]
  by (subst split_query.simps) (simp add: bind_def add.left_commute)

lemma split_query_amp:
  assumes "at_block s b (pre @ Some (CHR ''&'') # rest)" and "length pre = j + k" and "k < n"
  shows "split_query (Obj b (int j)) k n val i s
    = split_query (Obj b (int j)) (k + 1) n val i (set_block b (pre @ Some NUL # rest) s)"
  using assms load_here [OF assms(1)] store_here [OF assms(1), of NUL]
  by (subst split_query.simps) (simp add: bind_def)

lemma split_query_end: "\<not> k < n \<Longrightarrow> split_query q k n val i s = ok val s"
  by (subst split_query.simps) simp

text \<open>One parameter: its name, the equals sign, its text and the ampersand.\<close>

lemma split_query_parameter:
  assumes "at_block s b (pre @ map Some (nm @ ''='' @ t @ ''&'') @ rest)" and "length pre = j + k"
    and "plain nm" and "plain t" and "k + length nm + length t + 2 \<le> n" and "i < length val"
  shows "split_query (Obj b (int j)) k n val i s
    = split_query (Obj b (int j)) (k + length nm + length t + 2) n
        (val[i := Some (Obj b (int (length pre + length nm + 1)))]) (i + 1)
        (set_block b (pre @ map Some (nm @ ''='' @ t) @ Some NUL # rest) s)"
proof -
  let ?q = "Obj b (int j)"
  have "split_query ?q k n val i s = split_query ?q (k + length nm) n val i s"
    using assms by (intro split_query_plain [where pre = pre and rest = "map Some (''='' @ t @ ''&'') @ rest"])
      simp_all
  also have "\<dots> = split_query ?q (k + length nm + 1) n
      (val[i := Some (Obj b (int (length (pre @ map Some nm) + 1)))]) (i + 1) s"
    using assms by (intro split_query_eq [where rest = "map Some (t @ ''&'') @ rest"]) simp_all
  also have "\<dots> = split_query ?q (k + length nm + 1 + length t) n
      (val[i := Some (Obj b (int (length (pre @ map Some nm) + 1)))]) (i + 1) s"
    using assms by (intro split_query_plain [where pre = "pre @ map Some (nm @ ''='')"
          and rest = "map Some (''&'') @ rest"]) simp_all
  also have "\<dots> = split_query ?q (k + length nm + 1 + length t + 1) n
      (val[i := Some (Obj b (int (length (pre @ map Some nm) + 1)))]) (i + 1)
      (set_block b ((pre @ map Some (nm @ ''='' @ t)) @ Some NUL # rest) s)"
    using assms by (intro split_query_amp) simp_all
  finally show ?thesis by (simp add: add.assoc)
qed

text \<open>The three parameters of the calculator's form.\<close>

lemma split_query_three:
  assumes at: "at_block s b (pre @ map Some (n1 @ ''='' @ t1 @ ''&'' @ n2 @ ''='' @ t2 @ ''&''
      @ n3 @ ''='' @ t3) @ Some NUL # post)"
    and pl: "plain n1" "plain t1" "plain n2" "plain t2" "plain n3" "plain t3" and ne: "t3 \<noteq> []"
  shows "split_query (Obj b (int (length pre))) 0
      (length (n1 @ ''='' @ t1 @ ''&'' @ n2 @ ''='' @ t2 @ ''&'' @ n3 @ ''='' @ t3) - 1)
      [None, None, None] 0 s
    = ok [Some (Obj b (int (length (pre @ map Some (n1 @ ''=''))))),
          Some (Obj b (int (length (pre @ map Some (n1 @ ''='' @ t1) @ Some NUL # map Some (n2 @ ''=''))))),
          Some (Obj b (int (length (pre @ map Some (n1 @ ''='' @ t1) @ Some NUL
                 # map Some (n2 @ ''='' @ t2) @ Some NUL # map Some (n3 @ ''='')))))]
        (set_block b (pre @ map Some (n1 @ ''='' @ t1) @ Some NUL # map Some (n2 @ ''='' @ t2)
          @ Some NUL # map Some (n3 @ ''='' @ t3) @ Some NUL # post) s)"
proof -
  let ?q = "Obj b (int (length pre))"
  let ?n = "length (n1 @ ''='' @ t1 @ ''&'' @ n2 @ ''='' @ t2 @ ''&'' @ n3 @ ''='' @ t3) - 1"
  let ?r3 = "map Some (n3 @ ''='' @ t3) @ Some NUL # post"
  let ?r2 = "map Some (n2 @ ''='' @ t2 @ ''&'') @ ?r3"
  let ?pre2 = "pre @ map Some (n1 @ ''='' @ t1) @ [Some NUL]"
  let ?pre3 = "?pre2 @ map Some (n2 @ ''='' @ t2) @ [Some NUL]"
  let ?k1 = "length n1 + length t1 + 2" and ?k2 = "length n1 + length t1 + 2 + length n2 + length t2 + 2"
  let ?v1 = "Some (Obj b (int (length pre + length n1 + 1)))"
    and ?v2 = "Some (Obj b (int (length ?pre2 + length n2 + 1)))"
    and ?v3 = "Some (Obj b (int (length (?pre3 @ map Some n3) + 1)))"
  let ?s1 = "set_block b (pre @ map Some (n1 @ ''='' @ t1) @ Some NUL # ?r2) s"
  let ?s2 = "set_block b (?pre2 @ map Some (n2 @ ''='' @ t2) @ Some NUL # ?r3) ?s1"
  obtain u c where t3: "t3 = u @ [c]" using ne by (cases t3 rule: rev_cases) auto
  have "split_query ?q 0 ?n [None, None, None] 0 s
      = split_query ?q (0 + length n1 + length t1 + 2) ?n ([None, None, None][0 := ?v1]) (0 + 1) ?s1"
    using at pl ne by (intro split_query_parameter) (auto simp: Suc_le_eq)
  also have "\<dots> = split_query ?q ?k1 ?n [?v1, None, None] 1 ?s1" by simp
  also have "\<dots> = split_query ?q (?k1 + length n2 + length t2 + 2) ?n
      ([?v1, None, None][1 := ?v2]) (1 + 1) ?s2"
    using at pl ne by (intro split_query_parameter) (auto simp: Suc_le_eq)
  also have "\<dots> = split_query ?q ?k2 ?n [?v1, ?v2, None] 2 ?s2" by (simp add: numeral_2_eq_2)
  also have "\<dots> = split_query ?q (?k2 + length n3) ?n [?v1, ?v2, None] 2 ?s2"
    using at pl ne by (intro split_query_plain [where pre = ?pre3
          and rest = "map Some (''='' @ t3) @ Some NUL # post"]) auto
  also have "\<dots> = split_query ?q (?k2 + length n3 + 1) ?n ([?v1, ?v2, None][2 := ?v3]) (2 + 1) ?s2"
    using at pl ne by (intro split_query_eq [where rest = "map Some t3 @ Some NUL # post"]) auto
  also have "\<dots> = split_query ?q (?k2 + length n3 + 1 + length u) ?n
      ([?v1, ?v2, None][2 := ?v3]) (2 + 1) ?s2"
    using at pl t3 by (intro split_query_plain [where pre = "?pre3 @ map Some (n3 @ ''='')"
          and rest = "Some c # Some NUL # post"]) auto
  also have "\<dots> = ok ([?v1, ?v2, None][2 := ?v3]) ?s2"
    using t3 by (intro split_query_end) simp
  finally show ?thesis by (simp add: add.assoc)
qed

section \<open>Printing\<close>

lemma at_block_put [c_frame]: "at_block (s\<lparr>stdout := x\<rparr>) b bs \<longleftrightarrow> at_block s b bs"
  by (simp add: at_block_def)

lemma cstr_put [c_frame]:
  "cstr p s = ok t s \<Longrightarrow> cstr p (s\<lparr>stdout := x\<rparr>) = ok t (s\<lparr>stdout := x\<rparr>)"
  by (cases p) (auto simp: cstr_obj_iff c_frame split: if_splits)

lemma put_cstr_ok [c_run]:
  "cstr p s = ok t s \<Longrightarrow> put_cstr p (s\<lparr>stdout := x\<rparr>) = ok () (s\<lparr>stdout := x @ t\<rparr>)"
  by (simp add: put_cstr_def put_def bind_def cstr_put)

definition result_page :: "string \<Rightarrow> string \<Rightarrow> string \<Rightarrow> string \<Rightarrow> string" where
  "result_page d1 opr d2 r =
     page_head @
     (if opr = ''/'' \<and> d2 = ''0'' then [CHR 0x09] @ ''<p>'' @ divisor_message @ ''</p>''
      else [CHR 0x09] @ ''<p> '' @ d1 @ '' '' @ opr @ '' '' @ d2 @ '' = '' @ r @ '' </p>'')
     @ page_foot"

lemma echo_result_ok:
  assumes "cstr p1 s = ok d1 s" and "cstr p2 s = ok d2 s" and "cstr po s = ok opr s"
    and "cstr pr s = ok r s"
  shows "echo_result p1 p2 po pr s = ok () (s\<lparr>stdout := stdout s @ result_page d1 opr d2 r\<rparr>)"
proof -
  have lit: "cstr (Lit ''/'' 0) s' = ok ''/'' s'" "cstr (Lit ''0'' 0) s' = ok ''0'' s'" for s' :: cstate
    by simp_all
  have nul: "NUL \<notin> set opr" "NUL \<notin> set d2" using assms by (auto dest: cstr_no_nul)
  have c1: "strcmp po (Lit ''/'' 0) (s\<lparr>stdout := x\<rparr>) = ok (cmp_str opr ''/'') (s\<lparr>stdout := x\<rparr>)" for x
    using cstr_put [OF assms(3)] lit by (intro strcmp_ok)
  have c2: "strcmp p2 (Lit ''0'' 0) (s\<lparr>stdout := x\<rparr>) = ok (cmp_str d2 ''0'') (s\<lparr>stdout := x\<rparr>)" for x
    using cstr_put [OF assms(2)] lit by (intro strcmp_ok)
  have z: "cmp_str opr ''/'' = 0 \<longleftrightarrow> opr = ''/''" "cmp_str d2 ''0'' = 0 \<longleftrightarrow> d2 = ''0''"
    using nul by (simp_all add: cmp_str_eq_0)
  have pt: "put t (s\<lparr>stdout := x\<rparr>) = ok () (s\<lparr>stdout := x @ t\<rparr>)" "put t s = ok () (s\<lparr>stdout := stdout s @ t\<rparr>)"
    for t x by (simp_all add: put_def)
  note ps = put_cstr_ok [OF assms(1)] put_cstr_ok [OF assms(2)] put_cstr_ok [OF assms(3)]
    put_cstr_ok [OF assms(4)]
  show ?thesis
    by (cases "opr = ''/''"; cases "d2 = ''0''")
      (simp_all add: echo_result_def bind_def pt c1 c2 z ps result_page_def)
qed

section \<open>What the operations compute\<close>

text \<open>
  The result as the source forms it, from the two signs and the two magnitudes.
\<close>

definition computed :: "char \<Rightarrow> char \<Rightarrow> char \<Rightarrow> int \<Rightarrow> int \<Rightarrow> int" where
  "computed c sy1 sy2 m1 m2 =
     (let plus = signed_value sy1 (m1 + m2);
          minus = signed_value (if m1 < m2 then sy2 else sy1) \<bar>m1 - m2\<bar>;
          sg = (if sy1 = sy2 then CHR ''+'' else CHR ''-'')
      in if c = CHR ''a'' then (if sy1 = sy2 then plus else minus)
         else if c = CHR ''s'' then (if sy1 = sy2 then minus else plus)
         else if c = CHR ''m'' then signed_value sg (m1 * m2)
         else signed_value sg (m1 div m2))"

definition operator_text :: "char \<Rightarrow> string" where
  "operator_text c =
     (if c = CHR ''a'' then ''+'' else if c = CHR ''s'' then ''-''
      else if c = CHR ''m'' then ''*'' else ''/'')"

definition sign_char :: "char \<Rightarrow> bool" where
  "sign_char sy \<longleftrightarrow> sy = CHR ''+'' \<or> sy = CHR ''-''"

text \<open>The state in which the result object has been added, and what \<open>DIV\<close> has freed again.\<close>

definition add_blocks :: "char option list \<Rightarrow> block list \<Rightarrow> cstate \<Rightarrow> cstate" where
  "add_blocks bs extra s = s\<lparr>blocks := blocks s @ Live bs # extra\<rparr>"

lemma add_blocks_push: "push_block bs s = add_blocks bs [] s"
  by (simp add: push_block_def add_blocks_def)

lemma at_block_add_new [simp]: "at_block (add_blocks bs e s) (length (blocks s)) bs"
  by (simp add: at_block_def add_blocks_def)

lemma at_block_add_old [c_frame]: "at_block s b bs \<Longrightarrow> at_block (add_blocks x e s) b bs"
  by (simp add: at_block_def add_blocks_def nth_append)

lemma add_blocks_stdout [simp]: "stdout (add_blocks bs e s) = stdout s"
  by (simp add: add_blocks_def)

lemma sval_of_sign: "sign_char sy \<Longrightarrow> operand_value [sy] ds = signed_value sy (dval ds)"
  by (auto simp: sign_char_def operand_value_def sign_of_def)

context padded_allocator
begin

lemma padded_number:
  assumes "al k (Suc (length ds)) = Some fresh" and "number_block bs sy ds fresh"
  shows "\<exists>post. bs = map Some ([sy] @ ds) @ Some NUL # post"
  using assms pad [OF assms(1)] Cons_nth_drop_Suc [of "Suc (length ds)" fresh]
  by (intro exI [of _ "drop (Suc (Suc (length ds))) fresh"]) (simp add: number_block_def)

lemma padded_zero:
  assumes "al k 1 = Some fresh"
  shows "\<exists>post. fresh[0 := Some (CHR ''0'')] = map Some ([] @ ''0'') @ Some NUL # post"
  using pad [OF assms] by (cases fresh; cases "tl fresh") auto

lemma ADD_digits:
  assumes "cstr p s = ok a s" and "cstr q s = ok b s" and "canonical a" and "canonical b"
    and "sign_char sy1"
  shows "\<exists>sg ds post extra.
      ADD al p q sy1 sy2 s
        = ok (Obj (length (blocks s)) 0) (add_blocks (map Some (sg @ ds) @ Some NUL # post) extra s)
      \<and> (sg = [] \<or> sg = ''+'' \<or> sg = ''-'') \<and> digits ds
      \<and> operand_value sg ds = signed_value sy1 (dval a + dval b)"
proof -
  obtain bs ds fresh where r: "ADD al p q sy1 sy2 s = ok (Obj (length (blocks s)) 0) (push_block bs s)"
      "al (length (blocks s)) (max (length a) (length b) + 2) = Some fresh"
      "number_block bs sy1 ds fresh" "length ds = max (length a) (length b) + 1"
      "dval ds = dval a + dval b"
    using ADD_correct [OF assms(1,2) canonical_digits [OF assms(3)] canonical_digits [OF assms(4)]]
    by blast
  then obtain post where "bs = map Some ([sy1] @ ds) @ Some NUL # post"
    using padded_number [of "length (blocks s)" ds fresh bs sy1] by auto
  with r assms(5) show ?thesis
    by (intro exI [of _ "[sy1]"] exI [of _ ds] exI [of _ post] exI [of _ "[]"])
      (auto simp: add_blocks_push sval_of_sign number_block_def sign_char_def)
qed

lemma SUB_digits:
  assumes "cstr p s = ok a s" and "cstr q s = ok b s" and "canonical a" and "canonical b"
    and "sign_char sy1" and "sign_char sy2"
  shows "\<exists>sg ds post extra.
      SUB al p q sy1 sy2 s
        = ok (Obj (length (blocks s)) 0) (add_blocks (map Some (sg @ ds) @ Some NUL # post) extra s)
      \<and> (sg = [] \<or> sg = ''+'' \<or> sg = ''-'') \<and> digits ds
      \<and> operand_value sg ds
          = signed_value (if dval a < dval b then sy2 else sy1) \<bar>dval a - dval b\<bar>"
proof -
  let ?sy = "if dval a < dval b then sy2 else sy1"
  obtain bs ds fresh where r: "SUB al p q sy1 sy2 s = ok (Obj (length (blocks s)) 0) (push_block bs s)"
      "al (length (blocks s)) (max (length a) (length b) + 1) = Some fresh"
      "number_block bs ?sy ds fresh" "length ds = max (length a) (length b)"
      "dval ds = \<bar>dval a - dval b\<bar>"
    using SUB_correct [OF assms(1-4)] by blast
  then obtain post where "bs = map Some ([?sy] @ ds) @ Some NUL # post"
    using padded_number [of "length (blocks s)" ds fresh bs ?sy] by auto
  with r assms(5,6) show ?thesis
    by (intro exI [of _ "[?sy]"] exI [of _ ds] exI [of _ post] exI [of _ "[]"])
      (auto simp: add_blocks_push sval_of_sign number_block_def sign_char_def)
qed

lemma zero_result:
  assumes "al (length (blocks s)) 1 = Some fresh"
  shows "\<exists>sg ds post extra.
      push_block (fresh[0 := Some (CHR ''0'')]) s = add_blocks (map Some (sg @ ds) @ Some NUL # post) extra s
      \<and> (sg = [] \<or> sg = ''+'' \<or> sg = ''-'') \<and> digits ds \<and> operand_value sg ds = 0"
proof -
  obtain post where "fresh[0 := Some (CHR ''0'')] = map Some ([] @ ''0'') @ Some NUL # post"
    using padded_zero [OF assms] by blast
  then show ?thesis
    by (intro exI [of _ "[]"] exI [of _ "''0''"] exI [of _ post] exI [of _ "[]"])
      (simp add: add_blocks_push operand_value_def signed_value_def is_digit_def)
qed

lemma MUL_digits:
  assumes "cstr p s = ok a s" and "cstr q s = ok b s" and "canonical a" and "canonical b"
  shows "\<exists>sg ds post extra.
      MUL al p q sy1 sy2 s
        = ok (Obj (length (blocks s)) 0) (add_blocks (map Some (sg @ ds) @ Some NUL # post) extra s)
      \<and> (sg = [] \<or> sg = ''+'' \<or> sg = ''-'') \<and> digits ds
      \<and> operand_value sg ds
          = signed_value (if sy1 = sy2 then CHR ''+'' else CHR ''-'') (dval a * dval b)"
proof (cases "a = ''0'' \<or> b = ''0''")
  case True
  then have "dval a * dval b = 0" using dval_zero by auto
  then have v: "signed_value sy (dval a * dval b) = 0" for sy by (simp add: signed_value_def)
  show ?thesis unfolding v using MUL_zero [OF assms(1,2) True] zero_result [of s] by metis
next
  case False
  let ?sy = "if sy1 = sy2 then CHR ''+'' else CHR ''-''"
  have ne: "a \<noteq> ''0''" "b \<noteq> ''0''" using False by auto
  obtain bs ds fresh where r: "MUL al p q sy1 sy2 s = ok (Obj (length (blocks s)) 0) (push_block bs s)"
      "al (length (blocks s)) (length a + length b + 1) = Some fresh"
      "number_block bs ?sy ds fresh" "length ds = length a + length b" "dval ds = dval a * dval b"
    using MUL_correct [OF assms ne] by blast
  then obtain post where "bs = map Some ([?sy] @ ds) @ Some NUL # post"
    using padded_number [of "length (blocks s)" ds fresh bs ?sy] by auto
  with r show ?thesis
    by (intro exI [of _ "[?sy]"] exI [of _ ds] exI [of _ post] exI [of _ "[]"])
      (auto simp: add_blocks_push sval_of_sign number_block_def sign_char_def)
qed

lemma DIV_digits:
  assumes "cstr p s = ok a s" and "cstr q s = ok b s" and "canonical a" and "canonical b"
    and "b \<noteq> ''0''" and "div_clean a b"
  shows "\<exists>sg ds post extra.
      DIV al p q sy1 sy2 s
        = ok (Obj (length (blocks s)) 0) (add_blocks (map Some (sg @ ds) @ Some NUL # post) extra s)
      \<and> (sg = [] \<or> sg = ''+'' \<or> sg = ''-'') \<and> digits ds
      \<and> operand_value sg ds
          = signed_value (if sy1 = sy2 then CHR ''+'' else CHR ''-'') (dval a div dval b)"
proof (cases "dval a < dval b")
  case True
  then have "dval a div dval b = 0"
    using dval_nonneg [OF canonical_digits [OF assms(3)]] by simp
  then have v: "signed_value sy (dval a div dval b) = 0" for sy by (simp add: signed_value_def)
  show ?thesis unfolding v using DIV_less [OF assms(1-5) True] zero_result [of s] by metis
next
  case False
  let ?sy = "if sy1 = sy2 then CHR ''+'' else CHR ''-''"
  have le: "dval b \<le> dval a" using False by simp
  obtain bs ds fresh where r: "DIV al p q sy1 sy2 s
        = ok (Obj (length (blocks s)) 0) (s\<lparr>blocks := blocks s @ [Live bs, Freed, Freed]\<rparr>)"
      "al (length (blocks s)) (length a + 1) = Some fresh"
      "number_block bs ?sy ds fresh" "length ds = length a" "dval ds = dval a div dval b"
    using DIV_correct [OF assms(1-5) le assms(6)] by blast
  then obtain post where "bs = map Some ([?sy] @ ds) @ Some NUL # post"
    using padded_number [of "length (blocks s)" ds fresh bs ?sy] by auto
  with r show ?thesis
    by (intro exI [of _ "[?sy]"] exI [of _ ds] exI [of _ post] exI [of _ "[Freed, Freed]"])
      (auto simp: add_blocks_def sval_of_sign number_block_def sign_char_def)
qed

end

definition operation :: "char \<Rightarrow> string \<Rightarrow> string \<Rightarrow> bool" where
  "operation c a b \<longleftrightarrow> c = CHR ''a'' \<or> c = CHR ''s'' \<or> c = CHR ''m''
     \<or> c = CHR ''d'' \<and> b \<noteq> ''0'' \<and> div_clean a b"

text \<open>The operation the \<open>switch\<close> selects.\<close>

definition selected :: "alloc \<Rightarrow> char \<Rightarrow> ptr \<Rightarrow> ptr \<Rightarrow> char \<Rightarrow> char \<Rightarrow> (cstate, ptr) c" where
  "selected al c p q sy1 sy2 =
     (if c = CHR ''a'' then (if sy1 = sy2 then ADD al p q sy1 sy2 else SUB al p q sy1 sy2)
      else if c = CHR ''s'' then (if sy1 = sy2 then SUB al p q sy1 sy2 else ADD al p q sy1 sy2)
      else if c = CHR ''m'' then MUL al p q sy1 sy2 else DIV al p q sy1 sy2)"

lemma calculate_selected:
  assumes "c \<in> set ''asmd''"
  shows "calculate al p q sy1 sy2 opr c s
      = bind (selected al c p q sy1 sy2) (\<lambda>res. return (res, Lit (operator_text c) 0)) s"
proof -
  have "c = CHR ''a'' \<or> c = CHR ''s'' \<or> c = CHR ''m'' \<or> c = CHR ''d''" using assms by simp
  then show ?thesis
    by (elim disjE) (simp_all add: calculate_def operator_text_def selected_def bind_def
        split: option.split sum.split)
qed

context padded_allocator
begin

lemma calculate_digits:
  assumes "cstr p s = ok a s" and "cstr q s = ok b s" and "canonical a" and "canonical b"
    and "sign_char sy1" and "sign_char sy2" and "operation c a b"
  shows "\<exists>sg ds post extra.
      calculate al p q sy1 sy2 opr c s
        = ok (Obj (length (blocks s)) 0, Lit (operator_text c) 0)
            (add_blocks (map Some (sg @ ds) @ Some NUL # post) extra s)
      \<and> (sg = [] \<or> sg = ''+'' \<or> sg = ''-'') \<and> digits ds
      \<and> operand_value sg ds = computed c sy1 sy2 (dval a) (dval b)"
proof -
  note add = ADD_digits [OF assms(1-5)] and sub = SUB_digits [OF assms(1-6)]
    and mul = MUL_digits [OF assms(1-4)] and divi = DIV_digits [OF assms(1-4)]
  let ?M = "selected al c p q sy1 sy2"
  have run: "calculate al p q sy1 sy2 opr c s
      = bind ?M (\<lambda>res. return (res, Lit (operator_text c) 0)) s"
    using assms(7) by (intro calculate_selected) (auto simp: operation_def)
  have "\<exists>sg ds post extra. ?M s
        = ok (Obj (length (blocks s)) 0) (add_blocks (map Some (sg @ ds) @ Some NUL # post) extra s)
      \<and> (sg = [] \<or> sg = ''+'' \<or> sg = ''-'') \<and> digits ds
      \<and> operand_value sg ds = computed c sy1 sy2 (dval a) (dval b)"
  proof -
    consider (plus) "c = CHR ''a'' \<and> sy1 = sy2 \<or> c = CHR ''s'' \<and> sy1 \<noteq> sy2"
      | (minus) "c = CHR ''a'' \<and> sy1 \<noteq> sy2 \<or> c = CHR ''s'' \<and> sy1 = sy2"
      | (times) "c = CHR ''m''" | (over) "c = CHR ''d''" "b \<noteq> ''0''" "div_clean a b"
      using assms(7) by (auto simp: operation_def)
    then show ?thesis
    proof cases
      case plus
      then have "?M = ADD al p q sy1 sy2"
        and "computed c sy1 sy2 (dval a) (dval b) = signed_value sy1 (dval a + dval b)"
        by (auto simp: selected_def computed_def)
      with add show ?thesis by simp
    next
      case minus
      then have "?M = SUB al p q sy1 sy2" and "computed c sy1 sy2 (dval a) (dval b)
          = signed_value (if dval a < dval b then sy2 else sy1) \<bar>dval a - dval b\<bar>"
        by (auto simp: selected_def computed_def)
      with sub show ?thesis by simp
    next
      case times
      with mul [of sy1 sy2] show ?thesis by (simp add: selected_def computed_def)
    next
      case over
      with divi [of sy1 sy2] show ?thesis by (simp add: selected_def computed_def)
    qed
  qed
  then show ?thesis
    unfolding run bind_def by (elim exE conjE) (intro exI conjI, simp, assumption+)
qed

end

section \<open>The whole calculation\<close>

text \<open>
  The memory the operands are taken from: the first operand behind \<open>A\<close>, the operation's letter
  behind \<open>M1\<close>, the second operand behind \<open>M2\<close>; each operand ends at a character that is no digit.
\<close>

definition operands_at ::
  "cstate \<Rightarrow> nat \<Rightarrow> char option list \<Rightarrow> string \<Rightarrow> string \<Rightarrow> char \<Rightarrow> char option list \<Rightarrow> char
    \<Rightarrow> char option list \<Rightarrow> string \<Rightarrow> string \<Rightarrow> char \<Rightarrow> char option list \<Rightarrow> bool" where
  "operands_at s b A sg1 ds1 x1 M1 c M2 sg2 ds2 x2 P \<longleftrightarrow>
     at_block s b (A @ map Some (sg1 @ ds1) @ Some x1 # M1 @ Some c # M2
       @ map Some (sg2 @ ds2) @ Some x2 # P)
     \<and> operand sg1 ds1 \<and> operand sg2 ds2 \<and> \<not> is_digit x1 \<and> \<not> is_digit x2"

lemma cstr_extracted:
  assumes "at_block s b (A @ map Some (sg @ ds) @ Some NUL # post)" and "digits ds"
    and "p = Lit ''0'' 0 \<and> numeral_of ds = ''0''
         \<or> (\<exists>zs. p = Obj b (int (length (A @ map Some (sg @ zs)))) \<and> ds = zs @ numeral_of ds)"
  shows "cstr p s = ok (numeral_of ds) s"
  using assms(3)
proof (elim disjE exE conjE)
  fix zs assume p: "p = Obj b (int (length (A @ map Some (sg @ zs))))" and ds: "ds = zs @ numeral_of ds"
  have "at_block s b ((A @ map Some (sg @ zs)) @ map Some (numeral_of ds) @ Some NUL # post)"
    using assms(1) by (subst (asm) ds) simp
  then show ?thesis
    unfolding p using NUL_numeral_of [OF assms(2)] by (rule cstr_here)
qed simp

lemma cstr_adjusted:
  assumes "at_block s b (A @ w @ map Some m @ Some NUL # post)"
    and "p = Obj b (int (length (A @ w))) \<and> m = show_int v \<or> p = Lit ''0'' 0 \<and> v = 0"
  shows "cstr p s = ok (show_int v) s"
  using assms(2)
proof (elim disjE conjE)
  assume p: "p = Obj b (int (length (A @ w)))" "m = show_int v"
  then show ?thesis
    using cstr_here [of s b "A @ w" m post] assms(1) by simp
next
  assume "p = Lit ''0'' 0" "v = 0"
  moreover have "show_int 0 = ''0''" by (simp add: show_int_def show_nat.simps)
  ultimately show ?thesis by simp
qed

lemma hd_operand: "operand sg ds \<Longrightarrow> hd ((sg @ ds) @ t) = hd (sg @ ds)"
  by (auto simp: operand_def)

lemma sign_of_sign_char [simp]: "sign_char (sign_of sg)"
  by (simp add: sign_of_def sign_char_def)

text \<open>Both operands are cut out, and nothing else has changed.\<close>

lemma extract_both:
  assumes "operands_at s b A sg1 ds1 x1 M1 c M2 sg2 ds2 x2 P"
  defines "val1 \<equiv> Obj b (int (length (A @ map Some (sg1 @ ds1) @ Some x1 # M1 @ Some c # M2)))"
    and "s3 \<equiv> set_block b (A @ map Some (sg1 @ ds1) @ Some NUL # M1 @ Some c # M2
               @ map Some (sg2 @ ds2) @ Some NUL # P) s"
  shows "\<exists>p1 p2 s2. load (Obj b (int (length A))) s = ok (hd (sg1 @ ds1)) s
     \<and> ExtractData (Obj b (int (length A))) (hd (sg1 @ ds1)) s = ok (p1, sign_of sg1) s2
     \<and> load val1 s2 = ok (hd (sg2 @ ds2)) s2
     \<and> ExtractData val1 (hd (sg2 @ ds2)) s2 = ok (p2, sign_of sg2) s3
     \<and> cstr p1 s3 = ok (numeral_of ds1) s3 \<and> cstr p2 s3 = ok (numeral_of ds2) s3"
proof -
  let ?M = "M1 @ Some c # M2"
  let ?B = "A @ map Some (sg1 @ ds1) @ Some NUL # ?M"
  let ?s2 = "set_block b (?B @ map Some (sg2 @ ds2) @ Some x2 # P) s"
  have at: "at_block s b (A @ map Some (sg1 @ ds1) @ Some x1 # ?M @ map Some (sg2 @ ds2) @ Some x2 # P)"
    and o: "operand sg1 ds1" "operand sg2 ds2" and x: "\<not> is_digit x1" "\<not> is_digit x2"
    using assms(1) by (simp_all add: operands_at_def)
  have d: "digits ds1" "digits ds2" using o by (simp_all add: operand_def)
  have v: "val1 = Obj b (int (length ?B))" by (simp add: val1_def)
  have l1: "load (Obj b (int (length A))) s = ok (hd (sg1 @ ds1)) s"
    using load_first [OF at] hd_operand [OF o(1)] by simp
  obtain p1 where e1: "ExtractData (Obj b (int (length A))) (hd (sg1 @ ds1)) s
        = ok (p1, sign_of sg1) ?s2"
    and p1: "p1 = Lit ''0'' 0 \<and> numeral_of ds1 = ''0''
         \<or> (\<exists>zs. p1 = Obj b (int (length (A @ map Some (sg1 @ zs)))) \<and> ds1 = zs @ numeral_of ds1)"
    using ExtractData_correct [OF at o(1) x(1)] by auto
  have at2: "at_block ?s2 b (?B @ map Some (sg2 @ ds2) @ Some x2 # P)"
    using at by (rule at_block_set_same)
  have l2: "load val1 ?s2 = ok (hd (sg2 @ ds2)) ?s2"
    unfolding v using load_first [OF at2] hd_operand [OF o(2)] by simp
  obtain p2 where e2: "ExtractData val1 (hd (sg2 @ ds2)) ?s2 = ok (p2, sign_of sg2) s3"
    and p2: "p2 = Lit ''0'' 0 \<and> numeral_of ds2 = ''0''
         \<or> (\<exists>zs. p2 = Obj b (int (length (?B @ map Some (sg2 @ zs)))) \<and> ds2 = zs @ numeral_of ds2)"
    using ExtractData_correct [OF at2 o(2) x(2)] unfolding v s3_def by auto
  have at3: "at_block s3 b (?B @ map Some (sg2 @ ds2) @ Some NUL # P)"
    using at_block_set_same [OF at] unfolding s3_def by simp
  have at3': "at_block s3 b (A @ map Some (sg1 @ ds1) @ Some NUL # ?M @ map Some (sg2 @ ds2) @ Some NUL # P)"
    using at3 by simp
  show ?thesis
    using l1 e1 l2 e2 cstr_extracted [OF at3' d(1) p1] cstr_extracted [OF at3 d(2) p2] by blast
qed

text \<open>All three arguments of \<open>echo_result\<close> are brought into the form they are printed in.\<close>

lemma adjust_both:
  assumes at: "at_block s b (A @ map Some (sg1 @ ds1) @ Some NUL # M
      @ map Some (sg2 @ ds2) @ Some NUL # P)"
    and o: "operand sg1 ds1" "operand sg2 ds2"
  defines "val1 \<equiv> Obj b (int (length (A @ map Some (sg1 @ ds1) @ Some NUL # M)))"
  shows "\<exists>p1 p2 s1 bs. AdjustmentData (Obj b (int (length A))) s = ok p1 s1
     \<and> AdjustmentData val1 s1 = ok p2 (set_block b bs s)
     \<and> (\<forall>s'. at_block s' b bs \<longrightarrow> cstr p1 s' = ok (show_int (operand_value sg1 ds1)) s'
            \<and> cstr p2 s' = ok (show_int (operand_value sg2 ds2)) s')"
proof -
  let ?R = "M @ map Some (sg2 @ ds2) @ Some NUL # P"
  have d: "digits ds1" "digits ds2" and sg: "sg1 = [] \<or> sg1 = ''+'' \<or> sg1 = ''-''"
      "sg2 = [] \<or> sg2 = ''+'' \<or> sg2 = ''-''"
    using o by (auto simp: operand_def)
  obtain p1 w1 m1 where a1: "AdjustmentData (Obj b (int (length A))) s
        = ok p1 (set_block b (A @ w1 @ map Some m1 @ Some NUL # ?R) s)"
    and l1: "length w1 + length m1 = length (sg1 @ ds1)"
    and c1: "p1 = Obj b (int (length (A @ w1))) \<and> m1 = show_int (operand_value sg1 ds1)
         \<or> p1 = Lit ''0'' 0 \<and> operand_value sg1 ds1 = 0"
    using AdjustmentData_correct [OF at d(1) sg(1)] by blast
  let ?B = "A @ w1 @ map Some m1 @ Some NUL # M"
  let ?s1 = "set_block b (A @ w1 @ map Some m1 @ Some NUL # ?R) s"
  have at1: "at_block ?s1 b (?B @ map Some (sg2 @ ds2) @ Some NUL # P)"
    using at_block_set_same [OF at] by simp
  obtain p2 w2 m2 where a2: "AdjustmentData (Obj b (int (length ?B))) ?s1
        = ok p2 (set_block b (?B @ w2 @ map Some m2 @ Some NUL # P) ?s1)"
    and c2: "p2 = Obj b (int (length (?B @ w2))) \<and> m2 = show_int (operand_value sg2 ds2)
         \<or> p2 = Lit ''0'' 0 \<and> operand_value sg2 ds2 = 0"
    using AdjustmentData_correct [OF at1 d(2) sg(2)] by blast
  have v: "val1 = Obj b (int (length ?B))" using l1 by (simp add: val1_def)
  have c: "cstr p1 s' = ok (show_int (operand_value sg1 ds1)) s'
      \<and> cstr p2 s' = ok (show_int (operand_value sg2 ds2)) s'"
    if at': "at_block s' b (?B @ w2 @ map Some m2 @ Some NUL # P)" for s'
    using cstr_adjusted [of s' b A w1 m1 "M @ w2 @ map Some m2 @ Some NUL # P", OF _ c1] at'
      cstr_adjusted [OF at' c2] by simp
  show ?thesis
    using a1 a2 c unfolding v set_block_set_block by blast
qed

context padded_allocator
begin

lemma answer_query_correct:
  assumes ops: "operands_at s b A sg1 ds1 x1 M1 c M2 sg2 ds2 x2 P"
    and op: "operation c (numeral_of ds1) (numeral_of ds2)"
  shows "\<exists>s'. answer_query al (Obj b (int (length (A @ map Some (sg1 @ ds1) @ Some x1 # M1))))
        (Obj b (int (length (A @ map Some (sg1 @ ds1) @ Some x1 # M1 @ Some c # M2))))
        (Obj b (int (length A))) s = ok () s'
    \<and> stdout s' = stdout s @ result_page (show_int (operand_value sg1 ds1)) (operator_text c)
        (show_int (operand_value sg2 ds2))
        (show_int (computed c (sign_of sg1) (sign_of sg2) (dval ds1) (dval ds2)))"
proof -
  let ?M = "M1 @ Some c # M2"
  let ?bs3 = "A @ map Some (sg1 @ ds1) @ Some NUL # M1 @ Some c # M2 @ map Some (sg2 @ ds2) @ Some NUL # P"
  let ?s3 = "set_block b ?bs3 s"
  let ?val0 = "Obj b (int (length A))"
    and ?val1 = "Obj b (int (length (A @ map Some (sg1 @ ds1) @ Some x1 # ?M)))"
    and ?opr = "Obj b (int (length (A @ map Some (sg1 @ ds1) @ Some x1 # M1)))"
  have at: "at_block s b (A @ map Some (sg1 @ ds1) @ Some x1 # ?M @ map Some (sg2 @ ds2) @ Some x2 # P)"
    and o: "operand sg1 ds1" "operand sg2 ds2"
    using ops by (simp_all add: operands_at_def)
  then have d: "digits ds1" "digits ds2" by (simp_all add: operand_def)
  obtain p1 p2 s2 where l1: "load ?val0 s = ok (hd (sg1 @ ds1)) s"
    and e1: "ExtractData ?val0 (hd (sg1 @ ds1)) s = ok (p1, sign_of sg1) s2"
    and l2: "load ?val1 s2 = ok (hd (sg2 @ ds2)) s2"
    and e2: "ExtractData ?val1 (hd (sg2 @ ds2)) s2 = ok (p2, sign_of sg2) ?s3"
    and c1: "cstr p1 ?s3 = ok (numeral_of ds1) ?s3" and c2: "cstr p2 ?s3 = ok (numeral_of ds2) ?s3"
    using extract_both [OF ops] by blast
  have at3: "at_block ?s3 b ?bs3" using at_block_set_same [OF at] by simp
  have lc: "load ?opr ?s3 = ok c ?s3"
    using load_here [of ?s3 b "A @ map Some (sg1 @ ds1) @ Some NUL # M1" c
        "M2 @ map Some (sg2 @ ds2) @ Some NUL # P"] at3 by simp
  obtain sg ds post extra where
    run: "calculate al p1 p2 (sign_of sg1) (sign_of sg2) ?opr c ?s3
        = ok (Obj (length (blocks s)) 0, Lit (operator_text c) 0)
            (add_blocks (map Some (sg @ ds) @ Some NUL # post) extra ?s3)"
    and res: "sg = [] \<or> sg = ''+'' \<or> sg = ''-''" "digits ds"
      "operand_value sg ds = computed c (sign_of sg1) (sign_of sg2) (dval ds1) (dval ds2)"
    using calculate_digits [OF c1 c2 canonical_numeral_of [OF d(1)] canonical_numeral_of [OF d(2)]
        sign_of_sign_char [of sg1] sign_of_sign_char [of sg2] op, of ?opr]
    unfolding set_block_fields dval_numeral_of by blast
  let ?r = "length (blocks s)"
  let ?s4 = "add_blocks (map Some (sg @ ds) @ Some NUL # post) extra ?s3"
  have at4: "at_block ?s4 b ?bs3" using at3 by (rule at_block_add_old)
  then have at4': "at_block ?s4 b (A @ map Some (sg1 @ ds1) @ Some NUL # ?M
      @ map Some (sg2 @ ds2) @ Some NUL # P)" by simp
  have v: "?val1 = Obj b (int (length (A @ map Some (sg1 @ ds1) @ Some NUL # ?M)))" by simp
  obtain q1 q2 s5 bs where a1: "AdjustmentData ?val0 ?s4 = ok q1 s5"
    and a2: "AdjustmentData ?val1 s5 = ok q2 (set_block b bs ?s4)"
    and sh: "\<forall>s'. at_block s' b bs \<longrightarrow> cstr q1 s' = ok (show_int (operand_value sg1 ds1)) s'
            \<and> cstr q2 s' = ok (show_int (operand_value sg2 ds2)) s'"
    using adjust_both [OF at4' o] unfolding v by blast
  let ?s6 = "set_block b bs ?s4"
  have ne: "?r \<noteq> b" using at_block_bound [OF at] by simp
  have at6: "at_block ?s6 ?r ([] @ map Some (sg @ ds) @ Some NUL # post)"
    using ne at_block_add_new [of "map Some (sg @ ds) @ Some NUL # post" extra ?s3]
    by (simp add: at_block_set_other)
  obtain q3 w m where a3: "AdjustmentData (Obj ?r (int (length ([] :: char option list)))) ?s6
        = ok q3 (set_block ?r ([] @ w @ map Some m @ Some NUL # post) ?s6)"
    and c3: "q3 = Obj ?r (int (length ([] @ w))) \<and> m = show_int (operand_value sg ds)
         \<or> q3 = Lit ''0'' 0 \<and> operand_value sg ds = 0"
    using AdjustmentData_correct [OF at6 res(2) res(1)] by blast
  let ?s7 = "set_block ?r (w @ map Some m @ Some NUL # post) ?s6"
  have at7: "at_block ?s7 ?r ([] @ w @ map Some m @ Some NUL # post)"
    using at_block_set_same [OF at6] by simp
  have "at_block ?s7 b bs"
    using ne at_block_set_same [OF at4, of bs] by (simp add: at_block_set_other)
  then have s1: "cstr q1 ?s7 = ok (show_int (operand_value sg1 ds1)) ?s7"
    and s2: "cstr q2 ?s7 = ok (show_int (operand_value sg2 ds2)) ?s7" using sh by blast+
  have s3: "cstr q3 ?s7 = ok (show_int (operand_value sg ds)) ?s7"
    using at7 c3 by (rule cstr_adjusted)
  have so: "cstr (Lit (operator_text c) 0) ?s7 = ok (operator_text c) ?s7"
    by (simp add: operator_text_def)
  let ?page = "result_page (show_int (operand_value sg1 ds1)) (operator_text c)
      (show_int (operand_value sg2 ds2)) (show_int (operand_value sg ds))"
  let ?s8 = "?s7\<lparr>stdout := stdout ?s7 @ ?page\<rparr>"
  have e: "echo_result q1 q2 (Lit (operator_text c) 0) q3 ?s7 = ok () ?s8"
    using s1 s2 so s3 by (rule echo_result_ok)
  have "at_block ?s8 ?r (w @ map Some m @ Some NUL # post)"
    using at7 by (simp add: at_block_put)
  then have f: "free (Obj ?r 0) ?s8 = ok () (?s8\<lparr>blocks := (blocks ?s8)[?r := Freed]\<rparr>)"
    by (rule free_block)
  have "answer_query al ?opr ?val1 ?val0 s = ok () (?s8\<lparr>blocks := (blocks ?s8)[?r := Freed]\<rparr>)"
    using a3 f by (simp only: answer_query_def bind_def l1 e1 l2 e2 lc run a1 a2 e append_Nil
        list.size(3) of_nat_0 ptr.simps not_False_eq_True if_True option.case sum.case prod.case)
  then show ?thesis using res(3) by simp
qed

end

end
