(* ===== verification/MathProps.thy ===== *)
theory MathProps
  imports MathPage
begin

text \<open>
  The calculator's contract, from the query string to the page: one theorem per operation, the
  errors the source runs into, and how \<open>main\<close> finds the query.
\<close>

section \<open>The calculator's query\<close>

definition calc_query where
  "calc_query n1 t1 n2 t2 n3 t3 =
     n1 @ ''='' @ t1 @ ''&'' @ n2 @ ''='' @ t2 @ ''&'' @ n3 @ ''='' @ t3"

text \<open>What follows the digits of an operand begins with something that is no digit.\<close>

definition no_digit_first :: "string \<Rightarrow> bool" where
  "no_digit_first j \<longleftrightarrow> j = [] \<or> \<not> is_digit (hd j)"

definition calc_fields where
  "calc_fields n1 sg1 ds1 j1 n2 w n3 sg2 ds2 j2 \<longleftrightarrow>
     plain n1 \<and> plain j1 \<and> plain n2 \<and> plain w \<and> plain n3 \<and> plain j2
     \<and> operand sg1 ds1 \<and> operand sg2 ds2 \<and> no_digit_first j1 \<and> no_digit_first j2"

definition answer_page :: "string \<Rightarrow> string \<Rightarrow> string \<Rightarrow> string \<Rightarrow> string" where
  "answer_page d1 opr d2 r =
     page_head @ [CHR 0x09] @ ''<p> '' @ d1 @ '' '' @ opr @ '' '' @ d2 @ '' = '' @ r @ '' </p>''
     @ page_foot"

lemma digits_plain: "digits ds \<Longrightarrow> plain ds"
  by (induction ds) (auto simp: is_digit_def cint_def)

lemma operand_plain: "operand sg ds \<Longrightarrow> plain (sg @ ds) \<and> sg @ ds \<noteq> []"
  by (auto simp: operand_def digits_plain)

lemma no_digit_first_split:
  "no_digit_first j \<Longrightarrow> \<exists>x rest. map Some j @ [Some NUL] = Some x # rest \<and> \<not> is_digit x"
  by (cases j) (auto simp: no_digit_first_def dest: is_digit_not_NUL)

text \<open>
  The part of \<open>handle_data\<close> before the calculation: the three values are found, and the operands
  lie where \<open>answer_query\<close> expects them.
\<close>

lemma handle_data_split:
  assumes q: "cstr (Obj b i) s
      = ok (calc_query n1 (sg1 @ ds1 @ j1) n2 (c # w) n3 (sg2 @ ds2 @ j2)) s"
    and f: "calc_fields n1 sg1 ds1 j1 n2 (c # w) n3 sg2 ds2 j2"
  shows "\<exists>A x1 M1 M2 x2 P bs.
      handle_data al (Obj b i) s
        = answer_query al (Obj b (int (length (A @ map Some (sg1 @ ds1) @ Some x1 # M1))))
            (Obj b (int (length (A @ map Some (sg1 @ ds1) @ Some x1 # M1 @ Some c # M2))))
            (Obj b (int (length A))) (set_block b bs s)
      \<and> operands_at (set_block b bs s) b A sg1 ds1 x1 M1 c M2 sg2 ds2 x2 P"
proof -
  let ?q = "calc_query n1 (sg1 @ ds1 @ j1) n2 (c # w) n3 (sg2 @ ds2 @ j2)"
  obtain bs0 post where i: "0 \<le> i" "nat i < length bs0" and at0: "at_block s b bs0"
    and dr: "drop (nat i) bs0 = map Some ?q @ Some NUL # post"
    using q by (auto simp: cstr_obj_iff)
  define pre where "pre = take (nat i) bs0"
  have pre: "bs0 = pre @ map Some ?q @ Some NUL # post" "i = int (length pre)"
    using i dr append_take_drop_id [of "nat i" bs0] by (simp_all add: pre_def min_def)
  have pl: "plain n1" "plain (sg1 @ ds1 @ j1)" "plain n2" "plain (c # w)" "plain n3"
      "plain (sg2 @ ds2 @ j2)" and ne: "sg2 @ ds2 @ j2 \<noteq> []"
    and o: "operand sg1 ds1" "operand sg2 ds2"
    using f operand_plain [of sg1 ds1] operand_plain [of sg2 ds2] by (auto simp: calc_fields_def)
  obtain x1 r1 where x1: "map Some j1 @ [Some NUL] = Some x1 # r1" "\<not> is_digit x1"
    using no_digit_first_split [of j1] f unfolding calc_fields_def by blast
  obtain x2 r2 where x2: "map Some j2 @ [Some NUL] = Some x2 # r2" "\<not> is_digit x2"
    using no_digit_first_split [of j2] f unfolding calc_fields_def by blast
  let ?A = "pre @ map Some (n1 @ ''='')"
  let ?M1 = "r1 @ map Some (n2 @ ''='')" and ?M2 = "map Some w @ Some NUL # map Some (n3 @ ''='')"
  let ?P = "r2 @ post"
  let ?bs = "?A @ map Some (sg1 @ ds1) @ Some x1 # ?M1 @ Some c # ?M2 @ map Some (sg2 @ ds2) @ Some x2 # ?P"
  have j1: "map Some j1 @ Some NUL # t = Some x1 # r1 @ t" for t
    using arg_cong [OF x1(1), of "\<lambda>l. l @ t"] by simp
  have j2: "map Some j2 @ Some NUL # t = Some x2 # r2 @ t" for t
    using arg_cong [OF x2(1), of "\<lambda>l. l @ t"] by simp
  have len: "length j1 = length r1" using arg_cong [OF x1(1), of length] by simp
  have at: "at_block s b (pre @ map Some (n1 @ ''='' @ (sg1 @ ds1 @ j1) @ ''&'' @ n2 @ ''='' @ (c # w)
      @ ''&'' @ n3 @ ''='' @ (sg2 @ ds2 @ j2)) @ Some NUL # post)"
    using at0 unfolding pre(1) calc_query_def .
  have bs: "pre @ map Some (n1 @ ''='' @ (sg1 @ ds1 @ j1)) @ Some NUL # map Some (n2 @ ''='' @ (c # w))
          @ Some NUL # map Some (n3 @ ''='' @ (sg2 @ ds2 @ j2)) @ Some NUL # post = ?bs"
    by (simp add: j1 j2)
  have sp: "split_query (Obj b i) 0 (length ?q - 1) [None, None, None] 0 s
    = ok [Some (Obj b (int (length ?A))),
          Some (Obj b (int (length (?A @ map Some (sg1 @ ds1) @ Some x1 # ?M1)))),
          Some (Obj b (int (length (?A @ map Some (sg1 @ ds1) @ Some x1 # ?M1 @ Some c # ?M2))))]
        (set_block b ?bs s)"
    using split_query_three [OF at pl ne] unfolding bs pre(2) calc_query_def by (simp add: len)
  have z: "strcmp (Obj b i) (Lit '''' 0) s = ok (cmp_str ?q '''') s"
    using q by (intro strcmp_ok) simp_all
  have "NUL \<notin> set ?q" using q by (rule cstr_no_nul)
  then have nz: "cmp_str ?q '''' \<noteq> 0" by (simp add: cmp_str_eq_0 calc_query_def)
  have sl: "strlen (Obj b i) s = ok (length ?q) s" using q by (rule strlen_ok)
  have run: "handle_data al (Obj b i) s
      = answer_query al (Obj b (int (length (?A @ map Some (sg1 @ ds1) @ Some x1 # ?M1))))
          (Obj b (int (length (?A @ map Some (sg1 @ ds1) @ Some x1 # ?M1 @ Some c # ?M2))))
          (Obj b (int (length ?A))) (set_block b ?bs s)"
    using nz by (simp only: handle_data_def bind_def z if_False sl sp [unfolded One_nat_def] pointer_value_def option.case
        sum.case prod.case nth_Cons_0 nth_Cons_Suc numeral_2_eq_2 One_nat_def return_ok)
  have "at_block (set_block b ?bs s) b ?bs" using at by (rule at_block_set_same)
  then have "operands_at (set_block b ?bs s) b ?A sg1 ds1 x1 ?M1 c ?M2 sg2 ds2 x2 ?P"
    using o x1(2) x2(2) by (simp only: operands_at_def simp_thms)
  with run show ?thesis by blast
qed

section \<open>The results\<close>

lemma result_page_answer: "\<not> (opr = ''/'' \<and> d2 = ''0'') \<Longrightarrow> result_page d1 opr d2 r = answer_page d1 opr d2 r"
  by (auto simp: result_page_def answer_page_def)

lemma show_int_zero: "show_int 0 = ''0''"
  by (simp add: show_int_def show_nat.simps)

lemma show_nat_zero: "show_nat n = ''0'' \<Longrightarrow> n = 0"
  by (metis dval_show_nat dval_zero of_nat_eq_0_iff)

lemma show_int_eq_zero: "show_int v = ''0'' \<longleftrightarrow> v = 0"
  using show_nat_zero [of "nat v"] show_int_zero by (auto simp: show_int_def split: if_splits)

lemma operand_digits: "operand sg ds \<Longrightarrow> digits ds"
  by (simp add: operand_def)

lemma calc_fields_digits:
  "calc_fields n1 sg1 ds1 j1 n2 w n3 sg2 ds2 j2 \<Longrightarrow> digits ds1 \<and> digits ds2"
  by (auto simp: calc_fields_def operand_digits)

lemma sign_of_cases: "sign_of sg = CHR ''+'' \<or> sign_of sg = CHR ''-''"
  by (simp add: sign_of_def)

lemma handle_data_correct:
  assumes "padded_allocator al"
    and "cstr (Obj b i) s = ok (calc_query n1 (sg1 @ ds1 @ j1) n2 (c # w) n3 (sg2 @ ds2 @ j2)) s"
    and "calc_fields n1 sg1 ds1 j1 n2 (c # w) n3 sg2 ds2 j2"
    and "operation c (numeral_of ds1) (numeral_of ds2)"
  shows "\<exists>s'. handle_data al (Obj b i) s = ok () s'
    \<and> stdout s' = stdout s @ answer_page (show_int (operand_value sg1 ds1)) (operator_text c)
        (show_int (operand_value sg2 ds2))
        (show_int (computed c (sign_of sg1) (sign_of sg2) (dval ds1) (dval ds2)))"
proof -
  obtain A x1 M1 M2 x2 P bs where
    run: "handle_data al (Obj b i) s
        = answer_query al (Obj b (int (length (A @ map Some (sg1 @ ds1) @ Some x1 # M1))))
            (Obj b (int (length (A @ map Some (sg1 @ ds1) @ Some x1 # M1 @ Some c # M2))))
            (Obj b (int (length A))) (set_block b bs s)"
    and at: "operands_at (set_block b bs s) b A sg1 ds1 x1 M1 c M2 sg2 ds2 x2 P"
    using handle_data_split [OF assms(2,3), of al] by blast
  have "\<not> (operator_text c = ''/'' \<and> show_int (operand_value sg2 ds2) = ''0'')"
  proof
    assume h: "operator_text c = ''/'' \<and> show_int (operand_value sg2 ds2) = ''0''"
    have d: "digits ds2" using assms(3) by (simp add: calc_fields_def operand_def)
    from h have "dval ds2 = 0" and "numeral_of ds2 \<noteq> ''0''"
      using assms(4) by (auto simp: show_int_eq_zero operation_def operator_text_def
          operand_value_def signed_value_def split: if_splits)
    with numeral_of_zero [OF d] show False by simp
  qed
  then show ?thesis
    using padded_allocator.answer_query_correct [OF assms(1) at assms(4)] run
    by (simp add: result_page_answer)
qed

text \<open>What \<open>computed\<close> is in terms of the values of the operands.\<close>

lemma computed_values:
  fixes sg1 sg2 ds1 ds2 :: string
  assumes "digits ds1" and "digits ds2"
  defines "x \<equiv> operand_value sg1 ds1" and "y \<equiv> operand_value sg2 ds2"
  shows "computed (CHR ''a'') (sign_of sg1) (sign_of sg2) (dval ds1) (dval ds2) = x + y"
    and "computed (CHR ''s'') (sign_of sg1) (sign_of sg2) (dval ds1) (dval ds2)
          = (if sign_of sg1 = sign_of sg2 \<and> dval ds1 < dval ds2 then y - x else x - y)"
    and "computed (CHR ''m'') (sign_of sg1) (sign_of sg2) (dval ds1) (dval ds2) = x * y"
    and "computed (CHR ''d'') (sign_of sg1) (sign_of sg2) (dval ds1) (dval ds2) = x sdiv y"
proof -
  have nn: "0 \<le> dval ds1" "0 \<le> dval ds2" using assms(1,2) by (simp_all add: dval_nonneg)
  show "computed (CHR ''a'') (sign_of sg1) (sign_of sg2) (dval ds1) (dval ds2) = x + y"
    "computed (CHR ''m'') (sign_of sg1) (sign_of sg2) (dval ds1) (dval ds2) = x * y"
    using nn by (auto simp: computed_def x_def y_def operand_value_def signed_value_def sign_of_def)
  show "computed (CHR ''s'') (sign_of sg1) (sign_of sg2) (dval ds1) (dval ds2)
      = (if sign_of sg1 = sign_of sg2 \<and> dval ds1 < dval ds2 then y - x else x - y)"
    using nn by (auto simp: computed_def x_def y_def operand_value_def signed_value_def sign_of_def)
  show "computed (CHR ''d'') (sign_of sg1) (sign_of sg2) (dval ds1) (dval ds2) = x sdiv y"
    using nn by (auto simp: computed_def x_def y_def operand_value_def signed_value_def sign_of_def)
qed


text \<open>A process with nothing but a query in its memory, on which the theorems are tried.\<close>

definition sample :: "string \<Rightarrow> cstate" where
  "sample q = \<lparr>blocks = [Live (map Some q @ [Some NUL])], stdout = [], stdin = [], environ = Map.empty\<rparr>"

lemma cstr_sample: "NUL \<notin> set q \<Longrightarrow> cstr (Obj 0 0) (sample q) = ok q (sample q)"
  using scan_ok [of q "[]"] by (simp add: sample_def cstr.simps)

lemma stdout_sample [simp]: "stdout (sample q) = []"
  by (simp add: sample_def)

lemmas calc_eval = cstr_sample calc_query_def calc_fields_def plain_def operand_def no_digit_first_def
  is_digit_def cint_def cchr_def operand_value_def signed_value_def sign_of_def dig_def
  show_int_def show_nat.simps char_of_def

section \<open>The operations\<close>










section \<open>Where the source runs into undefined behaviour\<close>

text \<open>When the \<open>switch\<close> leaves no result, \<open>AdjustmentData\<close> is called with a null pointer.\<close>

lemma answer_query_null:
  assumes ops: "operands_at s b A sg1 ds1 x1 M1 c M2 sg2 ds2 x2 P"
    and null: "\<And>p1 p2 s'. cstr p1 s' = ok (numeral_of ds1) s' \<Longrightarrow> cstr p2 s' = ok (numeral_of ds2) s' \<Longrightarrow>
      \<exists>o'. calculate al p1 p2 (sign_of sg1) (sign_of sg2) opr c s' = ok (NULL, o') s'"
    and opr: "opr = Obj b (int (length (A @ map Some (sg1 @ ds1) @ Some x1 # M1)))"
  shows "answer_query al opr
        (Obj b (int (length (A @ map Some (sg1 @ ds1) @ Some x1 # M1 @ Some c # M2))))
        (Obj b (int (length A))) s = ub NullDeref"
proof -
  let ?M = "M1 @ Some c # M2"
  let ?bs3 = "A @ map Some (sg1 @ ds1) @ Some NUL # M1 @ Some c # M2 @ map Some (sg2 @ ds2) @ Some NUL # P"
  let ?s3 = "set_block b ?bs3 s"
  let ?val0 = "Obj b (int (length A))"
    and ?val1 = "Obj b (int (length (A @ map Some (sg1 @ ds1) @ Some x1 # ?M)))"
  have at: "at_block s b (A @ map Some (sg1 @ ds1) @ Some x1 # ?M @ map Some (sg2 @ ds2) @ Some x2 # P)"
    and o: "operand sg1 ds1" "operand sg2 ds2"
    using ops by (simp_all add: operands_at_def)
  obtain p1 p2 s2 where l1: "load ?val0 s = ok (hd (sg1 @ ds1)) s"
    and e1: "ExtractData ?val0 (hd (sg1 @ ds1)) s = ok (p1, sign_of sg1) s2"
    and l2: "load ?val1 s2 = ok (hd (sg2 @ ds2)) s2"
    and e2: "ExtractData ?val1 (hd (sg2 @ ds2)) s2 = ok (p2, sign_of sg2) ?s3"
    and c1: "cstr p1 ?s3 = ok (numeral_of ds1) ?s3" and c2: "cstr p2 ?s3 = ok (numeral_of ds2) ?s3"
    using extract_both [OF ops] by blast
  have at3: "at_block ?s3 b ?bs3" using at_block_set_same [OF at] by simp
  have lc: "load opr ?s3 = ok c ?s3"
    using load_here [of ?s3 b "A @ map Some (sg1 @ ds1) @ Some NUL # M1" c
        "M2 @ map Some (sg2 @ ds2) @ Some NUL # P"] at3 by (simp add: opr)
  obtain o' where run: "calculate al p1 p2 (sign_of sg1) (sign_of sg2) opr c ?s3 = ok (NULL, o') ?s3"
    using null [OF c1 c2] by blast
  have at3': "at_block ?s3 b (A @ map Some (sg1 @ ds1) @ Some NUL # ?M
      @ map Some (sg2 @ ds2) @ Some NUL # P)" using at3 by simp
  have v: "?val1 = Obj b (int (length (A @ map Some (sg1 @ ds1) @ Some NUL # ?M)))" by simp
  obtain q1 q2 s5 bs where a1: "AdjustmentData ?val0 ?s3 = ok q1 s5"
    and a2: "AdjustmentData ?val1 s5 = ok q2 (set_block b bs ?s3)"
    using adjust_both [OF at3' o] unfolding v by blast
  have a3: "AdjustmentData NULL s' = ub NullDeref" for s' by (simp add: AdjustmentData_def)
  show ?thesis
    by (simp only: answer_query_def bind_def l1 e1 l2 e2 lc run a1 a2 a3 option.case sum.case prod.case)
qed

text \<open>
  C33: a division by an operand of value zero never reaches the page that says so:
  \<open>DIV\<close> returns a null pointer, which \<open>AdjustmentData\<close> dereferences.
\<close>

theorem division_by_zero:
  assumes "cstr (Obj b i) s = ok (calc_query n1 (sg1 @ ds1 @ j1) n2 (CHR ''d'' # w) n3 (sg2 @ ds2 @ j2)) s"
    and "calc_fields n1 sg1 ds1 j1 n2 (CHR ''d'' # w) n3 sg2 ds2 j2" and "dval ds2 = 0"
  shows "handle_data al (Obj b i) s = ub NullDeref"
proof -
  have z: "numeral_of ds2 = ''0''"
    using calc_fields_digits [OF assms(2)] numeral_of_zero [of ds2] assms(3) by simp
  have null: "\<exists>o'. calculate al p1 p2 (sign_of sg1) (sign_of sg2) opr (CHR ''d'') s' = ok (NULL, o') s'"
    if "cstr p2 s' = ok (numeral_of ds2) s'" for p1 p2 s' opr
    using DIV_zero [OF that [unfolded z]] by (simp add: calculate_def bind_def)
  show ?thesis
    using handle_data_split [OF assms(1,2), of al] answer_query_null [OF _ null refl] by force
qed

theorem division_by_zero_witness:
  "handle_data spare_alloc (Obj 0 0) (sample ''data1=8&op=div&data2=-00'') = ub NullDeref"
  using division_by_zero [of 0 0 "sample ''data1=8&op=div&data2=-00''"
      "''data1''" "[]" "''8''" "[]" "''op''" "''iv''" "''data2''" "''-''" "''00''" "[]" spare_alloc]
  by (simp add: calc_eval)

text \<open>
  An operation whose name begins with none of a, s, m, d makes \<open>AdjustmentData\<close>
  dereference a null pointer.
\<close>

theorem unknown_operation:
  assumes "cstr (Obj b i) s = ok (calc_query n1 (sg1 @ ds1 @ j1) n2 (c # w) n3 (sg2 @ ds2 @ j2)) s"
    and "calc_fields n1 sg1 ds1 j1 n2 (c # w) n3 sg2 ds2 j2"
    and "c \<notin> set ''asmd''"
  shows "handle_data al (Obj b i) s = ub NullDeref"
proof -
  have null: "\<exists>o'. calculate al p1 p2 (sign_of sg1) (sign_of sg2) opr c s' = ok (NULL, o') s'"
    for p1 p2 s' opr using assms(3) by (simp add: calculate_def)
  show ?thesis
    using handle_data_split [OF assms(1,2), of al] answer_query_null [OF _ null refl] by force
qed


theorem unknown_operation_witness:
  "handle_data spare_alloc (Obj 0 0) (sample ''data1=8&op=pow&data2=2'') = ub NullDeref"
  using unknown_operation [of 0 0 "sample ''data1=8&op=pow&data2=2''"
      "''data1''" "[]" "''8''" "[]" "''op''" "CHR ''p''" "''ow''" "''data2''" "[]" "''2''" "[]" spare_alloc]
  by (simp add: calc_eval)

section \<open>Queries with too few or too many values\<close>

text \<open>The loop assigns one pointer for every equals sign before the last character.\<close>

lemma split_query_count:
  assumes "at_block s b (pre @ map Some u @ rest)" and "length pre = j + k" and "n = k + length u"
    and "length val = 3" and "i \<le> 3" and "\<forall>m < 3. val ! m = None \<longleftrightarrow> i \<le> m"
  shows "if i + count_list u (CHR ''='') \<le> 3
    then \<exists>val' s'. split_query (Obj b (int j)) k n val i s = ok val' s'
        \<and> (\<forall>m < 3. val' ! m = None \<longleftrightarrow> i + count_list u (CHR ''='') \<le> m)
    else split_query (Obj b (int j)) k n val i s = ub OutOfBounds"
  using assms
proof (induction u arbitrary: pre k val i s)
  case Nil
  then show ?case by (auto simp: split_query_end)
next
  case (Cons c u)
  have kn: "k < n" using Cons.prems(3) by simp
  have ld: "load (Obj b (int j + int k)) s = ok c s"
    using load_here [of s b pre c "map Some u @ rest"] Cons.prems(1,2) by simp
  show ?case
  proof (cases "c = CHR ''=''")
    case eq: True
    show ?thesis
    proof (cases "i < 3")
      case True
      let ?v = "val[i := Some (Obj b (int (length pre + 1)))]"
      have at: "at_block s b (pre @ Some (CHR ''='') # map Some u @ rest)"
        using Cons.prems(1) eq by simp
      have "split_query (Obj b (int j)) k n val i s = split_query (Obj b (int j)) (k + 1) n ?v (i + 1) s"
        using Cons.prems(2,4) kn True by (intro split_query_eq [OF at]) simp_all
      moreover have "if i + 1 + count_list u (CHR ''='') \<le> 3
        then \<exists>val' s'. split_query (Obj b (int j)) (k + 1) n ?v (i + 1) s = ok val' s'
            \<and> (\<forall>m < 3. val' ! m = None \<longleftrightarrow> i + 1 + count_list u (CHR ''='') \<le> m)
        else split_query (Obj b (int j)) (k + 1) n ?v (i + 1) s = ub OutOfBounds"
        using Cons.prems True at
        by (intro Cons.IH [where pre = "pre @ [Some (CHR ''='')]"]) (auto simp: nth_list_update)
      ultimately show ?thesis using eq by (auto split: if_splits)
    next
      case False
      then have "split_query (Obj b (int j)) k n val i s = ub OutOfBounds"
        using ld kn eq Cons.prems(4) by (subst split_query.simps) simp
      then show ?thesis using False eq by simp
    qed
  next
    case ne: False
    obtain s1 where step: "split_query (Obj b (int j)) k n val i s
          = split_query (Obj b (int j)) (k + 1) n val i s1"
      and at1: "\<exists>y. at_block s1 b ((pre @ [y]) @ map Some u @ rest)"
    proof (cases "c = CHR ''&''")
      case True
      have at: "at_block s b (pre @ Some (CHR ''&'') # map Some u @ rest)"
        using Cons.prems(1) True by simp
      have "at_block (set_block b (pre @ Some NUL # map Some u @ rest) s) b
          ((pre @ [Some NUL]) @ map Some u @ rest)"
        using at_block_set_same [OF at] by simp
      then show ?thesis
        using split_query_amp [OF at Cons.prems(2) kn, of val i] that by blast
    next
      case False
      have "split_query (Obj b (int j)) k n val i s = split_query (Obj b (int j)) (k + 1) n val i s"
        using ld kn ne False by (subst split_query.simps) (simp add: bind_def)
      moreover have "at_block s b ((pre @ [Some c]) @ map Some u @ rest)" using Cons.prems(1) by simp
      ultimately show ?thesis using that by blast
    qed
    then obtain y where "at_block s1 b ((pre @ [y]) @ map Some u @ rest)" by blast
    then have "if i + count_list u (CHR ''='') \<le> 3
      then \<exists>val' s'. split_query (Obj b (int j)) (k + 1) n val i s1 = ok val' s'
          \<and> (\<forall>m < 3. val' ! m = None \<longleftrightarrow> i + count_list u (CHR ''='') \<le> m)
      else split_query (Obj b (int j)) (k + 1) n val i s1 = ub OutOfBounds"
      using Cons.prems by (intro Cons.IH [where pre = "pre @ [y]"]) simp_all
    then show ?thesis using step ne by (auto split: if_splits)
  qed
qed

text \<open>
  \<open>handle_data\<close> needs exactly three equals signs before the last character of the
  query: with fewer it uses an indeterminate pointer, with more it writes past the array
  \<open>val\<close>.
\<close>

theorem handle_data_value_count:
  assumes "cstr (Obj b i) s = ok t s" and "t \<noteq> []"
  shows "(count_list (butlast t) (CHR ''='') < 3 \<longrightarrow> handle_data al (Obj b i) s = ub Uninit)
    \<and> (3 < count_list (butlast t) (CHR ''='') \<longrightarrow> handle_data al (Obj b i) s = ub OutOfBounds)"
proof (intro conjI impI)
  obtain bs0 post where i: "0 \<le> i" "nat i < length bs0" and at0: "at_block s b bs0"
    and dr: "drop (nat i) bs0 = map Some t @ Some NUL # post"
    using assms(1) by (auto simp: cstr_obj_iff)
  define pre where "pre = take (nat i) bs0"
  have pre: "bs0 = pre @ map Some t @ Some NUL # post" "i = int (length pre)"
    using i dr append_take_drop_id [of "nat i" bs0] by (simp_all add: pre_def min_def)
  obtain u c where t: "t = u @ [c]" using assms(2) by (cases t rule: rev_cases) auto
  have at: "at_block s b (pre @ map Some u @ Some c # Some NUL # post)"
    using at0 unfolding pre(1) t by simp
  have z: "strcmp (Obj b i) (Lit '''' 0) s = ok (cmp_str t '''') s"
    using assms(1) by (intro strcmp_ok) simp_all
  have nz: "cmp_str t '''' \<noteq> 0" using cstr_no_nul [OF assms(1)] assms(2) by (simp add: cmp_str_eq_0)
  have sl: "strlen (Obj b i) s = ok (length t) s" using assms(1) by (rule strlen_ok)
  have n: "length t - 1 = 0 + length u" unfolding t by simp
  have sp: "if 0 + count_list u (CHR ''='') \<le> 3
    then \<exists>val' s'. split_query (Obj b i) 0 (length t - 1) [None, None, None] 0 s = ok val' s'
        \<and> (\<forall>m < 3. val' ! m = None \<longleftrightarrow> 0 + count_list u (CHR ''='') \<le> m)
    else split_query (Obj b i) 0 (length t - 1) [None, None, None] 0 s = ub OutOfBounds"
    unfolding pre(2) using at n
    by (intro split_query_count) (auto simp: less_Suc_eq numeral_3_eq_3)
  show "handle_data al (Obj b i) s = ub OutOfBounds" if "3 < count_list (butlast t) (CHR ''='')"
    using that sp nz z sl unfolding t by (simp add: handle_data_def bind_def)
  show "handle_data al (Obj b i) s = ub Uninit" if h: "count_list (butlast t) (CHR ''='') < 3"
  proof -
    have cu: "count_list u (CHR ''='') < 3" using h unfolding t by simp
    then obtain val' s' where v: "split_query (Obj b i) 0 (length t - 1) [None, None, None] 0 s = ok val' s'"
      and m: "val' ! 2 = None" "val' ! 1 = None \<longleftrightarrow> count_list u (CHR ''='') \<le> 1"
      using sp by auto
    show ?thesis
      using nz z sl v m by (cases "val' ! 1") (simp_all add: handle_data_def bind_def pointer_value_def)
  qed
qed


theorem handle_data_value_count_witness:
  "handle_data spare_alloc (Obj 0 0) (sample ''data1=8&op=add&data2='') = ub Uninit
   \<and> handle_data spare_alloc (Obj 0 0) (sample ''a=1&b=a&c=2&d=3'') = ub OutOfBounds"
  using handle_data_value_count [of 0 0 "sample ''data1=8&op=add&data2=''" "''data1=8&op=add&data2=''"
      spare_alloc]
    handle_data_value_count [of 0 0 "sample ''a=1&b=a&c=2&d=3''" "''a=1&b=a&c=2&d=3''" spare_alloc]
  by (simp add: cstr_sample)

end
