(* ===== verification/MathUnterminated.thy ===== *)
theory MathUnterminated
  imports MathProps
begin

text \<open>
  The calculator under an allocator that hands out exactly the bytes asked for, which is all the C
  standard promises. \<open>ADD\<close>, \<open>SUB\<close>, \<open>MUL\<close> and \<open>DIV\<close> reserve no byte for a terminator and write
  none, so that every calculation reads, and a division also writes, past the end of an object.
\<close>

section \<open>Reading a result that has no terminator\<close>

lemma skip_zeros_off_end:
  assumes "at_block s b (pre @ map Some zs)" and "\<forall>c \<in> set zs. c = CHR ''0''"
  shows "skip_zeros (Obj b (int (length pre))) s = ub OutOfBounds"
  using assms
proof (induction zs arbitrary: pre)
  case Nil
  then have "load (Obj b (int (length pre))) s = ub OutOfBounds"
    by (intro load_outside [where bs = pre]) simp_all
  then show ?case by (subst skip_zeros.simps) simp
next
  case (Cons c zs)
  have "load (Obj b (int (length pre))) s = ok (CHR ''0'') s"
    using Cons.prems by (intro load_here [where post = "map Some zs"]) simp
  moreover have "skip_zeros (Obj b (int (length (pre @ [Some c])))) s = ub OutOfBounds"
    using Cons.prems by (intro Cons.IH) simp_all
  ultimately show ?case
    by (subst skip_zeros.simps) (simp add: bind_def add.commute)
qed

lemma scan_off_end: "NUL \<notin> set t \<Longrightarrow> scan (map Some t) = Inl OutOfBounds"
  by (induction t) auto

lemma cstr_off_end:
  assumes "at_block s b (pre @ map Some t)" and "NUL \<notin> set t" and "t \<noteq> []"
  shows "cstr (Obj b (int (length pre))) s = ub OutOfBounds"
  using assms scan_off_end [of t] by (auto simp: at_block_def cstr.simps)

lemma AdjustmentData_off_end:
  assumes at: "at_block s r (map Some (sg @ ds))" and d: "digits ds" "sg @ ds \<noteq> []"
    and sg: "sg = [] \<or> sg = ''+'' \<or> sg = ''-''"
  shows "AdjustmentData (Obj r 0) s = ub OutOfBounds
    \<or> (\<exists>p bs. AdjustmentData (Obj r 0) s = ok p (set_block r bs s)
          \<and> cstr p (set_block r bs s) = ub OutOfBounds)"
proof -
  let ?P = "\<lambda>c. c = CHR ''0''"
  let ?zs = "takeWhile ?P ds" and ?nd = "dropWhile ?P ds"
  let ?c = "hd (sg @ ds)"
  have c: "load (Obj r 0) s = ok ?c s"
    using at d(2) load_here [of s r "[]" ?c "map Some (tl (sg @ ds))"] by (cases "sg @ ds") auto
  have cm: "?c = CHR ''-'' \<longleftrightarrow> sg = ''-''" and cp: "?c = CHR ''+'' \<longleftrightarrow> sg = ''+''"
    using sg d by (cases ds; auto simp: is_digit_def cint_def)+
  have first: "(if ?c = CHR ''-'' \<or> ?c = CHR ''+'' then padd (Obj r 0) 1 else Obj r 0)
      = Obj r (int (length (map Some sg)))"
    using sg unfolding cm cp by auto
  show ?thesis
  proof (cases "?nd = []")
    case True
    then have "\<forall>c \<in> set ds. c = CHR ''0''" by simp
    then have "skip_zeros (Obj r (int (length (map Some sg)))) s = ub OutOfBounds"
      using at by (intro skip_zeros_off_end) simp_all
    then have "AdjustmentData (Obj r 0) s = ub OutOfBounds"
      by (simp only: AdjustmentData_def bind_def c first option.case sum.case prod.case)
    then show ?thesis ..
  next
    case False
    then obtain x xs where nd: "?nd = x # xs" by (cases ?nd) auto
    have x0: "x \<noteq> CHR ''0''" using hd_dropWhile [OF False] nd by simp
    have dn: "digits (x # xs)" using digits_dropWhile [OF d(1), of ?P] unfolding nd .
    then have xn: "x \<noteq> NUL" "NUL \<notin> set (x # xs)"
      using is_digit_not_NUL digits_no_NUL by (simp, blast)
    have ds: "ds = ?zs @ x # xs" unfolding nd [symmetric] by simp
    have at1: "at_block s r (map Some sg @ map Some ?zs @ Some x # map Some xs)"
      using at by (subst (asm) ds) simp
    have zs: "dropWhile ?P ?zs = []" by (auto dest: set_takeWhileD)
    let ?k = "length (map Some (sg @ ?zs))"
    have sk: "skip_zeros (Obj r (int (length (map Some sg)))) s = ok (Obj r (int ?k)) s"
      using skip_zeros_correct [OF at1 x0] unfolding zs by simp
    have at2: "at_block s r (map Some (sg @ ?zs) @ map Some (x # xs))" using at1 by simp
    have ld: "load (Obj r (int ?k)) s = ok x s"
      using at2 by (intro load_here [where post = "map Some xs"]) simp
    have run: "AdjustmentData (Obj r 0) s
      = (if sg = ''-'' then bind (store (padd (Obj r (int ?k)) (- 1)) (CHR ''-''))
             (\<lambda>_. return (padd (Obj r (int ?k)) (- 1)))
         else return (Obj r (int ?k))) s"
      by (simp only: AdjustmentData_def bind_def c first [unfolded cm] sk ld cm xn(1) if_False
          option.case sum.case prod.case)
    show ?thesis
    proof (cases "sg = ''-''")
      case True
      let ?w = "map Some (butlast (sg @ ?zs))"
      have w: "map Some (sg @ ?zs) = ?w @ [Some (last (sg @ ?zs))]"
        using True by (metis append_butlast_last_id append_is_Nil_conv list.discI list.simps(8,9) map_append)
      have at3: "at_block s r (?w @ Some (last (sg @ ?zs)) # map Some (x # xs))"
        using at2 unfolding w by simp
      have p: "padd (Obj r (int ?k)) (- 1) = Obj r (int (length ?w))" unfolding w by simp
      let ?s = "set_block r (?w @ map Some (CHR ''-'' # x # xs)) s"
      have st: "store (Obj r (int (length ?w))) (CHR ''-'') s = ok () ?s"
        using store_here [OF at3] by simp
      have "at_block ?s r (?w @ map Some (CHR ''-'' # x # xs))"
        using at3 by (rule at_block_set_same)
      then have "cstr (Obj r (int (length ?w))) ?s = ub OutOfBounds"
        using xn(2) by (intro cstr_off_end [where t = "CHR ''-'' # x # xs"]) auto
      moreover have "AdjustmentData (Obj r 0) s = ok (Obj r (int (length ?w))) ?s"
        using run True st unfolding p by (simp add: bind_def)
      ultimately show ?thesis by blast
    next
      case False
      have "cstr (Obj r (int ?k)) s = ub OutOfBounds"
        using at2 xn(2) by (rule cstr_off_end) simp
      moreover have "set_block r (map Some (sg @ ds)) s = s" using at by (rule set_block_same)
      ultimately show ?thesis
        using run False by (intro disjI2 exI [of _ "Obj r (int ?k)"]
            exI [of _ "map Some (sg @ ds)"]) (simp only: if_False return_ok simp_thms)
    qed
  qed
qed

lemma cstr_put_ub: "cstr p s = ub e \<Longrightarrow> cstr p (s\<lparr>stdout := x\<rparr>) = ub e"
  by (cases p) (auto simp: cstr.simps split: if_splits block.splits sum.splits)

lemma echo_result_ub:
  assumes "cstr p1 s = ok d1 s" and "cstr p2 s = ok d2 s" and "cstr po s = ok opr s"
    and "cstr pr s = ub OutOfBounds" and "\<not> (opr = ''/'' \<and> d2 = ''0'')"
  shows "echo_result p1 p2 po pr s = ub OutOfBounds"
proof -
  have lit: "cstr (Lit ''/'' 0) s' = ok ''/'' s'" "cstr (Lit ''0'' 0) s' = ok ''0'' s'" for s' :: cstate
    by simp_all
  have nul: "NUL \<notin> set opr" "NUL \<notin> set d2" using assms by (auto dest: cstr_no_nul)
  have c1: "strcmp po (Lit ''/'' 0) (s\<lparr>stdout := x\<rparr>) = ok (cmp_str opr ''/'') (s\<lparr>stdout := x\<rparr>)" for x
    using cstr_put [OF assms(3)] lit by (intro strcmp_ok)
  have c2: "strcmp p2 (Lit ''0'' 0) (s\<lparr>stdout := x\<rparr>) = ok (cmp_str d2 ''0'') (s\<lparr>stdout := x\<rparr>)" for x
    using cstr_put [OF assms(2)] lit by (intro strcmp_ok)
  have z: "cmp_str opr ''/'' = 0 \<longleftrightarrow> opr = ''/''" "cmp_str d2 ''0'' = 0 \<longleftrightarrow> d2 = ''0''"
    using nul by (simp_all add: cmp_str_eq_0)
  have pt: "put t (s\<lparr>stdout := x\<rparr>) = ok () (s\<lparr>stdout := x @ t\<rparr>)" "put t s = ok () (s\<lparr>stdout := stdout s @ t\<rparr>)"
    for t x by (simp_all add: put_def)
  have pr: "put_cstr pr (s\<lparr>stdout := x\<rparr>) = ub OutOfBounds" for x
    using cstr_put_ub [OF assms(4)] by (simp add: put_cstr_def)
  note ps = put_cstr_ok [OF assms(1)] put_cstr_ok [OF assms(2)] put_cstr_ok [OF assms(3)]
  show ?thesis
    using assms(5) by (cases "opr = ''/''"; cases "d2 = ''0''")
      (simp_all add: echo_result_def bind_def pt c1 c2 z ps pr)
qed

section \<open>Every calculation\<close>

text \<open>
  Either the operation itself leaves its object (the copies in \<open>DIV\<close>), or its result object is
  filled to the last byte.
\<close>

definition filled :: "(cerr + ptr \<times> cstate) option \<Rightarrow> cstate \<Rightarrow> bool" where
  "filled r s \<longleftrightarrow> r = ub OutOfBounds
     \<or> (\<exists>sg ds. r = ok (Obj (length (blocks s)) 0) (push_block (map Some (sg @ ds)) s)
          \<and> (sg = [] \<or> sg = ''+'' \<or> sg = ''-'') \<and> digits ds \<and> sg @ ds \<noteq> [])"

lemma filledI:
  assumes "r = ok (Obj (length (blocks s)) 0) (push_block (map Some (sg @ ds)) s)"
    and "sg = [] \<or> sg = ''+'' \<or> sg = ''-''" and "digits ds" and "sg @ ds \<noteq> []"
  shows "filled r s"
  unfolding filled_def using assms by blast

lemma filled_number:
  assumes "r = ok (Obj (length (blocks s)) 0) (push_block bs s)"
    and "number_block bs sy ds fresh" and "iso_alloc (length (blocks s)) (Suc (length ds)) = Some fresh"
    and "sign_char sy"
  shows "filled r s"
proof -
  have "bs = map Some ([sy] @ ds)" and "digits ds"
    using assms(2,3) by (auto simp: number_block_def iso_alloc_def)
  with assms(1,4) show ?thesis
    by (intro filledI [where sg = "[sy]" and ds = ds]) (auto simp: sign_char_def)
qed

lemma filled_zero:
  assumes "r = ok (Obj (length (blocks s)) 0) (push_block (fresh[0 := Some (CHR ''0'')]) s)"
    and "iso_alloc k 1 = Some fresh"
  shows "filled r s"
  using assms by (intro filledI [where sg = "[]" and ds = "''0''"]) (auto simp: iso_alloc_def is_digit_def)

lemma store_str_off_end:
  assumes "at_block s b (pre @ old)" and "length old < length t"
  shows "store_str (Obj b (int (length pre))) t s = ub OutOfBounds"
  using assms
proof (induction t arbitrary: pre old s)
  case (Cons c t)
  show ?case
  proof (cases old)
    case Nil
    with Cons.prems have "store (Obj b (int (length pre))) c s = ub OutOfBounds"
      by (simp add: at_block_def store.simps)
    then show ?thesis by simp
  next
    case (Cons o' os)
    then have st: "store (Obj b (int (length pre))) c s = ok () (set_block b (pre @ Some c # os) s)"
      using Cons.prems store_here [of s b pre o' os c] by simp
    have "store_str (Obj b (int (length (pre @ [Some c])))) t (set_block b (pre @ Some c # os) s)
        = ub OutOfBounds"
      using Cons Cons.prems at_block_set_same [OF Cons.prems(1), of "pre @ Some c # os"]
      by (intro Cons.IH [where old = os]) simp_all
    with st show ?thesis by (simp add: bind_def add.commute)
  qed
qed simp

lemma DIV_filled:
  assumes a: "cstr p s = ok a s" and b: "cstr q s = ok b s" and ca: "canonical a" and cb: "canonical b"
    and nz: "b \<noteq> ''0''"
  shows "filled (DIV iso_alloc p q sy1 sy2 s) s"
proof (cases "dval a < dval b")
  case True
  then show ?thesis using iso.DIV_less [OF assms] filled_zero by blast
next
  case False
  let ?r = "length (blocks s)" and ?n = "length a" and ?z = "Some (CHR ''0'')"
  let ?f = "replicate (?n + 1) (None :: char option)"
  let ?sg = "if sy1 = sy2 then CHR ''+'' else CHR ''-''"
  let ?t0 = "push_block (Some ?sg # map Some (replicate ?n (CHR ''0''))) s"
  let ?t1 = "push_block (replicate ?n None) ?t0"
  have m0: "malloc iso_alloc (?n + 1) s = ok (Obj ?r 0) (push_block ?f s)"
    by (rule malloc_push) (simp add: iso_alloc_def)
  have fz: "fill_zeros (Obj ?r 0) 0 (?n + 1) (push_block ?f s)
      = ok () (push_block (?z # map Some (replicate ?n (CHR ''0''))) s)"
    by (subst fill_zeros_correct [where bs = ?f]) (auto simp: map_replicate)
  have sgn: "store (Obj ?r 0) ?sg (push_block (?z # map Some (replicate ?n (CHR ''0''))) s) = ok () ?t0"
    using store_obj [OF at_block_push_new, of 0 "?z # map Some (replicate ?n (CHR ''0''))" s ?sg] by simp
  have m1: "malloc iso_alloc ?n ?t0 = ok (Obj (Suc ?r) 0) ?t1"
    using malloc_push [of iso_alloc ?t0 ?n "replicate ?n None"] by (simp add: iso_alloc_def)
  have at: "at_block ?t1 (Suc ?r) ([] @ replicate ?n None)"
    using at_block_push_new [of "replicate ?n None" ?t0] by simp
  have "cstr p ?t1 = ok a ?t1" using a by (intro cstr_push)
  then have c1: "strcpy (Obj (Suc ?r) 0) p ?t1 = ub OutOfBounds"
    using store_str_off_end [OF at, of "a @ [NUL]"] by (simp add: strcpy_def)
  have "DIV iso_alloc p q sy1 sy2 s = ub OutOfBounds"
    using False by (simp only: DIV_def bind_def DIV_prefix [OF assms] Let_def m0 fz sgn m1 c1
        simp_thms if_False option.case sum.case prod.case)
  then show ?thesis by (simp add: filled_def)
qed

lemma selected_filled:
  assumes "cstr p s = ok a s" and "cstr q s = ok b s" and "canonical a" and "canonical b"
    and "sign_char sy1" and "sign_char sy2" and "c \<in> set ''asmd''" and nz: "c = CHR ''d'' \<Longrightarrow> b \<noteq> ''0''"
  shows "filled (selected iso_alloc c p q sy1 sy2 s) s"
proof -
  have add: "filled (ADD iso_alloc p q sy1 sy2 s) s"
    using iso.ADD_correct [OF assms(1,2) canonical_digits [OF assms(3)] canonical_digits [OF assms(4)],
        of sy1 sy2] assms(5) by (elim exE conjE) (rule filled_number, assumption, assumption, simp, simp)
  have sub: "filled (SUB iso_alloc p q sy1 sy2 s) s"
    using iso.SUB_correct [OF assms(1-4), of sy1 sy2] assms(5,6)
    by (elim exE conjE) (rule filled_number, assumption, assumption, simp, simp)
  have mul: "filled (MUL iso_alloc p q sy1 sy2 s) s"
  proof (cases "a = ''0'' \<or> b = ''0''")
    case True
    then show ?thesis using iso.MUL_zero [OF assms(1,2) True, of sy1 sy2] filled_zero by blast
  next
    case False
    then have "a \<noteq> ''0''" "b \<noteq> ''0''" by simp_all
    from iso.MUL_correct [OF assms(1-4) this, of sy1 sy2] show ?thesis
      by (elim exE conjE) (rule filled_number, assumption, assumption, simp, simp add: sign_char_def)
  qed
  have "c = CHR ''a'' \<or> c = CHR ''s'' \<or> c = CHR ''m'' \<or> c = CHR ''d''" using assms(7) by simp
  then show ?thesis
    using add sub mul DIV_filled [OF assms(1-4)] nz
    by (cases "sy1 = sy2"; elim disjE) (simp_all add: selected_def)
qed

text \<open>
  \<open>answer_query\<close> up to the call of \<open>AdjustmentData\<close> on the result, under any allocator, in terms of
  what the selected operation does.
\<close>

lemma answer_query_filled:
  assumes ops: "operands_at s b A sg1 ds1 x1 M1 c M2 sg2 ds2 x2 P"
    and c: "c \<in> set ''asmd''" and nz: "c = CHR ''d'' \<Longrightarrow> dval ds2 \<noteq> 0"
  shows "answer_query iso_alloc (Obj b (int (length (A @ map Some (sg1 @ ds1) @ Some x1 # M1))))
        (Obj b (int (length (A @ map Some (sg1 @ ds1) @ Some x1 # M1 @ Some c # M2))))
        (Obj b (int (length A))) s = ub OutOfBounds"
proof -
  let ?M = "M1 @ Some c # M2"
  let ?bs3 = "A @ map Some (sg1 @ ds1) @ Some NUL # M1 @ Some c # M2 @ map Some (sg2 @ ds2) @ Some NUL # P"
  let ?s3 = "set_block b ?bs3 s"
  let ?val0 = "Obj b (int (length A))"
    and ?val1 = "Obj b (int (length (A @ map Some (sg1 @ ds1) @ Some x1 # ?M)))"
    and ?opr = "Obj b (int (length (A @ map Some (sg1 @ ds1) @ Some x1 # M1)))"
  have at: "at_block s b (A @ map Some (sg1 @ ds1) @ Some x1 # ?M @ map Some (sg2 @ ds2) @ Some x2 # P)"
    and o: "operand sg1 ds1" "operand sg2 ds2"
    using ops by (simp_all add: operands_at_def)
  then have d: "digits ds1" "digits ds2" by (simp_all add: operand_def)
  obtain p1 p2 s2 where l1: "load ?val0 s = ok (hd (sg1 @ ds1)) s"
    and e1: "ExtractData ?val0 (hd (sg1 @ ds1)) s = ok (p1, sign_of sg1) s2"
    and l2: "load ?val1 s2 = ok (hd (sg2 @ ds2)) s2"
    and e2: "ExtractData ?val1 (hd (sg2 @ ds2)) s2 = ok (p2, sign_of sg2) ?s3"
    and c1: "cstr p1 ?s3 = ok (numeral_of ds1) ?s3" and c2: "cstr p2 ?s3 = ok (numeral_of ds2) ?s3"
    using extract_both [OF ops] by blast
  have at3: "at_block ?s3 b (A @ map Some (sg1 @ ds1) @ Some NUL # ?M
      @ map Some (sg2 @ ds2) @ Some NUL # P)" using at_block_set_same [OF at] by simp
  have lc: "load ?opr ?s3 = ok c ?s3"
    using load_here [of ?s3 b "A @ map Some (sg1 @ ds1) @ Some NUL # M1" c
        "M2 @ map Some (sg2 @ ds2) @ Some NUL # P"] at3 by simp
  have nz': "c = CHR ''d'' \<Longrightarrow> numeral_of ds2 \<noteq> ''0''" using nz numeral_of_zero [OF d(2)] by simp
  have fl: "filled (selected iso_alloc c p1 p2 (sign_of sg1) (sign_of sg2) ?s3) ?s3"
    using c1 c2 canonical_numeral_of [OF d(1)] canonical_numeral_of [OF d(2)] sign_of_sign_char
      sign_of_sign_char c nz' by (rule selected_filled)
  note run = calculate_selected [OF c, of iso_alloc p1 p2 "sign_of sg1" "sign_of sg2" ?opr ?s3]
  show ?thesis
  proof (cases "selected iso_alloc c p1 p2 (sign_of sg1) (sign_of sg2) ?s3 = ub OutOfBounds")
    case True
    then have "calculate iso_alloc p1 p2 (sign_of sg1) (sign_of sg2) ?opr c ?s3 = ub OutOfBounds"
      unfolding run by (rule bind_ub)
    then show ?thesis
      by (simp only: answer_query_def bind_def l1 e1 l2 e2 lc option.case sum.case prod.case)
  next
    case False
    let ?r = "length (blocks s)"
    obtain sg ds where sel: "selected iso_alloc c p1 p2 (sign_of sg1) (sign_of sg2) ?s3
        = ok (Obj ?r 0) (push_block (map Some (sg @ ds)) ?s3)"
      and sg: "sg = [] \<or> sg = ''+'' \<or> sg = ''-''" and ds: "digits ds" "sg @ ds \<noteq> []"
      using fl False unfolding filled_def set_block_fields by blast
    let ?s4 = "push_block (map Some (sg @ ds)) ?s3"
    have cal: "calculate iso_alloc p1 p2 (sign_of sg1) (sign_of sg2) ?opr c ?s3
        = ok (Obj ?r 0, Lit (operator_text c) 0) ?s4"
      unfolding run using sel by simp
    have v: "?val1 = Obj b (int (length (A @ map Some (sg1 @ ds1) @ Some NUL # ?M)))" by simp
    obtain q1 q2 s5 bs where a1: "AdjustmentData ?val0 ?s4 = ok q1 s5"
      and a2: "AdjustmentData ?val1 s5 = ok q2 (set_block b bs ?s4)"
      and sh: "\<forall>s'. at_block s' b bs \<longrightarrow> cstr q1 s' = ok (show_int (operand_value sg1 ds1)) s'
            \<and> cstr q2 s' = ok (show_int (operand_value sg2 ds2)) s'"
      using adjust_both [OF at_block_push_old [OF at3] o] unfolding v by blast
    let ?s6 = "set_block b bs ?s4"
    have ne: "?r \<noteq> b" using at_block_bound [OF at] by simp
    have at6: "at_block ?s6 ?r (map Some (sg @ ds))"
      using ne at_block_push_new [of "map Some (sg @ ds)" ?s3] by (simp add: at_block_set_other)
    have bb: "at_block ?s6 b bs"
      using at_block_set_same [OF at_block_push_old [OF at3]] by blast
    have pre: "answer_query iso_alloc ?opr ?val1 ?val0 s
        = bind (AdjustmentData (Obj ?r 0)) (\<lambda>shown.
            bind (echo_result q1 q2 (Lit (operator_text c) 0) shown) (\<lambda>_.
              if Obj ?r 0 \<noteq> NULL then free (Obj ?r 0) else return ())) ?s6"
      by (simp only: answer_query_def bind_def l1 e1 l2 e2 lc cal a1 a2 option.case sum.case prod.case)
    from AdjustmentData_off_end [OF at6 ds sg] show ?thesis
    proof (elim disjE exE conjE)
      assume "AdjustmentData (Obj ?r 0) ?s6 = ub OutOfBounds"
      then show ?thesis unfolding pre by (rule bind_ub)
    next
      fix p bs' assume a3: "AdjustmentData (Obj ?r 0) ?s6 = ok p (set_block ?r bs' ?s6)"
        and cp: "cstr p (set_block ?r bs' ?s6) = ub OutOfBounds"
      have "at_block (set_block ?r bs' ?s6) b bs"
        using bb ne by (simp only: at_block_set_other not_sym simp_thms)
      then have s1: "cstr q1 (set_block ?r bs' ?s6)
            = ok (show_int (operand_value sg1 ds1)) (set_block ?r bs' ?s6)"
        and s2: "cstr q2 (set_block ?r bs' ?s6)
            = ok (show_int (operand_value sg2 ds2)) (set_block ?r bs' ?s6)"
        using sh by blast+
      have so: "cstr (Lit (operator_text c) 0) (set_block ?r bs' ?s6)
          = ok (operator_text c) (set_block ?r bs' ?s6)"
        by (simp add: operator_text_def)
      have "\<not> (operator_text c = ''/'' \<and> show_int (operand_value sg2 ds2) = ''0'')"
        using c nz by (auto simp: operator_text_def show_int_eq_zero operand_value_def signed_value_def)
      from echo_result_ub [OF s1 s2 so cp this] a3 show ?thesis unfolding pre by simp
    qed
  qed
qed

text \<open>
  When \<open>malloc\<close> hands out exactly the bytes asked for, every calculation on
  well-formed operands accesses memory outside its object: no result is terminated by a NUL
  byte, and \<open>DIV\<close> copies its operands into objects one byte too short.
\<close>

theorem unterminated_results:
  assumes "cstr (Obj b i) s = ok (calc_query n1 (sg1 @ ds1 @ j1) n2 (c # w) n3 (sg2 @ ds2 @ j2)) s"
    and "calc_fields n1 sg1 ds1 j1 n2 (c # w) n3 sg2 ds2 j2"
    and "c \<in> set ''asmd''" and "c = CHR ''d'' \<longrightarrow> dval ds2 \<noteq> 0"
  shows "handle_data iso_alloc (Obj b i) s = ub OutOfBounds"
  using handle_data_split [OF assms(1,2), of iso_alloc] answer_query_filled [OF _ assms(3)] assms(4)
  by force


theorem unterminated_results_witness:
  "handle_data iso_alloc (Obj 0 0) (sample ''data1=1&op=add&data2=1'') = ub OutOfBounds"
  using unterminated_results [of 0 0 "sample ''data1=1&op=add&data2=1''"
      "''data1''" "[]" "''1''" "[]" "''op''" "CHR ''a''" "''dd''" "''data2''" "[]" "''1''" "[]"]
  by (simp add: calc_eval)


end
