(* ===== verification/MathMain.thy ===== *)
theory MathMain
  imports MathProps
begin

text \<open>
  How \<open>main\<close> of the calculator finds its query: for GET in the environment, for POST by reading
  as many bytes as \<open>CONTENT_LENGTH\<close> says from standard input into a buffer of 1024 bytes.
\<close>

section \<open>Reading the body\<close>

lemma read_byte_ok:
  assumes "at_block s b (pre @ x # post)" and "stdin s = c # cs"
  shows "read_byte (Obj b (int (length pre))) s
    = ok 1 (set_block b (pre @ Some c # post) (s\<lparr>stdin := cs\<rparr>))"
proof -
  have "at_block (s\<lparr>stdin := cs\<rparr>) b (pre @ x # post)" using assms(1) by (simp add: at_block_def)
  from store_here [OF this, of c] assms(2) show ?thesis by (simp add: read_byte_def)
qed

lemma set_block_stdin: "(set_block b bs s)\<lparr>stdin := x\<rparr> = set_block b bs (s\<lparr>stdin := x\<rparr>)"
  by (simp add: set_block_def)

lemma read_body_ok:
  assumes "at_block s b (pre @ replicate m (Some NUL))" and "k \<le> length (stdin s)" and "k \<le> m"
    and "length pre + m = 1024"
  shows "read_body (Obj b 0) (int k) (length pre) s
    = ok () (set_block b (pre @ map Some (take k (stdin s)) @ replicate (m - k) (Some NUL))
        (s\<lparr>stdin := drop k (stdin s)\<rparr>))"
  using assms
proof (induction k arbitrary: pre m s)
  case 0
  then show ?case by (subst read_body.simps) simp
next
  case (Suc k)
  obtain c cs where c: "stdin s = c # cs" using Suc.prems(2) by (cases "stdin s") auto
  obtain m' where m: "m = Suc m'" using Suc.prems(3) by (cases m) auto
  let ?s = "set_block b (pre @ Some c # replicate m' (Some NUL)) (s\<lparr>stdin := cs\<rparr>)"
  have at: "at_block s b (pre @ Some NUL # replicate m' (Some NUL))"
    using Suc.prems(1) m by simp
  have rb: "read_byte (Obj b (int (length pre))) s = ok 1 ?s" using at c by (rule read_byte_ok)
  have at1: "at_block ?s b ((pre @ [Some c]) @ replicate m' (Some NUL))"
    using at by (simp add: at_block_def set_block_def)
  have "read_body (Obj b 0) (int k) (length (pre @ [Some c])) ?s
      = ok () (set_block b ((pre @ [Some c]) @ map Some (take k (stdin ?s))
          @ replicate (m' - k) (Some NUL)) (?s\<lparr>stdin := drop k (stdin ?s)\<rparr>))"
    using at1 Suc.prems c m by (intro Suc.IH) simp_all
  then have "read_body (Obj b 0) (int k) (Suc (length pre)) ?s
      = ok () (set_block b (pre @ map Some (take (Suc k) (stdin s)) @ replicate (m - Suc k) (Some NUL))
          (s\<lparr>stdin := drop (Suc k) (stdin s)\<rparr>))"
    using c m by (simp add: set_block_stdin)
  then show ?case
    using rb Suc.prems(4) by (subst read_body.simps) (simp add: bind_def)
qed

text \<open>
  A length the buffer cannot hold, negative ones included, runs out of the buffer whatever
  standard input holds.
\<close>

lemma read_byte_index:
  assumes "at_block s b bs" and "length bs = 1024"
  shows "read_byte (Obj b (int i)) s = ub OutOfBounds
    \<or> (\<exists>n s' bs'. read_byte (Obj b (int i)) s = ok n s' \<and> at_block s' b bs' \<and> length bs' = 1024)"
proof (cases "stdin s")
  case (Cons c cs)
  have at: "at_block (s\<lparr>stdin := cs\<rparr>) b bs" using assms(1) by (simp add: at_block_def)
  show ?thesis
  proof (cases "i < 1024")
    case True
    then show ?thesis
      using Cons assms(2) at store_obj [OF at, of "int i" c] at_block_set_same [OF at]
      by (intro disjI2 exI [of _ 1] exI [of _ "set_block b (bs[i := Some c]) (s\<lparr>stdin := cs\<rparr>)"]
          exI [of _ "bs[i := Some c]"]) (simp add: read_byte_def)
  next
    case False
    then show ?thesis
      using Cons assms(2) at by (simp add: read_byte_def at_block_def store.simps)
  qed
qed (use assms in \<open>auto simp: read_byte_def\<close>)

lemma read_body_overflow:
  assumes "at_block s b bs" and "length bs = 1024" and "len < 0 \<or> 1025 - int i < len" and "i \<le> 1025"
  shows "read_body (Obj b 0) len i s = ub OutOfBounds"
  using assms
proof (induction "1025 - i" arbitrary: i len s bs)
  case 0
  then have "len \<noteq> 0" "1024 < i" by auto
  then show ?case by (subst read_body.simps) simp
next
  case (Suc n)
  have i: "i \<le> 1024" using Suc.hyps(2) by simp
  from read_byte_index [OF Suc.prems(1,2), of i] show ?case
  proof (elim disjE exE conjE)
    assume "read_byte (Obj b (int i)) s = ub OutOfBounds"
    then show ?thesis using i Suc.prems(3) by (subst read_body.simps) auto
  next
    fix k s' bs' assume r: "read_byte (Obj b (int i)) s = ok k s'"
      and at: "at_block s' b bs'" "length bs' = 1024"
    have "read_body (Obj b 0) (len - 1) (i + 1) s' = ub OutOfBounds"
      using Suc.hyps(2) Suc.prems(3) i by (intro Suc.hyps(1) [OF _ at]) auto
    then show ?thesis using r i Suc.prems(3) by (subst read_body.simps) auto
  qed
qed

section \<open>The query of a GET and of a POST\<close>

definition math_buffer :: "string \<Rightarrow> char option list" where
  "math_buffer t = map Some t @ replicate (1024 - length t) (Some NUL)"

lemma main_math_buffer:
  "malloc (\<lambda>k n. Some (replicate n (Some NUL))) 1024 s
    = ok (Obj (length (blocks s)) 0) (push_block (math_buffer []) s)"
  by (simp add: malloc_def push_block_def math_buffer_def)

text \<open>Process states with a given environment, for trying the theorems.\<close>

definition with_env :: "(string \<times> string) list \<Rightarrow> string \<Rightarrow> cstate" where
  "with_env e inp =
     \<lparr>blocks = [], stdout = [], stdin = inp, environ = map_of (map (\<lambda>(k, v). (k, Lit v 0)) e)\<rparr>"

lemma with_env_cstr: "NUL \<notin> set t \<Longrightarrow> cstr (Lit t 0) s = ok t s"
  by (simp add: takeWhile_eq_all_conv) metis

lemmas env_eval = with_env_def with_env_cstr strcasecmp_eq_def to_lower_def cint_def cchr_def char_of_def
  atoi_def strtol10_def isspace_def is_digit_def dig_def

lemma main_get_run:
  assumes "environ s ''METHOD'' = Some m" and "cstr m s = ok mt s" and "strcasecmp_eq mt ''GET''"
    and "environ s ''QUERY_STRING'' = Some q"
  shows "main_math al s = bind (handle_data al q) (\<lambda>_. return 0) (push_block (math_buffer []) s)"
proof -
  let ?s = "push_block (math_buffer []) s"
  have "cstr m ?s = ok mt ?s" using assms(2) by (rule cstr_push)
  then show ?thesis
    using assms main_math_buffer
    by (simp add: main_math_def getenv_def pointer_value_def bind_def)
qed

text \<open>
  For the method GET, in any case of letters, \<open>main\<close> of the calculator does what
  \<open>handle_data\<close> does on the string in \<open>QUERY_STRING\<close>, and returns 0.
\<close>

theorem main_math_get:
  assumes "environ s ''METHOD'' = Some m" and "cstr m s = ok mt s" and "strcasecmp_eq mt ''GET''"
    and "environ s ''QUERY_STRING'' = Some q"
  shows "main_math al s = bind (handle_data al q) (\<lambda>_. return 0) (push_block (math_buffer []) s)"
  using assms by (rule main_get_run)

theorem main_math_get_witness:
  "main_math spare_alloc (with_env [(''METHOD'', ''get''), (''QUERY_STRING'', [])] [])
    = ok 0 (push_block (math_buffer []) (with_env [(''METHOD'', ''get''), (''QUERY_STRING'', [])] []))"
  using main_math_get [of "with_env [(''METHOD'', ''get''), (''QUERY_STRING'', [])] []"
      "Lit ''get'' 0" "''get''" "Lit [] 0" spare_alloc]
  by (simp add: env_eval handle_data_def strcmp_def bind_def)

text \<open>
  For the method POST with a length of at most 1024 bytes that have arrived, \<open>main\<close>
  does what \<open>handle_data\<close> does on a buffer that holds exactly those bytes, and
  leaves the rest of standard input unread.
\<close>

theorem main_math_post:
  assumes "environ s ''METHOD'' = Some m" and "cstr m s = ok mt s" and "strcasecmp_eq mt ''POST''"
    and "environ s ''CONTENT_LENGTH'' = Some p" and "cstr p s = ok t s"
    and "atoi t = int n" and "n \<le> 1024" and "n \<le> length (stdin s)"
  shows "main_math al s
    = bind (handle_data al (Obj (length (blocks s)) 0)) (\<lambda>_. return 0)
        (push_block (math_buffer (take n (stdin s))) (s\<lparr>stdin := drop n (stdin s)\<rparr>))"
proof -
  let ?s = "push_block (math_buffer []) s" and ?r = "length (blocks s)"
  have c: "cstr m ?s = ok mt ?s" "cstr p ?s = ok t ?s" using assms(2,5) by (simp_all only: cstr_push)
  have ng: "\<not> strcasecmp_eq mt ''GET''"
    using assms(3) arg_cong [of "map to_lower mt" _ length]
    by (auto simp: strcasecmp_eq_def)
  have at: "at_block ?s ?r ([] @ replicate 1024 (Some NUL))"
    using at_block_push_new [of "math_buffer []" s] by (simp add: math_buffer_def)
  have "read_body (Obj ?r 0) (int n) (length ([] :: char option list)) ?s
      = ok () (set_block ?r ([] @ map Some (take n (stdin ?s)) @ replicate (1024 - n) (Some NUL))
          (?s\<lparr>stdin := drop n (stdin ?s)\<rparr>))"
    using assms(7,8) by (intro read_body_ok [OF at]) simp_all
  also have "\<dots> = ok () (push_block (math_buffer (take n (stdin s))) (s\<lparr>stdin := drop n (stdin s)\<rparr>))"
    using assms(8) by (simp add: math_buffer_def set_block_def push_block_def)
  finally have rb: "read_body (Obj ?r 0) (int n) 0 ?s
      = ok () (push_block (math_buffer (take n (stdin s))) (s\<lparr>stdin := drop n (stdin s)\<rparr>))" by simp
  show ?thesis
    using assms ng c rb main_math_buffer
    by (simp add: main_math_def getenv_def pointer_value_def bind_def)
qed

theorem main_math_post_witness:
  "main_math spare_alloc (with_env [(''METHOD'', ''POST''), (''CONTENT_LENGTH'', ''3'')] ''a=1&b=2'')
    = bind (handle_data spare_alloc (Obj 0 0)) (\<lambda>_. return 0)
        (push_block (math_buffer ''a=1'') (with_env [(''METHOD'', ''POST''), (''CONTENT_LENGTH'', ''3'')] ''&b=2''))"
  using main_math_post [of "with_env [(''METHOD'', ''POST''), (''CONTENT_LENGTH'', ''3'')] ''a=1&b=2''"
      "Lit ''POST'' 0" "''POST''" "Lit ''3'' 0" "''3''" 3 spare_alloc]
  by (simp add: env_eval)

text \<open>
  C34: a \<open>CONTENT_LENGTH\<close> that is negative or exceeds 1025 makes the read loop
  leave the buffer of 1024 bytes, whatever standard input holds.
\<close>

theorem main_math_post_overflow:
  assumes "environ s ''METHOD'' = Some m" and "cstr m s = ok mt s" and "strcasecmp_eq mt ''POST''"
    and "environ s ''CONTENT_LENGTH'' = Some p" and "cstr p s = ok t s"
    and "atoi t < 0 \<or> 1025 < atoi t"
  shows "main_math al s = ub OutOfBounds"
proof -
  let ?s = "push_block (math_buffer []) s" and ?r = "length (blocks s)"
  have c: "cstr m ?s = ok mt ?s" "cstr p ?s = ok t ?s" using assms(2,5) by (simp_all only: cstr_push)
  have ng: "\<not> strcasecmp_eq mt ''GET''"
    using assms(3) arg_cong [of "map to_lower mt" _ length]
    by (auto simp: strcasecmp_eq_def)
  have rb: "read_body (Obj ?r 0) (atoi t) 0 ?s = ub OutOfBounds"
    using assms(6) by (intro read_body_overflow [OF at_block_push_new]) (auto simp: math_buffer_def)
  show ?thesis
    using assms ng c rb main_math_buffer
    by (simp add: main_math_def getenv_def pointer_value_def bind_def)
qed

theorem main_math_post_overflow_witness:
  "main_math spare_alloc (with_env [(''METHOD'', ''POST''), (''CONTENT_LENGTH'', ''-1'')] []) = ub OutOfBounds"
  using main_math_post_overflow [of "with_env [(''METHOD'', ''POST''), (''CONTENT_LENGTH'', ''-1'')] []"
      "Lit ''POST'' 0" "''POST''" "Lit ''-1'' 0" "''-1''" spare_alloc]
  by (simp add: env_eval)

text \<open>Without a usable method, or a POST without a length, an indeterminate pointer is used.\<close>

text \<open>
  Without \<open>METHOD\<close>, with another method than GET and POST, or with POST but no
  \<open>CONTENT_LENGTH\<close>, \<open>main\<close> uses an indeterminate pointer.
\<close>

theorem main_math_uninit:
  assumes "environ s ''METHOD'' = None
    \<or> (\<exists>m mt. environ s ''METHOD'' = Some m \<and> cstr m s = ok mt s \<and> \<not> strcasecmp_eq mt ''GET''
        \<and> (strcasecmp_eq mt ''POST'' \<longrightarrow> environ s ''CONTENT_LENGTH'' = None))"
  shows "main_math al s = ub Uninit"
proof -
  let ?s = "push_block (math_buffer []) s"
  show ?thesis
    using assms
  proof (elim disjE exE conjE)
    assume "environ s ''METHOD'' = None"
    then show ?thesis
      using main_math_buffer by (simp add: main_math_def getenv_def pointer_value_def bind_def)
  next
    fix m mt assume h: "environ s ''METHOD'' = Some m" "cstr m s = ok mt s" "\<not> strcasecmp_eq mt ''GET''"
      "strcasecmp_eq mt ''POST'' \<longrightarrow> environ s ''CONTENT_LENGTH'' = None"
    have "cstr m ?s = ok mt ?s" using h(2) by (rule cstr_push)
    then show ?thesis
      using h main_math_buffer by (simp add: main_math_def getenv_def pointer_value_def bind_def)
  qed
qed

theorem main_math_uninit_witness:
  "main_math spare_alloc (with_env [(''METHOD'', ''HEAD'')] []) = ub Uninit
   \<and> main_math spare_alloc (with_env [] []) = ub Uninit"
  using main_math_uninit [of "with_env [(''METHOD'', ''HEAD'')] []" spare_alloc]
    main_math_uninit [of "with_env [] []" spare_alloc]
  by (simp add: env_eval)

end
