(* ===== verification/MathDivWindow.thy ===== *)
theory MathDivWindow
  imports MathProps
begin

text \<open>
  Why \<open>calculator_divides\<close> asks for \<open>div_clean\<close>: a window of the dividend that begins with zeros
  counts as larger than a shorter divisor, and is then subtracted from until it happens to begin
  with a zero again.
\<close>

text \<open>
  \<open>SubLoop\<close> on a window of two zeros and the divisor 9 does not return the digit
  zero but the character L: a window with leading zeros counts as larger than a shorter divisor.
\<close>

theorem SubLoop_zero_window:
  "map_option (map_sum id (\<lambda>(c, s). (c, blocks s)))
     (SubLoop (Obj 0 0) 2 (Lit ''9'' 0) 1 (sample ''00''))
   = Some (Inr (CHR ''L'', [Live [Some (CHR ''0''), Some (CHR ''4''), Some NUL]]))"
  by code_simp

end
