(* ===== verification/HttpWorld.thy ===== *)
theory HttpWorld
  imports CBase "HOL-Library.Word"
begin

text \<open>
  What the server of \<open>httpd.c\<close> acts on: the bytes that have arrived and been sent on each socket,
  the files \<open>stat\<close> and \<open>open\<close> find, the environment \<open>putenv\<close> changes, and what is printed. A call
  of the operating system is an operation on this state; the ways it can fail are part of it.
\<close>

unbundle bit_operations_syntax

section \<open>The state\<close>

text \<open>
  A file has a mode, a content, and may or may not be opened for reading. A line of output is a
  text or an entry of \<open>print_log\<close>, whose message comes from \<open>strerror\<close> and is left out.
\<close>

record fentry =
  f_mode :: "32 word"
  f_data :: string
  f_readable :: bool

datatype msg = Text string | ErrorAt string nat

text \<open>
  The environment is a list of entries. \<open>putenv\<close> stores the pointer it is given: an entry whose
  array belongs to a function that has returned has no determined value (\<open>None\<close>); its name is
  taken to be still readable.
\<close>

record world =
  inp :: "int \<Rightarrow> string"
  sent :: "int \<Rightarrow> string"
  broken :: "int \<Rightarrow> bool"
  closes :: "int list"
  files :: "string \<Rightarrow> fentry option"
  open_files :: nat
  env :: "(string \<times> string option) list"
  can_fork :: bool
  out :: "msg list"

section \<open>Receiving\<close>

text \<open>
  \<open>recv\<close> of one byte: the byte, or \<open>None\<close> where it returns 0 at the end of the stream or -1. With
  \<open>MSG_PEEK\<close> the byte stays; at the end of the stream the variable keeps its value \<open>ch\<close>.
\<close>

definition recv :: "int \<Rightarrow> (world, char option) c" where
  "recv sock w =
     (case inp w sock of
        [] \<Rightarrow> ok None w
      | c # cs \<Rightarrow> ok (Some c) (w\<lparr>inp := (inp w)(sock := cs)\<rparr>))"

definition recv_peek :: "int \<Rightarrow> char \<Rightarrow> (world, char) c" where
  "recv_peek sock ch w = ok (case inp w sock of [] \<Rightarrow> ch | c # cs \<Rightarrow> c) w"

definition set_inp :: "int \<Rightarrow> string \<Rightarrow> world \<Rightarrow> world" where
  "set_inp sock t w = w\<lparr>inp := (inp w)(sock := t)\<rparr>"

lemma set_inp_simps [simp]:
  "inp (set_inp s t w) = (inp w)(s := t)"
  "sent (set_inp s t w) = sent w" "broken (set_inp s t w) = broken w"
  "closes (set_inp s t w) = closes w" "files (set_inp s t w) = files w"
  "open_files (set_inp s t w) = open_files w" "env (set_inp s t w) = env w"
  "can_fork (set_inp s t w) = can_fork w" "out (set_inp s t w) = out w"
  "set_inp s t (set_inp s u w) = set_inp s t w"
  by (simp_all add: set_inp_def)

lemma set_inp_same [simp]: "set_inp s (inp w s) w = w"
  by (simp add: set_inp_def)

section \<open>Sending\<close>

definition say :: "msg \<Rightarrow> (world, unit) c" where
  "say m w = ok () (w\<lparr>out := out w @ [m]\<rparr>)"

definition print_log :: "string \<Rightarrow> nat \<Rightarrow> (world, unit) c" where
  "print_log fname line = say (ErrorAt fname line)"

text \<open>\<open>send\<close> sends all bytes or fails (\<open>False\<close>) when the connection is broken.\<close>

definition send :: "int \<Rightarrow> string \<Rightarrow> (world, bool) c" where
  "send sock t w =
     (if broken w sock then ok False w
      else ok True (w\<lparr>sent := (sent w)(sock := sent w sock @ t)\<rparr>))"

definition close :: "int \<Rightarrow> (world, unit) c" where
  "close fd w = ok () (w\<lparr>closes := closes w @ [fd]\<rparr>)"

section \<open>Files\<close>

definition stat :: "string \<Rightarrow> (world, fentry option) c" where
  "stat path w = ok (files w path) w"

text \<open>\<open>open(path, O_RDONLY)\<close>: the content that can then be read, or \<open>None\<close> where it fails.\<close>

definition open_read :: "string \<Rightarrow> (world, string option) c" where
  "open_read path w =
     (case files w path of
        Some f \<Rightarrow> if f_readable f then ok (Some (f_data f)) (w\<lparr>open_files := open_files w + 1\<rparr>)
                  else ok None w
      | None \<Rightarrow> ok None w)"

definition close_file :: "(world, unit) c" where
  "close_file w = ok () (w\<lparr>open_files := open_files w - 1\<rparr>)"

text \<open>\<open>sendfile\<close> of \<open>n\<close> bytes from the start of a file.\<close>

definition sendfile :: "int \<Rightarrow> string \<Rightarrow> nat \<Rightarrow> (world, bool) c" where
  "sendfile sock content n = send sock (take n content)"

section \<open>The environment\<close>

definition env_put :: "string \<Rightarrow> string option \<Rightarrow> (string \<times> string option) list \<Rightarrow> (string \<times> string option) list" where
  "env_put name v e =
     (if name \<in> fst ` set e then map (\<lambda>(n, x). (n, if n = name then v else x)) e else e @ [(name, v)])"

definition putenv :: "string \<Rightarrow> string \<Rightarrow> (world, int) c" where
  "putenv name v w = ok 0 (w\<lparr>env := env_put name (Some v) (env w)\<rparr>)"

definition env_expire :: "string list \<Rightarrow> (string \<times> string option) list \<Rightarrow> (string \<times> string option) list" where
  "env_expire names e = map (\<lambda>(n, x). (n, if n \<in> set names then None else x)) e"

text \<open>The arrays behind the given names cease to exist when their function returns.\<close>

definition leave_frame :: "string list \<Rightarrow> (world, unit) c" where
  "leave_frame names w = ok () (w\<lparr>env := env_expire names (env w)\<rparr>)"

lemma map_of_replace:
  "map_of (map (\<lambda>(n, x). (n, if n = name then v else x)) e) k
   = (if k = name then map_option (\<lambda>_. v) (map_of e k) else map_of e k)"
  by (induction e) auto

lemma map_of_env_put: "map_of (env_put name v e) k = (if k = name then Some v else map_of e k)"
  using map_of_eq_None_iff [of e name]
  by (auto simp: env_put_def map_of_replace map_add_def split: option.splits)

lemma map_of_env_expire:
  "map_of (env_expire names e) n = (if n \<in> set names then map_option (\<lambda>_. None) (map_of e n) else map_of e n)"
  by (induction e) (auto simp: env_expire_def)

lemmas w_eval = recv_def recv_peek_def say_def print_log_def send_def close_def stat_def
  open_read_def close_file_def sendfile_def putenv_def leave_frame_def
  env_put_def env_expire_def

section \<open>The interface of a byte stream\<close>

text \<open>
  What a reader of lines relies on: \<open>rcv\<close> takes the next byte of the stream, \<open>peek\<close> looks at it,
  and nothing else changes. A socket is such a stream.
\<close>

locale byte_source =
  fixes rcv :: "('s, char option) c"
    and peek :: "char \<Rightarrow> ('s, char) c"
    and avail :: "'s \<Rightarrow> string"
    and put_back :: "string \<Rightarrow> 's \<Rightarrow> 's"
  assumes rcv_end: "avail s = [] \<Longrightarrow> rcv s = ok None s"
    and rcv_byte: "avail s = c # cs \<Longrightarrow> rcv s = ok (Some c) (put_back cs s)"
    and peek_end: "avail s = [] \<Longrightarrow> peek ch s = ok ch s"
    and peek_byte: "avail s = c # cs \<Longrightarrow> peek ch s = ok c s"
    and avail_put_back [simp]: "avail (put_back t s) = t"
    and put_back_put_back [simp]: "put_back t (put_back u s) = put_back t s"
    and put_back_avail [simp]: "put_back (avail s) s = s"

interpretation sock: byte_source "recv fd" "recv_peek fd" "\<lambda>w. inp w fd" "set_inp fd" for fd
  by unfold_locales (simp_all add: recv_def recv_peek_def set_inp_def)

end
