(* ===== verification/HttpLine.thy ===== *)
theory HttpLine
  imports HttpWorld
begin

text \<open>
  Reading lines from a socket in \<open>httpd.c\<close>: \<open>get_line\<close>, \<open>clear_head\<close> and \<open>GetContentLength\<close>, with a
  reference definition of what they take from the byte stream.
\<close>

section \<open>get\_line\<close>

text \<open>
  The loop of \<open>get_line\<close>. A byte is received before the index is tested. The buffer is a list of
  \<open>sz\<close> bytes, cleared by \<open>memset\<close>.
\<close>

partial_function (option) get_line_loop ::
  "('s, char option) c \<Rightarrow> (char \<Rightarrow> ('s, char) c) \<Rightarrow> nat \<Rightarrow> string \<Rightarrow> nat \<Rightarrow> 's
    \<Rightarrow> (cerr + (string \<times> nat) \<times> 's) option" where
  "get_line_loop rcv peek sz buf index s =
     bind rcv (\<lambda>r s.
       case r of
         None \<Rightarrow> ok (buf, index) s
       | Some ch \<Rightarrow>
           (if index < sz - 1 then
              bind (if ch = CR then peek ch else return ch) (\<lambda>ch' s.
                if ch = CR \<and> ch' = LF then get_line_loop rcv peek sz buf index s
                else if ch' = LF then ok (buf[index := ch'], index + 1) s
                else get_line_loop rcv peek sz (buf[index := ch']) (index + 1) s) s
            else ok (buf, index) s)) s"

declare get_line_loop.simps [code]

definition get_line :: "int \<Rightarrow> nat \<Rightarrow> (world, string \<times> nat) c" where
  "get_line sock sz =
     get_line_loop (recv sock) (recv_peek sock) sz (replicate sz NUL) 0"

section \<open>The line a stream begins with\<close>

text \<open>
  \<open>take_line n inp\<close> is the line with room for \<open>n\<close> bytes and the rest of the stream. A carriage
  return before a line feed is dropped; before anything else the byte after it is stored in its
  place, and again when it is received. A full line costs the stream one byte more.
\<close>

fun take_line :: "nat \<Rightarrow> string \<Rightarrow> string \<times> string" where
  "take_line n [] = ([], [])"
| "take_line 0 (c # cs) = ([], cs)"
| "take_line (Suc n) (c # cs) =
     (if c = LF then ([LF], cs)
      else if c = CR \<and> cs \<noteq> [] \<and> hd cs = LF then take_line (Suc n) cs
      else let (l, rest) = take_line n cs in ((if c = CR \<and> cs \<noteq> [] then hd cs else c) # l, rest))"

lemma take_line_length: "length (fst (take_line n t)) \<le> n"
  by (induction n t rule: take_line.induct) (auto split: prod.splits)

lemma take_line_rest: "length (snd (take_line n t)) \<le> length t"
  by (induction n t rule: take_line.induct) (auto split: prod.splits)

lemma take_line_consumes: "t \<noteq> [] \<Longrightarrow> length (snd (take_line n t)) < length t"
proof (induction n t rule: take_line.induct)
  case (3 n c cs)
  show ?case
  proof (cases "cs = []")
    case False
    with 3 take_line_rest [of n cs] show ?thesis by (auto split: prod.splits)
  qed (auto split: prod.splits)
qed auto

lemma take_line_nonempty: "t \<noteq> [] \<Longrightarrow> fst (take_line (Suc n) t) \<noteq> []"
proof (induction "length t" arbitrary: t)
  case (Suc k)
  then obtain c cs where t: "t = c # cs" by (cases t) auto
  show ?case
  proof (cases "c = CR \<and> cs \<noteq> [] \<and> hd cs = LF")
    case True
    then show ?thesis using Suc.hyps(1) [of cs] Suc.hyps(2) t by simp
  next
    case False
    then show ?thesis using t by (auto split: prod.splits)
  qed
qed simp

text \<open>A line as a client sends it: no control character inside, ended by CR LF or by LF.\<close>

definition clean :: "string \<Rightarrow> bool" where
  "clean l \<longleftrightarrow> CR \<notin> set l \<and> LF \<notin> set l"

lemma clean_simps [simp]:
  "clean []" "clean (c # l) \<longleftrightarrow> c \<noteq> CR \<and> c \<noteq> LF \<and> clean l" "clean (l @ m) \<longleftrightarrow> clean l \<and> clean m"
  by (auto simp: clean_def)

lemma take_line_clean:
  "clean l \<Longrightarrow> length l < n \<Longrightarrow> take_line n (l @ [CR, LF] @ rest) = (l @ [LF], rest)"
proof (induction l arbitrary: n)
  case Nil
  then obtain m where "n = Suc m" by (cases n) auto
  then show ?case by simp
next
  case (Cons c l)
  then obtain m where m: "n = Suc m" by (cases n) auto
  from Cons have "take_line m (l @ [CR, LF] @ rest) = (l @ [LF], rest)" unfolding m by simp
  with Cons.prems m show ?case by simp
qed

section \<open>get\_line takes that line\<close>

context byte_source
begin

lemma get_line_loop_correct:
  assumes "index \<le> sz - 1" and "sz = length buf" and "0 < sz"
  shows "get_line_loop rcv peek sz buf index s
    = ok (take index buf @ fst (take_line (sz - 1 - index) (avail s))
            @ drop (index + length (fst (take_line (sz - 1 - index) (avail s)))) buf,
          index + length (fst (take_line (sz - 1 - index) (avail s))))
        (put_back (snd (take_line (sz - 1 - index) (avail s))) s)"
  using assms
proof (induction "length (avail s)" arbitrary: index buf s rule: less_induct)
  case less
  show ?case
  proof (cases "avail s")
    case Nil
    have "put_back [] s = s" using put_back_avail [of s] Nil by simp
    then show ?thesis
      using rcv_end [OF Nil] Nil by (subst get_line_loop.simps) (simp add: bind_def)
  next
    case (Cons c cs)
    note r = rcv_byte [OF Cons]
    let ?s = "put_back cs s"
    show ?thesis
    proof (cases "index < sz - 1")
      case False
      then have z: "sz - 1 - index = 0" by simp
      show ?thesis
        unfolding z using r False Cons by (subst get_line_loop.simps) (simp add: bind_def)
    next
      case True
      then obtain n where n: "sz - 1 - index = Suc n" by (cases "sz - 1 - index") auto
      then have n': "sz - 1 - (index + 1) = n" by simp
      define ch where "ch = (if c = CR \<and> cs \<noteq> [] then hd cs else c)"
      have pk: "(if c = CR then peek c else return c) ?s = ok ch ?s"
        using peek_end [of ?s c] peek_byte [of ?s "hd cs" "tl cs" c]
        by (cases cs) (auto simp: ch_def)
      have lt: "length (avail ?s) < length (avail s)" using Cons by simp
      have ib: "index < length buf" using True less.prems by simp
      have st: "take (Suc index) (buf[index := ch]) = take index buf @ [ch]"
        using ib by (simp add: take_Suc_conv_app_nth)
      show ?thesis
      proof (cases "c = CR \<and> ch = LF")
        case skip: True
        then have h: "c = CR" "cs \<noteq> []" "hd cs = LF" by (auto simp: ch_def split: if_splits)
        have run: "get_line_loop rcv peek sz buf index s = get_line_loop rcv peek sz buf index ?s"
          using r True pk skip by (subst get_line_loop.simps) (simp add: bind_def)
        show ?thesis
          unfolding run using less.hyps [OF lt less.prems] h n Cons by simp
      next
        case keep: False
        show ?thesis
        proof (cases "ch = LF")
          case True
          then have c: "c = LF" using keep by (auto simp: ch_def split: if_splits)
          have "get_line_loop rcv peek sz buf index s = ok (buf[index := LF], index + 1) ?s"
            using r \<open>index < sz - 1\<close> pk keep True
            by (subst get_line_loop.simps) (simp add: bind_def)
          then show ?thesis
            using c n Cons ib st True by (simp add: upd_conv_take_nth_drop)
        next
          case False
          have run: "get_line_loop rcv peek sz buf index s
              = get_line_loop rcv peek sz (buf[index := ch]) (index + 1) ?s"
            using r True pk keep False by (subst get_line_loop.simps) (simp add: bind_def)
          have tl: "take_line (Suc n) (c # cs)
              = (ch # fst (take_line n cs), snd (take_line n cs))"
            using keep False by (auto simp: ch_def split: prod.splits if_splits)
          have "get_line_loop rcv peek sz (buf[index := ch]) (index + 1) ?s
            = ok (take (index + 1) (buf[index := ch]) @ fst (take_line n cs)
                    @ drop (index + 1 + length (fst (take_line n cs))) (buf[index := ch]),
                  index + 1 + length (fst (take_line n cs)))
                (put_back (snd (take_line n cs)) ?s)"
            using less.hyps [OF lt, of "index + 1" "buf[index := ch]"] True less.prems n' by simp
          then show ?thesis
            unfolding run n Cons tl using st by simp
        qed
      qed
    qed
  qed
qed

end

text \<open>The buffer after \<open>get_line\<close>: the line, then NUL bytes, at least one of them.\<close>

definition padded :: "nat \<Rightarrow> string \<Rightarrow> string" where
  "padded sz l = l @ replicate (sz - length l) NUL"

lemma get_line_spec:
  assumes "0 < sz"
  shows "get_line sock sz w
    = (let (l, rest) = take_line (sz - 1) (inp w sock)
       in ok (padded sz l, length l) (set_inp sock rest w))"
  using sock.get_line_loop_correct [of 0 sz "replicate sz NUL" sock w] assms
  by (simp add: get_line_def padded_def split: prod.splits)

section \<open>clear\_head\<close>

partial_function (option) clear_head_loop ::
  "int \<Rightarrow> string \<Rightarrow> nat \<Rightarrow> world \<Rightarrow> (cerr + unit \<times> world) option" where
  "clear_head_loop sock buf ret w =
     (if cstring buf \<noteq> [LF] \<and> 0 < ret
      then bind (get_line sock 1024) (\<lambda>r w. clear_head_loop sock (fst r) (snd r) w) w
      else ok () w)"

declare clear_head_loop.simps [code]

definition clear_head :: "int \<Rightarrow> (world, unit) c" where
  "clear_head sock = clear_head_loop sock [NUL] 1"

text \<open>What is left of the stream after the blank line that ends the header.\<close>

function skip_head :: "string \<Rightarrow> string" where
  "skip_head t =
     (let (l, rest) = take_line 1023 t
      in if l = [] \<or> cstring l = [LF] then rest else skip_head rest)"
  by pat_completeness auto
termination
proof (relation "measure length", simp)
  fix t x l rest
  assume x: "x = take_line 1023 t" and p: "(l, rest) = x" and l: "\<not> (l = [] \<or> cstring l = [LF])"
  have "t \<noteq> []" using x p l by auto
  from take_line_consumes [OF this, of 1023] x p show "(rest, t) \<in> measure length" by (metis in_measure snd_conv)
qed

declare skip_head.simps [simp del]

lemma cstring_fill: "cstring (l @ replicate k NUL) = cstring l"
  by (induction l) (auto simp: cstring_def)

lemma cstring_padded [simp]: "cstring (padded sz l) = cstring l"
  by (simp add: padded_def cstring_fill)

lemma clear_head_loop_correct:
  assumes "cstring buf \<noteq> [LF]" and "0 < ret"
  shows "clear_head_loop sock buf ret w = ok () (set_inp sock (skip_head (inp w sock)) w)"
  using assms
proof (induction "length (inp w sock)" arbitrary: w buf ret rule: less_induct)
  case less
  obtain l rest where t: "take_line 1023 (inp w sock) = (l, rest)" by fastforce
  have g: "get_line sock 1024 w = ok (padded 1024 l, length l) (set_inp sock rest w)"
    using get_line_spec [of 1024 sock w] t by simp
  have ll: "length l < 1024" using take_line_length [of 1023 "inp w sock"] t by simp
  have run: "clear_head_loop sock buf ret w
      = clear_head_loop sock (padded 1024 l) (length l) (set_inp sock rest w)"
    using less.prems g by (subst clear_head_loop.simps) simp
  show ?case
  proof (cases "l = [] \<or> cstring l = [LF]")
    case True
    then have "clear_head_loop sock (padded 1024 l) (length l) (set_inp sock rest w)
        = ok () (set_inp sock rest w)"
      using ll by (subst clear_head_loop.simps) (auto simp: cstring_padded)
    then show ?thesis using run True t by (subst skip_head.simps) simp
  next
    case False
    then have "inp w sock \<noteq> []" using t by auto
    from take_line_consumes [OF this, of 1023] t
    have "length (inp (set_inp sock rest w) sock) < length (inp w sock)" by simp
    then have "clear_head_loop sock (padded 1024 l) (length l) (set_inp sock rest w)
        = ok () (set_inp sock (skip_head rest) (set_inp sock rest w))"
      using less.hyps [of "set_inp sock rest w" "padded 1024 l" "length l"] False ll
      by (simp add: cstring_padded)
    then show ?thesis using run False t by (subst skip_head.simps) simp
  qed
qed

lemma clear_head_spec: "clear_head sock w = ok () (set_inp sock (skip_head (inp w sock)) w)"
  unfolding clear_head_def by (rule clear_head_loop_correct) (simp_all add: cstring_def)

text \<open>A header as a client sends it: clean lines, none empty, and the blank line.\<close>

definition header_text :: "string list \<Rightarrow> string" where
  "header_text ls = concat (map (\<lambda>l. l @ [CR, LF]) ls) @ [CR, LF]"

definition header_line :: "string \<Rightarrow> bool" where
  "header_line l \<longleftrightarrow> clean l \<and> l \<noteq> [] \<and> NUL \<notin> set l"

lemma skip_head_header:
  assumes "\<forall>l \<in> set ls. header_line l \<and> length l < 1023"
  shows "skip_head (header_text ls @ rest) = rest"
  using assms
proof (induction ls)
  case Nil
  have "take_line 1023 ([] @ [CR, LF] @ rest) = ([] @ [LF], rest)" by (rule take_line_clean) simp_all
  then show ?case by (subst skip_head.simps) (simp add: header_text_def cstring_def)
next
  case (Cons l ls)
  have l: "clean l" "l \<noteq> []" "NUL \<notin> set l" "length l < 1023"
    using Cons.prems by (auto simp: header_line_def)
  have "take_line 1023 (l @ [CR, LF] @ header_text ls @ rest) = (l @ [LF], header_text ls @ rest)"
    using l by (intro take_line_clean) simp_all
  moreover have "header_text (l # ls) = l @ [CR, LF] @ header_text ls"
    by (simp add: header_text_def)
  moreover have "cstring (l @ [LF]) \<noteq> [LF]"
    using l by (cases l) (simp_all add: cstring_no_NUL)
  ultimately show ?case using Cons by (subst skip_head.simps) simp
qed

section \<open>GetContentLength\<close>

text \<open>
  The loop of \<open>GetContentLength\<close>. The arrays \<open>tmp\<close> and \<open>content_length\<close> have 5120 bytes each.
\<close>

definition length_field :: string where
  "length_field = ''Content-Length:''"

partial_function (option) content_length_loop ::
  "int \<Rightarrow> world \<Rightarrow> (cerr + int \<times> world) option" where
  "content_length_loop sock w =
     bind (get_line sock 10240) (\<lambda>r w.
       if 0 < snd r then
         (if take 15 (fst r) = length_field then
            (let tmp = cstring (drop 15 (fst r)) in
             if 5120 \<le> length tmp then ub OutOfBounds
             else
               bind (say (Text (''content_length:'' @ show_int (atoi tmp) @ [LF]))) (\<lambda>_.
               if 5120 \<le> 15 + length tmp then undefined_behaviour OutOfBounds
               else
                 bind (putenv ''CONTENT_LENGTH'' tmp) (\<lambda>ret.
                 bind (say (Text (if ret = 0 then ''put env CONTENT_LENGTH success...'' @ [LF]
                                  else ''put env CONTENT_LENGTH failed...'' @ [LF]))) (\<lambda>_.
                 return (atoi tmp)))) w)
          else content_length_loop sock w)
       else ok 0 w) w"

declare content_length_loop.simps [code]

definition GetContentLength :: "int \<Rightarrow> (world, int) c" where
  "GetContentLength sock =
     bind (content_length_loop sock) (\<lambda>cont_len.
     bind (leave_frame [''CONTENT_LENGTH'']) (\<lambda>_. return cont_len))"

text \<open>The text of the first line with that field, if there is one, and the rest of the stream.\<close>

function find_length :: "string \<Rightarrow> string option \<times> string" where
  "find_length t =
     (let (l, rest) = take_line 10239 t
      in if l = [] then (None, rest)
         else if take 15 l = length_field then (Some (cstring (drop 15 l)), rest)
         else find_length rest)"
  by pat_completeness auto
termination
proof (relation "measure length", simp)
  fix t x l rest
  assume x: "x = take_line 10239 t" and p: "(l, rest) = x" and l: "l \<noteq> []"
  have "t \<noteq> []" using x p l by auto
  from take_line_consumes [OF this, of 10239] x p show "(rest, t) \<in> measure length"
    by (metis in_measure snd_conv)
qed

declare find_length.simps [simp del]

definition length_found :: "string \<Rightarrow> (world, int) c" where
  "length_found tmp =
     (if 5105 \<le> length tmp then undefined_behaviour OutOfBounds
      else
        bind (say (Text (''content_length:'' @ show_int (atoi tmp) @ [LF]))) (\<lambda>_.
        bind (putenv ''CONTENT_LENGTH'' tmp) (\<lambda>ret.
        bind (say (Text (''put env CONTENT_LENGTH success...'' @ [LF]))) (\<lambda>_.
        return (atoi tmp)))))"

lemma take_15_padded:
  "length l < sz \<Longrightarrow> 15 \<le> sz \<Longrightarrow> take 15 (padded sz l) = length_field \<longleftrightarrow> take 15 l = length_field"
proof -
  assume sz: "length l < sz" "15 \<le> sz"
  show ?thesis
  proof (cases "15 \<le> length l")
    case True
    then show ?thesis by (simp add: padded_def)
  next
    case False
    then have "take 15 (padded sz l) ! length l = NUL"
      using sz by (simp add: padded_def nth_append)
    moreover have len: "length length_field = 15" and "NUL \<notin> set length_field"
      by (simp_all add: length_field_def)
    then have "length_field ! length l \<noteq> NUL"
      using False nth_mem [of "length l" length_field] by force
    ultimately have "take 15 (padded sz l) \<noteq> length_field" by metis
    moreover have "take 15 l \<noteq> length_field" using False len by auto
    ultimately show ?thesis by simp
  qed
qed

lemma cstring_drop_padded:
  "length l < sz \<Longrightarrow> k \<le> length l \<Longrightarrow> cstring (drop k (padded sz l)) = cstring (drop k l)"
  using cstring_fill [of "drop k l"] by (simp add: padded_def)

lemma content_length_loop_spec:
  "content_length_loop sock w =
     (case find_length (inp w sock) of
        (None, rest) \<Rightarrow> ok 0 (set_inp sock rest w)
      | (Some t, rest) \<Rightarrow> length_found t (set_inp sock rest w))"
proof (induction "length (inp w sock)" arbitrary: w rule: less_induct)
  case less
  obtain l rest where t: "take_line 10239 (inp w sock) = (l, rest)" by fastforce
  have g: "get_line sock 10240 w = ok (padded 10240 l, length l) (set_inp sock rest w)"
    using get_line_spec [of 10240 sock w] t by simp
  have ll: "length l < 10240" using take_line_length [of 10239 "inp w sock"] t by simp
  show ?case
  proof (cases "l = []")
    case True
    then show ?thesis
      using g t by (subst content_length_loop.simps, subst find_length.simps) simp
  next
    case ne: False
    show ?thesis
    proof (cases "take 15 l = length_field")
      case True
      have k: "15 \<le> length l"
        using arg_cong [OF True, of length] by (simp add: length_field_def)
      have tp: "take 15 (padded 10240 l) = length_field" using take_15_padded ll True by simp
      have cd: "cstring (drop 15 (padded 10240 l)) = cstring (drop 15 l)"
        using ll k by (rule cstring_drop_padded)
      show ?thesis
        using g t ne tp cd True
        by (subst content_length_loop.simps, subst find_length.simps)
          (simp add: length_found_def say_def putenv_def bind_def Let_def)
    next
      case False
      have "inp w sock \<noteq> []" using t ne by auto
      from take_line_consumes [OF this, of 10239] t
      have lt: "length (inp (set_inp sock rest w) sock) < length (inp w sock)" by simp
      have tp: "take 15 (padded 10240 l) \<noteq> length_field" using take_15_padded ll False by simp
      have "content_length_loop sock w = content_length_loop sock (set_inp sock rest w)"
        using g ne tp by (subst content_length_loop.simps) simp
      also have "\<dots> = (case find_length rest of
          (None, rest') \<Rightarrow> ok 0 (set_inp sock rest' w)
        | (Some t, rest') \<Rightarrow> length_found t (set_inp sock rest' w))"
        using less.hyps [OF lt] by (simp split: prod.split option.split)
      finally show ?thesis using t ne False by (subst find_length.simps) simp
    qed
  qed
qed

end
