(* ===== verification/HttpRequest.thy ===== *)
theory HttpRequest
  imports HttpLine
begin

text \<open>
  The server's work on one request in \<open>httpd.c\<close>: \<open>accept_request\<close> reads and dispatches it, and
  \<open>exec_response\<close> runs a CGI program on it. The programs are a parameter: what one prints, from its
  path, its environment and the bytes on its standard input, or \<open>None\<close> where \<open>execl\<close> fails.
\<close>

section \<open>The request's data\<close>

text \<open>\<open>struct data_buf\<close>; a member is \<open>None\<close> while it is indeterminate.\<close>

record data_buf =
  d_fd :: int
  d_buf :: "string option"
  d_cgi :: bool
  d_method :: "string option"
  d_path :: "string option"
  d_query_string :: "string option"
  d_content_length :: "int option"
  d_err_num :: "int option"

definition new_data_buf :: "int \<Rightarrow> data_buf" where
  "new_data_buf fd =
     \<lparr>d_fd = fd, d_buf = None, d_cgi = False, d_method = None, d_path = None, d_query_string = None,
      d_content_length = None, d_err_num = None\<rparr>"

definition field :: "'a option \<Rightarrow> (world, 'a) c" where
  "field x = (case x of None \<Rightarrow> undefined_behaviour Uninit | Some v \<Rightarrow> return v)"

type_synonym programs = "string \<Rightarrow> (string \<times> string option) list \<Rightarrow> string \<Rightarrow> string option"

section \<open>Running a CGI program\<close>

text \<open>The loop that passes the body on: \<open>n\<close> calls of \<open>recv\<close>, of which those that succeed count.\<close>

fun relay_body :: "int \<Rightarrow> nat \<Rightarrow> (world, string) c" where
  "relay_body sock 0 = return []"
| "relay_body sock (Suc n) =
     bind (recv sock) (\<lambda>r.
     bind (relay_body sock n) (\<lambda>t.
     return (case r of None \<Rightarrow> t | Some ch \<Rightarrow> ch # t)))"

text \<open>
  \<open>execl\<close> passes the environment on. When it fails, the child goes on as a second server, which
  keeps the writing end of the pipe: the parent's loop over the output then never ends.
\<close>

definition child_output :: "programs \<Rightarrow> string \<Rightarrow> string \<Rightarrow> (world, string) c" where
  "child_output prog path body w =
     (case prog path (env w) body of None \<Rightarrow> None | Some t \<Rightarrow> ok t w)"

definition success_message :: "string \<Rightarrow> int \<Rightarrow> msg" where
  "success_message name ret =
     Text (''put env '' @ name @ (if ret = 0 then '' success...'' else '' failed...'') @ [LF])"

definition exec_response :: "programs \<Rightarrow> data_buf \<Rightarrow> (world, data_buf) c" where
  "exec_response prog data =
     bind (field (d_query_string data)) (\<lambda>q.
     if 10240 \<le> 13 + length q then undefined_behaviour OutOfBounds
     else
       bind (putenv ''QUERY_STRING'' q) (\<lambda>ret.
       bind (say (success_message ''QUERY_STRING'' ret)) (\<lambda>_.
       bind (field (d_method data)) (\<lambda>m.
       if 5120 \<le> 7 + length m then undefined_behaviour OutOfBounds
       else
         bind (putenv ''METHOD'' m) (\<lambda>ret.
         bind (say (success_message ''METHOD'' ret)) (\<lambda>_.
         bind (\<lambda>w. ok (can_fork w) w) (\<lambda>forked.
         bind (if \<not> forked then bind (print_log ''exec_response'' 210) (\<lambda>_. return data)
               else
                 bind (clear_head (d_fd data)) (\<lambda>_.
                 bind (field (d_content_length data)) (\<lambda>con_len.
                 bind (relay_body (d_fd data) (nat con_len)) (\<lambda>body.
                 bind (field (d_path data)) (\<lambda>path.
                 bind (child_output prog path body) (\<lambda>t.
                 if 20480 < length t then undefined_behaviour OutOfBounds
                 else return (data\<lparr>d_buf := Some t\<rparr>))))))) (\<lambda>data.
         bind (leave_frame [''QUERY_STRING'', ''METHOD'']) (\<lambda>_.
         return data)))))))))"

section \<open>The request line\<close>

text \<open>
  The loops of \<open>accept_request\<close> over the array \<open>request_line\<close>, with its other arrays \<open>method\<close> and
  \<open>url\<close>, which have 5120 bytes each.
\<close>

function method_loop :: "string \<Rightarrow> nat \<Rightarrow> nat \<Rightarrow> string \<Rightarrow> (world, string \<times> nat) c" where
  "method_loop request_line line_size index meth =
     (if index < line_size then
        (if isspace (request_line ! index) then return (meth, index)
         else if index < length meth then
           method_loop request_line line_size (index + 1) (meth[index := request_line ! index])
         else undefined_behaviour OutOfBounds)
      else return (meth, index))"
  by pat_completeness auto
termination
  by (relation "measure (\<lambda>(rl, n, index, m). n - index)") auto

function skip_blanks :: "string \<Rightarrow> nat \<Rightarrow> nat \<Rightarrow> nat" where
  "skip_blanks request_line line_size index =
     (if index < line_size \<and> isspace (request_line ! index)
      then skip_blanks request_line line_size (index + 1) else index)"
  by pat_completeness auto
termination
  by (relation "measure (\<lambda>(rl, n, index). n - index)") auto

function url_loop :: "string \<Rightarrow> nat \<Rightarrow> nat \<Rightarrow> string \<Rightarrow> (world, string) c" where
  "url_loop request_line index i url =
     (if length request_line \<le> index then undefined_behaviour OutOfBounds
      else if request_line ! index \<noteq> NUL \<and> \<not> isspace (request_line ! index) then
        (if i < length url then url_loop request_line (index + 1) (i + 1) (url[i := request_line ! index])
         else undefined_behaviour OutOfBounds)
      else return url)"
  by pat_completeness auto
termination
  by (relation "measure (\<lambda>(rl, index, i, u). length rl - index)") auto

function query_loop :: "string \<Rightarrow> nat \<Rightarrow> nat \<Rightarrow> bool \<Rightarrow> string \<times> bool" where
  "query_loop request_line line_size p cgi =
     (if p < line_size then
        (if request_line ! p = CHR ''?'' then query_loop (request_line[p := NUL]) line_size (p + 1) True
         else if isspace (request_line ! p) then (request_line[p := NUL], cgi)
         else query_loop request_line line_size (p + 1) cgi)
      else (request_line, cgi))"
  by pat_completeness auto
termination
  by (relation "measure (\<lambda>(rl, n, p, cgi). n - p)") auto

declare method_loop.simps [simp del] skip_blanks.simps [simp del] url_loop.simps [simp del]
  query_loop.simps [simp del]

text \<open>The C string in an array that must hold its terminator.\<close>

definition array_string :: "string \<Rightarrow> (world, string) c" where
  "array_string a = (if NUL \<in> set a then return (cstring a) else undefined_behaviour OutOfBounds)"

text \<open>The branch on the method: whether the request is one for CGI, its URL and its query string.\<close>

definition parse_target ::
  "string \<Rightarrow> nat \<Rightarrow> nat \<Rightarrow> string \<Rightarrow> (world, (bool \<times> string \<times> string) option) c" where
  "parse_target request_line line_size index meth =
     (let blank = replicate 5120 NUL in
      if strcasecmp_eq (cstring meth) ''POST'' then
        bind (url_loop request_line index 0 blank) (\<lambda>url. return (Some (True, url, [])))
      else if strcasecmp_eq (cstring meth) ''GET'' then
        (if index < line_size then
           let (rl, cgi) = query_loop request_line line_size index False;
               target = cstring (drop index rl);
               query = (if cgi then cstring (drop (index + length target + 1) rl) else [])
           in if 5120 \<le> length target then undefined_behaviour OutOfBounds
              else return (Some (cgi, padded 5120 target, query))
         else return (Some (False, blank, [])))
      else return None)"

section \<open>accept\_request\<close>

definition root_path :: string where
  "root_path = ''/home/lounuo/HTTP''"

definition default_path :: string where
  "default_path = ''htdocs/mysql_response.html''"

text \<open>\<open>strcat\<close> onto the array \<open>path\<close> of 5120 bytes.\<close>

definition strcat_path :: "string \<Rightarrow> string \<Rightarrow> (world, string) c" where
  "strcat_path path t =
     (if 5120 \<le> length path + length t then undefined_behaviour OutOfBounds else return (path @ t))"

definition is_directory :: "fentry \<Rightarrow> bool" where
  "is_directory f \<longleftrightarrow> f_mode f AND 0x4000 \<noteq> 0"

definition is_executable :: "fentry \<Rightarrow> bool" where
  "is_executable f \<longleftrightarrow> f_mode f AND 0x40 \<noteq> 0 \<or> f_mode f AND 0x8 \<noteq> 0 \<or> f_mode f AND 0x1 \<noteq> 0"

text \<open>The end of \<open>accept_request\<close>, from where the path is known to exist.\<close>

definition dispatch ::
  "programs \<Rightarrow> data_buf \<Rightarrow> string \<Rightarrow> string \<Rightarrow> string \<Rightarrow> fentry \<Rightarrow> (world, int \<times> data_buf) c" where
  "dispatch prog data meth path query st =
     bind (if is_directory st then strcat_path path default_path else return path) (\<lambda>path.
     let cgi = (d_cgi data \<or> \<not> is_directory st \<and> is_executable st);
         data = data\<lparr>d_cgi := cgi, d_method := Some meth, d_path := Some path,
                     d_query_string := Some query\<rparr>
     in if \<not> cgi then bind (clear_head (d_fd data)) (\<lambda>_. return (0, data))
        else
          bind (if strcasecmp_eq meth ''POST'' then GetContentLength (d_fd data) else return 0) (\<lambda>n.
          bind (exec_response prog (data\<lparr>d_content_length := Some n\<rparr>)) (\<lambda>data.
          return (0, data))))"

text \<open>From the declaration of \<open>path\<close> on; \<open>None\<close> is the branch of a method that is neither GET nor POST.\<close>

definition locate ::
  "programs \<Rightarrow> data_buf \<Rightarrow> string \<Rightarrow> (bool \<times> string \<times> string) option \<Rightarrow> (world, int \<times> data_buf) c" where
  "locate prog data meth target =
     (case target of
        None \<Rightarrow> return (405, data)
      | Some (cgi, url, query) \<Rightarrow>
          bind (if url ! 0 = CHR ''/'' then bind (array_string url) (strcat_path root_path)
                else return root_path) (\<lambda>path.
          bind (stat path) (\<lambda>st.
          case st of
            None \<Rightarrow>
              bind (say (Text (''error path:'' @ path @ [LF]))) (\<lambda>_.
              return (404, data\<lparr>d_cgi := cgi\<rparr>))
          | Some f \<Rightarrow> dispatch prog (data\<lparr>d_cgi := cgi\<rparr>) meth path query f)))"

definition accept_request :: "programs \<Rightarrow> data_buf \<Rightarrow> (world, int \<times> data_buf) c" where
  "accept_request prog data =
     bind (get_line (d_fd data) 10240) (\<lambda>(request_line, n).
     if n = 0 then
       bind (print_log ''accept_request'' 289) (\<lambda>_. return (-1, data\<lparr>d_cgi := False\<rparr>))
     else
       bind (say (Text (cstring request_line @ [LF]))) (\<lambda>_.
       let line_size = length (cstring request_line) in
       bind (method_loop request_line line_size 0 (replicate 5120 NUL)) (\<lambda>(meth, index).
       bind (parse_target request_line line_size (skip_blanks request_line line_size index) meth)
         (\<lambda>target. locate prog (data\<lparr>d_cgi := False\<rparr>) (cstring meth) target))))"

end
