(* ===== verification/HttpParse.thy ===== *)
theory HttpParse
  imports HttpRequest
begin

text \<open>
  What the loops of \<open>accept_request\<close> find in a request line: the method up to the first blank, the
  URL after the blanks, and, for GET, the query string behind a question mark.
\<close>

section \<open>Words\<close>

lemma isspace_blank [simp]: "isspace (CHR '' '')"
  by (simp add: isspace_def)

lemma isspace_CR [simp]: "isspace CR"
  by (simp add: isspace_def cint_def)

lemma isspace_LF [simp]: "isspace LF"
  by (simp add: isspace_def cint_def)

lemma isspace_NUL [simp]: "\<not> isspace NUL"
  by (simp add: isspace_def cint_def)

definition word_text :: "string \<Rightarrow> bool" where
  "word_text t \<longleftrightarrow> (\<forall>c \<in> set t. \<not> isspace c \<and> c \<noteq> NUL)"

lemma word_text_simps [simp]:
  "word_text []" "word_text (c # t) \<longleftrightarrow> \<not> isspace c \<and> c \<noteq> NUL \<and> word_text t"
  "word_text (t @ u) \<longleftrightarrow> word_text t \<and> word_text u"
  by (auto simp: word_text_def)

lemma word_text_NUL: "word_text t \<Longrightarrow> NUL \<notin> set t"
  by (auto simp: word_text_def)

lemma word_text_clean: "word_text t \<Longrightarrow> clean t"
  unfolding word_text_def clean_def using isspace_CR isspace_LF by blast

lemma padded_update:
  "length p < n \<Longrightarrow> (padded n p)[length p := c] = padded n (p @ [c])"
  by (cases "n - length p") (auto simp: padded_def list_update_append)

lemma length_padded: "length p \<le> n \<Longrightarrow> length (padded n p) = n"
  by (simp add: padded_def)

lemma padded_Nil: "padded n [] = replicate n NUL"
  by (simp add: padded_def)

lemma cstring_append_NUL: "NUL \<notin> set t \<Longrightarrow> cstring (t @ NUL # r) = t"
  by (induction t) (auto simp: cstring_def)

section \<open>The loops\<close>

lemma method_loop_word:
  assumes "rl = p @ m @ c # r" and "word_text m" and "isspace c" and "index = length p"
    and "length p + length m < n" and "length p + length m \<le> 5120"
  shows "method_loop rl n index (padded 5120 p) w = ok (padded 5120 (p @ m), length (p @ m)) w"
  using assms
proof (induction m arbitrary: p index)
  case Nil
  then show ?case by (subst method_loop.simps) simp
next
  case (Cons d m)
  have nth: "rl ! index = d" using Cons.prems by (simp add: nth_append)
  have "method_loop rl n index (padded 5120 p) w = method_loop rl n (index + 1) (padded 5120 (p @ [d])) w"
    using Cons.prems nth by (subst method_loop.simps) (simp add: length_padded padded_update)
  also have "\<dots> = ok (padded 5120 ((p @ [d]) @ m), length ((p @ [d]) @ m)) w"
    using Cons.prems by (intro Cons.IH) simp_all
  finally show ?case by simp
qed

text \<open>A method of more than 5120 bytes is written past the end of its array.\<close>

lemma method_loop_overflow:
  assumes "rl = p @ m @ r" and "word_text m" and "index = length p" and "length p \<le> 5120"
    and "5120 < length p + length m" and "length p + length m \<le> n"
  shows "method_loop rl n index (padded 5120 p) w = ub OutOfBounds"
  using assms
proof (induction m arbitrary: p index)
  case (Cons d m)
  have nth: "rl ! index = d" using Cons.prems by (simp add: nth_append)
  show ?case
  proof (cases "length p < 5120")
    case True
    have "method_loop rl n index (padded 5120 p) w = method_loop rl n (index + 1) (padded 5120 (p @ [d])) w"
      using Cons.prems nth True by (subst method_loop.simps) (simp add: length_padded padded_update)
    also have "\<dots> = ub OutOfBounds"
      using Cons.prems True by (intro Cons.IH) simp_all
    finally show ?thesis .
  next
    case False
    then show ?thesis
      using Cons.prems nth by (subst method_loop.simps) (simp add: length_padded)
  qed
qed simp

lemma skip_blanks_one:
  assumes "rl = m @ c # d # r" and "isspace c" and "\<not> isspace d" and "length m < n"
  shows "skip_blanks rl n (length m) = length m + 1"
proof -
  have "rl ! length m = c" "rl ! (length m + 1) = d" using assms(1) by (simp_all add: nth_append)
  with assms show ?thesis
    by (subst skip_blanks.simps, simp, subst skip_blanks.simps, simp)
qed

lemma url_loop_word:
  assumes "rl = a @ t @ c # r" and "word_text t" and "isspace c \<or> c = NUL" and "index = length a"
    and "i = length u" and "length u + length t \<le> 5120"
  shows "url_loop rl index i (padded 5120 u) w = ok (padded 5120 (u @ t)) w"
  using assms
proof (induction t arbitrary: a u index i)
  case Nil
  then show ?case by (subst url_loop.simps) (auto simp: nth_append)
next
  case (Cons d t)
  have nth: "rl ! index = d" using Cons.prems by (simp add: nth_append)
  have "url_loop rl index i (padded 5120 u) w = url_loop rl (index + 1) (i + 1) (padded 5120 (u @ [d])) w"
    using Cons.prems nth by (subst url_loop.simps) (simp add: length_padded padded_update)
  also have "\<dots> = ok (padded 5120 ((u @ [d]) @ t)) w"
    using Cons.prems by (intro Cons.IH [where a = "a @ [d]"]) simp_all
  finally show ?case by simp
qed

lemma query_loop_word:
  assumes "rl = a @ t @ r" and "word_text t" and "CHR ''?'' \<notin> set t" and "p = length a"
    and "length a + length t \<le> n"
  shows "query_loop rl n p cgi = query_loop rl n (length (a @ t)) cgi"
  using assms
proof (induction t arbitrary: a p)
  case (Cons d t)
  have nth: "rl ! p = d" using Cons.prems by (simp add: nth_append)
  have "query_loop rl n p cgi = query_loop rl n (p + 1) cgi"
    using Cons.prems nth by (subst query_loop.simps) auto
  also have "\<dots> = query_loop rl n (length ((a @ [d]) @ t)) cgi"
    using Cons.prems by (intro Cons.IH) simp_all
  finally show ?case by simp
qed simp

lemma query_loop_blank:
  assumes "rl = a @ CHR '' '' # r" and "length a < n"
  shows "query_loop rl n (length a) cgi = (a @ NUL # r, cgi)"
  using assms by (subst query_loop.simps) (simp add: nth_append list_update_append)

lemma query_loop_mark:
  assumes "rl = a @ CHR ''?'' # r" and "length a < n"
  shows "query_loop rl n (length a) cgi = query_loop (a @ NUL # r) n (length a + 1) True"
  using assms by (subst query_loop.simps) (simp add: nth_append list_update_append)

section \<open>The target of the request\<close>

lemma strcasecmp_GET_POST:
  "strcasecmp_eq m ''GET'' \<Longrightarrow> \<not> strcasecmp_eq m ''POST''"
  using arg_cong [of "map to_lower m" _ length] by (auto simp: strcasecmp_eq_def)

lemma parse_target_get:
  assumes rl: "rl = a @ t @ CHR '' '' # r" and t: "word_text t" "CHR ''?'' \<notin> set t" "t \<noteq> []"
    and m: "strcasecmp_eq (cstring meth) ''GET''" and n: "length a + length t < n"
    and len: "length t < 5120"
  shows "parse_target rl n (length a) meth w = ok (Some (False, padded 5120 t, [])) w"
proof -
  have q: "query_loop rl n (length a) False = (a @ t @ NUL # r, False)"
    using query_loop_word [OF rl t(1,2), of "length a" n False] query_loop_blank [of rl "a @ t" r n False]
      rl n by simp
  have c: "cstring (drop (length a) (a @ t @ NUL # r)) = t"
    using cstring_append_NUL [OF word_text_NUL [OF t(1)]] by simp
  show ?thesis
    using q c len n strcasecmp_GET_POST [OF m] m by (simp add: parse_target_def Let_def)
qed

lemma parse_target_query:
  assumes rl: "rl = a @ t @ CHR ''?'' # q @ CHR '' '' # r"
    and t: "word_text t" "CHR ''?'' \<notin> set t" and q: "word_text q" "CHR ''?'' \<notin> set q"
    and m: "strcasecmp_eq (cstring meth) ''GET''" and n: "length a + length t + length q + 1 < n"
    and len: "length t < 5120"
  shows "parse_target rl n (length a) meth w = ok (Some (True, padded 5120 t, q)) w"
proof -
  let ?rl = "(a @ t @ [NUL]) @ q @ CHR '' '' # r"
  have "query_loop rl n (length a) False = query_loop ?rl n (length (a @ t @ [NUL])) True"
    using query_loop_word [of rl a t _ "length a" n False] t n rl
      query_loop_mark [of rl "a @ t" "q @ CHR '' '' # r" n False] by simp
  also have "\<dots> = query_loop ?rl n (length ((a @ t @ [NUL]) @ q)) True"
    using q n by (intro query_loop_word [OF refl]) simp_all
  also have "\<dots> = (((a @ t @ [NUL]) @ q) @ NUL # r, True)"
    using n by (intro query_loop_blank) simp_all
  finally have ql: "query_loop rl n (length a) False = (a @ t @ NUL # q @ NUL # r, True)" by simp
  have c: "cstring (drop (length a) (a @ t @ NUL # q @ NUL # r)) = t"
    using cstring_append_NUL [OF word_text_NUL [OF t(1)]] by simp
  have d: "cstring (drop (length a + length t + 1) (a @ t @ NUL # q @ NUL # r)) = q"
    using cstring_append_NUL [OF word_text_NUL [OF q(1)]] by simp
  show ?thesis
    using ql c d len n strcasecmp_GET_POST [OF m] m
    by (simp add: parse_target_def Let_def)
qed

lemma parse_target_post:
  assumes rl: "rl = a @ t @ c # r" and t: "word_text t" and c: "isspace c \<or> c = NUL"
    and m: "strcasecmp_eq (cstring meth) ''POST''" and len: "length t \<le> 5120"
  shows "parse_target rl n (length a) meth w = ok (Some (True, padded 5120 t, [])) w"
  using url_loop_word [OF rl t c refl, of 0 "[]" w] len m
  by (simp add: parse_target_def Let_def padded_Nil bind_def)

lemma parse_target_other:
  "\<not> strcasecmp_eq (cstring meth) ''POST'' \<Longrightarrow> \<not> strcasecmp_eq (cstring meth) ''GET'' \<Longrightarrow>
   parse_target rl n i meth w = ok None w"
  by (simp add: parse_target_def Let_def)

end
