(* ===== verification/HttpAccept.thy ===== *)
theory HttpAccept
  imports HttpParse
begin

text \<open>
  What \<open>accept_request\<close> does on the requests of a client: the lines it takes from the connection,
  the program it runs, and the status it returns.
\<close>

section \<open>A request on the wire\<close>

definition request_line_text :: "string \<Rightarrow> string \<Rightarrow> string \<Rightarrow> string" where
  "request_line_text m t v = m @ '' '' @ t @ '' '' @ v"

definition request_text :: "string \<Rightarrow> string \<Rightarrow> string \<Rightarrow> string list \<Rightarrow> string \<Rightarrow> string" where
  "request_text m t v ls body = request_line_text m t v @ [CR, LF] @ header_text ls @ body"

text \<open>A method and a target without blanks, a version, and header lines that fit the buffers.\<close>

definition well_formed :: "string \<Rightarrow> string \<Rightarrow> string \<Rightarrow> string list \<Rightarrow> bool" where
  "well_formed m t v ls \<longleftrightarrow>
     word_text m \<and> m \<noteq> [] \<and> word_text t \<and> t \<noteq> [] \<and> clean v \<and> NUL \<notin> set v
     \<and> length m \<le> 5120 \<and> length (request_line_text m t v) < 10239
     \<and> (\<forall>l \<in> set ls. header_line l \<and> length l < 1023)"

definition say_line :: "string \<Rightarrow> world \<Rightarrow> world" where
  "say_line t w = w\<lparr>out := out w @ [Text (t @ [LF])]\<rparr>"

lemma say_line_simps [simp]:
  "inp (say_line t w) = inp w" "sent (say_line t w) = sent w" "broken (say_line t w) = broken w"
  "closes (say_line t w) = closes w" "files (say_line t w) = files w"
  "open_files (say_line t w) = open_files w" "env (say_line t w) = env w"
  "can_fork (say_line t w) = can_fork w"
  by (simp_all add: say_line_def)

lemma say_text: "say (Text (t @ [LF])) w = ok () (say_line t w)"
  by (simp add: say_def say_line_def)

lemma accept_request_line:
  assumes i: "inp w (d_fd data) = request_line_text m t v @ [CR, LF] @ rest"
    and wf: "well_formed m t v ls"
  shows "accept_request prog data w
    = bind (parse_target (padded 10240 (request_line_text m t v @ [LF]))
             (length (request_line_text m t v) + 1) (length m + 1) (padded 5120 m))
        (\<lambda>target. locate prog (data\<lparr>d_cgi := False\<rparr>) m target)
        (say_line (request_line_text m t v @ [LF]) (set_inp (d_fd data) rest w))"
proof -
  let ?l = "request_line_text m t v" and ?fd = "d_fd data"
  let ?rl = "padded 10240 (?l @ [LF])" and ?w = "set_inp (d_fd data) rest w"
  have w: "word_text m" "m \<noteq> []" "word_text t" "t \<noteq> []" "clean v" "NUL \<notin> set v" "length m \<le> 5120"
      "length ?l < 10239"
    using wf by (simp_all add: well_formed_def)
  have cl: "clean ?l" using w word_text_clean by (simp add: request_line_text_def)
  have nn: "NUL \<notin> set ?l" using w word_text_NUL by (auto simp: request_line_text_def)
  have "take_line 10239 (?l @ [CR, LF] @ rest) = (?l @ [LF], rest)"
    using cl w(8) by (rule take_line_clean)
  then have g: "get_line ?fd 10240 w = ok (?rl, length ?l + 1) ?w"
    using get_line_spec [of 10240 ?fd w] i by simp
  have cs: "cstring ?rl = ?l @ [LF]" using nn by (simp add: cstring_no_NUL)
  obtain d u where t: "t = d # u" using w(4) by (cases t) auto
  define tail where "tail = '' '' @ v @ [LF] @ replicate (10240 - length (?l @ [LF])) NUL"
  have rl: "?rl = [] @ m @ CHR '' '' # t @ tail"
    by (simp add: padded_def request_line_text_def tail_def)
  have rl': "?rl = m @ CHR '' '' # d # u @ tail" using rl unfolding t by simp
  have ln: "length m < length ?l + 1" by (simp add: request_line_text_def)
  have ml: "method_loop ?rl (length ?l + 1) 0 (replicate 5120 NUL) w'
      = ok (padded 5120 m, length m) w'" for w'
    using method_loop_word [OF rl w(1) isspace_blank, of 0 "length ?l + 1" w'] ln w(7)
    by (simp add: padded_Nil)
  have sb: "skip_blanks ?rl (length ?l + 1) (length m) = length m + 1"
    using skip_blanks_one [OF rl' isspace_blank _ ln] w(3) t by simp
  have cm: "cstring (padded 5120 m) = m" using w(1) by (simp add: cstring_no_NUL word_text_NUL)
  show ?thesis
    using g cs ml sb cm say_text [of "?l @ [LF]" ?w]
    by (simp add: accept_request_def bind_def Let_def del: set_inp_simps)
qed

section \<open>Running a program\<close>

definition cgi_env ::
  "string \<Rightarrow> string \<Rightarrow> (string \<times> string option) list \<Rightarrow> (string \<times> string option) list" where
  "cgi_env m q e = env_put ''METHOD'' (Some m) (env_put ''QUERY_STRING'' (Some q) e)"

definition after_cgi :: "int \<Rightarrow> string \<Rightarrow> string \<Rightarrow> string \<Rightarrow> world \<Rightarrow> world" where
  "after_cgi fd m q rest w =
     w\<lparr>inp := (inp w)(fd := rest),
       env := env_expire [''QUERY_STRING'', ''METHOD''] (cgi_env m q (env w)),
       out := out w @ [success_message ''QUERY_STRING'' 0, success_message ''METHOD'' 0]\<rparr>"

lemma relay_body_spec:
  "relay_body sock n w = ok (take n (inp w sock)) (set_inp sock (drop n (inp w sock)) w)"
proof (induction n arbitrary: w)
  case 0
  then show ?case by simp
next
  case (Suc n)
  show ?case
  proof (cases "inp w sock")
    case Nil
    have "set_inp sock [] w = w" using set_inp_same [of sock w] Nil by simp
    then show ?thesis using Suc [of w] Nil by (simp add: recv_def)
  next
    case (Cons c cs)
    then have "recv sock w = ok (Some c) (set_inp sock cs w)" by (simp add: recv_def set_inp_def)
    then show ?thesis using Suc [of "set_inp sock cs w"] Cons by simp
  qed
qed

lemma exec_response_run:
  assumes d: "d_query_string data = Some q" "d_method data = Some m" "d_path data = Some p"
      "d_content_length data = Some n"
    and l: "length q < 10227" "length m < 5113" and f: "can_fork w"
  shows "exec_response prog data w =
     (case prog p (cgi_env m q (env w)) (take (nat n) (skip_head (inp w (d_fd data)))) of
        None \<Rightarrow> None
      | Some t \<Rightarrow>
          if 20480 < length t then ub OutOfBounds
          else ok (data\<lparr>d_buf := Some t\<rparr>)
                 (after_cgi (d_fd data) m q (drop (nat n) (skip_head (inp w (d_fd data)))) w))"
proof -
  let ?fd = "d_fd data" and ?e = "cgi_env m q (env w)"
  let ?w = "w\<lparr>env := ?e, out := out w @ [success_message ''QUERY_STRING'' 0, success_message ''METHOD'' 0]\<rparr>"
  let ?rest = "drop (nat n) (skip_head (inp w ?fd))"
  let ?w2 = "set_inp ?fd ?rest ?w"
  have ch: "clear_head ?fd ?w = ok () (set_inp ?fd (skip_head (inp w ?fd)) ?w)"
    using clear_head_spec [of ?fd ?w] by simp
  have rb: "relay_body ?fd (nat n) (set_inp ?fd (skip_head (inp w ?fd)) ?w)
      = ok (take (nat n) (skip_head (inp w ?fd))) ?w2"
    by (simp add: relay_body_spec)
  have pre: "putenv ''QUERY_STRING'' q w = ok 0 (w\<lparr>env := env_put ''QUERY_STRING'' (Some q) (env w)\<rparr>)"
    by (simp add: putenv_def)
  have lf: "leave_frame [''QUERY_STRING'', ''METHOD''] ?w2 = ok () (after_cgi ?fd m q ?rest w)"
    by (simp add: leave_frame_def after_cgi_def set_inp_def)
  show ?thesis
    using d l f ch rb lf
    by (simp add: exec_response_def field_def putenv_def say_def cgi_env_def bind_def
        child_output_def split: option.split)
qed

section \<open>Requests for files\<close>

text \<open>A target that is a path: it begins with a slash, and the path fits its array.\<close>

definition path_target :: "string \<Rightarrow> bool" where
  "path_target t \<longleftrightarrow> t \<noteq> [] \<and> hd t = CHR ''/'' \<and> CHR ''?'' \<notin> set t \<and> length t < 5103"

lemma locate_path:
  assumes "path_target t" and "word_text t"
  shows "locate prog data m (Some (cgi, padded 5120 t, q)) w
    = (case files w (root_path @ t) of
         None \<Rightarrow> ok (404, data\<lparr>d_cgi := cgi\<rparr>)
                   (w\<lparr>out := out w @ [Text (''error path:'' @ root_path @ t @ [LF])]\<rparr>)
       | Some f \<Rightarrow> dispatch prog (data\<lparr>d_cgi := cgi\<rparr>) m (root_path @ t) q f w)"
proof -
  obtain u where t: "t = CHR ''/'' # u" using assms(1) by (cases t) (auto simp: path_target_def)
  have z: "padded 5120 t ! 0 = CHR ''/''" by (simp add: padded_def t)
  have l: "length t < 5103" using assms(1) by (simp add: path_target_def)
  have "NUL \<in> set (padded 5120 t)" using l by (simp add: padded_def)
  then have a: "array_string (padded 5120 t) w' = ok t w'" for w'
    using assms(2) by (simp add: array_string_def cstring_no_NUL word_text_NUL)
  have "strcat_path root_path t w' = ok (root_path @ t) w'" for w'
    using l by (simp add: strcat_path_def root_path_def)
  then show ?thesis
    using z a by (simp add: locate_def bind_def stat_def say_def split: option.split)
qed

text \<open>The world in which the request line has been printed.\<close>

lemma accept_get:
  assumes i: "inp w (d_fd data) = request_text m t v ls body"
    and wf: "well_formed m t v ls" and m: "strcasecmp_eq m ''GET''" and t: "path_target t"
  shows "accept_request prog data w
    = locate prog (data\<lparr>d_cgi := False\<rparr>) m (Some (False, padded 5120 t, []))
        (say_line (request_line_text m t v @ [LF]) (set_inp (d_fd data) (header_text ls @ body) w))"
proof -
  have w: "word_text m" "word_text t" "t \<noteq> []" "CHR ''?'' \<notin> set t" "length t < 5120"
    using wf t by (simp_all add: well_formed_def path_target_def)
  have cm: "cstring (padded 5120 m) = m" using w(1) by (simp add: cstring_no_NUL word_text_NUL)
  let ?l = "request_line_text m t v"
  let ?r = "v @ [LF] @ replicate (10240 - length (?l @ [LF])) NUL"
  have rl: "padded 10240 (?l @ [LF]) = (m @ '' '') @ t @ CHR '' '' # ?r"
    by (simp add: padded_def request_line_text_def)
  have pt: "parse_target (padded 10240 (?l @ [LF])) (length ?l + 1) (length m + 1) (padded 5120 m) w'
      = ok (Some (False, padded 5120 t, [])) w'" for w'
    using parse_target_get [OF rl w(2,4,3), of "padded 5120 m" "length ?l + 1" w'] m w(5) cm
    by (simp add: request_line_text_def)
  have i': "inp w (d_fd data) = ?l @ [CR, LF] @ header_text ls @ body"
    using i by (simp add: request_text_def)
  show ?thesis
    using accept_request_line [OF i' wf, of prog] pt by simp
qed

definition request_data :: "data_buf \<Rightarrow> bool \<Rightarrow> string \<Rightarrow> string \<Rightarrow> string \<Rightarrow> data_buf" where
  "request_data data cgi m p q =
     data\<lparr>d_cgi := cgi, d_method := Some m, d_path := Some p, d_query_string := Some q\<rparr>"

lemma header_skipped: "well_formed m t v ls \<Longrightarrow> skip_head (header_text ls @ body) = body"
  by (rule skip_head_header) (auto simp: well_formed_def)

theorem accept_static:
  assumes i: "inp w (d_fd data) = request_text m t v ls body"
    and wf: "well_formed m t v ls" and m: "strcasecmp_eq m ''GET''" and t: "path_target t"
    and f: "files w (root_path @ t) = Some f" "\<not> is_directory f" "\<not> is_executable f"
  shows "accept_request prog data w
    = ok (0, request_data data False m (root_path @ t) [])
        (say_line (request_line_text m t v @ [LF]) (set_inp (d_fd data) body w))"
proof -
  have "word_text t" using wf by (simp add: well_formed_def)
  then show ?thesis
    using accept_get [OF i wf m t, of prog] locate_path [OF t] f header_skipped [OF wf, of body]
    by (simp add: dispatch_def request_data_def clear_head_spec bind_def say_line_def set_inp_def)
qed

text \<open>
  A GET request for a directory selects the path of the directory directly followed by the
  default path, with no slash in between.
\<close>

theorem accept_directory:
  assumes i: "inp w (d_fd data) = request_text m t v ls body"
    and wf: "well_formed m t v ls" and m: "strcasecmp_eq m ''GET''" and t: "path_target t"
    and f: "files w (root_path @ t) = Some f" "is_directory f" and l: "length t < 5077"
  shows "accept_request prog data w
    = ok (0, request_data data False m (root_path @ t @ default_path) [])
        (say_line (request_line_text m t v @ [LF]) (set_inp (d_fd data) body w))"
proof -
  have "word_text t" using wf by (simp add: well_formed_def)
  then show ?thesis
    using accept_get [OF i wf m t, of prog] locate_path [OF t] f header_skipped [OF wf, of body] l
    by (simp add: dispatch_def request_data_def clear_head_spec bind_def say_line_def set_inp_def
        strcat_path_def root_path_def default_path_def)
qed

theorem accept_missing:
  assumes i: "inp w (d_fd data) = request_text m t v ls body"
    and wf: "well_formed m t v ls" and m: "strcasecmp_eq m ''GET''" and t: "path_target t"
    and f: "files w (root_path @ t) = None"
  shows "\<exists>w'. accept_request prog data w = ok (404, data\<lparr>d_cgi := False\<rparr>) w'
    \<and> inp w' = (inp w)(d_fd data := header_text ls @ body) \<and> sent w' = sent w"
proof -
  have "word_text t" using wf by (simp add: well_formed_def)
  then show ?thesis
    using accept_get [OF i wf m t, of prog] locate_path [OF t] f
    by simp
qed

theorem accept_other_method:
  assumes i: "inp w (d_fd data) = request_text m t v ls body" and wf: "well_formed m t v ls"
    and m: "\<not> strcasecmp_eq m ''GET''" "\<not> strcasecmp_eq m ''POST''"
  shows "accept_request prog data w = ok (405, data\<lparr>d_cgi := False\<rparr>)
    (say_line (request_line_text m t v @ [LF]) (set_inp (d_fd data) (header_text ls @ body) w))"
proof -
  have "cstring (padded 5120 m) = m"
    using wf by (simp add: well_formed_def cstring_no_NUL word_text_NUL)
  moreover have "inp w (d_fd data) = request_line_text m t v @ [CR, LF] @ header_text ls @ body"
    using i by (simp add: request_text_def)
  ultimately show ?thesis
    using accept_request_line [OF _ wf, of w data "header_text ls @ body" prog] m
    by (simp add: parse_target_other locate_def)
qed

theorem accept_closed:
  assumes "inp w (d_fd data) = []"
  shows "accept_request prog data w
    = ok (-1, data\<lparr>d_cgi := False\<rparr>) (w\<lparr>out := out w @ [ErrorAt ''accept_request'' 289]\<rparr>)"
proof -
  have "set_inp (d_fd data) [] w = w" using set_inp_same [of "d_fd data" w] assms by simp
  then show ?thesis
    using get_line_spec [of 10240 "d_fd data" w] assms
    by (simp add: accept_request_def print_log_def say_def)
qed

section \<open>Requests for programs\<close>

lemma accept_query_run:
  assumes i: "inp w (d_fd data) = request_text m (t @ ''?'' @ q) v ls body"
    and wf: "well_formed m (t @ ''?'' @ q) v ls" and m: "strcasecmp_eq m ''GET''" and t: "path_target t"
    and q: "CHR ''?'' \<notin> set q" "length q < 10227"
    and f: "files w (root_path @ t) = Some f" "\<not> is_directory f" and fork: "can_fork w"
  shows "accept_request prog data w
    = (case prog (root_path @ t) (cgi_env m q (env w)) [] of
         None \<Rightarrow> None
       | Some r \<Rightarrow>
           if 20480 < length r then ub OutOfBounds
           else ok (0, request_data data True m (root_path @ t) q
                         \<lparr>d_content_length := Some 0, d_buf := Some r\<rparr>)
                  (after_cgi (d_fd data) m q body
                    (say_line (request_line_text m (t @ ''?'' @ q) v @ [LF]) (set_inp (d_fd data) body w))))"
proof -
  let ?t = "t @ ''?'' @ q"
  have w: "word_text m" "word_text t" "word_text q" "length m \<le> 5120"
    using wf by (simp_all add: well_formed_def)
  have tl: "CHR ''?'' \<notin> set t" "length t < 5120" using t by (simp_all add: path_target_def)
  have cm: "cstring (padded 5120 m) = m" using w(1) by (simp add: cstring_no_NUL word_text_NUL)
  have lm: "length m = 3" using m arg_cong [of "map to_lower m" _ length] by (auto simp: strcasecmp_eq_def)
  let ?l = "request_line_text m ?t v"
  let ?r = "v @ [LF] @ replicate (10240 - length (?l @ [LF])) NUL"
  have rl: "padded 10240 (?l @ [LF]) = (m @ '' '') @ t @ CHR ''?'' # q @ CHR '' '' # ?r"
    by (simp add: padded_def request_line_text_def)
  have pt: "parse_target (padded 10240 (?l @ [LF])) (length ?l + 1) (length m + 1) (padded 5120 m) w'
      = ok (Some (True, padded 5120 t, q)) w'" for w'
    using parse_target_query [OF rl w(2) tl(1) w(3) q(1), of "padded 5120 m" "length ?l + 1" w'] m cm tl(2)
    by (simp add: request_line_text_def)
  have i': "inp w (d_fd data) = ?l @ [CR, LF] @ header_text ls @ body"
    using i by (simp add: request_text_def)
  let ?w = "say_line (?l @ [LF]) (set_inp (d_fd data) (header_text ls @ body) w)"
  let ?d = "request_data data True m (root_path @ t) q\<lparr>d_content_length := Some 0\<rparr>"
  let ?p = "prog (root_path @ t) (cgi_env m q (env w)) []"
  have ex: "exec_response prog ?d ?w
      = (case ?p of None \<Rightarrow> None
         | Some r \<Rightarrow> if 20480 < length r then ub OutOfBounds
             else ok (?d\<lparr>d_buf := Some r\<rparr>) (after_cgi (d_fd data) m q body ?w))"
    using exec_response_run [of ?d q m "root_path @ t" 0 ?w prog] q(2) lm fork
      header_skipped [OF wf, of body]
    by (simp add: request_data_def split: option.split)
  have ww: "after_cgi (d_fd data) m q body ?w
      = after_cgi (d_fd data) m q body (say_line (?l @ [LF]) (set_inp (d_fd data) body w))"
    by (simp add: after_cgi_def say_line_def set_inp_def)
  have np: "\<not> strcasecmp_eq m ''POST''" using m by (rule strcasecmp_GET_POST)
  have "accept_request prog data w = dispatch prog (data\<lparr>d_cgi := True\<rparr>) m (root_path @ t) q f ?w"
    using accept_request_line [OF i' wf, of prog] pt locate_path [OF t w(2)] f(1) by simp
  also have "\<dots> = (case ?p of None \<Rightarrow> None
         | Some r \<Rightarrow> if 20480 < length r then ub OutOfBounds
             else ok (0, ?d\<lparr>d_buf := Some r\<rparr>) (after_cgi (d_fd data) m q body ?w))"
    using ex f(2) np by (simp add: dispatch_def request_data_def bind_def split: option.split)
  finally show ?thesis unfolding ww .
qed

lemma accept_query:
  assumes "inp w (d_fd data) = request_text m (t @ ''?'' @ q) v ls body"
    and "well_formed m (t @ ''?'' @ q) v ls" and "strcasecmp_eq m ''GET''" and "path_target t"
    and "CHR ''?'' \<notin> set q" "length q < 10227"
    and "files w (root_path @ t) = Some f" "\<not> is_directory f" and "can_fork w"
    and "prog (root_path @ t) (cgi_env m q (env w)) [] = Some r" "length r \<le> 20480"
  shows "accept_request prog data w
    = ok (0, request_data data True m (root_path @ t) q\<lparr>d_content_length := Some 0, d_buf := Some r\<rparr>)
        (after_cgi (d_fd data) m q body
          (say_line (request_line_text m (t @ ''?'' @ q) v @ [LF]) (set_inp (d_fd data) body w)))"
  using accept_query_run [OF assms(1-9), of prog] assms(10,11) by simp

section \<open>POST\<close>

lemma header_text_Cons: "header_text (l # ls) = l @ [CR, LF] @ header_text ls"
  by (simp add: header_text_def)

lemma length_field_clean: "clean length_field" "NUL \<notin> set length_field" "length length_field = 15"
  by (simp_all add: length_field_def clean_def)

lemma find_length_header:
  assumes "\<forall>l \<in> set ls1. header_line l \<and> length l < 1023 \<and> take 15 (l @ [LF]) \<noteq> length_field"
    and "clean x" and "NUL \<notin> set x" and "length x < 1000"
  shows "find_length (header_text (ls1 @ (length_field @ x) # ls2) @ body)
    = (Some (x @ [LF]), header_text ls2 @ body)"
  using assms(1)
proof (induction ls1)
  case Nil
  have "take_line 10239 ((length_field @ x) @ [CR, LF] @ header_text ls2 @ body)
      = ((length_field @ x) @ [LF], header_text ls2 @ body)"
    using assms(2,4) length_field_clean by (intro take_line_clean) simp_all
  moreover have "cstring (x @ [LF]) = x @ [LF]"
    using assms(3) by (intro cstring_no_NUL) simp
  ultimately show ?case
    by (subst find_length.simps) (simp add: header_text_Cons length_field_clean(3))
next
  case (Cons l ls1)
  have l: "clean l" "l \<noteq> []" "length l < 10239" "take 15 (l @ [LF]) \<noteq> length_field"
    using Cons.prems by (auto simp: header_line_def)
  have "take_line 10239 (l @ [CR, LF] @ header_text (ls1 @ (length_field @ x) # ls2) @ body)
      = (l @ [LF], header_text (ls1 @ (length_field @ x) # ls2) @ body)"
    using l by (intro take_line_clean) simp_all
  then show ?case
    using Cons l(4) by (subst find_length.simps) (simp add: header_text_Cons)
qed

text \<open>
  The world \<open>GetContentLength\<close> leaves: the value it exported lies in an array of its own frame.
\<close>

definition after_length :: "string \<Rightarrow> world \<Rightarrow> world" where
  "after_length t w =
     w\<lparr>env := env_expire [''CONTENT_LENGTH''] (env_put ''CONTENT_LENGTH'' (Some t) (env w)),
       out := out w @ [Text (''content_length:'' @ show_int (atoi t) @ [LF]),
                       Text (''put env CONTENT_LENGTH success...'' @ [LF])]\<rparr>"

lemma GetContentLength_found:
  assumes "find_length (inp w sock) = (Some t, rest)" and "length t < 5105"
  shows "GetContentLength sock w = ok (atoi t) (after_length t (set_inp sock rest w))"
  using assms
  by (simp add: GetContentLength_def content_length_loop_spec length_found_def after_length_def
      say_def putenv_def leave_frame_def bind_def)

definition post_headers :: "string list \<Rightarrow> string \<Rightarrow> string list \<Rightarrow> bool" where
  "post_headers ls1 x ls2 \<longleftrightarrow>
     (\<forall>l \<in> set ls1. take 15 (l @ [LF]) \<noteq> length_field) \<and> clean x \<and> NUL \<notin> set x \<and> length x < 1000"

theorem accept_post:
  assumes i: "inp w (d_fd data) = request_text m t v (ls1 @ (length_field @ x) # ls2) (body @ later)"
    and wf: "well_formed m t v (ls1 @ (length_field @ x) # ls2)" and h: "post_headers ls1 x ls2"
    and m: "strcasecmp_eq m ''POST''" and t: "path_target t"
    and f: "files w (root_path @ t) = Some f" "\<not> is_directory f" and fork: "can_fork w"
    and n: "atoi (x @ [LF]) = int (length body)"
    and e: "e = cgi_env m [] (env (after_length (x @ [LF]) w))"
    and p: "prog (root_path @ t) e body = Some r" "length r \<le> 20480"
  shows "map_of e ''CONTENT_LENGTH'' = Some None
    \<and> (\<exists>w'. accept_request prog data w
          = ok (0, request_data data True m (root_path @ t) []
                     \<lparr>d_content_length := Some (int (length body)), d_buf := Some r\<rparr>) w'
        \<and> inp w' = (inp w)(d_fd data := later) \<and> sent w' = sent w)"
proof
  show "map_of e ''CONTENT_LENGTH'' = Some None"
    by (simp add: e cgi_env_def after_length_def map_of_env_put map_of_env_expire)
  let ?ls = "ls1 @ (length_field @ x) # ls2" and ?l = "request_line_text m t v"
  have w: "word_text m" "word_text t" using wf by (simp_all add: well_formed_def)
  have tl: "length t \<le> 5120" using t by (simp add: path_target_def)
  have cm: "cstring (padded 5120 m) = m" using w(1) by (simp add: cstring_no_NUL word_text_NUL)
  have lm: "length m = 4" using m arg_cong [of "map to_lower m" _ length] by (auto simp: strcasecmp_eq_def)
  let ?r = "v @ [LF] @ replicate (10240 - length (?l @ [LF])) NUL"
  have rl: "padded 10240 (?l @ [LF]) = (m @ '' '') @ t @ CHR '' '' # ?r"
    by (simp add: padded_def request_line_text_def)
  have pt: "parse_target (padded 10240 (?l @ [LF])) (length ?l + 1) (length m + 1) (padded 5120 m) w'
      = ok (Some (True, padded 5120 t, [])) w'" for w'
    using parse_target_post [OF rl w(2), of "padded 5120 m" "length ?l + 1" w'] m cm tl
    by simp
  have i': "inp w (d_fd data) = ?l @ [CR, LF] @ header_text ?ls @ body @ later"
    using i by (simp add: request_text_def)
  let ?w = "say_line (?l @ [LF]) (set_inp (d_fd data) (header_text ?ls @ body @ later) w)"
  have "\<forall>l \<in> set ls1. header_line l \<and> length l < 1023 \<and> take 15 (l @ [LF]) \<noteq> length_field"
    using wf h by (auto simp: well_formed_def post_headers_def)
  then have fl: "find_length (inp ?w (d_fd data)) = (Some (x @ [LF]), header_text ls2 @ body @ later)"
    using find_length_header [of ls1 x ls2 "body @ later"] h by (simp add: post_headers_def)
  let ?w2 = "after_length (x @ [LF]) (set_inp (d_fd data) (header_text ls2 @ body @ later) ?w)"
  have g: "GetContentLength (d_fd data) ?w = ok (int (length body)) ?w2"
    using GetContentLength_found [OF fl] h n by (simp add: post_headers_def)
  let ?d = "request_data data True m (root_path @ t) []\<lparr>d_content_length := Some (int (length body))\<rparr>"
  have sk: "skip_head (header_text ls2 @ body @ later) = body @ later"
    using wf by (intro skip_head_header) (auto simp: well_formed_def)
  have "env ?w2 = env (after_length (x @ [LF]) w)" by (simp add: after_length_def)
  then have ex: "exec_response prog ?d ?w2
      = ok (?d\<lparr>d_buf := Some r\<rparr>) (after_cgi (d_fd data) m [] later ?w2)"
    using exec_response_run [of ?d "[]" m "root_path @ t" "int (length body)" ?w2 prog] lm fork p sk e
    by (simp add: request_data_def after_length_def)
  have run: "accept_request prog data w = dispatch prog (data\<lparr>d_cgi := True\<rparr>) m (root_path @ t) [] f ?w"
    using accept_request_line [OF i' wf, of prog] pt locate_path [OF t w(2)] f(1) by simp
  have "accept_request prog data w = ok (0, ?d\<lparr>d_buf := Some r\<rparr>) (after_cgi (d_fd data) m [] later ?w2)"
    unfolding run using ex f(2) m g by (simp add: dispatch_def request_data_def bind_def)
  then show "\<exists>w'. accept_request prog data w
          = ok (0, request_data data True m (root_path @ t) []
                     \<lparr>d_content_length := Some (int (length body)), d_buf := Some r\<rparr>) w'
        \<and> inp w' = (inp w)(d_fd data := later) \<and> sent w' = sent w"
    by (simp add: after_cgi_def after_length_def)
qed

end
