(* ===== verification/HttpServer.thy ===== *)
theory HttpServer
  imports HttpAccept
begin

text \<open>
  The responses of \<open>httpd.c\<close> (\<open>send_response\<close>, \<open>error_response\<close>), its callbacks (\<open>accept_fc\<close>,
  \<open>read_fc\<close>, \<open>write_fc\<close>) and the event loop that calls them. The callbacks share the global pointer
  \<open>_data\<close>, which is part of the server's state.
\<close>

section \<open>Responses\<close>

definition ok_status :: string where
  "ok_status = ''HTTP/1.0 200 OK'' @ [CR, LF, CR, LF]"

definition send_response :: "data_buf \<Rightarrow> nat \<Rightarrow> (world, unit) c" where
  "send_response data n =
     bind (send (d_fd data) ok_status) (\<lambda>sent.
     if \<not> sent then print_log ''send_response'' 138
     else
       bind (field (d_path data)) (\<lambda>path.
       bind (open_read path) (\<lambda>out_fd.
       case out_fd of
         None \<Rightarrow> print_log ''send_response'' 144
       | Some content \<Rightarrow>
           bind (sendfile (d_fd data) content n) (\<lambda>sent.
           if \<not> sent then print_log ''send_response'' 149 else close_file))))"

text \<open>The pointer \<open>error\<close> stays indeterminate for any other number.\<close>

definition status_line :: "int \<Rightarrow> string option" where
  "status_line err_num =
     (if err_num = 400 then Some (''HTTP/1.1 400 Bad Request'' @ [CR, LF, CR, LF])
      else if err_num = 404 then Some (''HTTP/1.1 404 Not Found'' @ [CR, LF, CR, LF])
      else if err_num = 405 then Some (''HTTP/1.1 405 Method Not Allowed'' @ [CR, LF, CR, LF])
      else if err_num = 408 then Some (''HTTP/1.1 408 Request Timeout'' @ [CR, LF, CR, LF])
      else if err_num = 500 then Some (''HTTP/1.1 500 Internal Server Error'' @ [CR, LF, CR, LF])
      else None)"

definition error_path :: string where
  "error_path = ''/home/lounuo/HTTP/htdocs/error_response.html''"

definition error_response :: "int \<Rightarrow> int \<Rightarrow> (world, unit) c" where
  "error_response sock err_num =
     bind (clear_head sock) (\<lambda>_.
     bind (field (status_line err_num)) (\<lambda>error.
     bind (say (Text (''error_msg:'' @ error @ [LF]))) (\<lambda>_.
     bind (send sock error) (\<lambda>sent.
     if \<not> sent then print_log ''error_response'' 94
     else
       bind (open_read error_path) (\<lambda>out_fd.
       case out_fd of
         None \<Rightarrow> print_log ''error_response'' 101
       | Some content \<Rightarrow>
           bind (stat error_path) (\<lambda>st.
           case st of
             None \<Rightarrow> print_log ''error_response'' 107
           | Some f \<Rightarrow>
               bind (sendfile sock content (length (f_data f))) (\<lambda>sent.
               if \<not> sent then print_log ''error_response'' 113
               else bind close_file (\<lambda>_. close sock))))))))"

section \<open>The callbacks\<close>

text \<open>\<open>strlen(_data->_buf)\<close> and the send: the array of 20480 bytes must hold a terminator.\<close>

definition send_buf :: "data_buf \<Rightarrow> (world, unit) c" where
  "send_buf data =
     bind (field (d_buf data)) (\<lambda>t.
     if length t = 20480 \<and> NUL \<notin> set t then undefined_behaviour OutOfBounds
     else bind (send (d_fd data) (cstring t)) (\<lambda>_. return ()))"

text \<open>\<open>write_fc\<close> does not look at the socket it is called for: everything is taken from \<open>_data\<close>.\<close>

definition write_fc :: "data_buf option \<Rightarrow> int \<Rightarrow> (world, unit) c" where
  "write_fc glob write_sock =
     (case glob of
        None \<Rightarrow> undefined_behaviour NullDeref
      | Some data \<Rightarrow>
          bind (field (d_err_num data)) (\<lambda>err.
          if err = 0 then
            (if \<not> d_cgi data then
               bind (field (d_path data)) (\<lambda>path.
               bind (stat path) (\<lambda>st.
               case st of
                 None \<Rightarrow> print_log ''write_fc'' 540
               | Some f \<Rightarrow> bind (send_response data (length (f_data f))) (\<lambda>_. close (d_fd data))))
             else bind (send_buf data) (\<lambda>_. close (d_fd data)))
          else if 0 < err then bind (error_response (d_fd data) err) (\<lambda>_. close (d_fd data))
          else close (d_fd data)))"

text \<open>\<open>malloc\<close> may fail; the new value of \<open>_data\<close> and whether the write event was added.\<close>

definition read_fc :: "programs \<Rightarrow> bool \<Rightarrow> int \<Rightarrow> (world, data_buf option \<times> bool) c" where
  "read_fc prog memory read_sock =
     (if \<not> memory then bind (print_log ''read_fc'' 568) (\<lambda>_. return (None, False))
      else
        bind (accept_request prog (new_data_buf read_sock)) (\<lambda>(err, data).
        return (Some (data\<lparr>d_err_num := Some err\<rparr>), True)))"

section \<open>The event loop\<close>

text \<open>
  The loop waits for connections, for sockets in \<open>reads\<close> to become readable and for sockets in
  \<open>writes\<close> to become writable; read and write events fire once. The nested calls of
  \<open>event_base_dispatch\<close> in the callbacks return at once, as libevent refuses to run one event base
  twice. A new connection has a descriptor that is not in use, and brings the bytes of its client.
\<close>

record server =
  net :: world
  glob :: "data_buf option"
  reads :: "int list"
  writes :: "int list"

datatype event =
    Connect int string
  | AcceptFails
  | Readable int bool
  | Writable int

definition accept_fc :: "(int \<times> string) option \<Rightarrow> (world, int option) c" where
  "accept_fc client w =
     (case client of
        None \<Rightarrow> bind (print_log ''accept_fc'' 589) (\<lambda>_. return None) w
      | Some (fd, t) \<Rightarrow>
          ok (Some fd) (w\<lparr>inp := (inp w)(fd := t), sent := (sent w)(fd := [])\<rparr>))"

inductive server_step :: "programs \<Rightarrow> server \<Rightarrow> event \<Rightarrow> server \<Rightarrow> bool" for prog where
  connect: "fd \<notin> set (reads s) \<Longrightarrow> fd \<notin> set (writes s) \<Longrightarrow>
    accept_fc (Some (fd, t)) (net s) = ok (Some fd) w \<Longrightarrow>
    server_step prog s (Connect fd t) (s\<lparr>net := w, reads := fd # reads s\<rparr>)"
| accept_fails: "accept_fc None (net s) = ok None w \<Longrightarrow>
    server_step prog s AcceptFails (s\<lparr>net := w\<rparr>)"
| readable: "fd \<in> set (reads s) \<Longrightarrow> read_fc prog memory fd (net s) = ok (g, added) w \<Longrightarrow>
    server_step prog s (Readable fd memory)
      (s\<lparr>net := w, glob := g, reads := removeAll fd (reads s),
         writes := (if added then fd # writes s else writes s)\<rparr>)"
| writable: "fd \<in> set (writes s) \<Longrightarrow> write_fc (glob s) fd (net s) = ok () w \<Longrightarrow>
    server_step prog s (Writable fd) (s\<lparr>net := w, writes := removeAll fd (writes s)\<rparr>)"

inductive_cases connectE: "server_step prog s (Connect fd t) s'"
inductive_cases acceptFailsE: "server_step prog s AcceptFails s'"
inductive_cases readableE: "server_step prog s (Readable fd memory) s'"
inductive_cases writableE: "server_step prog s (Writable fd) s'"

inductive server_run :: "programs \<Rightarrow> server \<Rightarrow> event list \<Rightarrow> server \<Rightarrow> bool" for prog where
  finish: "server_run prog s [] s"
| step: "server_step prog s e s1 \<Longrightarrow> server_run prog s1 es s2 \<Longrightarrow> server_run prog s (e # es) s2"

inductive_simps server_run_Nil [simp]: "server_run prog s [] s'"
inductive_simps server_run_Cons: "server_run prog s (e # es) s'"

end
