(* ===== verification/HttpFrame.thy ===== *)
theory HttpFrame
  imports HttpServer
begin

text \<open>
  What the operations of the server leave alone, and that they return. Reading a request sends
  nothing, closes nothing and takes bytes from its own socket only; it returns unless a program
  cannot be executed.
\<close>

section \<open>Operations under a relation of states\<close>

text \<open>
  An operation keeps a relation when every return of it leads to a related state. For a relation
  that is reflexive and transitive this is closed under sequencing.
\<close>

definition keeps :: "('s \<Rightarrow> 's \<Rightarrow> bool) \<Rightarrow> ('s, 'a) c \<Rightarrow> bool" where
  "keeps R m \<longleftrightarrow> (\<forall>s a s'. m s = ok a s' \<longrightarrow> R s s')"

named_theorems keeps_rules

lemma keepsI: "(\<And>s a s'. m s = ok a s' \<Longrightarrow> R s s') \<Longrightarrow> keeps R m"
  by (simp add: keeps_def)

lemma keeps_ub [keeps_rules]: "keeps R (undefined_behaviour e)"
  by (simp add: keeps_def)

lemma keeps_if [keeps_rules]: "keeps R m1 \<Longrightarrow> keeps R m2 \<Longrightarrow> keeps R (if b then m1 else m2)"
  by simp

lemma keeps_case_option [keeps_rules]:
  "keeps R m \<Longrightarrow> (\<And>x. keeps R (f x)) \<Longrightarrow> keeps R (case v of None \<Rightarrow> m | Some x \<Rightarrow> f x)"
  by (simp split: option.split)

lemma keeps_case_prod [keeps_rules]:
  "(\<And>x y. keeps R (f x y)) \<Longrightarrow> keeps R (case v of (x, y) \<Rightarrow> f x y)"
  by (simp split: prod.split)

lemma keeps_let [keeps_rules]: "(\<And>x. keeps R (f x)) \<Longrightarrow> keeps R (let x = v in f x)"
  by simp

locale frame =
  fixes R :: "'s \<Rightarrow> 's \<Rightarrow> bool"
  assumes frame_refl: "R s s"
    and frame_trans: "R s t \<Longrightarrow> R t u \<Longrightarrow> R s u"
begin

lemma keeps_bind:
  assumes "keeps R m" and "\<And>a. keeps R (f a)"
  shows "keeps R (bind m f)"
  using assms unfolding keeps_def bind_eq_ok_iff by (blast intro: frame_trans)

lemma keeps_return: "keeps R (return a)"
  by (simp add: keeps_def frame_refl)

lemma keeps_same: "(\<And>s a s'. m s = ok a s' \<Longrightarrow> s' = s) \<Longrightarrow> keeps R m"
  unfolding keeps_def using frame_refl by blast

end

section \<open>Quiet operations\<close>

definition quiet :: "int \<Rightarrow> world \<Rightarrow> world \<Rightarrow> bool" where
  "quiet fd w w' \<longleftrightarrow>
     sent w' = sent w \<and> closes w' = closes w \<and> files w' = files w \<and> broken w' = broken w
     \<and> open_files w' = open_files w \<and> can_fork w' = can_fork w \<and> (\<forall>x. x \<noteq> fd \<longrightarrow> inp w' x = inp w x)"

interpretation quiet: frame "quiet fd" for fd
  by unfold_locales (simp_all add: quiet_def)

lemmas quiet_frame_rules [keeps_rules] = quiet.keeps_bind quiet.keeps_return

lemma quiet_set_inp [simp]: "quiet fd w (set_inp fd t w)"
  by (simp add: quiet_def)

lemma quiet_basic [keeps_rules]:
  "keeps (quiet fd) (say m)" "keeps (quiet fd) (print_log f n)" "keeps (quiet fd) (stat p)"
  "keeps (quiet fd) (putenv nm v)" "keeps (quiet fd) (leave_frame ns)" "keeps (quiet fd) (\<lambda>w. ok (g w) w)"
  "keeps (quiet fd) (recv fd)" "keeps (quiet fd) (field x)"
  by (auto simp: keeps_def quiet_def w_eval field_def split: list.splits option.splits)

lemma quiet_child_output [keeps_rules]: "keeps (quiet fd) (child_output prog p b)"
  by (auto simp: keeps_def child_output_def quiet.frame_refl split: option.splits)

lemma quiet_get_line [keeps_rules]: "0 < n \<Longrightarrow> keeps (quiet fd) (get_line fd n)"
  by (auto simp: keeps_def get_line_spec split: prod.splits)

lemma quiet_clear_head [keeps_rules]: "keeps (quiet fd) (clear_head fd)"
  by (auto simp: keeps_def clear_head_spec)

lemma quiet_relay_body [keeps_rules]: "keeps (quiet fd) (relay_body fd n)"
  by (auto simp: keeps_def relay_body_spec)

lemma quiet_GetContentLength [keeps_rules]: "keeps (quiet fd) (GetContentLength fd)"
proof -
  have lf: "keeps (quiet fd) (length_found t)" for t
    unfolding length_found_def by (intro keeps_rules)
  have "keeps (quiet fd) (content_length_loop fd)"
  proof (rule keepsI)
    fix w a w' assume r: "content_length_loop fd w = ok a w'"
    obtain f rest where fl: "find_length (inp w fd) = (f, rest)" by fastforce
    show "quiet fd w w'"
    proof (cases f)
      case None
      then show ?thesis using r fl by (auto simp: content_length_loop_spec)
    next
      case (Some t)
      then have "length_found t (set_inp fd rest w) = ok a w'"
        using r fl by (simp add: content_length_loop_spec)
      with lf show ?thesis using quiet_set_inp quiet.frame_trans unfolding keeps_def by blast
    qed
  qed
  then show ?thesis unfolding GetContentLength_def by (intro keeps_rules)
qed

lemma method_loop_state: "method_loop rl n i m w = ok r w' \<Longrightarrow> w' = w"
proof (induction rl n i m rule: method_loop.induct)
  case (1 rl n i m)
  then show ?case using method_loop.simps [of rl n i m] by (auto split: if_splits)
qed

lemma url_loop_state: "url_loop rl j i u w = ok r w' \<Longrightarrow> w' = w"
proof (induction rl j i u rule: url_loop.induct)
  case (1 rl j i u)
  then show ?case using url_loop.simps [of rl j i u] by (auto split: if_splits)
qed

lemma quiet_method_loop [keeps_rules]: "keeps (quiet fd) (method_loop rl n i m)"
  by (rule quiet.keeps_same) (rule method_loop_state)

lemma quiet_parse_target [keeps_rules]: "keeps (quiet fd) (parse_target rl n i m)"
proof -
  have u: "keeps (quiet fd) (url_loop rl i j u)" for j u
    by (rule quiet.keeps_same) (rule url_loop_state)
  show ?thesis
    unfolding parse_target_def Let_def by (intro keeps_rules u)
qed

lemma quiet_exec_response [keeps_rules]: "d_fd data = fd \<Longrightarrow> keeps (quiet fd) (exec_response prog data)"
  unfolding exec_response_def by (simp only:) (intro keeps_rules)

lemma quiet_strcat [keeps_rules]: "keeps (quiet fd) (strcat_path p t)" "keeps (quiet fd) (array_string a)"
  unfolding strcat_path_def array_string_def by (intro keeps_rules)+

lemma quiet_dispatch [keeps_rules]:
  assumes "d_fd data = fd"
  shows "keeps (quiet fd) (dispatch prog data m p q f)"
  unfolding dispatch_def Let_def assms data_buf.simps by (intro keeps_rules)
    (simp_all add: assms quiet_clear_head quiet_GetContentLength)

lemma quiet_locate [keeps_rules]: "d_fd data = fd \<Longrightarrow> keeps (quiet fd) (locate prog data m t)"
  unfolding locate_def by (intro keeps_rules) simp_all

lemma quiet_accept_request: "keeps (quiet (d_fd data)) (accept_request prog data)"
  unfolding accept_request_def by (intro keeps_rules) simp_all

section \<open>Operations that send on one socket only\<close>

definition only_to :: "int \<Rightarrow> world \<Rightarrow> world \<Rightarrow> bool" where
  "only_to fd w w' \<longleftrightarrow> (\<forall>x. x \<noteq> fd \<longrightarrow> sent w' x = sent w x)"

interpretation only: frame "only_to fd" for fd
  by unfold_locales (simp_all add: only_to_def)

lemmas only_frame_rules [keeps_rules] = only.keeps_bind only.keeps_return

lemma quiet_only: "keeps (quiet fd') m \<Longrightarrow> keeps (only_to fd) m"
  by (auto simp: keeps_def quiet_def only_to_def)

lemma only_basic [keeps_rules]:
  "keeps (only_to fd) (say m)" "keeps (only_to fd) (print_log f n)" "keeps (only_to fd) (stat p)"
  "keeps (only_to fd) (field x)" "keeps (only_to fd) (clear_head fd')"
  "keeps (only_to fd) (open_read p)" "keeps (only_to fd) close_file" "keeps (only_to fd) (close fd')"
  "keeps (only_to fd) (send fd t)" "keeps (only_to fd) (sendfile fd t k)"
  by (auto simp: keeps_def only_to_def w_eval field_def clear_head_spec split: option.splits if_splits)

lemma only_responses [keeps_rules]:
  "d_fd data = fd \<Longrightarrow> keeps (only_to fd) (send_response data n)"
  "keeps (only_to fd) (error_response fd err)"
  "d_fd data = fd \<Longrightarrow> keeps (only_to fd) (send_buf data)"
  unfolding send_response_def error_response_def send_buf_def by (intro keeps_rules | simp only:)+

lemma only_write_fc: "keeps (only_to (d_fd data)) (write_fc (Some data) fd)"
  unfolding write_fc_def option.case by (intro keeps_rules refl)

text \<open>What an operation returns.\<close>

definition yields :: "('a \<Rightarrow> bool) \<Rightarrow> ('s, 'a) c \<Rightarrow> bool" where
  "yields P m \<longleftrightarrow> (\<forall>s a s'. m s = ok a s' \<longrightarrow> P a)"

lemma yields_bind: "(\<And>a. yields P (f a)) \<Longrightarrow> yields P (bind m f)"
  by (auto simp: yields_def bind_eq_ok_iff)

lemma yields_bind_from: "yields Q m \<Longrightarrow> (\<And>a. Q a \<Longrightarrow> yields P (f a)) \<Longrightarrow> yields P (bind m f)"
  by (force simp: yields_def bind_eq_ok_iff)

lemma yields_basic:
  "P a \<Longrightarrow> yields P (return a)" "yields P (undefined_behaviour e)"
  "yields P m1 \<Longrightarrow> yields P m2 \<Longrightarrow> yields P (if b then m1 else m2)"
  "yields P m \<Longrightarrow> (\<And>x. yields P (g x)) \<Longrightarrow> yields P (case v of None \<Rightarrow> m | Some x \<Rightarrow> g x)"
  "(\<And>x y. yields P (h x y)) \<Longrightarrow> yields P (case z of (x, y) \<Rightarrow> h x y)"
  "(\<And>x. yields P (g x)) \<Longrightarrow> yields P (let x = u in g x)"
  by (auto simp: yields_def split: option.splits prod.splits)

lemma yields_mono: "yields P m \<Longrightarrow> (\<And>a. P a \<Longrightarrow> Q a) \<Longrightarrow> yields Q m"
  by (auto simp: yields_def)

lemma exec_response_fd: "yields (\<lambda>d. d_fd d = d_fd data) (exec_response prog data)"
proof -
  have inner: "yields (\<lambda>d. d_fd d = d_fd data)
      (if \<not> forked then bind (print_log ''exec_response'' 210) (\<lambda>_. return data)
       else
         bind (clear_head (d_fd data)) (\<lambda>_.
         bind (field (d_content_length data)) (\<lambda>con_len.
         bind (relay_body (d_fd data) (nat con_len)) (\<lambda>body.
         bind (field (d_path data)) (\<lambda>path.
         bind (child_output prog path body) (\<lambda>t.
         if 20480 < length t then undefined_behaviour OutOfBounds
         else return (data\<lparr>d_buf := Some t\<rparr>)))))))" for forked
    by (intro yields_basic yields_bind) simp_all
  show ?thesis
    unfolding exec_response_def
    by (intro yields_basic yields_bind_from [OF inner] yields_bind) simp_all
qed

lemma dispatch_fd: "yields (\<lambda>r. d_fd (snd r) = d_fd data) (dispatch prog data m p q f)"
proof -
  have ex: "yields (\<lambda>d. d_fd d = d_fd data) (exec_response prog (data'\<lparr>d_content_length := Some n\<rparr>))"
    if "d_fd data' = d_fd data" for data' n
    using exec_response_fd [of "data'\<lparr>d_content_length := Some n\<rparr>" prog] that by simp
  show ?thesis
    unfolding dispatch_def Let_def
    by (intro yields_basic yields_bind_from [OF ex] yields_bind) simp_all
qed

lemma accept_request_fd: "yields (\<lambda>r. d_fd (snd r) = d_fd data) (accept_request prog data)"
proof -
  have "yields (\<lambda>r. d_fd (snd r) = d_fd data) (locate prog (data\<lparr>d_cgi := False\<rparr>) m t)" for m t
    unfolding locate_def
    by (intro yields_basic yields_bind dispatch_fd [THEN yields_mono]) simp_all
  then show ?thesis
    unfolding accept_request_def Let_def by (intro yields_basic yields_bind) simp_all
qed

section \<open>The events of the server\<close>

lemma read_fc_quiet: "keeps (quiet fd) (read_fc prog memory fd)"
  unfolding read_fc_def using quiet_accept_request [of "new_data_buf fd" prog]
  by (intro keeps_rules) (simp_all add: new_data_buf_def)

end
