(* ===== verification/HttpProps.thy ===== *)
theory HttpProps
  imports HttpFrame
begin

text \<open>
  What a client of the server sees: the responses to requests that are served one at a time, and
  what becomes of requests that overlap.
\<close>

section \<open>Responses\<close>

definition add_sent :: "int \<Rightarrow> string \<Rightarrow> world \<Rightarrow> world" where
  "add_sent fd t w = w\<lparr>sent := (sent w)(fd := sent w fd @ t)\<rparr>"

lemma send_ok: "\<not> broken w fd \<Longrightarrow> send fd t w = ok True (add_sent fd t w)"
  by (simp add: send_def add_sent_def)

lemma add_sent_simps [simp]:
  "inp (add_sent fd t w) = inp w" "sent (add_sent fd t w) = (sent w)(fd := sent w fd @ t)"
  "broken (add_sent fd t w) = broken w" "closes (add_sent fd t w) = closes w"
  "files (add_sent fd t w) = files w" "open_files (add_sent fd t w) = open_files w"
  "env (add_sent fd t w) = env w" "add_sent fd t (add_sent fd u w) = add_sent fd (u @ t) w"
  by (simp_all add: add_sent_def)

definition close_one :: "int \<Rightarrow> world \<Rightarrow> world" where
  "close_one fd w = w\<lparr>closes := closes w @ [fd]\<rparr>"

lemma close_ok: "close fd w = ok () (close_one fd w)"
  by (simp add: close_def close_one_def)

lemma close_one_simps [simp]:
  "sent (close_one fd w) = sent w" "closes (close_one fd w) = closes w @ [fd]"
  "open_files (close_one fd w) = open_files w" "inp (close_one fd w) = inp w"
  by (simp_all add: close_one_def)

definition served_file :: "world \<Rightarrow> string \<Rightarrow> fentry \<Rightarrow> bool" where
  "served_file w p f \<longleftrightarrow> files w p = Some f \<and> f_readable f"

lemma send_response_ok:
  assumes "\<not> broken w (d_fd data)" and "d_path data = Some p" and "served_file w p f"
  shows "send_response data (length (f_data f)) w = ok () (add_sent (d_fd data) (ok_status @ f_data f) w)"
  using assms
  by (simp add: send_response_def bind_def send_ok field_def open_read_def sendfile_def
      served_file_def close_file_def)
    (simp add: send_def add_sent_def)

lemma write_fc_file:
  assumes "\<not> broken w (d_fd data)" and "d_path data = Some p" and "served_file w p f"
    and "d_err_num data = Some 0" and "\<not> d_cgi data"
  shows "write_fc (Some data) fd w
    = ok () (close_one (d_fd data) (add_sent (d_fd data) (ok_status @ f_data f) w))"
  using assms send_response_ok [OF assms(1-3)]
  by (simp add: write_fc_def bind_def field_def stat_def served_file_def close_ok)

lemma write_fc_program:
  assumes "\<not> broken w (d_fd data)" and "d_buf data = Some t" and "length t < 20480"
    and "d_err_num data = Some 0" and "d_cgi data"
  shows "write_fc (Some data) fd w = ok () (close_one (d_fd data) (add_sent (d_fd data) (cstring t) w))"
  using assms by (simp add: write_fc_def bind_def field_def send_buf_def send_ok close_ok)

lemma write_fc_error:
  assumes b: "\<not> broken w (d_fd data)" and e: "d_err_num data = Some err" "0 < err"
    and l: "status_line err = Some t" and f: "served_file w error_path f"
  shows "\<exists>w'. write_fc (Some data) fd w = ok () w'
    \<and> sent w' = (sent w)(d_fd data := sent w (d_fd data) @ t @ f_data f)
    \<and> closes w' = closes w @ [d_fd data, d_fd data] \<and> open_files w' = open_files w
    \<and> inp w' = (inp w)(d_fd data := skip_head (inp w (d_fd data)))"
  using assms
  by (simp add: write_fc_def error_response_def bind_def field_def clear_head_spec say_def send_def
      open_read_def stat_def sendfile_def served_file_def close_file_def close_def)

lemma write_fc_closed:
  "d_err_num data = Some (-1) \<Longrightarrow> write_fc (Some data) fd w = ok () (close_one (d_fd data) w)"
  by (simp add: write_fc_def bind_def field_def close_ok)

section \<open>One request at a time\<close>

lemma read_write_run:
  assumes "fd \<in> set (reads s)" and "accept_request prog (new_data_buf fd) (net s) = ok (err, data) w"
    and "write_fc (Some (data\<lparr>d_err_num := Some err\<rparr>)) fd w = ok () w'"
  shows "\<exists>s'. server_run prog s [Readable fd True, Writable fd] s' \<and> net s' = w'"
proof -
  let ?g = "Some (data\<lparr>d_err_num := Some err\<rparr>)"
  let ?s1 = "s\<lparr>net := w, glob := ?g, reads := removeAll fd (reads s), writes := fd # writes s\<rparr>"
  have "read_fc prog True fd (net s) = ok (?g, True) w"
    using assms(2) by (simp add: read_fc_def bind_def)
  from readable [OF assms(1) this] have "server_step prog s (Readable fd True) ?s1" by simp
  moreover have "server_step prog ?s1 (Writable fd) (?s1\<lparr>net := w', writes := removeAll fd (writes ?s1)\<rparr>)"
    using assms(3) by (intro writable) simp_all
  ultimately show ?thesis
    by (intro exI [of _ "?s1\<lparr>net := w', writes := removeAll fd (writes ?s1)\<rparr>"])
      (auto intro: step finish)
qed

text \<open>
  C5: a well-formed GET request for a regular readable file that is not executable is answered
  with the status line and the whole file; the request is consumed up to its body, the
  connection is closed once and no file stays open.
\<close>

theorem file_is_served:
  assumes fd: "fd \<in> set (reads s)" and b: "\<not> broken (net s) fd"
    and i: "inp (net s) fd = request_text m t v ls body"
    and wf: "well_formed m t v ls" and m: "strcasecmp_eq m ''GET''" and t: "path_target t"
    and f: "served_file (net s) (root_path @ t) f" "\<not> is_directory f" "\<not> is_executable f"
  shows "\<exists>s'. server_run prog s [Readable fd True, Writable fd] s'
    \<and> sent (net s') = (sent (net s))(fd := sent (net s) fd @ ok_status @ f_data f)
    \<and> inp (net s') = (inp (net s))(fd := body)
    \<and> closes (net s') = closes (net s) @ [fd] \<and> open_files (net s') = open_files (net s)"
proof -
  let ?d = "request_data (new_data_buf fd) False m (root_path @ t) []"
  let ?w = "say_line (request_line_text m t v @ [LF]) (set_inp fd body (net s))"
  have nd: "d_fd (new_data_buf fd) = fd" by (simp add: new_data_buf_def)
  have a: "accept_request prog (new_data_buf fd) (net s) = ok (0, ?d) ?w"
    using accept_static [of "net s" "new_data_buf fd" m t v ls body f prog] i wf m t f nd
    by (simp add: served_file_def)
  have d: "d_fd (?d\<lparr>d_err_num := Some 0\<rparr>) = fd" by (simp add: request_data_def nd)
  have "write_fc (Some (?d\<lparr>d_err_num := Some 0\<rparr>)) fd ?w
      = ok () (close_one fd (add_sent fd (ok_status @ f_data f) ?w))"
    using write_fc_file [of ?w "?d\<lparr>d_err_num := Some 0\<rparr>" "root_path @ t" f fd] b f d
    by (simp add: served_file_def) (simp add: request_data_def)
  from read_write_run [OF fd a this] show ?thesis by auto
qed

lemma program_run:
  assumes fd: "fd \<in> set (reads s)" and b: "\<not> broken (net s) fd"
    and i: "inp (net s) fd = request_text m (t @ ''?'' @ q) v ls body"
    and wf: "well_formed m (t @ ''?'' @ q) v ls" and m: "strcasecmp_eq m ''GET''" and t: "path_target t"
    and q: "CHR ''?'' \<notin> set q" "length q < 10227"
    and f: "files (net s) (root_path @ t) = Some f" "\<not> is_directory f" and fork: "can_fork (net s)"
    and p: "prog (root_path @ t) (cgi_env m q (env (net s))) [] = Some r" "length r < 20480"
  shows "\<exists>s'. server_run prog s [Readable fd True, Writable fd] s'
    \<and> sent (net s') = (sent (net s))(fd := sent (net s) fd @ cstring r)
    \<and> inp (net s') = (inp (net s))(fd := body) \<and> closes (net s') = closes (net s) @ [fd]"
proof -
  let ?d = "request_data (new_data_buf fd) True m (root_path @ t) q
      \<lparr>d_content_length := Some 0, d_buf := Some r\<rparr>"
  let ?w = "after_cgi fd m q body
      (say_line (request_line_text m (t @ ''?'' @ q) v @ [LF]) (set_inp fd body (net s)))"
  have nd: "d_fd (new_data_buf fd) = fd" by (simp add: new_data_buf_def)
  have a: "accept_request prog (new_data_buf fd) (net s) = ok (0, ?d) ?w"
    using accept_query [of "net s" "new_data_buf fd" m t q v ls body f prog r] i wf m t q f fork p nd
    by simp
  have "write_fc (Some (?d\<lparr>d_err_num := Some 0\<rparr>)) fd ?w
      = ok () (close_one fd (add_sent fd (cstring r) ?w))"
    using write_fc_program [of ?w "?d\<lparr>d_err_num := Some 0\<rparr>" r fd] b p nd
    by (simp add: request_data_def after_cgi_def)
  from read_write_run [OF fd a this] show ?thesis by (auto simp: after_cgi_def)
qed

text \<open>
  C7: a GET request with a query is answered with what the program prints that is run with the
  query in its environment and nothing on its standard input, up to a NUL byte.
\<close>

theorem program_is_served:
  assumes fd: "fd \<in> set (reads s)" and b: "\<not> broken (net s) fd"
    and i: "inp (net s) fd = request_text m (t @ ''?'' @ q) v ls body"
    and wf: "well_formed m (t @ ''?'' @ q) v ls" and m: "strcasecmp_eq m ''GET''" and t: "path_target t"
    and q: "CHR ''?'' \<notin> set q" "length q < 10227"
    and f: "files (net s) (root_path @ t) = Some f" "\<not> is_directory f" and fork: "can_fork (net s)"
    and p: "prog (root_path @ t) (cgi_env m q (env (net s))) [] = Some r" "length r < 20480"
  shows "\<exists>s'. server_run prog s [Readable fd True, Writable fd] s'
    \<and> sent (net s') = (sent (net s))(fd := sent (net s) fd @ cstring r)
    \<and> inp (net s') = (inp (net s))(fd := body) \<and> closes (net s') = closes (net s) @ [fd]"
  using assms by (rule program_run)

lemma missing_run:
  assumes fd: "fd \<in> set (reads s)" and b: "\<not> broken (net s) fd"
    and i: "inp (net s) fd = request_text m t v ls body"
    and wf: "well_formed m t v ls" and m: "strcasecmp_eq m ''GET''" and t: "path_target t"
    and f: "files (net s) (root_path @ t) = None" and page: "served_file (net s) error_path page"
  shows "\<exists>s'. server_run prog s [Readable fd True, Writable fd] s'
    \<and> sent (net s') fd = sent (net s) fd @ ''HTTP/1.1 404 Not Found'' @ [CR, LF, CR, LF] @ f_data page
    \<and> inp (net s') fd = body \<and> closes (net s') = closes (net s) @ [fd, fd]"
proof -
  have nd: "d_fd (new_data_buf fd) = fd" by (simp add: new_data_buf_def)
  let ?d = "new_data_buf fd\<lparr>d_cgi := False\<rparr>"
  obtain w' where a: "accept_request prog (new_data_buf fd) (net s) = ok (404, ?d) w'"
    and w': "inp w' fd = header_text ls @ body" "sent w' = sent (net s)"
    using accept_missing [of "net s" "new_data_buf fd" m t v ls body prog] i wf m t f nd by auto
  have q: "quiet fd (net s) w'"
    using quiet_accept_request [of "new_data_buf fd" prog] a nd by (auto simp: keeps_def)
  have st: "status_line 404 = Some (''HTTP/1.1 404 Not Found'' @ [CR, LF, CR, LF])"
    by (simp add: status_line_def)
  have b': "\<not> broken w' fd" and page': "served_file w' error_path page"
    using b page q by (simp_all add: quiet_def served_file_def)
  obtain w2 where w2: "write_fc (Some (?d\<lparr>d_err_num := Some 404\<rparr>)) fd w' = ok () w2"
    "sent w2 = (sent w')(fd := sent w' fd @ (''HTTP/1.1 404 Not Found'' @ [CR, LF, CR, LF]) @ f_data page)"
    "closes w2 = closes w' @ [fd, fd]" "inp w2 = (inp w')(fd := skip_head (inp w' fd))"
    using write_fc_error [of w' "?d\<lparr>d_err_num := Some 404\<rparr>" 404 _ page fd, OF _ _ _ st page'] b' nd
    by (auto simp: new_data_buf_def)
  from read_write_run [OF fd a w2(1)] obtain s' where
    "server_run prog s [Readable fd True, Writable fd] s'" "net s' = w2" by blast
  then show ?thesis
    using w2 w' q header_skipped [OF wf, of body] by (intro exI [of _ s']) (simp add: quiet_def)
qed

text \<open>
  C23: a GET request for a path that does not exist is answered with the 404 status line and the
  error page, and the connection is closed twice.
\<close>

theorem missing_is_404:
  assumes fd: "fd \<in> set (reads s)" and b: "\<not> broken (net s) fd"
    and i: "inp (net s) fd = request_text m t v ls body"
    and wf: "well_formed m t v ls" and m: "strcasecmp_eq m ''GET''" and t: "path_target t"
    and f: "files (net s) (root_path @ t) = None" and page: "served_file (net s) error_path page"
  shows "\<exists>s'. server_run prog s [Readable fd True, Writable fd] s'
    \<and> sent (net s') fd = sent (net s) fd @ ''HTTP/1.1 404 Not Found'' @ [CR, LF, CR, LF] @ f_data page
    \<and> inp (net s') fd = body \<and> closes (net s') = closes (net s) @ [fd, fd]"
  using assms by (rule missing_run)

lemma other_method_run:
  assumes fd: "fd \<in> set (reads s)" and b: "\<not> broken (net s) fd"
    and i: "inp (net s) fd = request_text m t v ls body"
    and wf: "well_formed m t v ls" and m: "\<not> strcasecmp_eq m ''GET''" "\<not> strcasecmp_eq m ''POST''"
    and page: "served_file (net s) error_path page"
  shows "\<exists>s'. server_run prog s [Readable fd True, Writable fd] s'
    \<and> sent (net s') fd = sent (net s) fd @ ''HTTP/1.1 405 Method Not Allowed'' @ [CR, LF, CR, LF]
        @ f_data page
    \<and> inp (net s') fd = body \<and> closes (net s') = closes (net s) @ [fd, fd]"
proof -
  have nd: "d_fd (new_data_buf fd) = fd" by (simp add: new_data_buf_def)
  let ?d = "new_data_buf fd\<lparr>d_cgi := False\<rparr>"
  let ?w = "say_line (request_line_text m t v @ [LF]) (set_inp fd (header_text ls @ body) (net s))"
  have a: "accept_request prog (new_data_buf fd) (net s) = ok (405, ?d) ?w"
    using accept_other_method [of "net s" "new_data_buf fd" m t v ls body prog] i wf m nd by simp
  have st: "status_line 405 = Some (''HTTP/1.1 405 Method Not Allowed'' @ [CR, LF, CR, LF])"
    by (simp add: status_line_def)
  have b': "\<not> broken ?w fd" and page': "served_file ?w error_path page"
    using b page by (simp_all add: served_file_def)
  obtain w2 where w2: "write_fc (Some (?d\<lparr>d_err_num := Some 405\<rparr>)) fd ?w = ok () w2"
    "sent w2 = (sent ?w)(fd := sent ?w fd
        @ (''HTTP/1.1 405 Method Not Allowed'' @ [CR, LF, CR, LF]) @ f_data page)"
    "closes w2 = closes ?w @ [fd, fd]" "inp w2 = (inp ?w)(fd := skip_head (inp ?w fd))"
    using write_fc_error [of ?w "?d\<lparr>d_err_num := Some 405\<rparr>" 405 _ page fd, OF _ _ _ st page'] b' nd
    by (auto simp: new_data_buf_def)
  from read_write_run [OF fd a w2(1)] obtain s' where
    "server_run prog s [Readable fd True, Writable fd] s'" "net s' = w2" by blast
  then show ?thesis
    using w2 header_skipped [OF wf, of body] by (intro exI [of _ s']) simp
qed

text \<open>
  C24: a request with a method other than GET and POST is answered with the 405 status line and
  the error page, and the connection is closed twice.
\<close>

theorem other_method_is_405:
  assumes fd: "fd \<in> set (reads s)" and b: "\<not> broken (net s) fd"
    and i: "inp (net s) fd = request_text m t v ls body"
    and wf: "well_formed m t v ls" and m: "\<not> strcasecmp_eq m ''GET''" "\<not> strcasecmp_eq m ''POST''"
    and page: "served_file (net s) error_path page"
  shows "\<exists>s'. server_run prog s [Readable fd True, Writable fd] s'
    \<and> sent (net s') fd = sent (net s) fd @ ''HTTP/1.1 405 Method Not Allowed'' @ [CR, LF, CR, LF]
        @ f_data page
    \<and> inp (net s') fd = body \<and> closes (net s') = closes (net s) @ [fd, fd]"
  using assms by (rule other_method_run)

lemma post_run:
  assumes fd: "fd \<in> set (reads s)" and b: "\<not> broken (net s) fd"
    and i: "inp (net s) fd = request_text m t v (ls1 @ (length_field @ x) # ls2) (body @ later)"
    and wf: "well_formed m t v (ls1 @ (length_field @ x) # ls2)" and h: "post_headers ls1 x ls2"
    and m: "strcasecmp_eq m ''POST''" and t: "path_target t"
    and f: "files (net s) (root_path @ t) = Some f" "\<not> is_directory f" and fork: "can_fork (net s)"
    and n: "atoi (x @ [LF]) = int (length body)"
    and p: "prog (root_path @ t) (cgi_env m [] (env (after_length (x @ [LF]) (net s)))) body = Some r"
      "length r < 20480"
  shows "\<exists>s'. server_run prog s [Readable fd True, Writable fd] s'
    \<and> sent (net s') fd = sent (net s) fd @ cstring r \<and> inp (net s') fd = later
    \<and> closes (net s') = closes (net s) @ [fd]"
proof -
  have nd: "d_fd (new_data_buf fd) = fd" by (simp add: new_data_buf_def)
  let ?d = "request_data (new_data_buf fd) True m (root_path @ t) []
      \<lparr>d_content_length := Some (int (length body)), d_buf := Some r\<rparr>"
  obtain w' where a: "accept_request prog (new_data_buf fd) (net s) = ok (0, ?d) w'"
    and w': "inp w' = (inp (net s))(fd := later)" "sent w' = sent (net s)"
    using accept_post [of "net s" "new_data_buf fd" m t v ls1 x ls2 body later f _ prog r, OF _ wf h m t f fork n refl p(1)]
      i nd p(2) by auto
  have q: "quiet fd (net s) w'"
    using quiet_accept_request [of "new_data_buf fd" prog] a nd by (auto simp: keeps_def)
  have "write_fc (Some (?d\<lparr>d_err_num := Some 0\<rparr>)) fd w' = ok () (close_one fd (add_sent fd (cstring r) w'))"
    using write_fc_program [of w' "?d\<lparr>d_err_num := Some 0\<rparr>" r fd] b p(2) nd q
    by (simp add: request_data_def quiet_def)
  from read_write_run [OF fd a this] show ?thesis using w' q by (auto simp: quiet_def)
qed

text \<open>
  C6: a POST request whose header gives the length of its body passes exactly the body to the
  program and answers with what it prints; the bytes after the body stay on the connection.
\<close>

theorem post_is_served:
  assumes fd: "fd \<in> set (reads s)" and b: "\<not> broken (net s) fd"
    and i: "inp (net s) fd = request_text m t v (ls1 @ (length_field @ x) # ls2) (body @ later)"
    and wf: "well_formed m t v (ls1 @ (length_field @ x) # ls2)" and h: "post_headers ls1 x ls2"
    and m: "strcasecmp_eq m ''POST''" and t: "path_target t"
    and f: "files (net s) (root_path @ t) = Some f" "\<not> is_directory f" and fork: "can_fork (net s)"
    and n: "atoi (x @ [LF]) = int (length body)"
    and p: "prog (root_path @ t) (cgi_env m [] (env (after_length (x @ [LF]) (net s)))) body = Some r"
      "length r < 20480"
  shows "\<exists>s'. server_run prog s [Readable fd True, Writable fd] s'
    \<and> sent (net s') fd = sent (net s) fd @ cstring r \<and> inp (net s') fd = later
    \<and> closes (net s') = closes (net s) @ [fd]"
  using assms by (rule post_run)

text \<open>
  A connection that ends before a request line is closed without a byte being sent.
\<close>

theorem silent_client_is_closed:
  assumes "fd \<in> set (reads s)" and "inp (net s) fd = []"
  shows "\<exists>s'. server_run prog s [Readable fd True, Writable fd] s'
    \<and> sent (net s') = sent (net s) \<and> closes (net s') = closes (net s) @ [fd]"
proof -
  have nd: "d_fd (new_data_buf fd) = fd" by (simp add: new_data_buf_def)
  have a: "accept_request prog (new_data_buf fd) (net s)
      = ok (-1, new_data_buf fd\<lparr>d_cgi := False\<rparr>) ((net s)\<lparr>out := out (net s) @ [ErrorAt ''accept_request'' 289]\<rparr>)"
    using accept_closed [of "net s" "new_data_buf fd" prog] assms(2) nd by simp
  from read_write_run [OF assms(1) a write_fc_closed] show ?thesis by (auto simp: nd)
qed

section \<open>Requests that overlap\<close>

lemma readable_quiet: "server_step prog s (Readable fd memory) s' \<Longrightarrow> quiet fd (net s) (net s')"
  using read_fc_quiet [of fd prog memory] by (elim readableE) (auto simp: keeps_def)

lemma readable_glob:
  assumes "server_step prog s (Readable fd memory) s'"
  shows "glob s' = None \<or> (\<exists>d. glob s' = Some d \<and> d_fd d = fd)"
  using assms
proof (rule readableE)
  fix g added w
  assume r: "read_fc prog memory fd (net s) = ok (g, added) w"
    and s': "s' = s\<lparr>net := w, glob := g, reads := removeAll fd (reads s),
      writes := (if added then fd # writes s else writes s)\<rparr>"
  show ?thesis
  proof (cases memory)
    case True
    with r obtain err d where "accept_request prog (new_data_buf fd) (net s) = ok (err, d) w"
      "g = Some (d\<lparr>d_err_num := Some err\<rparr>)"
      by (auto simp: read_fc_def bind_eq_ok_iff)
    with accept_request_fd [of "new_data_buf fd" prog] s' show ?thesis
      by (auto simp: yields_def new_data_buf_def)
  next
    case False
    with r s' show ?thesis by (auto simp: read_fc_def bind_eq_ok_iff)
  qed
qed

lemma writable_only:
  assumes "server_step prog s (Writable fd) s'" and "glob s = None \<or> (\<exists>d. glob s = Some d \<and> d_fd d = x)"
  shows "only_to x (net s) (net s') \<and> glob s' = glob s"
  using assms(1)
proof (rule writableE)
  fix w assume w: "write_fc (glob s) fd (net s) = ok () w"
    and s': "s' = s\<lparr>net := w, writes := removeAll fd (writes s)\<rparr>"
  from w have "glob s \<noteq> None" by (cases "glob s") (simp_all add: write_fc_def)
  then obtain d where "glob s = Some d" "d_fd d = x" using assms(2) by auto
  with w only_write_fc [of d fd] s' show ?thesis by (auto simp: keeps_def)
qed


text \<open>Two clients that ask for files at the same time: the second gets its file twice, the first nothing.\<close>

lemma read_static:
  assumes "inp w fd = request_text m t v ls body"
    and "well_formed m t v ls" and "strcasecmp_eq m ''GET''" and "path_target t"
    and "served_file w (root_path @ t) f" "\<not> is_directory f" "\<not> is_executable f"
  shows "read_fc prog True fd w
    = ok (Some (request_data (new_data_buf fd) False m (root_path @ t) []\<lparr>d_err_num := Some 0\<rparr>), True)
        (say_line (request_line_text m t v @ [LF]) (set_inp fd body w))"
  using accept_static [of w "new_data_buf fd" m t v ls body f prog] assms
  by (simp add: read_fc_def bind_def served_file_def new_data_buf_def)

lemma write_static:
  assumes "\<not> broken w fd" and "served_file w p f"
  shows "write_fc (Some (request_data (new_data_buf fd) False m p q\<lparr>d_err_num := Some 0\<rparr>)) fd' w
    = ok () (close_one fd (add_sent fd (ok_status @ f_data f) w))"
  using write_fc_file [of w "request_data (new_data_buf fd) False m p q\<lparr>d_err_num := Some 0\<rparr>" p f fd'] assms
  by (simp add: request_data_def new_data_buf_def)

lemma overlapping_files:
  assumes ab: "a \<in> set (reads s)" "b \<in> set (reads s)" "a \<noteq> b" and br: "\<not> broken (net s) b"
    and ra: "inp (net s) a = request_text m t v ls body" "well_formed m t v ls"
      "strcasecmp_eq m ''GET''" "path_target t"
    and fa: "served_file (net s) (root_path @ t) f" "\<not> is_directory f" "\<not> is_executable f"
    and rb: "inp (net s) b = request_text m' t' v' ls' body'" "well_formed m' t' v' ls'"
      "strcasecmp_eq m' ''GET''" "path_target t'"
    and fb: "served_file (net s) (root_path @ t') f'" "\<not> is_directory f'" "\<not> is_executable f'"
  shows "\<exists>s'. server_run prog s [Readable a True, Readable b True, Writable a, Writable b] s'
    \<and> sent (net s') = (sent (net s))(b := sent (net s) b @ ok_status @ f_data f' @ ok_status @ f_data f')
    \<and> closes (net s') = closes (net s) @ [b, b]"
proof -
  let ?d = "\<lambda>fd m t. request_data (new_data_buf fd) False m (root_path @ t) []\<lparr>d_err_num := Some 0\<rparr>"
  let ?w1 = "say_line (request_line_text m t v @ [LF]) (set_inp a body (net s))"
  let ?w2 = "say_line (request_line_text m' t' v' @ [LF]) (set_inp b body' ?w1)"
  let ?w3 = "close_one b (add_sent b (ok_status @ f_data f') ?w2)"
  let ?w4 = "close_one b (add_sent b (ok_status @ f_data f') ?w3)"
  let ?s1 = "s\<lparr>net := ?w1, glob := Some (?d a m t), reads := removeAll a (reads s), writes := a # writes s\<rparr>"
  let ?s2 = "?s1\<lparr>net := ?w2, glob := Some (?d b m' t'), reads := removeAll b (reads ?s1), writes := b # writes ?s1\<rparr>"
  let ?s3 = "?s2\<lparr>net := ?w3, writes := removeAll a (writes ?s2)\<rparr>"
  let ?s4 = "?s3\<lparr>net := ?w4, writes := removeAll b (writes ?s3)\<rparr>"
  have st1: "server_step prog s (Readable a True) ?s1"
    using readable [OF ab(1) read_static [OF ra fa]] by simp
  have "read_fc prog True b ?w1 = ok (Some (?d b m' t'), True) ?w2"
    using rb fb ab(3) by (intro read_static) (simp_all add: served_file_def)
  then have st2: "server_step prog ?s1 (Readable b True) ?s2"
    using readable [of b ?s1 prog True] ab by simp
  have "write_fc (glob ?s2) a (net ?s2) = ok () ?w3"
    using write_static [of ?w2 b "root_path @ t'" f'] br fb by (simp add: served_file_def)
  then have st3: "server_step prog ?s2 (Writable a) ?s3"
    by (intro writable) simp_all
  have "served_file ?w3 (root_path @ t') f'" "\<not> broken ?w3 b"
    using br fb by (simp_all add: served_file_def close_one_def)
  then have "write_fc (glob ?s3) b (net ?s3) = ok () ?w4"
    using write_static [of ?w3 b "root_path @ t'" f'] by simp
  then have st4: "server_step prog ?s3 (Writable b) ?s4"
    using ab by (intro writable) simp_all
  have "server_run prog s [Readable a True, Readable b True, Writable a, Writable b] ?s4"
    using st1 st2 st3 st4 by (rule step [OF _ step [OF _ step [OF _ step [OF _ finish]]]])
  then show ?thesis by (rule exI [of _ ?s4, OF conjI]) simp
qed

section \<open>What the loop waits for\<close>

definition pending_ok :: "server \<Rightarrow> bool" where
  "pending_ok s \<longleftrightarrow> distinct (reads s) \<and> distinct (writes s) \<and> set (reads s) \<inter> set (writes s) = {}"

lemma server_step_pending: "server_step prog s e s' \<Longrightarrow> pending_ok s \<Longrightarrow> pending_ok s'"
  by (induction rule: server_step.induct) (auto simp: pending_ok_def distinct_removeAll)

theorem server_run_pending: "server_run prog s es s' \<Longrightarrow> pending_ok s \<Longrightarrow> pending_ok s'"
  by (induction rule: server_run.induct) (auto intro: server_step_pending)

text \<open>The server is deterministic once the events are given.\<close>

lemma server_step_deterministic:
  assumes "server_step prog s e s1" and "server_step prog s e s2"
  shows "s1 = s2"
  using assms
proof (induction rule: server_step.induct)
  case (connect fd s t w)
  from connect(4) show ?case by (rule connectE) (use connect(3) in simp)
next
  case (accept_fails s w)
  from accept_fails(2) show ?case by (rule acceptFailsE) (use accept_fails(1) in simp)
next
  case (readable fd s memory g added w)
  from readable(3) show ?case by (rule readableE) (use readable(2) in simp)
next
  case (writable fd s w)
  from writable(3) show ?case by (rule writableE) (use writable(2) in simp)
qed

theorem server_run_deterministic:
  assumes "server_run prog s es s1" and "server_run prog s es s2"
  shows "s1 = s2"
  using assms
proof (induction arbitrary: s2 rule: server_run.induct)
  case (step s e t es u)
  from step.prems obtain t' where "server_step prog s e t'" "server_run prog t' es s2"
    unfolding server_run_Cons by blast
  with step show ?case using server_step_deterministic by blast
qed simp

end
