(* ===== verification/HttpLimits.thy ===== *)
theory HttpLimits
  imports HttpProps
begin

text \<open>
  The limits of the server: that its loops end, what its line reader does with input that is not
  as it expects it, and the requests that make it write past an array or never answer again.
\<close>

section \<open>Lines\<close>

text \<open>
  \<open>get_line\<close> fills its buffer with the line \<open>take_line\<close> describes,
  which is shorter than the buffer, and NUL bytes behind it.
\<close>

theorem get_line_buffer:
  assumes "0 < sz"
  shows "\<exists>l rest. take_line (sz - 1) (inp w sock) = (l, rest)
    \<and> get_line sock sz w = ok (l @ replicate (sz - length l) NUL, length l) (set_inp sock rest w)
    \<and> length l < sz \<and> length rest \<le> length (inp w sock)"
proof -
  obtain l rest where t: "take_line (sz - 1) (inp w sock) = (l, rest)" by fastforce
  then show ?thesis
    using get_line_spec [OF assms, of sock w] take_line_length [of "sz - 1" "inp w sock"]
      take_line_rest [of "sz - 1" "inp w sock"] assms
    by (simp add: padded_def)
qed

theorem get_line_CRLF:
  assumes "clean l" and "length l + 1 < sz" and "inp w sock = l @ [CR, LF] @ rest"
  shows "get_line sock sz w = ok (padded sz (l @ [LF]), length l + 1) (set_inp sock rest w)"
  using get_line_spec [of sz sock w] take_line_clean [OF assms(1), of "sz - 1" rest] assms(2,3) by simp

lemma take_line_CR:
  assumes "clean l" and "c \<noteq> LF" and "length l < n"
  shows "take_line n (l @ CR # c # rest)
    = (let (t, r) = take_line (n - length l - 1) (c # rest) in (l @ c # t, r))"
  using assms
proof (induction l arbitrary: n)
  case Nil
  then show ?case by (cases n) (auto split: prod.splits)
next
  case (Cons d l)
  then obtain k where n: "n = Suc k" by (cases n) auto
  with Cons show ?case by (auto split: prod.splits)
qed

text \<open>
  A carriage return inside a line that no line feed follows is not stored, and the character
  after it is stored twice.
\<close>

theorem get_line_lone_CR:
  assumes "clean (l @ [c])" and "clean t" and "length l + length t + 3 < sz"
    and "inp w sock = l @ [CR, c] @ t @ [CR, LF] @ rest"
  shows "get_line sock sz w
    = ok (padded sz (l @ [c, c] @ t @ [LF]), length l + length t + 3) (set_inp sock rest w)"
proof -
  have a: "take_line (sz - 1 - length l - 1) ((c # t) @ [CR, LF] @ rest) = ((c # t) @ [LF], rest)"
    using assms by (intro take_line_clean) auto
  have "take_line (sz - 1) (l @ CR # c # t @ [CR, LF] @ rest) = (l @ c # c # t @ [LF], rest)"
    using take_line_CR [of l c "sz - 1" "t @ [CR, LF] @ rest"] a assms by simp
  then show ?thesis using get_line_spec [of sz sock w] assms(3,4) by simp
qed

lemma take_line_full:
  "clean l \<Longrightarrow> length l = n \<Longrightarrow> take_line n (l @ c # rest) = (l, rest)"
  by (induction l arbitrary: n) (auto split: prod.splits)

lemma take_line_LF: "take_line (Suc n) (LF # rest) = ([LF], rest)"
  by simp

text \<open>
  A header line of 1023 characters ends \<open>clear_head\<close> at its own end: the lines
  after it are left on the connection as if they were the body.
\<close>

theorem clear_head_early:
  assumes "clean l" and "NUL \<notin> set l" and "length l = 1023"
    and "inp w sock = l @ [CR, LF] @ rest"
  shows "clear_head sock w = ok () (set_inp sock rest w)"
proof -
  have l1: "take_line 1023 (l @ CR # LF # rest) = (l, LF # rest)"
    using assms(1,3) by (rule take_line_full)
  have l2: "take_line 1023 (LF # rest) = ([LF], rest)"
    using take_line_LF [of 1022 rest] by simp
  have "l \<noteq> []" "cstring l \<noteq> [LF]" using assms(2,3) by (auto simp: cstring_no_NUL)
  then have "skip_head (l @ CR # LF # rest) = skip_head (LF # rest)"
    using l1 by (subst skip_head.simps) simp
  also have "\<dots> = rest" using l2 by (subst skip_head.simps) (simp add: cstring_def)
  finally show ?thesis using assms(4) by (simp add: clear_head_spec)
qed

lemma find_length_None: "find_length t = (None, rest) \<Longrightarrow> rest = []"
proof (induction "length t" arbitrary: t rule: less_induct)
  case less
  obtain l r where tl: "take_line 10239 t = (l, r)" by fastforce
  have n: "(10239 :: nat) = Suc 10238" by simp
  show ?case
  proof (cases "l = []")
    case True
    then have "t = []" using take_line_nonempty [of t 10238] tl unfolding n by force
    then show ?thesis using less.prems by (subst (asm) find_length.simps) simp
  next
    case False
    then have "t \<noteq> []" using tl by auto
    from take_line_consumes [OF this, of 10239] tl have "length r < length t" by simp
    then show ?thesis
      using less.prems less.hyps [of r] find_length.simps [of t] tl False by (auto split: if_splits)
  qed
qed

theorem missing_length_drains:
  assumes "fst (find_length (inp w sock)) = None"
  shows "GetContentLength sock w = ok 0 (w\<lparr>inp := (inp w)(sock := []), env := env_expire [''CONTENT_LENGTH''] (env w)\<rparr>)"
proof -
  obtain rest where f: "find_length (inp w sock) = (None, rest)"
    using assms by (cases "find_length (inp w sock)") auto
  then show ?thesis
    using find_length_None [OF f]
    by (simp add: GetContentLength_def content_length_loop_spec bind_def leave_frame_def set_inp_def)
qed

section \<open>Arrays\<close>

text \<open>
  A request line that begins with more than 5120 characters that are no blanks is written past
  the end of the array \<open>method\<close>.
\<close>

theorem long_method_overflows:
  assumes "inp w (d_fd data) = m @ '' '' @ v @ [CR, LF] @ rest"
    and "word_text m" and "5120 < length m" and "length m + length v < 10238"
    and "clean v" and "NUL \<notin> set v"
  shows "accept_request prog data w = ub OutOfBounds"
proof -
  let ?l = "m @ '' '' @ v"
  have cl: "clean ?l" using assms(2,5) word_text_clean by simp
  have "take_line 10239 (?l @ [CR, LF] @ rest) = (?l @ [LF], rest)"
    using cl assms(4) by (intro take_line_clean) simp_all
  then have g: "get_line (d_fd data) 10240 w
      = ok (padded 10240 (?l @ [LF]), length ?l + 1) (set_inp (d_fd data) rest w)"
    using get_line_spec [of 10240 "d_fd data" w] assms(1) by simp
  have cs: "cstring (padded 10240 (?l @ [LF])) = ?l @ [LF]"
    using assms(2,6) word_text_NUL by (simp add: cstring_no_NUL)
  have ml: "method_loop (padded 10240 (?l @ [LF])) (length ?l + 1) 0 (replicate 5120 NUL) w' = ub OutOfBounds" for w'
    using method_loop_overflow [of "padded 10240 (?l @ [LF])" "[]" m _ 0 "length ?l + 1" w'] assms(2,3)
    by (simp add: padded_def)
  show ?thesis
    using g cs ml by (simp add: accept_request_def bind_def Let_def say_def)
qed

theorem large_output_overflows:
  assumes "inp w (d_fd data) = request_text m (t @ ''?'' @ q) v ls body"
    and "well_formed m (t @ ''?'' @ q) v ls" and "strcasecmp_eq m ''GET''" and "path_target t"
    and "CHR ''?'' \<notin> set q" "length q < 10227"
    and "files w (root_path @ t) = Some f" "\<not> is_directory f" and "can_fork w"
    and "prog (root_path @ t) (cgi_env m q (env w)) [] = Some r" and "20480 < length r"
  shows "accept_request prog data w = ub OutOfBounds"
  using accept_query_run [OF assms(1-9), of prog] assms(10,11) by simp

section \<open>Termination\<close>

theorem no_program_no_answer:
  assumes "inp w (d_fd data) = request_text m (t @ ''?'' @ q) v ls body"
    and "well_formed m (t @ ''?'' @ q) v ls" and "strcasecmp_eq m ''GET''" and "path_target t"
    and "CHR ''?'' \<notin> set q" "length q < 10227"
    and "files w (root_path @ t) = Some f" "\<not> is_directory f" and "can_fork w"
    and "prog (root_path @ t) (cgi_env m q (env w)) [] = None"
  shows "accept_request prog data w = None"
  using accept_query_run [OF assms(1-9), of prog] assms(10) by simp

text \<open>An operation ends when it returns or runs into undefined behaviour.\<close>

definition ends :: "('s, 'a) c \<Rightarrow> bool" where
  "ends m \<longleftrightarrow> (\<forall>s. m s \<noteq> None)"

named_theorems ends_rules

lemma ends_bind [ends_rules]: "ends m \<Longrightarrow> (\<And>a. ends (f a)) \<Longrightarrow> ends (bind m f)"
  by (auto simp: ends_def bind_def split: option.splits sum.splits)

lemma ends_basic [ends_rules]:
  "ends (return a)" "ends (undefined_behaviour e)"
  "ends m1 \<Longrightarrow> ends m2 \<Longrightarrow> ends (if b then m1 else m2)"
  "ends m \<Longrightarrow> (\<And>x. ends (g x)) \<Longrightarrow> ends (case v of None \<Rightarrow> m | Some x \<Rightarrow> g x)"
  "(\<And>x y. ends (h x y)) \<Longrightarrow> ends (case z of (x, y) \<Rightarrow> h x y)"
  "(\<And>x. ends (g x)) \<Longrightarrow> ends (let x = u in g x)"
  by (auto simp: ends_def split: option.splits prod.splits)

lemma ends_world [ends_rules]:
  "ends (say m)" "ends (print_log f n)" "ends (stat p)" "ends (putenv nm v)" "ends (leave_frame ns)"
  "ends (recv fd)" "ends (field x)" "ends (clear_head fd)" "ends (relay_body fd k)"
  "ends (\<lambda>w. ok (gg w) w)" "ends (array_string a)" "ends (strcat_path p t)"
  by (auto simp: ends_def w_eval field_def clear_head_spec relay_body_spec array_string_def
      strcat_path_def split: list.splits option.splits)

lemma ends_get_line [ends_rules]: "0 < n \<Longrightarrow> ends (get_line fd n)"
  by (simp add: ends_def get_line_spec split: prod.splits)

lemma ends_GetContentLength [ends_rules]: "ends (GetContentLength fd)"
proof -
  have "ends (length_found t)" for t unfolding length_found_def by (intro ends_rules)
  then have "ends (content_length_loop fd)"
    by (auto simp: ends_def content_length_loop_spec split: prod.splits option.splits)
  then show ?thesis unfolding GetContentLength_def by (intro ends_rules)
qed

lemma ends_method_loop [ends_rules]: "ends (method_loop rl n i m)"
proof (induction rl n i m rule: method_loop.induct)
  case (1 rl n i m)
  then show ?case using method_loop.simps [of rl n i m] by (auto simp: ends_def)
qed

lemma ends_url_loop [ends_rules]: "ends (url_loop rl j i u)"
proof (induction rl j i u rule: url_loop.induct)
  case (1 rl j i u)
  then show ?case using url_loop.simps [of rl j i u] by (auto simp: ends_def)
qed

lemma ends_parse_target [ends_rules]: "ends (parse_target rl n i m)"
  unfolding parse_target_def by (intro ends_rules)

lemma ends_exec_response [ends_rules]:
  assumes "\<And>p e b. prog p e b \<noteq> None"
  shows "ends (exec_response prog data)"
proof -
  have "ends (child_output prog p b)" for p b
    using assms by (auto simp: ends_def child_output_def split: option.splits)
  then show ?thesis unfolding exec_response_def by (intro ends_rules)
qed


end
