(* ===== verification/HttpSamples.thy ===== *)
theory HttpSamples
  imports HttpLimits
begin

text \<open>
  Concrete states in which the server's theorems apply: a file, a program, a directory and the error
  page below the root, and one connected client.
\<close>

definition sample_files :: "string \<Rightarrow> fentry option" where
  "sample_files = map_of
     [(root_path @ ''/a.txt'', \<lparr>f_mode = 0x81A4, f_data = ''hello'', f_readable = True\<rparr>),
      (root_path @ ''/cgi'', \<lparr>f_mode = 0x81ED, f_data = ''elf'', f_readable = True\<rparr>),
      (root_path @ ''/d'', \<lparr>f_mode = 0x41ED, f_data = [], f_readable = True\<rparr>),
      (error_path, \<lparr>f_mode = 0x81A4, f_data = ''error page'', f_readable = True\<rparr>)]"

definition sample_world :: "string \<Rightarrow> world" where
  "sample_world t =
     \<lparr>inp = (\<lambda>fd. if fd = 5 then t else []), sent = (\<lambda>_. []), broken = (\<lambda>_. False), closes = [],
      files = sample_files, open_files = 0, env = [], can_fork = True, out = []\<rparr>"

definition sample_server :: "string \<Rightarrow> server" where
  "sample_server t = \<lparr>net = sample_world t, glob = None, reads = [5], writes = []\<rparr>"

text \<open>A program that prints a page with the bytes of its standard input.\<close>

definition echo :: programs where
  "echo path environment body = Some (''page:'' @ body)"

definition get_a :: string where
  "get_a = request_text ''GET'' ''/a.txt'' ''HTTP/1.0'' [''Host: h''] []"

lemma sample_simps [simp]:
  "inp (sample_world t) = (\<lambda>fd. if fd = 5 then t else [])" "sent (sample_world t) = (\<lambda>_. [])"
  "broken (sample_world t) fd = False" "closes (sample_world t) = []"
  "files (sample_world t) = sample_files" "env (sample_world t) = []"
  "open_files (sample_world t) = 0" "can_fork (sample_world t)"
  "net (sample_server t) = sample_world t" "reads (sample_server t) = [5]"
  "writes (sample_server t) = []"
  by (simp_all add: sample_world_def sample_server_def)

lemma get_a_ok:
  "well_formed ''GET'' ''/a.txt'' ''HTTP/1.0'' [''Host: h'']" "strcasecmp_eq ''GET'' ''GET''"
  "path_target ''/a.txt''"
  by code_simp+

lemma a_file:
  "served_file (sample_world t) (root_path @ ''/a.txt'') \<lparr>f_mode = 0x81A4, f_data = ''hello'', f_readable = True\<rparr>"
  by (simp add: served_file_def sample_files_def root_path_def error_path_def)

lemma modes:
  "\<not> is_directory \<lparr>f_mode = 0x81A4, f_data = t, f_readable = r\<rparr>"
  "\<not> is_executable \<lparr>f_mode = 0x81A4, f_data = t, f_readable = r\<rparr>"
  "\<not> is_directory \<lparr>f_mode = 0x81ED, f_data = t, f_readable = r\<rparr>"
  "is_directory \<lparr>f_mode = 0x41ED, f_data = t, f_readable = r\<rparr>"
  by (simp_all add: is_directory_def is_executable_def)

theorem file_is_served_witness:
  "\<exists>s'. server_run echo (sample_server get_a) [Readable 5 True, Writable 5] s'
    \<and> sent (net s') 5 = ok_status @ ''hello'' \<and> closes (net s') = [5]"
  using file_is_served [of 5 "sample_server get_a", OF _ _ _ get_a_ok, where body = "[]" and prog = echo,
      of "\<lparr>f_mode = 0x81A4, f_data = ''hello'', f_readable = True\<rparr>"] a_file modes
  by (auto simp: get_a_def)

text \<open>Requests of the sample client.\<close>

definition get_cgi :: string where
  "get_cgi = request_text ''GET'' (''/cgi'' @ ''?'' @ ''a=1'') ''HTTP/1.0'' [''Host: h''] []"

definition get_b :: string where
  "get_b = request_text ''GET'' ''/b.txt'' ''HTTP/1.0'' [''Host: h''] []"

definition get_d :: string where
  "get_d = request_text ''GET'' ''/d'' ''HTTP/1.0'' [''Host: h''] []"

definition put_a :: string where
  "put_a = request_text ''PUT'' ''/a.txt'' ''HTTP/1.0'' [''Host: h''] []"

definition post_cgi :: string where
  "post_cgi = request_text ''POST'' ''/cgi'' ''HTTP/1.0''
     ([''Host: h''] @ (length_field @ '' 3'') # []) (''a=1'' @ ''next'')"

lemma get_cgi_ok:
  "well_formed ''GET'' (''/cgi'' @ ''?'' @ ''a=1'') ''HTTP/1.0'' [''Host: h'']" "path_target ''/cgi''"
  by code_simp+

lemma other_ok:
  "well_formed ''GET'' ''/b.txt'' ''HTTP/1.0'' [''Host: h'']" "path_target ''/b.txt''"
  "well_formed ''GET'' ''/d'' ''HTTP/1.0'' [''Host: h'']" "path_target ''/d''"
  "well_formed ''PUT'' ''/a.txt'' ''HTTP/1.0'' [''Host: h'']"
  "\<not> strcasecmp_eq ''PUT'' ''GET''" "\<not> strcasecmp_eq ''PUT'' ''POST''"
  by code_simp+

lemma post_cgi_ok:
  "well_formed ''POST'' ''/cgi'' ''HTTP/1.0'' ([''Host: h''] @ (length_field @ '' 3'') # [])"
  "post_headers [''Host: h''] '' 3'' []" "strcasecmp_eq ''POST'' ''POST''"
  "atoi ('' 3'' @ [LF]) = int (length ''a=1'')"
  by code_simp+

lemma sample_file:
  "sample_files (root_path @ ''/cgi'') = Some \<lparr>f_mode = 0x81ED, f_data = ''elf'', f_readable = True\<rparr>"
  "sample_files (root_path @ ''/d'') = Some \<lparr>f_mode = 0x41ED, f_data = [], f_readable = True\<rparr>"
  "sample_files (root_path @ ''/b.txt'') = None"
  by (simp_all add: sample_files_def root_path_def error_path_def)

lemma sample_page:
  "served_file (net (sample_server t)) error_path \<lparr>f_mode = 0x81A4, f_data = ''error page'', f_readable = True\<rparr>"
  by (simp add: served_file_def sample_files_def root_path_def error_path_def)

lemma cstring_page: "cstring (''page:'' @ t) = ''page:'' @ cstring t"
  by (simp add: cstring_def)

theorem program_is_served_witness:
  "\<exists>s'. server_run echo (sample_server get_cgi) [Readable 5 True, Writable 5] s'
    \<and> sent (net s') 5 = ''page:''"
  using program_is_served [of 5 "sample_server get_cgi", OF _ _ _ get_cgi_ok(1) get_a_ok(2) get_cgi_ok(2),
      where body = "[]" and prog = echo and r = "''page:''", OF _ _ _ _ _ _ modes(3) [where r = True]] sample_file(1)
  by (auto simp: get_cgi_def echo_def cstring_def)

theorem post_is_served_witness:
  "\<exists>s'. server_run echo (sample_server post_cgi) [Readable 5 True, Writable 5] s'
    \<and> sent (net s') 5 = ''page:a=1'' \<and> inp (net s') 5 = ''next''"
  using post_is_served [of 5 "sample_server post_cgi", OF _ _ _ post_cgi_ok(1-3) get_cgi_ok(2),
      where later = "''next''" and prog = echo and r = "''page:a=1''", OF _ _ _ _ modes(3) _ post_cgi_ok(4)] sample_file(1)
  by (auto simp: post_cgi_def echo_def cstring_def)

theorem missing_is_404_witness:
  "\<exists>s'. server_run echo (sample_server get_b) [Readable 5 True, Writable 5] s'
    \<and> sent (net s') 5 = ''HTTP/1.1 404 Not Found'' @ [CR, LF, CR, LF] @ ''error page''
    \<and> closes (net s') = [5, 5]"
  using missing_is_404 [of 5 "sample_server get_b", OF _ _ _ other_ok(1) get_a_ok(2) other_ok(2),
      where body = "[]" and prog = echo, OF _ _ _ _ sample_page [of get_b]] sample_file(3)
  by (auto simp: get_b_def)

theorem other_method_is_405_witness:
  "\<exists>s'. server_run echo (sample_server put_a) [Readable 5 True, Writable 5] s'
    \<and> sent (net s') 5 = ''HTTP/1.1 405 Method Not Allowed'' @ [CR, LF, CR, LF] @ ''error page''"
  using other_method_is_405 [of 5 "sample_server put_a", OF _ _ _ other_ok(5-7),
      where body = "[]" and prog = echo, OF _ _ _ sample_page [of put_a]]
  by (auto simp: put_a_def)

theorem silent_client_is_closed_witness:
  "\<exists>s'. server_run echo (sample_server []) [Readable 5 True, Writable 5] s'
    \<and> sent (net s') = (\<lambda>_. []) \<and> closes (net s') = [5]"
  using silent_client_is_closed [of 5 "sample_server []" echo] by simp

section \<open>Overlapping requests and the loop\<close>

definition two_clients :: server where
  "two_clients =
     \<lparr>net = (sample_world get_a)\<lparr>inp := (\<lambda>fd. if fd = 5 \<or> fd = 6 then get_a else [])\<rparr>, glob = None,
      reads = [5, 6], writes = []\<rparr>"

lemma two_clients_simps [simp]:
  "inp (net two_clients) = (\<lambda>fd. if fd = 5 \<or> fd = 6 then get_a else [])"
  "sent (net two_clients) = (\<lambda>_. [])" "broken (net two_clients) fd = False"
  "files (net two_clients) = sample_files" "reads two_clients = [5, 6]" "writes two_clients = []"
  by (simp_all add: two_clients_def)

lemma two_clients_run:
  "\<exists>s'. server_run echo two_clients [Readable 5 True, Readable 6 True, Writable 5, Writable 6] s'"
proof -
  have f: "served_file (net two_clients) (root_path @ ''/a.txt'') \<lparr>f_mode = 0x81A4, f_data = ''hello'', f_readable = True\<rparr>"
    using a_file by (simp add: served_file_def)
  have r: "inp (net two_clients) fd = request_text ''GET'' ''/a.txt'' ''HTTP/1.0'' [''Host: h''] []"
    if "fd \<in> {5, 6}" for fd
    using that by (auto simp: get_a_def)
  show ?thesis
    using overlapping_files [OF _ _ _ _ r get_a_ok f modes(1,2) r get_a_ok f modes(1,2), of 5 6 echo] by auto
qed


section \<open>Requests and lines\<close>

theorem accept_directory_witness:
  "accept_request echo (new_data_buf 5) (sample_world get_d)
   = ok (0, request_data (new_data_buf 5) False ''GET'' (root_path @ ''/d'' @ default_path) [])
       (say_line (request_line_text ''GET'' ''/d'' ''HTTP/1.0'' @ [LF]) (set_inp 5 [] (sample_world get_d)))"
  using accept_directory [of "sample_world get_d" "new_data_buf 5", OF _ other_ok(3) get_a_ok(2) other_ok(4),
      of "[]" _ echo, OF _ _ modes(4) [where t = "[]" and r = True]] sample_file(2)
  by (simp add: get_d_def new_data_buf_def)

theorem get_line_buffer_witness:
  "\<exists>l rest. take_line 9 ''ab'' = (l, rest)
    \<and> get_line 5 10 (sample_world ''ab'')
      = ok (l @ replicate (10 - length l) NUL, length l) (set_inp 5 rest (sample_world ''ab''))"
  using get_line_buffer [of 10 "sample_world ''ab''" 5] by auto

theorem get_line_lone_CR_witness:
  "get_line 5 10 (sample_world (''a'' @ [CR, CHR ''b''] @ ''c'' @ [CR, LF] @ []))
   = ok (padded 10 (''abbc'' @ [LF]), 5)
       (set_inp 5 [] (sample_world (''a'' @ [CR, CHR ''b''] @ ''c'' @ [CR, LF] @ [])))"
  using get_line_lone_CR [of "''a''" "CHR ''b''" "''c''" 10
      "sample_world (''a'' @ [CR, CHR ''b''] @ ''c'' @ [CR, LF] @ [])" 5 "[]"]
  by (simp add: clean_def)

theorem clear_head_early_witness:
  "clear_head 5 (sample_world (replicate 1023 (CHR ''a'') @ [CR, LF] @ ''X: y''))
   = ok () (set_inp 5 ''X: y'' (sample_world (replicate 1023 (CHR ''a'') @ [CR, LF] @ ''X: y'')))"
  by (rule clear_head_early [of "replicate 1023 (CHR ''a'')"]) (simp_all add: clean_def)

lemma word_text_replicate: "word_text (replicate n (CHR ''A''))"
  by (induction n) (simp_all add: isspace_def cint_def)

theorem long_method_overflows_witness:
  "accept_request echo (new_data_buf 5)
     (sample_world (replicate 5121 (CHR ''A'') @ '' '' @ ''/'' @ [CR, LF] @ [])) = ub OutOfBounds"
  by (rule long_method_overflows [of _ _ "replicate 5121 (CHR ''A'')" "''/''" "[]"])
    (simp_all add: word_text_replicate clean_def new_data_buf_def)


end
