(* ===== verification/HttpCalculator.thy ===== *)
theory HttpCalculator
  imports HttpSamples MathMain
begin

text \<open>
  The calculator behind the server: the process \<open>exec_response\<close> starts for \<open>math_cgi\<close> as a program of
  the server, and what a client that asks it gets.
\<close>

section \<open>The calculator as a program\<close>

text \<open>
  The process begins with a writable copy of its environment, one block for each entry. An entry
  whose array is gone has the text \<open>lost\<close> gives; what a process prints that runs into undefined
  behaviour is \<open>crash\<close>. Both are parameters, and so is the allocator.
\<close>

definition env_text :: "(string \<Rightarrow> string) \<Rightarrow> string \<times> string option \<Rightarrow> string" where
  "env_text lost e = (case snd e of Some t \<Rightarrow> t | None \<Rightarrow> lost (fst e))"

definition env_block :: "string \<Rightarrow> (string \<times> string option) list \<Rightarrow> nat" where
  "env_block n e = length (takeWhile (\<lambda>x. fst x \<noteq> n) e)"

definition process :: "(string \<Rightarrow> string) \<Rightarrow> (string \<times> string option) list \<Rightarrow> string \<Rightarrow> cstate" where
  "process lost e body =
     \<lparr>blocks = map (\<lambda>x. Live (map Some (env_text lost x) @ [Some NUL])) e, stdout = [], stdin = body,
      environ = (\<lambda>n. if n \<in> fst ` set e then Some (Obj (env_block n e) 0) else None)\<rparr>"

definition calculator :: "alloc \<Rightarrow> (string \<Rightarrow> string) \<Rightarrow> string \<Rightarrow> programs" where
  "calculator al lost crash path e body =
     (case main_math al (process lost e body) of
        None \<Rightarrow> None
      | Some (Inl _) \<Rightarrow> Some crash
      | Some (Inr (_, s)) \<Rightarrow> Some (stdout s))"

lemma env_block_entry:
  "map_of e n = Some x \<Longrightarrow> env_block n e < length e \<and> e ! env_block n e = (n, x) \<and> n \<in> fst ` set e"
  by (induction e) (auto simp: env_block_def split: if_splits)

lemma process_env:
  assumes "map_of e n = Some (Some t)" and "NUL \<notin> set t"
  shows "environ (process lost e body) n = Some (Obj (env_block n e) 0)
    \<and> cstr (Obj (env_block n e) 0) (process lost e body) = ok t (process lost e body)"
  using env_block_entry [OF assms(1)] scan_ok [OF assms(2), of "[]"]
  by (simp add: process_def cstr.simps env_text_def)

section \<open>A calculation over the network\<close>

lemma show_no_NUL: "NUL \<notin> set (show_nat k)" "NUL \<notin> set (show_int i)"
proof -
  show n: "NUL \<notin> set (show_nat k)" for k
    using digits_plain [OF digits_show_nat [of k]] by (simp add: plain_def)
  show "NUL \<notin> set (show_int i)" using n by (simp add: show_int_def)
qed

lemma page_no_NUL:
  assumes "NUL \<notin> set d1" and "NUL \<notin> set opr" and "NUL \<notin> set d2" and "NUL \<notin> set r"
  shows "NUL \<notin> set (answer_page d1 opr d2 r)"
  using assms by (simp add: answer_page_def page_head_def page_foot_def)

lemma calculator_run:
  assumes "padded_allocator al" and "strcasecmp_eq m ''GET''" and "NUL \<notin> set m"
    and "q = calc_query n1 (sg1 @ ds1 @ j1) n2 (c # w) n3 (sg2 @ ds2 @ j2)" and "NUL \<notin> set q"
    and "calc_fields n1 sg1 ds1 j1 n2 (c # w) n3 sg2 ds2 j2"
    and "operation c (numeral_of ds1) (numeral_of ds2)"
  shows "calculator al lost crash path (cgi_env m q e) body
    = Some (answer_page (show_int (operand_value sg1 ds1)) (operator_text c)
        (show_int (operand_value sg2 ds2))
        (show_int (computed c (sign_of sg1) (sign_of sg2) (dval ds1) (dval ds2))))"
proof -
  let ?e = "cgi_env m q e"
  let ?s = "process lost ?e body"
  have me: "map_of ?e ''METHOD'' = Some (Some m)" "map_of ?e ''QUERY_STRING'' = Some (Some q)"
    by (simp_all add: cgi_env_def map_of_env_put)
  note en = process_env [OF me(1) assms(3), of lost body] process_env [OF me(2) assms(5), of lost body]
  have run: "main_math al ?s = bind (handle_data al (Obj (env_block ''QUERY_STRING'' ?e) 0)) (\<lambda>_. return 0)
      (push_block (math_buffer []) ?s)"
    using en assms(2) by (intro main_get_run) auto
  have "cstr (Obj (env_block ''QUERY_STRING'' ?e) 0) (push_block (math_buffer []) ?s)
      = ok (calc_query n1 (sg1 @ ds1 @ j1) n2 (c # w) n3 (sg2 @ ds2 @ j2)) (push_block (math_buffer []) ?s)"
    using en(2) assms(4) by (simp add: cstr_push)
  from handle_data_correct [OF assms(1) this assms(6,7)] run show ?thesis
    by (auto simp: calculator_def process_def push_block_def)
qed

text \<open>
  A GET request for the calculator whose query names two operands and an operation that begins
  with the letter a is answered, through the event loop, \<open>accept_request\<close>,
  \<open>exec_response\<close> and the calculator process, with exactly the page of their sum,
  and the connection is closed once.
\<close>

theorem calculation_is_served:
  assumes fd: "fd \<in> set (reads s)" and b: "\<not> broken (net s) fd"
    and i: "inp (net s) fd = request_text m (t @ ''?'' @ q) v ls body"
    and wf: "well_formed m (t @ ''?'' @ q) v ls" and m: "strcasecmp_eq m ''GET''" and t: "path_target t"
    and q: "q = calc_query n1 (sg1 @ ds1 @ j1) n2 (CHR ''a'' # w) n3 (sg2 @ ds2 @ j2)"
      "CHR ''?'' \<notin> set q" "length q < 10227"
    and fields: "calc_fields n1 sg1 ds1 j1 n2 (CHR ''a'' # w) n3 sg2 ds2 j2"
    and f: "files (net s) (root_path @ t) = Some f" "\<not> is_directory f" and fork: "can_fork (net s)"
    and al: "padded_allocator al"
    and page: "page = answer_page (show_int (operand_value sg1 ds1)) ''+'' (show_int (operand_value sg2 ds2))
        (show_int (operand_value sg1 ds1 + operand_value sg2 ds2))" "length page < 20480"
  shows "\<exists>s'. server_run (calculator al lost crash) s [Readable fd True, Writable fd] s'
    \<and> sent (net s') fd = sent (net s) fd @ page \<and> closes (net s') = closes (net s) @ [fd]"
proof -
  have w: "word_text m" "word_text q" using wf by (simp_all add: well_formed_def)
  have d: "digits ds1" "digits ds2" using calc_fields_digits [OF fields] by simp_all
  have op: "operation (CHR ''a'') (numeral_of ds1) (numeral_of ds2)" by (simp add: operation_def)
  have run: "calculator al lost crash (root_path @ t) (cgi_env m q (env (net s))) [] = Some page"
    using calculator_run [OF al m word_text_NUL [OF w(1)] q(1) word_text_NUL [OF w(2)] fields op]
    by (simp add: page(1) computed_values [OF d] operator_text_def)
  have "cstring page = page"
    unfolding page(1) by (intro cstring_no_NUL page_no_NUL) (simp_all add: show_no_NUL)
  with program_run [where prog = "calculator al lost crash", OF fd b i wf m t q(2,3) f fork run page(2)] show ?thesis by auto
qed

definition get_sum :: string where
  "get_sum = request_text ''GET'' (''/cgi'' @ ''?'' @ ''a=2&op=add&b=-30'') ''HTTP/1.0'' [''Host: h''] []"

theorem calculation_is_served_witness:
  "\<exists>s'. server_run (calculator spare_alloc (\<lambda>_. []) []) (sample_server get_sum) [Readable 5 True, Writable 5] s'
    \<and> sent (net s') 5 = answer_page ''2'' ''+'' ''-30'' ''-28''"
proof -
  have wf: "well_formed ''GET'' (''/cgi'' @ ''?'' @ ''a=2&op=add&b=-30'') ''HTTP/1.0'' [''Host: h'']"
    by code_simp
  have q: "''a=2&op=add&b=-30'' = calc_query ''a'' ([] @ ''2'' @ []) ''op'' (CHR ''a'' # ''dd'') ''b'' (''-'' @ ''30'' @ [])"
    by (simp add: calc_query_def)
  have fields: "calc_fields ''a'' [] ''2'' [] ''op'' (CHR ''a'' # ''dd'') ''b'' ''-'' ''30'' []"
    by (simp add: calc_eval)
  have page: "answer_page ''2'' ''+'' ''-30'' ''-28''
      = answer_page (show_int (operand_value [] ''2'')) ''+'' (show_int (operand_value ''-'' ''30''))
        (show_int (operand_value [] ''2'' + operand_value ''-'' ''30''))"
    by (simp add: calc_eval)
  have len: "length (answer_page ''2'' ''+'' ''-30'' ''-28'') < 20480"
    by (simp add: answer_page_def page_head_def page_foot_def)
  show ?thesis
    using calculation_is_served [OF _ _ _ wf get_a_ok(2) get_cgi_ok(2) q _ _ fields _ modes(3) [where r = True] _
        spare.padded_allocator_axioms page len, of 5 "sample_server get_sum" "[]" "''elf''"] sample_file(1)
    by (auto simp: get_sum_def)
qed

end
