(* ===== verification/HttpStart.thy ===== *)
theory HttpStart
  imports HttpSamples
begin

text \<open>
  The start of the server: \<open>main\<close> in \<open>main.c\<close> with \<open>Usage\<close> and \<open>StartUp\<close> of \<open>httpd.c\<close>, up to the
  event loop it runs.
\<close>

section \<open>The network of the machine\<close>

text \<open>
  The calls \<open>socket\<close>, \<open>bind\<close> and \<open>listen\<close> return what the machine decides, from the address and the
  port they get; \<open>inet_addr\<close> is part of \<open>os_bind\<close>, which gets the text of the address.
\<close>

record os =
  os_socket :: int
  os_bind :: "string \<Rightarrow> 16 word \<Rightarrow> int"
  os_listen :: "int \<Rightarrow> int"

text \<open>Either the process exits with a status, or the call returns.\<close>

datatype 'a start = Exit nat | Continue 'a

definition BACKLOG :: int where
  "BACKLOG = 10"

definition Usage :: "string \<Rightarrow> (world, unit) c" where
  "Usage argv = say (Text (''Usage: '' @ argv @ ''  [ip]  [port]'' @ [LF]))"

definition StartUp :: "os \<Rightarrow> string \<Rightarrow> int \<Rightarrow> (world, int start) c" where
  "StartUp os ip port =
     (let sock = os_socket os in
      if sock < 0 then bind (print_log ''StartUp'' 24) (\<lambda>_. return (Exit 1))
      else if os_bind os ip (word_of_int port) < 0 then
        bind (print_log ''StartUp'' 38) (\<lambda>_. return (Exit 2))
      else if os_listen os BACKLOG < 0 then
        bind (print_log ''StartUp'' 44) (\<lambda>_. return (Exit 3))
      else return (Continue sock))"

text \<open>\<open>main\<close> up to the event loop: the server's first state, with no client and no \<open>_data\<close>.\<close>

definition http_main :: "os \<Rightarrow> string list \<Rightarrow> (world, (int \<times> server) start) c" where
  "http_main os argv =
     (if length argv \<noteq> 3 then bind (Usage (argv ! 0)) (\<lambda>_. return (Exit 0))
      else
        (let port = atoi (argv ! 2); ip = argv ! 1 in
         bind (StartUp os ip port) (\<lambda>r.
         case r of
           Exit n \<Rightarrow> return (Exit n)
         | Continue listen_sock \<Rightarrow>
             (\<lambda>w. ok (Continue (listen_sock, \<lparr>net = w, glob = None, reads = [], writes = []\<rparr>)) w))))"

section \<open>What it does\<close>

theorem StartUp_outcomes:
  "fst (projr (the (StartUp os ip port w)))
   = (if os_socket os < 0 then Exit 1
      else if os_bind os ip (word_of_int port) < 0 then Exit 2
      else if os_listen os BACKLOG < 0 then Exit 3
      else Continue (os_socket os))"
  by (simp add: StartUp_def Let_def print_log_def say_def)

text \<open>\<open>htons\<close> takes the port modulo 65536: a port out of range is another port, not an error.\<close>

theorem StartUp_port_wraps: "StartUp os ip (port + 65536 * k) = StartUp os ip port"
proof -
  have "(word_of_int (port + 65536 * k) :: 16 word) = word_of_int port"
    by (rule word_of_int_eq_iff [THEN iffD2]) (simp add: take_bit_eq_mod)
  then show ?thesis by (simp only: StartUp_def)
qed

lemma http_main_continue:
  assumes "http_main os [prog_name, ip, port] w = ok (Continue (sock, s)) w'"
  shows "sock = os_socket os \<and> 0 \<le> sock \<and> 0 \<le> os_bind os ip (word_of_int (atoi port))
    \<and> 0 \<le> os_listen os BACKLOG \<and> w' = w
    \<and> s = \<lparr>net = w, glob = None, reads = [], writes = []\<rparr>"
  using assms
  by (auto simp: http_main_def StartUp_def Let_def print_log_def say_def bind_def split: if_splits)

text \<open>
  Whatever happens after the start, the loop waits for each socket at most once, and never for both
  reading and writing.
\<close>


section \<open>Samples\<close>

definition sample_os :: os where
  "sample_os = \<lparr>os_socket = 3, os_bind = (\<lambda>ip port. if port = 8080 then 0 else - 1), os_listen = (\<lambda>_. 0)\<rparr>"

definition started :: server where
  "started = \<lparr>net = sample_world [], glob = None, reads = [], writes = []\<rparr>"

lemma sample_start:
  "http_main sample_os [''httpd'', ''0.0.0.0'', ''8080''] (sample_world []) = ok (Continue (3, started)) (sample_world [])"
proof -
  have "atoi ''8080'' = 8080" by code_simp
  then show ?thesis by (simp add: http_main_def StartUp_def sample_os_def started_def)
qed

lemma sample_start_run:
  "\<exists>s'. server_run echo started [Connect 5 [], Readable 5 True, Writable 5] s'"
proof -
  let ?w = "(sample_world [])\<lparr>inp := (inp (sample_world []))(5 := []), sent := (sent (sample_world []))(5 := [])\<rparr>"
  let ?s = "started\<lparr>net := ?w, reads := [5]\<rparr>"
  have "server_step echo started (Connect 5 []) (started\<lparr>net := ?w, reads := 5 # reads started\<rparr>)"
    by (rule connect) (simp_all add: started_def accept_fc_def)
  then have c: "server_step echo started (Connect 5 []) ?s" by (simp add: started_def)
  have "inp (net ?s) (d_fd (new_data_buf 5)) = []" by (simp add: new_data_buf_def)
  from read_write_run [OF _ accept_closed [OF this] write_fc_closed] obtain s' where
    "server_run echo ?s [Readable 5 True, Writable 5] s'" by fastforce
  with c show ?thesis by (blast intro: step)
qed


end
