(* ===== verification/HttpSequence.thy ===== *)
theory HttpSequence
  imports HttpSamples
begin

text \<open>
  Clients that are served one after the other: whatever their order, each of them is answered, with
  its own file, and closed. By \<open>overlapping_requests\<close> this fails as soon as two requests overlap.
\<close>

text \<open>The connection \<open>fd\<close> holds a well-formed GET request for the regular readable file \<open>f\<close>.\<close>

definition file_request :: "world \<Rightarrow> int \<Rightarrow> fentry \<Rightarrow> bool" where
  "file_request w fd f \<longleftrightarrow> \<not> broken w fd \<and>
     (\<exists>m t v ls body. inp w fd = request_text m t v ls body \<and> well_formed m t v ls \<and> strcasecmp_eq m ''GET''
        \<and> path_target t \<and> served_file w (root_path @ t) f \<and> \<not> is_directory f \<and> \<not> is_executable f)"

text \<open>The events of one client that is served alone.\<close>

definition one_client :: "int \<Rightarrow> event list" where
  "one_client fd = [Readable fd True, Writable fd]"

lemma serve_one:
  assumes "fd \<in> set (reads s)" and "file_request (net s) fd f"
  shows "\<exists>s1. server_run prog s (one_client fd) s1 \<and> reads s1 = removeAll fd (reads s)
    \<and> sent (net s1) = (sent (net s))(fd := sent (net s) fd @ ok_status @ f_data f)
    \<and> closes (net s1) = closes (net s) @ [fd]
    \<and> files (net s1) = files (net s) \<and> broken (net s1) = broken (net s)
    \<and> (\<forall>x. x \<noteq> fd \<longrightarrow> inp (net s1) x = inp (net s) x)"
proof -
  obtain m t v ls body where r: "inp (net s) fd = request_text m t v ls body" "well_formed m t v ls"
      "strcasecmp_eq m ''GET''" "path_target t"
    and f: "served_file (net s) (root_path @ t) f" "\<not> is_directory f" "\<not> is_executable f"
    and b: "\<not> broken (net s) fd"
    using assms(2) by (auto simp: file_request_def)
  let ?w = "say_line (request_line_text m t v @ [LF]) (set_inp fd body (net s))"
  let ?g = "Some (request_data (new_data_buf fd) False m (root_path @ t) []\<lparr>d_err_num := Some 0\<rparr>)"
  let ?s1 = "s\<lparr>net := ?w, glob := ?g, reads := removeAll fd (reads s), writes := fd # writes s\<rparr>"
  let ?w2 = "close_one fd (add_sent fd (ok_status @ f_data f) ?w)"
  have st1: "server_step prog s (Readable fd True) ?s1"
    using readable [OF assms(1) read_static [OF r f]] by simp
  have "write_fc (glob ?s1) fd (net ?s1) = ok () ?w2"
    using write_static [of ?w fd "root_path @ t" f m "[]" fd] b f(1) by (simp add: served_file_def)
  then have st2: "server_step prog ?s1 (Writable fd) (?s1\<lparr>net := ?w2, writes := removeAll fd (writes ?s1)\<rparr>)"
    by (intro writable) simp_all
  show ?thesis
    using st1 st2
    by (intro exI [of _ "?s1\<lparr>net := ?w2, writes := removeAll fd (writes ?s1)\<rparr>"])
      (auto simp: one_client_def close_one_def intro: step finish)
qed

lemma file_request_frame:
  assumes "file_request w fd f" and "inp w' fd = inp w fd" and "files w' = files w" and "broken w' = broken w"
  shows "file_request w' fd f"
  using assms by (simp add: file_request_def served_file_def)

lemma server_run_append:
  "server_run prog s es s1 \<Longrightarrow> server_run prog s1 es' s2 \<Longrightarrow> server_run prog s (es @ es') s2"
  by (induction rule: server_run.induct) (auto intro: step)

lemma serve_all:
  assumes "distinct (map fst rs)" and "list_all (\<lambda>(fd, f). fd \<in> set (reads s) \<and> file_request (net s) fd f) rs"
  shows "\<exists>s'. server_run prog s (concat (map (\<lambda>(fd, f). one_client fd) rs)) s'
    \<and> list_all (\<lambda>(fd, f). sent (net s') fd = sent (net s) fd @ ok_status @ f_data f) rs
    \<and> (\<forall>x. x \<notin> fst ` set rs \<longrightarrow> sent (net s') x = sent (net s) x)
    \<and> closes (net s') = closes (net s) @ map fst rs"
  using assms
proof (induction rs arbitrary: s)
  case Nil
  then show ?case by auto
next
  case (Cons r rs)
  obtain fd f where r: "r = (fd, f)" by (cases r)
  with Cons.prems have fd: "fd \<in> set (reads s)" "file_request (net s) fd f" "fd \<notin> fst ` set rs" by simp_all
  obtain s1 where s1: "server_run prog s (one_client fd) s1" "reads s1 = removeAll fd (reads s)"
      "sent (net s1) = (sent (net s))(fd := sent (net s) fd @ ok_status @ f_data f)"
      "closes (net s1) = closes (net s) @ [fd]" "files (net s1) = files (net s)" "broken (net s1) = broken (net s)"
      "\<And>x. x \<noteq> fd \<Longrightarrow> inp (net s1) x = inp (net s) x"
    using serve_one [OF fd(1,2), of prog] by auto
  have "x \<in> set (reads s1) \<and> file_request (net s1) x g" if "(x, g) \<in> set rs" for x g
  proof -
    have "x \<noteq> fd" using that fd(3) by force
    moreover have "x \<in> set (reads s)" "file_request (net s) x g"
      using that Cons.prems(2) by (auto simp: list_all_iff)
    ultimately show ?thesis using s1 file_request_frame [of "net s" x g "net s1"] by simp
  qed
  then have "list_all (\<lambda>(x, g). x \<in> set (reads s1) \<and> file_request (net s1) x g) rs"
    by (auto simp: list_all_iff)
  from Cons.IH [OF _ this] Cons.prems(1) obtain s' where
      s': "server_run prog s1 (concat (map (\<lambda>(fd, f). one_client fd) rs)) s'"
      "list_all (\<lambda>(fd, f). sent (net s') fd = sent (net s1) fd @ ok_status @ f_data f) rs"
      "\<And>x. x \<notin> fst ` set rs \<Longrightarrow> sent (net s') x = sent (net s1) x"
      "closes (net s') = closes (net s1) @ map fst rs"
    by auto
  have "sent (net s') x = sent (net s) x @ ok_status @ f_data g" if "(x, g) \<in> set rs" for x g
    using that s'(2) s1(3) fd(3) by (force simp: list_all_iff)
  then have "list_all (\<lambda>(x, g). sent (net s') x = sent (net s) x @ ok_status @ f_data g) rs"
    by (auto simp: list_all_iff)
  moreover have "sent (net s') fd = sent (net s) fd @ ok_status @ f_data f"
    using s'(3) [OF fd(3)] s1(3) by simp
  moreover have "server_run prog s (concat (map (\<lambda>(fd, f). one_client fd) (r # rs))) s'"
    using server_run_append [OF s1(1) s'(1)] r by simp
  ultimately show ?case using s'(3,4) s1(3,4) r by (intro exI [of _ s']) auto
qed

text \<open>
  Any number of clients, each with a well-formed GET request for a regular readable file, that
  are served one after the other in any order, are all answered: each is sent its own file, each
  connection is closed once in that order, nobody else is sent anything, and this is the only
  way the run can end.
\<close>

theorem clients_in_sequence_are_served:
  assumes "distinct (map fst rs)" and "list_all (\<lambda>(fd, f). fd \<in> set (reads s) \<and> file_request (net s) fd f) rs"
  shows "\<exists>s'. server_run prog s (concat (map (\<lambda>(fd, f). one_client fd) rs)) s'
    \<and> (\<forall>s''. server_run prog s (concat (map (\<lambda>(fd, f). one_client fd) rs)) s'' \<longrightarrow> s'' = s')
    \<and> list_all (\<lambda>(fd, f). sent (net s') fd = sent (net s) fd @ ok_status @ f_data f) rs
    \<and> (\<forall>x. x \<notin> fst ` set rs \<longrightarrow> sent (net s') x = sent (net s) x)
    \<and> closes (net s') = closes (net s) @ map fst rs"
  using serve_all [OF assms, of prog] server_run_deterministic by blast

theorem clients_in_sequence_are_served_witness:
  "\<exists>s'. server_run echo two_clients [Readable 6 True, Writable 6, Readable 5 True, Writable 5] s'
    \<and> sent (net s') 5 = ok_status @ ''hello'' \<and> sent (net s') 6 = ok_status @ ''hello''
    \<and> closes (net s') = closes (net two_clients) @ [6, 5]"
proof -
  let ?f = "\<lparr>f_mode = 0x81A4, f_data = ''hello'', f_readable = True\<rparr>"
  have f: "served_file (net two_clients) (root_path @ ''/a.txt'') ?f"
    using a_file by (simp add: served_file_def)
  have "file_request (net two_clients) x ?f" if "x \<in> {5, 6}" for x
    unfolding file_request_def
    using that f get_a_ok modes(1,2) [of "''hello''" True]
    by (intro conjI exI [of _ "''GET''"] exI [of _ "''/a.txt''"] exI [of _ "''HTTP/1.0''"]
        exI [of _ "[''Host: h'']"] exI [of _ "[]"]) (auto simp: get_a_def)
  then show ?thesis
    using clients_in_sequence_are_served [of "[(6, ?f), (5, ?f)]" two_clients echo]
    by (auto simp: one_client_def)
qed

end
