(* ===== verification/HttpService.thy ===== *)
theory HttpService
  imports HttpStart HttpSequence
begin

text \<open>
  The server as a service, from its start in \<open>main\<close>: while no two requests overlap, it does what a
  machine does that answers each request by its text alone, whatever clients connect in between. The
  answers to a request are an inductive judgement over the files and the programs; the steps of the
  event loop are simulated by the steps of the abstract machine.
\<close>

section \<open>Answers\<close>

text \<open>
  \<open>answer prog fs t r\<close>: the request \<open>t\<close> is answered with \<open>r\<close> when the files are \<open>fs\<close>. Of a program it is
  required that what it prints does not depend on the environment it inherits.
\<close>

inductive answer :: "programs \<Rightarrow> (string \<Rightarrow> fentry option) \<Rightarrow> string \<Rightarrow> string \<Rightarrow> bool" for prog fs where
  silent: "answer prog fs [] []"
| regular: "well_formed m t v ls \<Longrightarrow> strcasecmp_eq m ''GET'' \<Longrightarrow> path_target t \<Longrightarrow>
    fs (root_path @ t) = Some f \<Longrightarrow> f_readable f \<Longrightarrow> \<not> is_directory f \<Longrightarrow> \<not> is_executable f \<Longrightarrow>
    answer prog fs (request_text m t v ls body) (ok_status @ f_data f)"
| program: "well_formed m (t @ ''?'' @ q) v ls \<Longrightarrow> strcasecmp_eq m ''GET'' \<Longrightarrow> path_target t \<Longrightarrow>
    CHR ''?'' \<notin> set q \<Longrightarrow> length q < 10227 \<Longrightarrow> fs (root_path @ t) = Some f \<Longrightarrow> \<not> is_directory f \<Longrightarrow>
    \<forall>e. prog (root_path @ t) (cgi_env m q e) [] = Some r \<Longrightarrow> length r < 20480 \<Longrightarrow>
    answer prog fs (request_text m (t @ ''?'' @ q) v ls body) (cstring r)"
| posted: "well_formed m t v (ls1 @ (length_field @ x) # ls2) \<Longrightarrow> post_headers ls1 x ls2 \<Longrightarrow>
    strcasecmp_eq m ''POST'' \<Longrightarrow> path_target t \<Longrightarrow> fs (root_path @ t) = Some f \<Longrightarrow> \<not> is_directory f \<Longrightarrow>
    atoi (x @ [LF]) = int (length body) \<Longrightarrow>
    \<forall>e. prog (root_path @ t) (cgi_env m [] e) body = Some r \<Longrightarrow> length r < 20480 \<Longrightarrow>
    answer prog fs (request_text m t v (ls1 @ (length_field @ x) # ls2) (body @ later)) (cstring r)"
| missing: "well_formed m t v ls \<Longrightarrow> strcasecmp_eq m ''GET'' \<Longrightarrow> path_target t \<Longrightarrow>
    fs (root_path @ t) = None \<Longrightarrow> fs error_path = Some page \<Longrightarrow> f_readable page \<Longrightarrow>
    answer prog fs (request_text m t v ls body)
      (''HTTP/1.1 404 Not Found'' @ [CR, LF, CR, LF] @ f_data page)"
| other_method: "well_formed m t v ls \<Longrightarrow> \<not> strcasecmp_eq m ''GET'' \<Longrightarrow> \<not> strcasecmp_eq m ''POST'' \<Longrightarrow>
    fs error_path = Some page \<Longrightarrow> f_readable page \<Longrightarrow>
    answer prog fs (request_text m t v ls body)
      (''HTTP/1.1 405 Method Not Allowed'' @ [CR, LF, CR, LF] @ f_data page)"

lemma file_run:
  assumes "fd \<in> set (reads s)" and "file_request (net s) fd f"
  shows "\<exists>s'. server_run prog s [Readable fd True, Writable fd] s'
    \<and> sent (net s') fd = sent (net s) fd @ ok_status @ f_data f \<and> closes (net s') = closes (net s) @ [fd]"
  using serve_one [OF assms, of prog] by (auto simp: one_client_def)

lemma silent_run:
  assumes "fd \<in> set (reads s)" and "inp (net s) fd = []"
  shows "\<exists>s'. server_run prog s [Readable fd True, Writable fd] s'
    \<and> sent (net s') fd = sent (net s) fd \<and> closes (net s') = closes (net s) @ [fd]"
  using silent_client_is_closed [OF assms, of prog] by auto

text \<open>One request that is read and answered alone: each answer, by its rule.\<close>

lemma answered:
  assumes "answer prog fs t r" and "fd \<in> set (reads s)" and "\<not> broken (net s) fd" and "can_fork (net s)"
    and "inp (net s) fd = t" and "files (net s) = fs"
  shows "\<exists>s'. server_run prog s [Readable fd True, Writable fd] s'
    \<and> sent (net s') fd = sent (net s) fd @ r \<and> set (closes (net s')) = insert fd (set (closes (net s)))"
  using assms
proof (induction rule: answer.induct)
  case silent
  then show ?case using silent_run [of fd s prog] by auto
next
  case (regular m t v ls f body)
  then have "file_request (net s) fd f"
    unfolding file_request_def served_file_def by blast
  with regular.prems show ?case using file_run [of fd s f prog] by auto
next
  case (program m t q v ls f r body)
  show ?case
    using program_run [of fd s m t q v ls body f prog r] program by auto
next
  case (posted m t v ls1 x ls2 f body r later)
  show ?case
    using post_run [of fd s m t v ls1 x ls2 body later f prog r] posted by auto
next
  case (missing m t v ls page body)
  show ?case
    using missing_run [of fd s m t v ls body page prog] missing by (auto simp: served_file_def)
next
  case (other_method m t v ls page body)
  show ?case
    using other_method_run [of fd s m t v ls body page prog] other_method by (auto simp: served_file_def)
qed

section \<open>What a request leaves alone\<close>

text \<open>Serving \<open>fd\<close> does not touch the files, nor what other clients have sent or are sent.\<close>

definition steady :: "int \<Rightarrow> world \<Rightarrow> world \<Rightarrow> bool" where
  "steady fd w w' \<longleftrightarrow> files w' = files w \<and> broken w' = broken w \<and> can_fork w' = can_fork w
     \<and> (\<forall>x. x \<noteq> fd \<longrightarrow> inp w' x = inp w x \<and> sent w' x = sent w x)"

interpretation steady: frame "steady fd" for fd
  by unfold_locales (simp_all add: steady_def)

lemmas steady_frame_rules [keeps_rules] = steady.keeps_bind steady.keeps_return

lemma quiet_steady: "quiet fd w w' \<Longrightarrow> steady fd w w'"
  by (simp add: quiet_def steady_def)

lemma steady_basic [keeps_rules]:
  "keeps (steady fd) (say m)" "keeps (steady fd) (print_log f n)" "keeps (steady fd) (stat p)"
  "keeps (steady fd) (field x)" "keeps (steady fd) (clear_head fd)" "keeps (steady fd) (open_read p)"
  "keeps (steady fd) close_file" "keeps (steady fd) (close fd')" "keeps (steady fd) (send fd t)"
  "keeps (steady fd) (sendfile fd t k)"
  by (auto simp: keeps_def steady_def w_eval field_def clear_head_spec split: option.splits if_splits)

lemma steady_responses [keeps_rules]:
  "d_fd data = fd \<Longrightarrow> keeps (steady fd) (send_response data n)"
  "keeps (steady fd) (error_response fd err)"
  "d_fd data = fd \<Longrightarrow> keeps (steady fd) (send_buf data)"
  unfolding send_response_def error_response_def send_buf_def by (intro keeps_rules | simp only:)+

lemma steady_write_fc: "keeps (steady (d_fd data)) (write_fc (Some data) fd)"
  unfolding write_fc_def option.case by (intro keeps_rules refl)

lemma steady_write_step:
  assumes "server_step prog s (Writable fd) s'" and "glob s = None \<or> (\<exists>d. glob s = Some d \<and> d_fd d = x)"
  shows "steady x (net s) (net s') \<and> reads s' = reads s \<and> writes s' = removeAll fd (writes s)"
  using assms(1)
proof (rule writableE)
  fix w assume w: "write_fc (glob s) fd (net s) = ok () w"
    and s': "s' = s\<lparr>net := w, writes := removeAll fd (writes s)\<rparr>"
  from w have "glob s \<noteq> None" by (cases "glob s") (simp_all add: write_fc_def)
  then obtain d where "glob s = Some d" "d_fd d = x" using assms(2) by auto
  with w steady_write_fc [of d fd] s' show ?thesis by (auto simp: keeps_def)
qed

lemma request_frame:
  assumes "server_run prog s [Readable fd True, Writable fd] s'"
  shows "steady fd (net s) (net s') \<and> reads s' = removeAll fd (reads s) \<and> writes s' = removeAll fd (writes s)"
proof -
  obtain s1 where st: "server_step prog s (Readable fd True) s1" "server_step prog s1 (Writable fd) s'"
    using assms by (auto simp: server_run_Cons)
  have "reads s1 = removeAll fd (reads s) \<and> removeAll fd (writes s1) = removeAll fd (writes s)"
    using st(1) by (rule readableE) auto
  moreover have "steady fd (net s) (net s1)"
    using readable_quiet [OF st(1)] by (rule quiet_steady)
  ultimately show ?thesis
    using steady_write_step [OF st(2) readable_glob [OF st(1)]] steady.frame_trans by auto
qed

section \<open>The abstract machine\<close>

text \<open>
  It knows the request of each client that waits, and what has been sent to whom. A client that is
  read is answered at once. Every other order of events is no run of it: in particular it never
  reads a second request before it has answered the first.
\<close>

fun responder :: "(string \<Rightarrow> string) \<Rightarrow> (int \<rightharpoonup> string) \<Rightarrow> (int \<Rightarrow> string) \<Rightarrow> event list
    \<Rightarrow> ((int \<rightharpoonup> string) \<times> (int \<Rightarrow> string)) option" where
  "responder reply waiting snt [] = Some (waiting, snt)"
| "responder reply waiting snt (Connect fd t # es) =
     (if waiting fd = None then responder reply (waiting(fd \<mapsto> t)) (snt(fd := [])) es else None)"
| "responder reply waiting snt (AcceptFails # es) = responder reply waiting snt es"
| "responder reply waiting snt (Readable fd True # Writable fd' # es) =
     (case waiting fd of
        Some t \<Rightarrow> if fd' = fd then responder reply (waiting(fd := None)) (snt(fd := snt fd @ reply t)) es else None
      | None \<Rightarrow> None)"
| "responder reply waiting snt _ = None"

text \<open>The state of the server that stands for a state of the machine.\<close>

definition represents :: "(string \<Rightarrow> fentry option) \<Rightarrow> server \<Rightarrow> (int \<rightharpoonup> string) \<Rightarrow> (int \<Rightarrow> string) \<Rightarrow> bool" where
  "represents fs s waiting snt \<longleftrightarrow> set (reads s) = dom waiting \<and> writes s = [] \<and> sent (net s) = snt
     \<and> (\<forall>fd t. waiting fd = Some t \<longrightarrow> inp (net s) fd = t)
     \<and> files (net s) = fs \<and> can_fork (net s) \<and> (\<forall>fd. \<not> broken (net s) fd)"

fun requests :: "event list \<Rightarrow> string set" where
  "requests [] = {}"
| "requests (Connect fd t # es) = insert t (requests es)"
| "requests (e # es) = requests es"

lemma represents_connect:
  assumes "represents fs s waiting snt" and "waiting fd = None"
  shows "\<exists>s1. server_step prog s (Connect fd t) s1
    \<and> represents fs s1 (waiting(fd \<mapsto> t)) (snt(fd := [])) \<and> closes (net s1) = closes (net s)"
proof -
  let ?w = "(net s)\<lparr>inp := (inp (net s))(fd := t), sent := (sent (net s))(fd := [])\<rparr>"
  have "fd \<notin> set (reads s)" "fd \<notin> set (writes s)"
    using assms by (auto simp: represents_def)
  then have "server_step prog s (Connect fd t) (s\<lparr>net := ?w, reads := fd # reads s\<rparr>)"
    by (rule connect) (simp add: accept_fc_def)
  moreover have "represents fs (s\<lparr>net := ?w, reads := fd # reads s\<rparr>) (waiting(fd \<mapsto> t)) (snt(fd := []))"
    using assms by (auto simp: represents_def)
  ultimately show ?thesis by (intro exI [of _ "s\<lparr>net := ?w, reads := fd # reads s\<rparr>"]) simp
qed

lemma represents_accept_fails:
  assumes "represents fs s waiting snt"
  shows "\<exists>s1. server_step prog s AcceptFails s1 \<and> represents fs s1 waiting snt \<and> closes (net s1) = closes (net s)"
proof -
  obtain w where w: "accept_fc None (net s) = ok None w" "w = (net s)\<lparr>out := out (net s) @ [ErrorAt ''accept_fc'' 589]\<rparr>"
    by (simp add: accept_fc_def print_log_def say_def bind_def)
  from accept_fails [OF w(1)] have "server_step prog s AcceptFails (s\<lparr>net := w\<rparr>)" .
  with assms w(2) show ?thesis
    by (intro exI [of _ "s\<lparr>net := w\<rparr>"]) (auto simp: represents_def)
qed

lemma represents_request:
  assumes "represents fs s waiting snt" and "waiting fd = Some t" and "answer prog fs t r"
  shows "\<exists>s1. server_run prog s [Readable fd True, Writable fd] s1
    \<and> represents fs s1 (waiting(fd := None)) (snt(fd := snt fd @ r))
    \<and> set (closes (net s1)) = insert fd (set (closes (net s)))"
proof -
  have pre: "fd \<in> set (reads s)" "\<not> broken (net s) fd" "can_fork (net s)" "inp (net s) fd = t" "files (net s) = fs"
    using assms(1,2) by (auto simp: represents_def)
  obtain s1 where s1: "server_run prog s [Readable fd True, Writable fd] s1"
      "sent (net s1) fd = sent (net s) fd @ r" "set (closes (net s1)) = insert fd (set (closes (net s)))"
    using answered [OF assms(3) pre] by auto
  note fr = request_frame [OF s1(1)]
  have "represents fs s1 (waiting(fd := None)) (snt(fd := snt fd @ r))"
    using assms(1) fr s1(2) by (auto simp: represents_def steady_def fun_eq_iff)
  with s1 show ?thesis by blast
qed

lemma requests_Cons: "requests es \<subseteq> requests (e # es)"
  by (cases e) auto

theorem responder_simulated:
  assumes "represents fs s waiting snt" and "responder reply waiting snt es = Some (waiting', snt')"
    and "\<forall>t \<in> requests es \<union> ran waiting. answer prog fs t (reply t)"
  shows "\<exists>s'. server_run prog s es s' \<and> represents fs s' waiting' snt'
    \<and> set (closes (net s')) = set (closes (net s)) \<union> {fd. Writable fd \<in> set es}"
  using assms
proof (induction reply waiting snt es arbitrary: s rule: responder.induct)
  case (1 reply waiting snt)
  then show ?case by (auto intro: finish)
next
  case (2 reply waiting snt fd t es)
  then have none: "waiting fd = None" by (simp split: if_splits)
  obtain s1 where s1: "server_step prog s (Connect fd t) s1"
      "represents fs s1 (waiting(fd \<mapsto> t)) (snt(fd := []))" "closes (net s1) = closes (net s)"
    using represents_connect [OF 2(2) none] by blast
  have resp: "responder reply (waiting(fd \<mapsto> t)) (snt(fd := [])) es = Some (waiting', snt')"
    using 2(3) none by simp
  have "\<forall>u \<in> requests es \<union> ran (waiting(fd \<mapsto> t)). answer prog fs u (reply u)"
    using 2(4) none by (simp add: ran_map_upd del: fun_upd_apply)
  from 2(1) [OF none s1(2) resp this] obtain s' where "server_run prog s1 es s'" "represents fs s' waiting' snt'"
      "set (closes (net s')) = set (closes (net s1)) \<union> {fd. Writable fd \<in> set es}"
    by blast
  with s1 show ?case by (intro exI [of _ s']) (auto intro: step)
next
  case (3 reply waiting snt es)
  obtain s1 where s1: "server_step prog s AcceptFails s1" "represents fs s1 waiting snt"
      "closes (net s1) = closes (net s)"
    using represents_accept_fails [OF 3(2)] by blast
  with 3(1) [OF s1(2)] 3(3,4) obtain s' where "server_run prog s1 es s'" "represents fs s' waiting' snt'"
      "set (closes (net s')) = set (closes (net s1)) \<union> {fd. Writable fd \<in> set es}"
    by auto
  with s1 show ?case by (intro exI [of _ s']) (auto intro: step)
next
  case (4 reply waiting snt fd fd' es)
  then obtain t where t: "waiting fd = Some t" and fd': "fd' = fd"
    by (auto split: option.splits if_splits)
  have "t \<in> ran waiting" using t by (auto simp: ran_def)
  then have "answer prog fs t (reply t)" using 4(4) by simp
  from represents_request [OF 4(2) t this] obtain s1 where
    s1: "server_run prog s [Readable fd True, Writable fd] s1"
      "represents fs s1 (waiting(fd := None)) (snt(fd := snt fd @ reply t))"
      "set (closes (net s1)) = insert fd (set (closes (net s)))" by blast
  have "ran (waiting(fd := None)) \<subseteq> ran waiting" by (auto simp: ran_def split: if_splits)
  then have ans: "\<forall>t \<in> requests es \<union> ran (waiting(fd := None)). answer prog fs t (reply t)"
    using 4(4) by (metis UnE UnI1 UnI2 requests.simps(4,5) subsetD)
  have resp: "responder reply (waiting(fd := None)) (snt(fd := snt fd @ reply t)) es = Some (waiting', snt')"
    using 4(3) t fd' by (simp del: fun_upd_apply)
  from 4(1) [OF t fd' s1(2) resp ans] obtain s' where
    "server_run prog s1 es s'" "represents fs s' waiting' snt'"
    "set (closes (net s')) = set (closes (net s1)) \<union> {fd. Writable fd \<in> set es}" by blast
  with s1 fd' server_run_append [OF s1(1), of es s'] show ?case by (intro exI [of _ s']) auto
qed simp_all

section \<open>The service from its start\<close>

lemma service_run:
  assumes "http_main os [prog_name, ip, port] w = ok (Continue (sock, s)) w'"
    and "can_fork w" and "\<forall>fd. \<not> broken w fd"
    and "\<forall>t \<in> requests es. answer prog (files w) t (reply t)"
    and "responder reply Map.empty (sent w) es = Some (waiting, snt)"
  shows "\<exists>s'. server_run prog s es s' \<and> (\<forall>s''. server_run prog s es s'' \<longrightarrow> s'' = s')
    \<and> sent (net s') = snt \<and> set (reads s') = dom waiting
    \<and> set (closes (net s')) = set (closes w) \<union> {fd. Writable fd \<in> set es}"
proof -
  have s: "s = \<lparr>net = w, glob = None, reads = [], writes = []\<rparr>"
    using http_main_continue [OF assms(1)] by simp
  then have "represents (files w) s Map.empty (sent w)"
    using assms(2,3) by (simp add: represents_def)
  moreover have "\<forall>t \<in> requests es \<union> ran Map.empty. answer prog (files w) t (reply t)"
    using assms(4) by simp
  ultimately obtain s' where "server_run prog s es s'" "represents (files w) s' waiting snt"
      "set (closes (net s')) = set (closes (net s)) \<union> {fd. Writable fd \<in> set es}"
    using responder_simulated [OF _ assms(5)] by blast
  then show ?thesis
    using server_run_deterministic s by (intro exI [of _ s']) (auto simp: represents_def)
qed

text \<open>
  C3: the server as a service: once main has started it, and as long as the events are those of
  the abstract machine responder (clients connect at any time, also under a descriptor that is
  free again, accept may fail, and a request that is read is answered before the next one is
  read), it can take all of these steps, in one way only; if reply gives for every request the
  answer that the judgement answer allows (a file, the output of a program, an error page,
  nothing), then every client has been sent exactly what the machine says, the clients that
  still wait are those of the machine, and the connections that were answered are closed.
\<close>

theorem service_answers_requests:
  assumes "http_main os [prog_name, ip, port] w = ok (Continue (sock, s)) w'"
    and "can_fork w" and "\<forall>fd. \<not> broken w fd"
    and "\<forall>t \<in> requests es. answer prog (files w) t (reply t)"
    and "responder reply Map.empty (sent w) es = Some (waiting, snt)"
  shows "\<exists>s'. server_run prog s es s' \<and> (\<forall>s''. server_run prog s es s'' \<longrightarrow> s'' = s')
    \<and> sent (net s') = snt \<and> set (reads s') = dom waiting
    \<and> set (closes (net s')) = set (closes w) \<union> {fd. Writable fd \<in> set es}"
  using assms by (rule service_run)

text \<open>
  Two clients connect, one for a file and one for a program; the second is served first, and a third
  connects under its descriptor.
\<close>

definition sample_events :: "event list" where
  "sample_events = [Connect 5 get_a, Connect 6 get_cgi, Readable 6 True, Writable 6, AcceptFails, Connect 6 put_a,
     Readable 5 True, Writable 5, Readable 6 True, Writable 6]"

definition sample_reply :: "string \<Rightarrow> string" where
  "sample_reply t =
     (if t = get_a then ok_status @ ''hello'' else if t = get_cgi then ''page:''
      else ''HTTP/1.1 405 Method Not Allowed'' @ [CR, LF, CR, LF] @ ''error page'')"

lemma get_a_answer: "answer echo sample_files get_a (ok_status @ ''hello'')"
  using regular [OF get_a_ok, of sample_files "\<lparr>f_mode = 0x81A4, f_data = ''hello'', f_readable = True\<rparr>" echo "[]"]
    a_file [of "[]"] modes(1,2) by (simp add: get_a_def served_file_def)

lemma get_cgi_answer: "answer echo sample_files get_cgi ''page:''"
  using program [OF get_cgi_ok(1) get_a_ok(2) get_cgi_ok(2), of sample_files _ echo "''page:''" "[]", OF _ _ sample_file(1)]
    modes(3) by (simp add: get_cgi_def echo_def cstring_def)

lemma put_a_answer:
  "answer echo sample_files put_a (''HTTP/1.1 405 Method Not Allowed'' @ [CR, LF, CR, LF] @ ''error page'')"
  using other_method [OF other_ok(5-7), of sample_files _ echo "[]"] sample_page [of "[]"]
  by (simp add: put_a_def served_file_def)

lemma sample_requests_differ: "get_cgi \<noteq> get_a" "put_a \<noteq> get_a" "put_a \<noteq> get_cgi"
  by code_simp+

lemma service_answers_requests_witness:
  "\<exists>s'. server_run echo started sample_events s'
    \<and> sent (net s') 5 = ok_status @ ''hello''
    \<and> sent (net s') 6 = ''HTTP/1.1 405 Method Not Allowed'' @ [CR, LF, CR, LF] @ ''error page''
    \<and> reads s' = [] \<and> set (closes (net s')) = {5, 6}"
proof -
  have a: "\<forall>t \<in> requests sample_events. answer echo (files (sample_world [])) t (sample_reply t)"
    using get_a_answer get_cgi_answer put_a_answer sample_requests_differ
    by (simp add: sample_events_def sample_reply_def)
  have r: "responder sample_reply Map.empty (sent (sample_world [])) sample_events
      = Some (Map.empty, (\<lambda>_. [])(6 := sample_reply put_a, 5 := sample_reply get_a))"
    unfolding sample_events_def by (simp add: fun_eq_iff)
  have e: "{fd. Writable fd \<in> set sample_events} = {5, 6}"
    by (auto simp: sample_events_def)
  have "can_fork (sample_world [])" "\<forall>fd. \<not> broken (sample_world []) fd" by simp_all
  from service_answers_requests [OF sample_start this a r] obtain s' where
    "server_run echo started sample_events s'"
    "sent (net s') = (\<lambda>_. [])(6 := sample_reply put_a, 5 := sample_reply get_a)"
    "set (reads s') = dom (Map.empty :: int \<rightharpoonup> string)"
    "set (closes (net s')) = {5, 6}"
    unfolding e by auto
  moreover have "sample_reply get_a = ok_status @ ''hello''"
    "sample_reply put_a = ''HTTP/1.1 405 Method Not Allowed'' @ [CR, LF, CR, LF] @ ''error page''"
    using sample_requests_differ by (simp_all only: sample_reply_def if_True if_False refl)
  ultimately show ?thesis by (intro exI [of _ s']) simp
qed

end
