(* ===== verification/HttpCalculatorService.thy ===== *)
theory HttpCalculatorService
  imports HttpCalculator HttpService
begin

text \<open>
  The calculator as a service: the judgement \<open>calculation\<close> says which page a request for one of the four
  operations gets, by arithmetic alone. It is a special case of \<open>answer\<close>, so the server that \<open>main\<close> has
  started gives these pages to any number of clients.
\<close>

inductive calculation :: "(string \<Rightarrow> fentry option) \<Rightarrow> string \<Rightarrow> string \<Rightarrow> bool" for fs where
  asks: "q = calc_query n1 (sg1 @ ds1 @ j1) n2 (c # w) n3 (sg2 @ ds2 @ j2) \<Longrightarrow>
    calc_fields n1 sg1 ds1 j1 n2 (c # w) n3 sg2 ds2 j2 \<Longrightarrow>
    operation c (numeral_of ds1) (numeral_of ds2) \<Longrightarrow>
    well_formed m (t @ ''?'' @ q) v ls \<Longrightarrow> strcasecmp_eq m ''GET'' \<Longrightarrow> path_target t \<Longrightarrow>
    CHR ''?'' \<notin> set q \<Longrightarrow> length q < 10227 \<Longrightarrow> fs (root_path @ t) = Some f \<Longrightarrow> \<not> is_directory f \<Longrightarrow>
    page = answer_page (show_int (operand_value sg1 ds1)) (operator_text c) (show_int (operand_value sg2 ds2))
      (show_int (computed c (sign_of sg1) (sign_of sg2) (dval ds1) (dval ds2))) \<Longrightarrow>
    length page < 20480 \<Longrightarrow>
    calculation fs (request_text m (t @ ''?'' @ q) v ls body) page"

lemma calculation_answer:
  assumes "padded_allocator al" and "calculation fs r page"
  shows "answer (calculator al lost crash) fs r page"
  using assms(2)
proof (induction rule: calculation.induct)
  case (asks q n1 sg1 ds1 j1 n2 c w n3 sg2 ds2 j2 m t v ls f page body)
  then have w: "word_text m" "word_text q" by (simp_all add: well_formed_def)
  have run: "\<forall>e. calculator al lost crash (root_path @ t) (cgi_env m q e) [] = Some page"
    using calculator_run [OF assms(1) asks(5) word_text_NUL [OF w(1)] asks(1) word_text_NUL [OF w(2)] asks(2,3)]
      asks(11) by simp
  have "cstring page = page"
    unfolding asks(11) by (intro cstring_no_NUL page_no_NUL) (simp_all add: show_no_NUL operator_text_def)
  with answer.program [where prog = "calculator al lost crash" and r = page and body = body and m = m and t = t and q = q and v = v
      and ls = ls and fs = fs and f = f, OF asks(4-10) run asks(12)]
  show ?case by simp
qed


text \<open>Two clients at a time: the product asked for by the second is answered before the sum.\<close>

definition get_product :: string where
  "get_product = request_text ''GET'' (''/cgi'' @ ''?'' @ ''a=6&op=mul&b=-7'') ''HTTP/1.0'' [''Host: h''] []"

definition sum_page :: string where "sum_page = answer_page ''2'' ''+'' ''-30'' ''-28''"

definition product_page :: string where "product_page = answer_page ''6'' ''*'' ''-7'' ''-42''"

definition calculator_events :: "event list" where
  "calculator_events = [Connect 5 get_sum, Connect 6 get_product, Readable 6 True, Writable 6, Readable 5 True, Writable 5]"

definition calculator_reply :: "string \<Rightarrow> string" where
  "calculator_reply t = (if t = get_sum then sum_page else product_page)"

lemma get_sum_calculation: "calculation sample_files get_sum sum_page"
  unfolding get_sum_def
proof (rule asks)
  show "''a=2&op=add&b=-30'' = calc_query ''a'' ([] @ ''2'' @ []) ''op'' (CHR ''a'' # ''dd'') ''b'' (''-'' @ ''30'' @ [])"
    by (simp add: calc_query_def)
  show "calc_fields ''a'' [] ''2'' [] ''op'' (CHR ''a'' # ''dd'') ''b'' ''-'' ''30'' []"
    by (simp add: calc_eval)
  show "well_formed ''GET'' (''/cgi'' @ ''?'' @ ''a=2&op=add&b=-30'') ''HTTP/1.0'' [''Host: h'']"
    by code_simp
  show "length sum_page < 20480" by (simp add: sum_page_def answer_page_def page_head_def page_foot_def)
  show "sum_page = answer_page (show_int (operand_value [] ''2'')) (operator_text (CHR ''a''))
      (show_int (operand_value ''-'' ''30'')) (show_int (computed (CHR ''a'') (sign_of []) (sign_of ''-'') (dval ''2'') (dval ''30'')))"
    by (simp add: sum_page_def calc_eval operator_text_def computed_def)
  show "\<not> is_directory \<lparr>f_mode = 0x81ED, f_data = ''elf'', f_readable = True\<rparr>" by (rule modes(3))
qed (use sample_file(1) get_a_ok(2) get_cgi_ok(2) in \<open>simp_all add: operation_def\<close>)

lemma get_product_calculation: "calculation sample_files get_product product_page"
  unfolding get_product_def
proof (rule asks)
  show "''a=6&op=mul&b=-7'' = calc_query ''a'' ([] @ ''6'' @ []) ''op'' (CHR ''m'' # ''ul'') ''b'' (''-'' @ ''7'' @ [])"
    by (simp add: calc_query_def)
  show "calc_fields ''a'' [] ''6'' [] ''op'' (CHR ''m'' # ''ul'') ''b'' ''-'' ''7'' []"
    by (simp add: calc_eval)
  show "well_formed ''GET'' (''/cgi'' @ ''?'' @ ''a=6&op=mul&b=-7'') ''HTTP/1.0'' [''Host: h'']"
    by code_simp
  show "length product_page < 20480" by (simp add: product_page_def answer_page_def page_head_def page_foot_def)
  show "product_page = answer_page (show_int (operand_value [] ''6'')) (operator_text (CHR ''m''))
      (show_int (operand_value ''-'' ''7'')) (show_int (computed (CHR ''m'') (sign_of []) (sign_of ''-'') (dval ''6'') (dval ''7'')))"
    by (simp add: product_page_def calc_eval operator_text_def computed_def)
  show "\<not> is_directory \<lparr>f_mode = 0x81ED, f_data = ''elf'', f_readable = True\<rparr>" by (rule modes(3))
qed (use sample_file(1) get_a_ok(2) get_cgi_ok(2) in \<open>simp_all add: operation_def\<close>)


end
