(* ===== verification/HttpEpoll.thy ===== *)
theory HttpEpoll
  imports HttpSamples
begin

text \<open>
  The server loop on epoll, \<open>epoll_server\<close> of \<open>httpd.c\<close>, which \<open>main\<close> can call in place of the event
  loop of libevent. Each connection carries its own \<open>data_buf\<close> in the data of its epoll event, so
  requests that overlap do not disturb each other; but a file that is gone ends the server.
\<close>

section \<open>The state\<close>

text \<open>
  What epoll watches a socket for: \<open>EPOLLIN\<close> with the descriptor, or \<open>EPOLLOUT\<close> with a pointer to
  the request's data. A socket that is closed is no longer watched.
\<close>

datatype watch = WaitIn | WaitOut data_buf

record epoll =
  e_net :: world
  watched :: "int \<Rightarrow> watch option"

text \<open>
  An event of \<open>epoll_wait\<close> with what the calls made for it find: \<open>Incoming\<close> has the result of \<open>accept\<close>
  (the socket, the bytes its client will send, its address and port) and whether the socket can be
  added, \<open>ReadyIn\<close> whether \<open>malloc\<close> succeeds.
\<close>

datatype ready =
    Incoming "(int \<times> string \<times> string \<times> int) option" bool
  | ReadyIn int bool
  | ReadyOut int
  | ReadyOther int

datatype wait = WaitFails | WaitTimeout | Ready "ready list"

definition on_net :: "(world, 'a) c \<Rightarrow> (epoll, 'a) c" where
  "on_net m s =
     (case m (e_net s) of
        None \<Rightarrow> None
      | Some (Inl e) \<Rightarrow> Some (Inl e)
      | Some (Inr (a, w)) \<Rightarrow> ok a (s\<lparr>e_net := w\<rparr>))"

definition watch_for :: "int \<Rightarrow> watch option \<Rightarrow> (epoll, unit) c" where
  "watch_for fd x s = ok () (s\<lparr>watched := (watched s)(fd := x)\<rparr>)"

section \<open>The events\<close>

definition epoll_accept :: "(int \<times> string \<times> string \<times> int) option \<Rightarrow> bool \<Rightarrow> (epoll, unit) c" where
  "epoll_accept client added =
     (case client of
        None \<Rightarrow> on_net (print_log ''epoll_server'' 450)
      | Some (fd, t, ip, port) \<Rightarrow>
          bind (on_net (\<lambda>w. ok () (w\<lparr>inp := (inp w)(fd := t), sent := (sent w)(fd := [])\<rparr>))) (\<lambda>_.
          bind (on_net (say (Text (''get a request from client...[ip]:'' @ ip @ ''  [port]:''
                              @ show_int port @ [LF])))) (\<lambda>_.
          if added then watch_for fd (Some WaitIn)
          else
            bind (on_net (print_log ''epoll_server'' 461)) (\<lambda>_.
            bind (on_net (close fd)) (\<lambda>_. watch_for fd None)))))"

definition epoll_read :: "programs \<Rightarrow> bool \<Rightarrow> int \<Rightarrow> (epoll, unit) c" where
  "epoll_read prog memory fd =
     (if \<not> memory then on_net (print_log ''epoll_server'' 472)
      else
        bind (on_net (accept_request prog (new_data_buf fd))) (\<lambda>(err, data).
        watch_for fd (Some (WaitOut (data\<lparr>d_err_num := Some err\<rparr>)))))"

text \<open>
  The answer, and whether the server goes on. Removing the socket fails when \<open>error_response\<close> has
  closed it before.
\<close>

definition epoll_respond :: "data_buf \<Rightarrow> (world, bool) c" where
  "epoll_respond data =
     bind (field (d_err_num data)) (\<lambda>err.
     if err = 0 then
       (if \<not> d_cgi data then
          bind (field (d_path data)) (\<lambda>path.
          bind (stat path) (\<lambda>st.
          case st of
            None \<Rightarrow> bind (print_log ''epoll_server'' 493) (\<lambda>_. return False)
          | Some f \<Rightarrow> bind (send_response data (length (f_data f))) (\<lambda>_. return True)))
        else bind (send_buf data) (\<lambda>_. return True))
     else if 0 < err then bind (error_response (d_fd data) err) (\<lambda>_. return True)
     else return True)"

definition epoll_finish :: "data_buf \<Rightarrow> int list \<Rightarrow> (world, unit) c" where
  "epoll_finish data closed_before =
     bind (\<lambda>w. ok (closes w) w) (\<lambda>closed.
     bind (if closed = closed_before then return () else print_log ''epoll_server'' 509) (\<lambda>_.
     close (d_fd data)))"

definition epoll_write :: "data_buf \<Rightarrow> (epoll, bool) c" where
  "epoll_write data =
     bind (on_net (\<lambda>w. ok (closes w) w)) (\<lambda>closed.
     bind (on_net (epoll_respond data)) (\<lambda>go.
     if \<not> go then return False
     else
       bind (on_net (epoll_finish data closed)) (\<lambda>_.
       bind (watch_for (d_fd data) None) (\<lambda>_. return True))))"

text \<open>The kernel reports only what a socket is watched for; anything else is no event.\<close>

definition handle_event :: "programs \<Rightarrow> ready \<Rightarrow> (epoll, bool) c" where
  "handle_event prog e s =
     (case e of
        Incoming client added \<Rightarrow> bind (epoll_accept client added) (\<lambda>_. return True) s
      | ReadyIn fd memory \<Rightarrow>
          (case watched s fd of
             Some WaitIn \<Rightarrow> bind (epoll_read prog memory fd) (\<lambda>_. return True) s
           | _ \<Rightarrow> ok True s)
      | ReadyOut fd \<Rightarrow>
          (case watched s fd of Some (WaitOut data) \<Rightarrow> epoll_write data s | _ \<Rightarrow> ok True s)
      | ReadyOther fd \<Rightarrow> ok True s)"

fun handle_events :: "programs \<Rightarrow> ready list \<Rightarrow> (epoll, bool) c" where
  "handle_events prog [] = return True"
| "handle_events prog (e # es) =
     bind (handle_event prog e) (\<lambda>go. if go then handle_events prog es else return False)"

definition epoll_turn :: "programs \<Rightarrow> wait \<Rightarrow> (epoll, bool) c" where
  "epoll_turn prog w =
     (case w of
        WaitFails \<Rightarrow> bind (on_net (print_log ''epoll_server'' 430)) (\<lambda>_. return True)
      | WaitTimeout \<Rightarrow> bind (on_net (say (Text (''timeout...'' @ [LF])))) (\<lambda>_. return True)
      | Ready es \<Rightarrow> handle_events prog es)"

text \<open>The endless loop over a finite number of turns.\<close>

fun epoll_loop :: "programs \<Rightarrow> wait list \<Rightarrow> (epoll, bool) c" where
  "epoll_loop prog [] = return True"
| "epoll_loop prog (w # ws) =
     bind (epoll_turn prog w) (\<lambda>go. if go then epoll_loop prog ws else return False)"

datatype outcome = Exited nat | Returned | Running

text \<open>\<open>epoll_fd\<close> and \<open>ctl\<close> are the results of \<open>epoll_create\<close> and of adding the listening socket.\<close>

definition epoll_server :: "programs \<Rightarrow> int \<Rightarrow> int \<Rightarrow> wait list \<Rightarrow> (epoll, outcome) c" where
  "epoll_server prog epoll_fd ctl ws =
     (if epoll_fd < 0 then bind (on_net (print_log ''epoll_server'' 405)) (\<lambda>_. return (Exited 1))
      else if ctl < 0 then bind (on_net (print_log ''epoll_server'' 415)) (\<lambda>_. return (Exited 2))
      else bind (epoll_loop prog ws) (\<lambda>go. return (if go then Running else Returned)))"

section \<open>Steps\<close>

lemma on_net_ok: "m (e_net s) = ok a w \<Longrightarrow> on_net m s = ok a (s\<lparr>e_net := w\<rparr>)"
  by (simp add: on_net_def)

lemma on_net_okE:
  assumes "on_net m s = ok a s'"
  obtains w where "m (e_net s) = ok a w" "s' = s\<lparr>e_net := w\<rparr>"
  using assms by (auto simp: on_net_def split: option.splits sum.splits)

lemma watch_for_ok [simp]: "watch_for fd x s = ok () (s\<lparr>watched := (watched s)(fd := x)\<rparr>)"
  by (simp add: watch_for_def)

section \<open>The same answers\<close>

lemma respond_write_fc:
  assumes "epoll_respond data w = ok True w1"
  shows "write_fc (Some data) fd w = close (d_fd data) w1"
proof (cases "d_err_num data")
  case None
  with assms show ?thesis by (simp add: epoll_respond_def field_def)
next
  case (Some err)
  consider "err = 0" "\<not> d_cgi data" | "err = 0" "d_cgi data" | "0 < err" | "err < 0" by linarith
  then show ?thesis
  proof cases
    case 1
    show ?thesis
    proof (cases "d_path data")
      case None
      with assms Some 1 show ?thesis by (simp add: epoll_respond_def field_def)
    next
      case (Some p)
      show ?thesis
      proof (cases "files w p")
        case None
        with assms \<open>d_err_num data = Some err\<close> 1 Some show ?thesis
          by (simp add: epoll_respond_def field_def stat_def print_log_def say_def)
      next
        case (Some f)
        with assms \<open>d_err_num data = Some err\<close> 1 \<open>d_path data = Some p\<close>
        have "send_response data (length (f_data f)) w = ok () w1"
          by (simp add: epoll_respond_def field_def stat_def bind_eq_ok_iff)
        with \<open>d_err_num data = Some err\<close> 1 \<open>d_path data = Some p\<close> Some show ?thesis
          by (simp add: write_fc_def field_def stat_def)
      qed
    qed
  next
    case 2
    with assms Some have "send_buf data w = ok () w1"
      by (simp add: epoll_respond_def field_def bind_eq_ok_iff)
    with 2 Some show ?thesis by (simp add: write_fc_def field_def)
  next
    case 3
    with assms Some have "error_response (d_fd data) err w = ok () w1"
      by (simp add: epoll_respond_def field_def bind_eq_ok_iff)
    with 3 Some show ?thesis by (simp add: write_fc_def field_def)
  next
    case 4
    with assms Some show ?thesis by (simp add: epoll_respond_def write_fc_def field_def)
  qed
qed

lemma epoll_write_okE:
  assumes "epoll_write data s = ok True s'"
  obtains w1 w2 where "epoll_respond data (e_net s) = ok True w1"
    "epoll_finish data (closes (e_net s)) w1 = ok () w2"
    "s' = s\<lparr>e_net := w2, watched := (watched s)(d_fd data := None)\<rparr>"
  using assms
  by (auto simp: epoll_write_def bind_eq_ok_iff on_net_ok elim!: on_net_okE split: if_splits)

text \<open>Apart from what it prints, the answer is the one the callback \<open>write_fc\<close> gives.\<close>

text \<open>
  C12: whenever the epoll loop goes on after a write event, it has left the same world as the
  callback \<open>write_fc\<close> on the same data, except for what is printed, and no longer
  watches the socket.
\<close>

theorem epoll_write_like_write_fc:
  assumes "epoll_write data s = ok True s'"
  shows "\<exists>w. write_fc (Some data) fd (e_net s) = ok () w
    \<and> (e_net s')\<lparr>out := []\<rparr> = w\<lparr>out := []\<rparr> \<and> watched s' = (watched s)(d_fd data := None)"
  using assms
proof (rule epoll_write_okE)
  fix w1 w2
  assume r: "epoll_respond data (e_net s) = ok True w1"
    and f: "epoll_finish data (closes (e_net s)) w1 = ok () w2"
    and s': "s' = s\<lparr>e_net := w2, watched := (watched s)(d_fd data := None)\<rparr>"
  have "w2\<lparr>out := []\<rparr> = (close_one (d_fd data) w1)\<lparr>out := []\<rparr>"
    using f by (auto simp: epoll_finish_def print_log_def say_def close_def close_one_def split: if_splits)
  with respond_write_fc [OF r, of fd] s' show ?thesis by (simp add: close_ok)
qed

section \<open>Each socket has its own data\<close>

definition epoll_ok :: "epoll \<Rightarrow> bool" where
  "epoll_ok s \<longleftrightarrow> (\<forall>fd data. watched s fd = Some (WaitOut data) \<longrightarrow> d_fd data = fd)"

lemma epoll_okI: "(\<And>fd data. watched s fd = Some (WaitOut data) \<Longrightarrow> d_fd data = fd) \<Longrightarrow> epoll_ok s"
  by (simp add: epoll_ok_def)

lemma epoll_read_watched:
  assumes "epoll_read prog memory fd s = ok u s'"
  shows "watched s' = watched s \<or> (\<exists>data. d_fd data = fd \<and> watched s' = (watched s)(fd := Some (WaitOut data)))"
proof (cases memory)
  case False
  with assms show ?thesis by (auto simp: epoll_read_def elim!: on_net_okE)
next
  case True
  with assms obtain err data w where
    "accept_request prog (new_data_buf fd) (e_net s) = ok (err, data) w"
    "s' = s\<lparr>e_net := w, watched := (watched s)(fd := Some (WaitOut (data\<lparr>d_err_num := Some err\<rparr>)))\<rparr>"
    by (auto simp: epoll_read_def bind_eq_ok_iff elim!: on_net_okE)
  with accept_request_fd [of "new_data_buf fd" prog] show ?thesis
    by (intro disjI2 exI [of _ "data\<lparr>d_err_num := Some err\<rparr>"])
      (auto simp: yields_def new_data_buf_def)
qed

lemma epoll_accept_watched:
  assumes "epoll_accept client added s = ok u s'"
  obtains "watched s' = watched s" | fd x where "watched s' = (watched s)(fd := x)" "x \<in> {Some WaitIn, None}"
proof (cases client)
  case None
  with assms that(1) show ?thesis by (auto simp: epoll_accept_def elim!: on_net_okE)
next
  case (Some c)
  obtain fd t ip port where c: "c = (fd, t, ip, port)" by (cases c) auto
  have "watched s' = (watched s)(fd := if added then Some WaitIn else None)"
    using assms unfolding Some c by (auto simp: epoll_accept_def bind_eq_ok_iff elim!: on_net_okE split: if_splits)
  with that(2) show ?thesis by fastforce
qed

lemma epoll_write_watched:
  "epoll_write data s = ok go s' \<Longrightarrow> watched s' = watched s \<or> watched s' = (watched s)(d_fd data := None)"
  by (auto simp: epoll_write_def bind_eq_ok_iff elim!: on_net_okE split: if_splits)

lemma handle_event_ok:
  assumes "handle_event prog e s = ok go s'" and "epoll_ok s"
  shows "epoll_ok s'"
proof (cases e)
  case (Incoming client added)
  with assms(1) have "epoll_accept client added s = ok () s'"
    by (auto simp: handle_event_def bind_eq_ok_iff)
  then show ?thesis
    by (rule epoll_accept_watched) (use assms(2) in \<open>auto simp: epoll_ok_def split: if_splits\<close>)
next
  case (ReadyIn fd memory)
  show ?thesis
  proof (cases "watched s fd = Some WaitIn")
    case True
    with assms(1) ReadyIn have "epoll_read prog memory fd s = ok () s'"
      by (auto simp: handle_event_def bind_eq_ok_iff)
    from epoll_read_watched [OF this] assms(2) show ?thesis
      by (auto simp: epoll_ok_def split: if_splits)
  next
    case False
    with assms ReadyIn show ?thesis
      by (auto simp: handle_event_def split: option.splits watch.splits)
  qed
next
  case (ReadyOut fd)
  show ?thesis
  proof (cases "\<exists>data. watched s fd = Some (WaitOut data)")
    case True
    then obtain data where "watched s fd = Some (WaitOut data)" by blast
    with assms(1) ReadyOut have "epoll_write data s = ok go s'" by (simp add: handle_event_def)
    from epoll_write_watched [OF this] assms(2) show ?thesis
      by (auto simp: epoll_ok_def split: if_splits)
  next
    case False
    with assms ReadyOut show ?thesis
      by (auto simp: handle_event_def split: option.splits watch.splits)
  qed
qed (use assms in \<open>auto simp: handle_event_def\<close>)

lemma handle_events_ok: "handle_events prog es s = ok go s' \<Longrightarrow> epoll_ok s \<Longrightarrow> epoll_ok s'"
proof (induction es arbitrary: s)
  case (Cons e es)
  then show ?case by (auto simp: bind_eq_ok_iff dest: handle_event_ok split: if_splits)
qed simp


section \<open>Requests that overlap\<close>

lemma epoll_read_static:
  assumes "watched s fd = Some WaitIn" and "inp (e_net s) fd = request_text m t v ls body"
    and "well_formed m t v ls" and "strcasecmp_eq m ''GET''" and "path_target t"
    and "served_file (e_net s) (root_path @ t) f" "\<not> is_directory f" "\<not> is_executable f"
  shows "handle_event prog (ReadyIn fd True) s = ok True
    (s\<lparr>e_net := say_line (request_line_text m t v @ [LF]) (set_inp fd body (e_net s)),
       watched := (watched s)(fd := Some (WaitOut (request_data (new_data_buf fd) False m (root_path @ t) []
         \<lparr>d_err_num := Some 0\<rparr>)))\<rparr>)"
  using accept_static [of "e_net s" "new_data_buf fd" m t v ls body f prog] assms
  by (simp add: handle_event_def epoll_read_def on_net_def served_file_def new_data_buf_def)

lemma epoll_write_static:
  assumes "watched s fd = Some (WaitOut (request_data (new_data_buf fd) False m p q\<lparr>d_err_num := Some 0\<rparr>))"
    and "\<not> broken (e_net s) fd" and "served_file (e_net s) p f"
  shows "handle_event prog (ReadyOut fd) s = ok True
    (s\<lparr>e_net := close_one fd (add_sent fd (ok_status @ f_data f) (e_net s)),
       watched := (watched s)(fd := None)\<rparr>)"
proof -
  let ?d = "request_data (new_data_buf fd) False m p q\<lparr>d_err_num := Some 0\<rparr>"
  have d: "d_err_num ?d = Some 0" "\<not> d_cgi ?d" "d_path ?d = Some p" "d_fd ?d = fd"
    by (simp_all add: request_data_def new_data_buf_def)
  have "epoll_respond ?d (e_net s) = ok True (add_sent fd (ok_status @ f_data f) (e_net s))"
    using send_response_ok [of "e_net s" ?d p f] assms(2,3) d
    by (simp add: epoll_respond_def field_def stat_def served_file_def)
  then show ?thesis
    using assms(1) d
    by (simp add: handle_event_def epoll_write_def on_net_def epoll_finish_def close_ok)
qed

lemma handle_events_step:
  "handle_event prog e s = ok True s1 \<Longrightarrow> handle_events prog es s1 = r
   \<Longrightarrow> handle_events prog (e # es) s = r"
  by simp

text \<open>
  In the epoll loop two GET requests for files that overlap in the same way are both answered,
  each with its own file, and each connection is closed once.
\<close>

theorem epoll_serves_overlapping_requests:
  assumes ab: "watched s a = Some WaitIn" "watched s b = Some WaitIn" "a \<noteq> b"
    and br: "\<not> broken (e_net s) a" "\<not> broken (e_net s) b"
    and ra: "inp (e_net s) a = request_text m t v ls body" "well_formed m t v ls"
      "strcasecmp_eq m ''GET''" "path_target t"
    and fa: "served_file (e_net s) (root_path @ t) f" "\<not> is_directory f" "\<not> is_executable f"
    and rb: "inp (e_net s) b = request_text m' t' v' ls' body'" "well_formed m' t' v' ls'"
      "strcasecmp_eq m' ''GET''" "path_target t'"
    and fb: "served_file (e_net s) (root_path @ t') f'" "\<not> is_directory f'" "\<not> is_executable f'"
  shows "\<exists>s'. handle_events prog [ReadyIn a True, ReadyIn b True, ReadyOut a, ReadyOut b] s = ok True s'
    \<and> sent (e_net s') a = sent (e_net s) a @ ok_status @ f_data f
    \<and> sent (e_net s') b = sent (e_net s) b @ ok_status @ f_data f'
    \<and> closes (e_net s') = closes (e_net s) @ [a, b] \<and> watched s' a = None \<and> watched s' b = None"
proof -
  let ?d = "\<lambda>fd m t. request_data (new_data_buf fd) False m (root_path @ t) []\<lparr>d_err_num := Some 0\<rparr>"
  let ?s1 = "s\<lparr>e_net := say_line (request_line_text m t v @ [LF]) (set_inp a body (e_net s)),
    watched := (watched s)(a := Some (WaitOut (?d a m t)))\<rparr>"
  let ?s2 = "?s1\<lparr>e_net := say_line (request_line_text m' t' v' @ [LF]) (set_inp b body' (e_net ?s1)),
    watched := (watched ?s1)(b := Some (WaitOut (?d b m' t')))\<rparr>"
  let ?s3 = "?s2\<lparr>e_net := close_one a (add_sent a (ok_status @ f_data f) (e_net ?s2)),
    watched := (watched ?s2)(a := None)\<rparr>"
  let ?s4 = "?s3\<lparr>e_net := close_one b (add_sent b (ok_status @ f_data f') (e_net ?s3)),
    watched := (watched ?s3)(b := None)\<rparr>"
  have 1: "handle_event prog (ReadyIn a True) s = ok True ?s1"
    using ab(1) ra fa by (rule epoll_read_static)
  have 2: "handle_event prog (ReadyIn b True) ?s1 = ok True ?s2"
    using ab rb fb by (intro epoll_read_static) (simp_all add: served_file_def)
  have 3: "handle_event prog (ReadyOut a) ?s2 = ok True ?s3"
    using ab br fa by (intro epoll_write_static) (auto simp: served_file_def)
  have 4: "handle_event prog (ReadyOut b) ?s3 = ok True ?s4"
    using ab br fb by (intro epoll_write_static) (auto simp: served_file_def close_one_def)
  have "handle_events prog [ReadyIn a True, ReadyIn b True, ReadyOut a, ReadyOut b] s = ok True ?s4"
    by (rule handle_events_step [OF 1 handle_events_step [OF 2 handle_events_step [OF 3
      handle_events_step [OF 4]]]]) simp
  then show ?thesis by (rule exI [of _ ?s4, OF conjI]) (use ab in simp)
qed

section \<open>The end of the server\<close>

text \<open>
  A file that disappears between the read and the write event of its request makes
  \<open>epoll_server\<close> return: nothing is sent or closed, and no later event is handled.
\<close>

theorem missing_file_ends_server:
  assumes "watched s fd = Some (WaitOut data)" and "d_err_num data = Some 0" and "\<not> d_cgi data"
    and "d_path data = Some p" and "files (e_net s) p = None"
  shows "\<exists>s'. epoll_server prog 3 0 (Ready (ReadyOut fd # es) # ws) s = ok Returned s'
    \<and> sent (e_net s') = sent (e_net s) \<and> closes (e_net s') = closes (e_net s)
    \<and> watched s' = watched s"
  using assms
  by (simp add: epoll_server_def epoll_turn_def handle_event_def epoll_write_def on_net_def
      epoll_respond_def field_def stat_def print_log_def say_def)

theorem epoll_setup_fails:
  "\<exists>s'. epoll_server prog (-1) ctl ws s = ok (Exited 1) s' \<and> watched s' = watched s"
  by (simp add: epoll_server_def on_net_def print_log_def say_def)

section \<open>Samples\<close>

definition sample_epoll :: epoll where
  "sample_epoll =
     \<lparr>e_net = net two_clients, watched = (\<lambda>fd. if fd = 5 \<or> fd = 6 then Some WaitIn else None)\<rparr>"

lemma sample_epoll_simps [simp]:
  "e_net sample_epoll = net two_clients"
  "watched sample_epoll = (\<lambda>fd. if fd = 5 \<or> fd = 6 then Some WaitIn else None)"
  by (simp_all add: sample_epoll_def)

lemma sample_epoll_file:
  "served_file (e_net sample_epoll) (root_path @ ''/a.txt'') \<lparr>f_mode = 0x81A4, f_data = ''hello'', f_readable = True\<rparr>"
  using a_file by (simp add: served_file_def)

lemma sample_epoll_request:
  "fd = 5 \<or> fd = 6 \<Longrightarrow>
   inp (e_net sample_epoll) fd = request_text ''GET'' ''/a.txt'' ''HTTP/1.0'' [''Host: h''] []"
  by (auto simp: get_a_def)

theorem epoll_serves_overlapping_requests_witness:
  "\<exists>s'. handle_events echo [ReadyIn 5 True, ReadyIn 6 True, ReadyOut 5, ReadyOut 6] sample_epoll = ok True s'
    \<and> sent (e_net s') 5 = ok_status @ ''hello'' \<and> sent (e_net s') 6 = ok_status @ ''hello''"
  using epoll_serves_overlapping_requests [of sample_epoll 5 6, OF _ _ _ _ _
      sample_epoll_request get_a_ok sample_epoll_file modes(1,2)
      sample_epoll_request get_a_ok sample_epoll_file modes(1,2), of echo]
  by auto

definition vanished :: data_buf where
  "vanished = request_data (new_data_buf 5) False ''GET'' (root_path @ ''/b.txt'') []\<lparr>d_err_num := Some 0\<rparr>"

theorem missing_file_ends_server_witness:
  "\<exists>s'. epoll_server echo 3 0 (Ready (ReadyOut 5 # [ReadyIn 6 True]) # [])
      (sample_epoll\<lparr>watched := [5 \<mapsto> WaitOut vanished, 6 \<mapsto> WaitIn]\<rparr>) = ok Returned s'
    \<and> watched s' 6 = Some WaitIn"
  using missing_file_ends_server [of "sample_epoll\<lparr>watched := [5 \<mapsto> WaitOut vanished, 6 \<mapsto> WaitIn]\<rparr>" 5
      vanished "root_path @ ''/b.txt''" echo "[ReadyIn 6 True]" "[]"] sample_file(3)
  by (auto simp: vanished_def request_data_def new_data_buf_def)

lemma silent_loop:
  "\<exists>s'. epoll_loop echo [WaitTimeout, Ready [ReadyOther 5]] sample_epoll = ok True s'"
  by (simp add: epoll_turn_def handle_event_def on_net_def say_def)


theorem epoll_write_like_write_fc_witness:
  "\<exists>w s'. epoll_write (new_data_buf 5\<lparr>d_err_num := Some (-1)\<rparr>) sample_epoll = ok True s'
    \<and> write_fc (Some (new_data_buf 5\<lparr>d_err_num := Some (-1)\<rparr>)) 5 (net two_clients) = ok () w
    \<and> (e_net s')\<lparr>out := []\<rparr> = w\<lparr>out := []\<rparr>"
proof -
  have "\<exists>s'. epoll_write (new_data_buf 5\<lparr>d_err_num := Some (-1)\<rparr>) sample_epoll = ok True s'"
    by (simp add: epoll_write_def on_net_def epoll_respond_def field_def epoll_finish_def close_def)
  then show ?thesis using epoll_write_like_write_fc [of _ sample_epoll _ 5] by fastforce
qed

end
