(* ===== verification/HttpEpollService.thy ===== *)
theory HttpEpollService
  imports HttpEpoll HttpService
begin

text \<open>
  The server on epoll as a service: whatever the kernel reports, in whatever order, and however the
  requests of different clients overlap, it does what a machine does that answers each request by its
  text alone. The answers are those of the judgement \<open>answer\<close> of \<open>HttpService\<close>; what the machine keeps
  for each client is a function of the descriptor, as the loop keeps its data in the event of the
  socket.
\<close>

section \<open>Data that answer\<close>

text \<open>The response to \<open>d\<close> sends \<open>r\<close> to its socket, in every world with the files \<open>fs\<close>.\<close>

definition owes :: "(string \<Rightarrow> fentry option) \<Rightarrow> int \<Rightarrow> string \<Rightarrow> data_buf \<Rightarrow> bool" where
  "owes fs fd r d \<longleftrightarrow> d_fd d = fd \<and>
     (\<forall>w. files w = fs \<longrightarrow> \<not> broken w fd \<longrightarrow>
       (\<exists>w'. epoll_respond d w = ok True w' \<and> sent w' fd = sent w fd @ r
          \<and> insert fd (set (closes w')) = insert fd (set (closes w))))"

lemma owes_fileI:
  assumes "d_fd d = fd" and "d_err_num d = Some 0" and "\<not> d_cgi d" and "d_path d = Some p"
    and "fs p = Some f" and "f_readable f"
  shows "owes fs fd (ok_status @ f_data f) d"
  unfolding owes_def
proof (intro conjI allI impI)
  fix w :: world assume w: "files w = fs" "\<not> broken w fd"
  then have "epoll_respond d w = ok True (add_sent fd (ok_status @ f_data f) w)"
    using send_response_ok [of w d p f] assms by (simp add: epoll_respond_def field_def stat_def served_file_def)
  then show "\<exists>w'. epoll_respond d w = ok True w' \<and> sent w' fd = sent w fd @ ok_status @ f_data f
      \<and> insert fd (set (closes w')) = insert fd (set (closes w))"
    by (intro exI [of _ "add_sent fd (ok_status @ f_data f) w"]) simp
qed (rule assms(1))

lemma owes_programI:
  assumes "d_fd d = fd" and "d_err_num d = Some 0" and "d_cgi d" and "d_buf d = Some t" and "length t < 20480"
  shows "owes fs fd (cstring t) d"
  unfolding owes_def
proof (intro conjI allI impI)
  fix w :: world assume w: "files w = fs" "\<not> broken w fd"
  then have "epoll_respond d w = ok True (add_sent fd (cstring t) w)"
    using assms by (simp add: epoll_respond_def field_def send_buf_def send_ok)
  then show "\<exists>w'. epoll_respond d w = ok True w' \<and> sent w' fd = sent w fd @ cstring t
      \<and> insert fd (set (closes w')) = insert fd (set (closes w))"
    by (intro exI [of _ "add_sent fd (cstring t) w"]) simp
qed (rule assms(1))

lemma owes_errorI:
  assumes "d_fd d = fd" and "d_err_num d = Some err" and "0 < err" and "status_line err = Some t"
    and "fs error_path = Some page" and "f_readable page"
  shows "owes fs fd (t @ f_data page) d"
  unfolding owes_def
proof (intro conjI allI impI)
  fix w :: world assume "files w = fs" "\<not> broken w fd"
  then show "\<exists>w'. epoll_respond d w = ok True w' \<and> sent w' fd = sent w fd @ t @ f_data page
      \<and> insert fd (set (closes w')) = insert fd (set (closes w))"
    using assms
    by (simp add: epoll_respond_def error_response_def bind_def field_def clear_head_spec say_def send_def
        open_read_def stat_def sendfile_def close_file_def close_def)
qed (rule assms(1))

lemma owes_nothingI: "d_fd d = fd \<Longrightarrow> d_err_num d = Some (- 1) \<Longrightarrow> owes fs fd [] d"
  by (auto simp: owes_def epoll_respond_def field_def)

section \<open>Reading a request\<close>

text \<open>A request that has an answer is accepted with data that owe this answer, by its rule.\<close>

lemma request_owed:
  assumes "answer prog fs t r" and "inp w fd = t" and "files w = fs" and "can_fork w"
  shows "\<exists>err d w'. accept_request prog (new_data_buf fd) w = ok (err, d) w' \<and> owes fs fd r (d\<lparr>d_err_num := Some err\<rparr>)"
proof -
  have nd: "d_fd (new_data_buf fd) = fd" by (simp add: new_data_buf_def)
  from assms show ?thesis
  proof (induction rule: answer.induct)
    case silent
    with accept_closed [of w "new_data_buf fd" prog] show ?case
      by (auto simp: nd intro!: exI owes_nothingI)
  next
    case (regular m t v ls f body)
    with accept_static [of w "new_data_buf fd" m t v ls body f prog] show ?case
      by (auto simp: nd request_data_def intro!: exI owes_fileI)
  next
    case (program m t q v ls f r body)
    then have "prog (root_path @ t) (cgi_env m q (env w)) [] = Some r" by blast
    with program accept_query [of w "new_data_buf fd" m t q v ls body f prog r] show ?case
      by (auto simp: nd request_data_def intro!: exI owes_programI)
  next
    case (posted m t v ls1 x ls2 f body r later)
    then have p: "prog (root_path @ t) (cgi_env m [] (env (after_length (x @ [LF]) w))) body = Some r" by blast
    obtain w' where "accept_request prog (new_data_buf fd) w
        = ok (0, request_data (new_data_buf fd) True m (root_path @ t) []
            \<lparr>d_content_length := Some (int (length body)), d_buf := Some r\<rparr>) w'"
      using accept_post [of w "new_data_buf fd" m t v ls1 x ls2 body later f _ prog r,
          OF _ posted.hyps(1-4) _ posted.hyps(6) _ posted.hyps(7) refl p] posted nd by auto
    with posted show ?case by (auto simp: nd request_data_def intro!: exI owes_programI)
  next
    case (missing m t v ls page body)
    then obtain w' where "accept_request prog (new_data_buf fd) w = ok (404, new_data_buf fd\<lparr>d_cgi := False\<rparr>) w'"
      using accept_missing [of w "new_data_buf fd" m t v ls body prog] nd by auto
    moreover have "owes fs fd ((''HTTP/1.1 404 Not Found'' @ [CR, LF, CR, LF]) @ f_data page)
        (new_data_buf fd\<lparr>d_cgi := False, d_err_num := Some 404\<rparr>)"
      using missing by (intro owes_errorI [where err = 404]) (simp_all add: nd status_line_def)
    ultimately show ?case by auto
  next
    case (other_method m t v ls page body)
    moreover have "owes fs fd ((''HTTP/1.1 405 Method Not Allowed'' @ [CR, LF, CR, LF]) @ f_data page)
        (new_data_buf fd\<lparr>d_cgi := False, d_err_num := Some 405\<rparr>)"
      using other_method by (intro owes_errorI [where err = 405]) (simp_all add: nd status_line_def)
    ultimately show ?case
      using accept_other_method [of w "new_data_buf fd" m t v ls body prog] nd by auto
  qed
qed

lemma steady_epoll_respond: "keeps (steady (d_fd d)) (epoll_respond d)"
proof -
  have c: "keeps (steady (d_fd d)) (case st of None \<Rightarrow> bind (print_log x n) (\<lambda>_. return False)
      | Some f \<Rightarrow> bind (send_response d (length (f_data f))) (\<lambda>_. return True))" for st x n
    by (cases st) (auto intro!: keeps_rules)
  show ?thesis unfolding epoll_respond_def by (intro keeps_rules c refl)
qed

section \<open>The abstract machine\<close>

text \<open>
  For each client, the request that has not been read, or the answer that has not been sent, and what
  it has got. Only a client whose descriptor is in use cannot come in; every other event is possible at
  any time. What an event finds that the kernel could not have reported is no event.
\<close>

record clients =
  unread :: "int \<rightharpoonup> string"
  unsent :: "int \<rightharpoonup> string"
  got :: "int \<Rightarrow> string"

definition come_in :: "int \<Rightarrow> string option \<Rightarrow> clients \<Rightarrow> clients" where
  "come_in fd t c = c\<lparr>unread := (unread c)(fd := t), got := (got c)(fd := [])\<rparr>"

definition take_request :: "(string \<Rightarrow> string) \<Rightarrow> int \<Rightarrow> clients \<Rightarrow> clients" where
  "take_request reply fd c =
     (case unread c fd of
        None \<Rightarrow> c
      | Some t \<Rightarrow> c\<lparr>unread := (unread c)(fd := None), unsent := (unsent c)(fd := Some (reply t))\<rparr>)"

definition give_answer :: "int \<Rightarrow> clients \<Rightarrow> clients" where
  "give_answer fd c =
     (case unsent c fd of
        None \<Rightarrow> c
      | Some r \<Rightarrow> c\<lparr>unsent := (unsent c)(fd := None), got := (got c)(fd := got c fd @ r)\<rparr>)"

fun attend :: "(string \<Rightarrow> string) \<Rightarrow> clients \<Rightarrow> ready list \<Rightarrow> clients option" where
  "attend reply c [] = Some c"
| "attend reply c (Incoming None added # es) = attend reply c es"
| "attend reply c (Incoming (Some (fd, t, ip, port)) added # es) =
     (if unread c fd = None \<and> unsent c fd = None
      then attend reply (come_in fd (if added then Some t else None) c) es else None)"
| "attend reply c (ReadyIn fd memory # es) = attend reply (if memory then take_request reply fd c else c) es"
| "attend reply c (ReadyOut fd # es) = attend reply (give_answer fd c) es"
| "attend reply c (ReadyOther fd # es) = attend reply c es"

fun brought :: "ready list \<Rightarrow> string set" where
  "brought [] = {}"
| "brought (Incoming (Some (fd, t, ip, port)) added # es) = insert t (brought es)"
| "brought (e # es) = brought es"

text \<open>What epoll watches a socket for says which of the two the server has of a client.\<close>

definition watch_of :: "(string \<Rightarrow> fentry option) \<Rightarrow> epoll \<Rightarrow> int \<Rightarrow> string option \<Rightarrow> string option \<Rightarrow> bool" where
  "watch_of fs s fd request reply \<longleftrightarrow>
     (case watched s fd of
        None \<Rightarrow> request = None \<and> reply = None
      | Some WaitIn \<Rightarrow> request = Some (inp (e_net s) fd) \<and> reply = None
      | Some (WaitOut d) \<Rightarrow> request = None \<and> (\<exists>r. reply = Some r \<and> owes fs fd r d))"

definition attends :: "(string \<Rightarrow> fentry option) \<Rightarrow> epoll \<Rightarrow> clients \<Rightarrow> bool" where
  "attends fs s c \<longleftrightarrow> (\<forall>fd. watch_of fs s fd (unread c fd) (unsent c fd)) \<and> sent (e_net s) = got c
     \<and> files (e_net s) = fs \<and> can_fork (e_net s) \<and> (\<forall>fd. \<not> broken (e_net s) fd)"

lemma watch_of_dest:
  "watch_of fs s fd None None \<Longrightarrow> watched s fd = None"
  "watch_of fs s fd (Some t) b \<Longrightarrow> watched s fd = Some WaitIn \<and> inp (e_net s) fd = t \<and> b = None"
  "watch_of fs s fd a (Some r) \<Longrightarrow> \<exists>d. watched s fd = Some (WaitOut d) \<and> owes fs fd r d \<and> a = None"
  by (auto simp: watch_of_def split: option.splits watch.splits)

lemma attendsD:
  "attends fs s c \<Longrightarrow> watch_of fs s fd (unread c fd) (unsent c fd)"
  by (simp add: attends_def)

lemma watch_of_cong:
  "watched s' fd = watched s fd \<Longrightarrow> inp (e_net s') fd = inp (e_net s) fd
   \<Longrightarrow> watch_of fs s' fd a b = watch_of fs s fd a b"
  by (simp add: watch_of_def split: option.splits watch.splits)

text \<open>A change of the world that concerns one client, and of its watch.\<close>

lemma attends_update:
  assumes "attends fs s c" and "steady fd (e_net s) w"
    and "watch_of fs (s\<lparr>e_net := w, watched := (watched s)(fd := x)\<rparr>) fd request reply"
    and "sent w fd = g"
  shows "attends fs (s\<lparr>e_net := w, watched := (watched s)(fd := x)\<rparr>)
    (c\<lparr>unread := (unread c)(fd := request), unsent := (unsent c)(fd := reply), got := (got c)(fd := g)\<rparr>)"
  unfolding attends_def
proof (intro conjI allI)
  fix y
  let ?s = "s\<lparr>e_net := w, watched := (watched s)(fd := x)\<rparr>"
  let ?c = "c\<lparr>unread := (unread c)(fd := request), unsent := (unsent c)(fd := reply), got := (got c)(fd := g)\<rparr>"
  show "watch_of fs ?s y (unread ?c y) (unsent ?c y)"
  proof (cases "y = fd")
    case True
    then show ?thesis using assms(3) by simp
  next
    case False
    then have "watch_of fs ?s y (unread c y) (unsent c y) = watch_of fs s y (unread c y) (unsent c y)"
      using assms(2) by (intro watch_of_cong) (simp_all add: steady_def)
    with False assms(1) show ?thesis by (simp add: attends_def)
  qed
qed (use assms in \<open>auto simp: attends_def steady_def fun_eq_iff\<close>)

lemma steady_closes_out: "steady fd w (w\<lparr>out := x\<rparr>)" "steady fd w (w\<lparr>closes := y\<rparr>)"
  by (simp_all add: steady_def)

section \<open>Each event\<close>

lemma attend_read:
  assumes "attends fs s c" and "unread c fd = Some t" and "answer prog fs t (reply t)"
  shows "\<exists>s'. handle_event prog (ReadyIn fd True) s = ok True s' \<and> attends fs s' (take_request reply fd c)"
proof -
  have wt: "watched s fd = Some WaitIn" "inp (e_net s) fd = t" "unsent c fd = None"
    using watch_of_dest(2) [of fs s fd t "unsent c fd"] attendsD [OF assms(1), of fd] assms(2) by simp_all
  obtain err d w where a: "accept_request prog (new_data_buf fd) (e_net s) = ok (err, d) w"
    and o: "owes fs fd (reply t) (d\<lparr>d_err_num := Some err\<rparr>)"
    using request_owed [OF assms(3) wt(2)] assms(1) by (auto simp: attends_def)
  let ?s = "s\<lparr>e_net := w, watched := (watched s)(fd := Some (WaitOut (d\<lparr>d_err_num := Some err\<rparr>)))\<rparr>"
  have h: "handle_event prog (ReadyIn fd True) s = ok True ?s"
    using wt(1) a by (simp add: handle_event_def epoll_read_def on_net_ok)
  have "quiet fd (e_net s) w"
    using quiet_accept_request [of "new_data_buf fd" prog] a by (simp add: keeps_def new_data_buf_def)
  then have st: "steady fd (e_net s) w" and sent: "sent w fd = got c fd"
    using assms(1) by (auto simp: quiet_def steady_def attends_def)
  have "attends fs ?s (c\<lparr>unread := (unread c)(fd := None), unsent := (unsent c)(fd := Some (reply t)),
      got := (got c)(fd := got c fd)\<rparr>)"
    by (rule attends_update [OF assms(1) st _ sent]) (simp add: watch_of_def o)
  with h assms(2) show ?thesis by (auto simp: take_request_def)
qed

lemma epoll_finish_run:
  "\<exists>w'. epoll_finish d closed w = ok () w' \<and> steady (d_fd d) w w' \<and> sent w' = sent w \<and> d_fd d \<in> set (closes w')"
proof -
  let ?w = "close_one (d_fd d) (if closes w = closed then w else w\<lparr>out := out w @ [ErrorAt ''epoll_server'' 509]\<rparr>)"
  have "epoll_finish d closed w = ok () ?w"
    by (simp add: epoll_finish_def print_log_def say_def close_ok)
  then show ?thesis by (intro exI [of _ ?w]) (simp add: steady_def close_one_def)
qed

lemma attend_write:
  assumes "attends fs s c" and "unsent c fd = Some r"
  shows "\<exists>s'. handle_event prog (ReadyOut fd) s = ok True s' \<and> attends fs s' (give_answer fd c)
    \<and> fd \<in> set (closes (e_net s'))"
proof -
  obtain d where wt: "watched s fd = Some (WaitOut d)" and o: "owes fs fd r d" and un: "unread c fd = None"
    using watch_of_dest(3) [of fs s fd "unread c fd" r] attendsD [OF assms(1), of fd] assms(2) by auto
  have fd: "d_fd d = fd" using o by (simp add: owes_def)
  obtain w where w: "epoll_respond d (e_net s) = ok True w" "sent w fd = got c fd @ r"
    using o assms(1) by (auto simp: owes_def attends_def)
  then have st: "steady fd (e_net s) w"
    using steady_epoll_respond [of d] fd by (auto simp: keeps_def)
  obtain w' where w': "epoll_finish d (closes (e_net s)) w = ok () w'" "steady fd w w'" "sent w' fd = sent w fd"
      "fd \<in> set (closes w')"
    using epoll_finish_run [of d "closes (e_net s)" w] fd by auto
  let ?s = "s\<lparr>e_net := w', watched := (watched s)(fd := None)\<rparr>"
  have h: "handle_event prog (ReadyOut fd) s = ok True ?s"
    using wt w(1) w'(1) fd by (simp add: handle_event_def epoll_write_def on_net_def)
  have "attends fs ?s (c\<lparr>unread := (unread c)(fd := None), unsent := (unsent c)(fd := None),
      got := (got c)(fd := got c fd @ r)\<rparr>)"
    by (rule attends_update [OF assms(1) steady.frame_trans [OF st w'(2)]]) (simp_all add: watch_of_def w'(3) w(2))
  moreover have "(unread c)(fd := None) = unread c" using un by auto
  ultimately show ?thesis using h assms(2) w'(4) by (auto simp: give_answer_def)
qed

lemma on_net_simps:
  "on_net (\<lambda>w. ok () (f w)) s = ok () (s\<lparr>e_net := f (e_net s)\<rparr>)"
  "on_net (say m) s = ok () (s\<lparr>e_net := (e_net s)\<lparr>out := out (e_net s) @ [m]\<rparr>\<rparr>)"
  "on_net (print_log x n) s = ok () (s\<lparr>e_net := (e_net s)\<lparr>out := out (e_net s) @ [ErrorAt x n]\<rparr>\<rparr>)"
  "on_net (close fd) s = ok () (s\<lparr>e_net := close_one fd (e_net s)\<rparr>)"
  by (simp_all add: on_net_def say_def print_log_def close_ok)

lemma epoll_accept_run:
  "\<exists>w. epoll_accept (Some (fd, t, ip, port)) added s =
      ok () (s\<lparr>e_net := w, watched := (watched s)(fd := if added then Some WaitIn else None)\<rparr>)
    \<and> steady fd (e_net s) w \<and> inp w fd = t \<and> sent w fd = []"
proof -
  let ?m = "Text (''get a request from client...[ip]:'' @ ip @ ''  [port]:'' @ show_int port @ [LF])"
  let ?w1 = "(e_net s)\<lparr>inp := (inp (e_net s))(fd := t), sent := (sent (e_net s))(fd := [])\<rparr>"
  let ?w2 = "?w1\<lparr>out := out ?w1 @ [?m]\<rparr>"
  let ?w3 = "close_one fd (?w2\<lparr>out := out ?w2 @ [ErrorAt ''epoll_server'' 461]\<rparr>)"
  let ?w = "if added then ?w2 else ?w3"
  have "epoll_accept (Some (fd, t, ip, port)) added s =
      ok () (s\<lparr>e_net := ?w, watched := (watched s)(fd := if added then Some WaitIn else None)\<rparr>)"
    by (cases added) (simp_all add: epoll_accept_def on_net_simps)
  moreover have "steady fd (e_net s) ?w" "inp ?w fd = t" "sent ?w fd = []"
    by (simp_all add: steady_def close_one_def)
  ultimately show ?thesis by blast
qed

lemma attend_accept:
  assumes "attends fs s c" and "unread c fd = None" and "unsent c fd = None"
  shows "\<exists>s'. handle_event prog (Incoming (Some (fd, t, ip, port)) added) s = ok True s'
    \<and> attends fs s' (come_in fd (if added then Some t else None) c)"
proof -
  obtain w where w: "epoll_accept (Some (fd, t, ip, port)) added s =
      ok () (s\<lparr>e_net := w, watched := (watched s)(fd := if added then Some WaitIn else None)\<rparr>)"
    "steady fd (e_net s) w" "inp w fd = t" "sent w fd = []"
    using epoll_accept_run by blast
  have "attends fs (s\<lparr>e_net := w, watched := (watched s)(fd := if added then Some WaitIn else None)\<rparr>)
    (c\<lparr>unread := (unread c)(fd := if added then Some t else None), unsent := (unsent c)(fd := None), got := (got c)(fd := [])\<rparr>)"
    by (rule attends_update [OF assms(1) w(2)]) (simp_all add: watch_of_def w(3,4))
  moreover have "(unsent c)(fd := None) = unsent c" using assms(3) by auto
  ultimately show ?thesis using w(1) by (auto simp: handle_event_def come_in_def)
qed

lemma attend_nothing:
  assumes "attends fs s c"
  shows "unread c fd = None \<Longrightarrow> handle_event prog (ReadyIn fd memory) s = ok True s"
    and "unsent c fd = None \<Longrightarrow> handle_event prog (ReadyOut fd) s = ok True s"
    and "\<exists>s'. handle_event prog (ReadyIn fd False) s = ok True s' \<and> attends fs s' c"
    and "\<exists>s'. handle_event prog (Incoming None added) s = ok True s' \<and> attends fs s' c"
proof -
  note w = attendsD [OF assms, of fd]
  show "unread c fd = None \<Longrightarrow> handle_event prog (ReadyIn fd memory) s = ok True s"
    and "unsent c fd = None \<Longrightarrow> handle_event prog (ReadyOut fd) s = ok True s"
    using w by (auto simp: handle_event_def watch_of_def split: option.splits watch.splits)
  have log: "attends fs (s\<lparr>e_net := (e_net s)\<lparr>out := x\<rparr>\<rparr>) c" for x
  proof -
    have "watch_of fs (s\<lparr>e_net := (e_net s)\<lparr>out := x\<rparr>\<rparr>) y a b = watch_of fs s y a b" for y a b
      by (rule watch_of_cong) simp_all
    then show ?thesis using assms by (simp add: attends_def)
  qed
  then show "\<exists>s'. handle_event prog (ReadyIn fd False) s = ok True s' \<and> attends fs s' c"
    using assms by (auto simp: handle_event_def epoll_read_def on_net_simps split: option.splits watch.splits)
  show "\<exists>s'. handle_event prog (Incoming None added) s = ok True s' \<and> attends fs s' c"
    using log by (auto simp: handle_event_def epoll_accept_def on_net_simps)
qed

section \<open>Any run\<close>

lemma handle_events_next:
  "handle_event prog e s = ok True s1 \<Longrightarrow> handle_events prog (e # es) s = handle_events prog es s1"
  by simp

lemma brought_Cons: "brought es \<subseteq> brought (e # es)"
  by (cases "(e # es)" rule: brought.cases) auto

theorem attended:
  assumes "attends fs s c" and "attend reply c es = Some c'"
    and "\<forall>t \<in> brought es \<union> ran (unread c). answer prog fs t (reply t)"
  shows "\<exists>s'. handle_events prog es s = ok True s' \<and> attends fs s' c'"
  using assms
proof (induction reply c es arbitrary: s rule: attend.induct)
  case (1 reply c)
  then show ?case by simp
next
  case (2 reply c added es)
  obtain s1 where s1: "handle_event prog (Incoming None added) s = ok True s1" "attends fs s1 c"
    using attend_nothing(4) [OF 2(2)] by blast
  from 2(1) [OF s1(2)] 2(3,4) show ?case unfolding handle_events_next [OF s1(1)] by simp
next
  case (3 reply c fd t ip port added es)
  then have free: "unread c fd = None" "unsent c fd = None" by (simp_all split: if_splits)
  obtain s1 where s1: "handle_event prog (Incoming (Some (fd, t, ip, port)) added) s = ok True s1"
      "attends fs s1 (come_in fd (if added then Some t else None) c)"
    using attend_accept [OF 3(2) free] by blast
  have "ran (unread (come_in fd (if added then Some t else None) c)) \<subseteq> insert t (ran (unread c))"
    by (auto simp: come_in_def ran_def split: if_splits)
  with 3(1) [OF conjI [OF free] s1(2)] 3(3,4) free show ?case
    unfolding handle_events_next [OF s1(1)] by auto
next
  case (4 reply c fd memory es)
  show ?case
  proof (cases "memory \<and> unread c fd \<noteq> None")
    case True
    then obtain t where m: "memory" and t: "unread c fd = Some t" by blast
    then have "t \<in> ran (unread c)" by (auto simp: ran_def)
    then have "answer prog fs t (reply t)" using 4(4) by blast
    from attend_read [where reply = reply, OF 4(2) t this] obtain s1 where
      s1: "handle_event prog (ReadyIn fd memory) s = ok True s1" "attends fs s1 (take_request reply fd c)"
      using m by auto
    have "ran (unread (take_request reply fd c)) \<subseteq> ran (unread c)"
      using t by (auto simp: take_request_def ran_def split: if_splits)
    with 4(1) [of s1] s1(2) m 4(3,4) show ?thesis unfolding handle_events_next [OF s1(1)] by auto
  next
    case False
    then have c: "(if memory then take_request reply fd c else c) = c" by (auto simp: take_request_def)
    obtain s1 where s1: "handle_event prog (ReadyIn fd memory) s = ok True s1" "attends fs s1 c"
    proof (cases memory)
      case True
      with False attend_nothing(1) [OF 4(2)] 4(2) that show ?thesis by blast
    next
      case m: False
      from attend_nothing(3) [where prog = prog and fd = fd, OF 4(2)] m that show ?thesis by auto
    qed
    from 4(1) [unfolded c, OF s1(2)] 4(3,4) show ?thesis unfolding handle_events_next [OF s1(1)] by (simp add: c)
  qed
next
  case (5 reply c fd es)
  have c: "unread (give_answer fd c) = unread c" by (simp add: give_answer_def split: option.splits)
  obtain s1 where s1: "handle_event prog (ReadyOut fd) s = ok True s1" "attends fs s1 (give_answer fd c)"
  proof (cases "unsent c fd")
    case None
    with attend_nothing(2) [OF 5(2)] 5(2) that show ?thesis by (simp add: give_answer_def)
  next
    case (Some r)
    from attend_write [OF 5(2) Some] that show ?thesis by blast
  qed
  from 5(1) [OF s1(2)] 5(3,4) c show ?case unfolding handle_events_next [OF s1(1)] by simp
next
  case (6 reply c fd es)
  have s1: "handle_event prog (ReadyOther fd) s = ok True s" by (simp add: handle_event_def)
  from 6(1) [OF 6(2)] 6(3,4) show ?case unfolding handle_events_next [OF s1] by simp
qed

section \<open>The loop\<close>

text \<open>What \<open>epoll_wait\<close> has reported in a number of turns; a turn may also time out or fail.\<close>

fun reported :: "wait list \<Rightarrow> ready list" where
  "reported [] = []"
| "reported (Ready es # ws) = es @ reported ws"
| "reported (w # ws) = reported ws"

lemma attend_append:
  "attend reply c (es @ es') = (case attend reply c es of None \<Rightarrow> None | Some c1 \<Rightarrow> attend reply c1 es')"
  by (induction reply c es rule: attend.induct) simp_all

lemma ran_updates:
  "ran (unread (come_in fd t c)) \<subseteq> ran (unread c) \<union> set_option t"
  "ran (unread (take_request reply fd c)) \<subseteq> ran (unread c)"
  "ran (unread (give_answer fd c)) \<subseteq> ran (unread c)"
  by (auto simp: come_in_def take_request_def give_answer_def ran_def split: option.splits if_splits)

lemma attend_unread: "attend reply c es = Some c' \<Longrightarrow> ran (unread c') \<subseteq> brought es \<union> ran (unread c)"
proof (induction reply c es rule: attend.induct)
  case (3 reply c fd t ip port added es)
  then have "ran (unread c') \<subseteq> brought es \<union> ran (unread (come_in fd (if added then Some t else None) c))"
    by (simp split: if_splits)
  with ran_updates(1) [of fd "if added then Some t else None" c] show ?case by (auto split: if_splits)
next
  case (4 reply c fd memory es)
  then show ?case using ran_updates(2) [of reply fd c] by (cases memory) auto
next
  case (5 reply c fd es)
  then show ?case using ran_updates(3) [of fd c] by auto
qed simp_all

lemma brought_append: "brought (es @ es') = brought es \<union> brought es'"
  by (induction es rule: brought.induct) auto

lemma attends_out: "attends fs s c \<Longrightarrow> attends fs (s\<lparr>e_net := (e_net s)\<lparr>out := x\<rparr>\<rparr>) c"
  using watch_of_cong [of "s\<lparr>e_net := (e_net s)\<lparr>out := x\<rparr>\<rparr>" _ s] by (simp add: attends_def)

theorem attended_loop:
  assumes "attends fs s c" and "attend reply c (reported ws) = Some c'"
    and "\<forall>t \<in> brought (reported ws) \<union> ran (unread c). answer prog fs t (reply t)"
  shows "\<exists>s'. epoll_loop prog ws s = ok True s' \<and> attends fs s' c'"
  using assms
proof (induction ws arbitrary: s c)
  case Nil
  then show ?case by simp
next
  case (Cons turn ws)
  have quiet_turn: "\<exists>s1. epoll_turn prog turn s = ok True s1 \<and> attends fs s1 c" if "turn = WaitFails \<or> turn = WaitTimeout"
    using that attends_out [OF Cons.prems(1)] by (auto simp: epoll_turn_def on_net_simps)
  show ?case
  proof (cases turn)
    case (Ready es)
    with Cons.prems(2) obtain c1 where c1: "attend reply c es = Some c1" "attend reply c1 (reported ws) = Some c'"
      by (auto simp: attend_append split: option.splits)
    from Cons.prems(3) Ready have a: "\<forall>t \<in> brought es \<union> ran (unread c). answer prog fs t (reply t)"
      by (auto simp: brought_append)
    from attended [OF Cons.prems(1) c1(1) this] obtain s1 where
      s1: "handle_events prog es s = ok True s1" "attends fs s1 c1" by blast
    have "\<forall>t \<in> brought (reported ws) \<union> ran (unread c1). answer prog fs t (reply t)"
      using a attend_unread [OF c1(1)] Cons.prems(3) Ready by (auto simp: brought_append)
    from Cons.IH [OF s1(2) c1(2) this] s1(1) Ready show ?thesis by (simp add: epoll_turn_def)
  next
    case WaitFails
    with quiet_turn obtain s1 where "epoll_turn prog turn s = ok True s1" "attends fs s1 c" by blast
    with Cons.IH [of s1 c] Cons.prems(2,3) WaitFails show ?thesis by simp
  next
    case WaitTimeout
    with quiet_turn obtain s1 where "epoll_turn prog turn s = ok True s1" "attends fs s1 c" by blast
    with Cons.IH [of s1 c] Cons.prems(2,3) WaitTimeout show ?thesis by simp
  qed
qed

definition nobody :: "world \<Rightarrow> clients" where
  "nobody w = \<lparr>unread = Map.empty, unsent = Map.empty, got = sent w\<rparr>"

text \<open>
  C4: the server on epoll keeps running and refines the abstract machine attend through any
  number of turns, for every sequence of reports of the kernel in which a new connection has a
  descriptor that is free: however the requests of different clients overlap, whichever calls
  fail to get memory and whichever turns time out, each client whose answer was sent has got
  exactly the answer to its own request, and no other socket is watched than those of clients
  that still wait.
\<close>

theorem epoll_answers_requests:
  assumes "0 \<le> epoll_fd" and "0 \<le> ctl" and "can_fork w" and "\<forall>fd. \<not> broken w fd"
    and "\<forall>t \<in> brought (reported ws). answer prog (files w) t (reply t)"
    and "attend reply (nobody w) (reported ws) = Some c"
  shows "\<exists>s'. epoll_server prog epoll_fd ctl ws \<lparr>e_net = w, watched = (\<lambda>_. None)\<rparr> = ok Running s'
    \<and> sent (e_net s') = got c
    \<and> (\<forall>fd. watched s' fd = None \<longleftrightarrow> unread c fd = None \<and> unsent c fd = None)"
proof -
  let ?s = "\<lparr>e_net = w, watched = (\<lambda>_. None)\<rparr>"
  have "attends (files w) ?s (nobody w)"
    using assms(3,4) by (simp add: attends_def watch_of_def nobody_def)
  moreover have "\<forall>t \<in> brought (reported ws) \<union> ran (unread (nobody w)). answer prog (files w) t (reply t)"
    using assms(5) by (simp add: nobody_def)
  ultimately obtain s' where s': "epoll_loop prog ws ?s = ok True s'" "attends (files w) s' c"
    using attended_loop [OF _ assms(6)] by blast
  have "watched s' fd = None \<longleftrightarrow> unread c fd = None \<and> unsent c fd = None" for fd
    using attendsD [OF s'(2), of fd] by (auto simp: watch_of_def split: option.splits watch.splits)
  with s' assms(1,2) show ?thesis by (auto simp: epoll_server_def attends_def)
qed

text \<open>
  Two requests that overlap, one for a file and one for a program, with a turn that times out between
  them; a third client, whose socket cannot be added, gets nothing.
\<close>

definition sample_turns :: "wait list" where
  "sample_turns = [Ready [Incoming (Some (5, get_a, ''127.0.0.1'', 4000)) True], WaitTimeout,
     Ready [ReadyIn 5 True, Incoming (Some (6, get_cgi, ''127.0.0.1'', 4001)) True], WaitFails,
     Ready [ReadyIn 6 True, ReadyOut 6, Incoming (Some (7, put_a, ''127.0.0.1'', 4002)) False, ReadyOut 5]]"

lemma epoll_answers_requests_witness:
  "\<exists>s'. epoll_server echo 3 0 sample_turns \<lparr>e_net = sample_world [], watched = (\<lambda>_. None)\<rparr> = ok Running s'
    \<and> sent (e_net s') 5 = ok_status @ ''hello'' \<and> sent (e_net s') 6 = ''page:'' \<and> sent (e_net s') 7 = []"
proof -
  let ?c = "\<lparr>unread = Map.empty, unsent = Map.empty,
    got = (\<lambda>_. [])(6 := sample_reply get_cgi, 5 := sample_reply get_a)\<rparr>"
  have a: "\<forall>t \<in> brought (reported sample_turns). answer echo (files (sample_world [])) t (sample_reply t)"
    using get_a_answer get_cgi_answer put_a_answer sample_requests_differ
    by (simp add: sample_turns_def sample_reply_def)
  have r: "attend sample_reply (nobody (sample_world [])) (reported sample_turns) = Some ?c"
    by (simp add: sample_turns_def nobody_def come_in_def take_request_def give_answer_def fun_eq_iff)
  have e: "0 \<le> (3::int)" "0 \<le> (0::int)" "can_fork (sample_world [])" "\<forall>fd. \<not> broken (sample_world []) fd" by simp_all
  from epoll_answers_requests [OF e a r] obtain s' where
    "epoll_server echo 3 0 sample_turns \<lparr>e_net = sample_world [], watched = (\<lambda>_. None)\<rparr> = ok Running s'"
    "sent (e_net s') = got ?c" by blast
  moreover have "sample_reply get_a = ok_status @ ''hello''" "sample_reply get_cgi = ''page:''"
    using sample_requests_differ by (simp_all only: sample_reply_def if_True if_False refl)
  ultimately show ?thesis by (intro exI [of _ s']) simp
qed

end
