(* ===== verification/DbCgi.thy ===== *)
theory DbCgi
  imports CBase "HOL-Library.Word"
begin

text \<open>
  The CGI program for the database, \<open>main_mysql.cpp\<close> with the class \<open>server_database\<close> of \<open>my_sql.h\<close>
  and \<open>my_sql.cpp\<close>. The MySQL client library is not in the repository: its functions are a parameter,
  as a record of operations on the state \<open>'d\<close> of the connection and the database behind it.
\<close>

abbreviation TAB :: char where
  "TAB \<equiv> CHR 0x09"

abbreviation QUOTE :: char where
  "QUOTE \<equiv> CHR 0x22"

abbreviation APOSTROPHE :: char where
  "APOSTROPHE \<equiv> CHR 0x27"

section \<open>The client library\<close>

text \<open>A result set: the names of its columns and its rows, in which a value may be NULL.\<close>

record result_set =
  r_fields :: "string list"
  r_rows :: "string option list list"

text \<open>
  \<open>m_connect\<close> is \<open>mysql_real_connect\<close> with the host, the user, the password, the database and the port;
  it and \<open>m_query\<close> (\<open>mysql_query\<close>) say whether they succeeded. \<open>m_store\<close> is \<open>mysql_store_result\<close>, and
  \<open>m_affected\<close> is \<open>mysql_affected_rows\<close>, a number of 64 bits.
\<close>

record 'd client =
  m_connect :: "string \<Rightarrow> string \<Rightarrow> string \<Rightarrow> string \<Rightarrow> nat \<Rightarrow> 'd \<Rightarrow> bool \<times> 'd"
  m_query :: "string \<Rightarrow> 'd \<Rightarrow> bool \<times> 'd"
  m_store :: "'d \<Rightarrow> result_set option \<times> 'd"
  m_affected :: "'d \<Rightarrow> 64 word"

section \<open>The state\<close>

text \<open>
  What goes to standard output: text that \<open>printf\<close> puts in the buffer of \<open>stdout\<close>, and bytes that
  \<open>sendfile\<close> writes to the descriptor at once.
\<close>

datatype chunk = Printed string | Sent string

text \<open>
  An object of \<open>server_database\<close> and its process. \<open>s_init\<close> tells whether \<open>_mysql\<close> has been
  initialised, \<open>s_res\<close> whether \<open>_res\<close> points to a result, \<open>s_results\<close> how many results are allocated;
  \<open>s_picture\<close> is the content of the picture of the error pages, if it can be opened.
\<close>

record 'd session =
  s_op :: string
  s_name :: string
  s_sex :: string
  s_age :: string
  s_school :: string
  s_init :: bool
  s_res :: bool
  s_results :: nat
  s_db :: 'd
  s_out :: "chunk list"
  s_picture :: "string option"

definition print :: "string \<Rightarrow> ('d session, unit) c" where
  "print t s = ok () (s\<lparr>s_out := s_out s @ [Printed t]\<rparr>)"

definition send_picture :: "('d session, unit) c" where
  "send_picture s =
     ok () (case s_picture s of None \<Rightarrow> s | Some t \<Rightarrow> s\<lparr>s_out := s_out s @ [Sent t]\<rparr>)"

section \<open>Connecting and asking\<close>

definition Connect_database :: "'d client \<Rightarrow> ('d session, int) c" where
  "Connect_database lib s =
     (let (success, d) = m_connect lib ''127.0.0.1'' ''root'' [] ''HTTP_server'' 3306 (s_db s)
      in ok (if success then 0 else - 1) (s\<lparr>s_init := True, s_db := d\<rparr>))"

definition op_fun :: "'d client \<Rightarrow> string \<Rightarrow> ('d session, int) c" where
  "op_fun lib op_query s =
     (let (success, d) = m_query lib op_query (s_db s) in ok (if success then 0 else 1) (s\<lparr>s_db := d\<rparr>))"

definition store_result :: "'d client \<Rightarrow> ('d session, result_set option) c" where
  "store_result lib s =
     (let (r, d) = m_store lib (s_db s)
      in ok r (s\<lparr>s_db := d, s_res := (r \<noteq> None),
                 s_results := s_results s + (if r = None then 0 else 1)\<rparr>))"

section \<open>Error pages\<close>

definition name_message :: "string \<Rightarrow> string" where
  "name_message arg =
     (if arg = ''op'' then ''Operation can not be NULL, please return back to input again......'' @ [LF]
      else if arg = ''name'' then ''Name can not be NULL, please return back to input again......'' @ [LF]
      else if arg = ''sex'' then ''Sex can not be NULL, please return back to input again......'' @ [LF]
      else if arg = ''age'' then ''Age can not be NULL, please return back to input again......'' @ [LF]
      else if arg = ''school'' then ''School can not be NULL, please return back to input again......'' @ [LF]
      else [])"

definition server_message :: "string \<Rightarrow> string" where
  "server_message arg =
     (if arg = ''op error'' then ''Operation error, please return back to choose again......'' @ [LF]
      else if arg = ''select error''
      then ''server select information error, please return back to try again......'' @ [LF]
      else if arg = ''insert error''
      then ''server insert information error, please return back to try again......'' @ [LF]
      else if arg = ''delete error''
      then ''server delete information error, please return back to try again......'' @ [LF]
      else if arg = ''connect error''
      then ''server connect databases error, please return back to try again......'' @ [LF]
      else [])"

definition page_begin :: "string \<Rightarrow> string \<Rightarrow> string" where
  "page_begin status title =
     status @ [CR, LF, CR, LF] @ ''<html>'' @ [LF] @ ''<head>'' @ [LF] @ title @ [LF] @ ''</head>'' @ [LF]
     @ ''<body>'' @ [LF]"

definition page_end :: string where
  "page_end = ''</body>'' @ [LF] @ ''</html>'' @ [LF]"

definition Error :: "string \<Rightarrow> ('d session, unit) c" where
  "Error arg =
     (if length arg < 7 then
        bind (print (page_begin ''HTTP/1.1 400 Bad Request'' ''ERROR INFORMATION!'')) (\<lambda>_.
        bind (print (name_message arg)) (\<lambda>_.
        bind send_picture (\<lambda>_.
        print page_end)))
      else
        bind (print (page_begin ''HTTP/1.1 500 Internal Server Error'' ''SERVER ERROR!'')) (\<lambda>_.
        bind (print (server_message arg)) (\<lambda>_.
        bind send_picture (\<lambda>_.
        print page_end))))"

section \<open>The queries\<close>

definition sex_letter :: "string \<Rightarrow> string" where
  "sex_letter sex = (if sex ! 0 = CHR ''l'' then ''F'' else ''M'')"

text \<open>
  The conditions of \<open>Select\<close> and \<open>Delete\<close>, which append to a query in the same way, and whether there
  is one (\<open>flag\<close>).
\<close>

definition name_condition :: "string \<Rightarrow> string \<times> bool \<Rightarrow> string \<times> bool" where
  "name_condition name = (\<lambda>(q, flag).
     if name \<noteq> [] then (q @ '' where Name='' @ [QUOTE] @ name @ [QUOTE], True) else (q, flag))"

definition sex_condition :: "string \<Rightarrow> string \<times> bool \<Rightarrow> string \<times> bool" where
  "sex_condition sex = (\<lambda>(q, flag).
     if sex \<noteq> [] then
       (q @ (if \<not> flag then '' where Sex='' else '' and Sex='') @ [APOSTROPHE] @ sex_letter sex
          @ [APOSTROPHE], True)
     else (q, flag))"

definition age_condition :: "string \<Rightarrow> string \<times> bool \<Rightarrow> string \<times> bool" where
  "age_condition age = (\<lambda>(q, flag).
     if age \<noteq> [] then (q @ (if \<not> flag then '' where Age='' else '' and Age='') @ age, True) else (q, flag))"

definition school_condition :: "string \<Rightarrow> string \<times> bool \<Rightarrow> string \<times> bool" where
  "school_condition school = (\<lambda>(q, flag).
     if school \<noteq> [] then
       (q @ (if \<not> flag then '' where School='' else '' and School='') @ [QUOTE] @ school @ [QUOTE], True)
     else (q, flag))"

definition conditions :: "'d session \<Rightarrow> string \<Rightarrow> string \<times> bool" where
  "conditions s q =
     school_condition (s_school s) (age_condition (s_age s) (sex_condition (s_sex s)
       (name_condition (s_name s) (q, False))))"

definition select_query :: "'d session \<Rightarrow> string" where
  "select_query s = fst (conditions s ''select * from Person'')"

definition delete_query :: "'d session \<Rightarrow> string" where
  "delete_query s =
     (let (q, flag) = conditions s ''delete from Person'' in if \<not> flag then ''delete * from Person'' else q)"

definition insert_query :: "'d session \<Rightarrow> string" where
  "insert_query s =
     ''insert into Person (Name, Sex, Age, School, Registration_time) values ('' @ [QUOTE] @ s_name s
     @ [QUOTE] @ '', '' @ [APOSTROPHE] @ sex_letter (s_sex s) @ [APOSTROPHE] @ '', '' @ s_age s @ '', ''
     @ [QUOTE] @ s_school s @ [QUOTE] @ '', NOW())''"

section \<open>The operations\<close>

text \<open>
  \<open>Select\<close> copies the names of the columns to an array of 1024 names of 1024 bytes. A value that is
  NULL is printed as \<open>(null)\<close>, which is what the C library does with a null pointer. The number of
  rows has 64 bits but is printed as an \<open>int\<close>, for which \<open>printf\<close> takes the low 32.
\<close>

definition print_row :: "nat \<Rightarrow> string option list \<Rightarrow> string" where
  "print_row j column =
     concat (map (\<lambda>i. (case column ! i of Some v \<Rightarrow> v | None \<Rightarrow> ''(null)'') @ [TAB]) [0..<j])
     @ ''<br/>''"

definition result_text :: "64 word \<Rightarrow> result_set \<Rightarrow> string" where
  "result_text affected r =
     [TAB] @ ''<h2>number of dataline returned: '' @ show_int (sint (ucast affected :: 32 word)) @ ''</h2>'' @ [LF]
     @ concat (map (\<lambda>f. f @ [TAB]) (r_fields r)) @ ''<br/>''
     @ concat (map (print_row (length (r_fields r))) (r_rows r))"

definition Select :: "'d client \<Rightarrow> ('d session, bool) c" where
  "Select lib s =
     bind (op_fun lib (select_query s)) (\<lambda>failed.
     if failed \<noteq> 0 then bind (Error ''select error'') (\<lambda>_. return False)
     else
       bind (store_result lib) (\<lambda>r.
       case r of
         None \<Rightarrow> bind (Error ''select error'') (\<lambda>_. return False)
       | Some t \<Rightarrow>
           if 1024 < length (r_fields t) \<or> \<not> list_all (\<lambda>f. length f < 1024) (r_fields t)
           then undefined_behaviour OutOfBounds
           else bind (\<lambda>s. ok (m_affected lib (s_db s)) s) (\<lambda>affected.
                bind (print (result_text affected t)) (\<lambda>_. return True)))) s"

definition Insert :: "'d client \<Rightarrow> ('d session, bool) c" where
  "Insert lib s =
     (if s_name s = [] then bind (Error ''name'') (\<lambda>_. return False) s
      else if s_sex s = [] then bind (Error ''sex'') (\<lambda>_. return False) s
      else if s_age s = [] then bind (Error ''age'') (\<lambda>_. return False) s
      else if s_school s = [] then bind (Error ''school'') (\<lambda>_. return False) s
      else
        bind (op_fun lib (insert_query s)) (\<lambda>failed.
        if failed \<noteq> 0 then bind (Error ''insert error'') (\<lambda>_. return False) else return True) s)"

definition Delete :: "'d client \<Rightarrow> ('d session, bool) c" where
  "Delete lib s =
     bind (op_fun lib (delete_query s)) (\<lambda>failed.
     if failed \<noteq> 0 then bind (Error ''delete error'') (\<lambda>_. return False) else return True) s"

definition Modify :: "('d session, bool) c" where
  "Modify = return True"

definition clear_fields :: "('d session, unit) c" where
  "clear_fields s = ok () (s\<lparr>s_name := [], s_sex := [], s_age := [], s_school := []\<rparr>)"

definition head_end :: string where
  "head_end = ''</head>'' @ [LF] @ ''<body>'' @ [LF]"

definition Success :: "'d client \<Rightarrow> string \<Rightarrow> ('d session, unit) c" where
  "Success lib arg =
     bind (print (''HTTP/1.1 200 OK'' @ [CR, LF, CR, LF] @ ''<html>'' @ [LF] @ ''<head>'' @ [LF])) (\<lambda>_.
     bind (if arg = ''select'' then
             bind (print head_end) (\<lambda>_. bind (Select lib) (\<lambda>_. return ()))
           else if arg = ''insert'' then
             bind (print ([TAB] @ ''<h1>Insert Success......</h1>'' @ [LF] @ head_end)) (\<lambda>_.
             bind (Select lib) (\<lambda>_. bind clear_fields (\<lambda>_. bind (Select lib) (\<lambda>_. return ()))))
           else if arg = ''delete'' then
             bind (print ([TAB] @ ''<h1>Delete Success......</h1>'' @ [LF] @ head_end)) (\<lambda>_.
             bind (Select lib) (\<lambda>_. bind clear_fields (\<lambda>_. bind (Select lib) (\<lambda>_. return ()))))
           else return ()) (\<lambda>_.
     print page_end))"

text \<open>The destructor: closing a connection that was never initialised is undefined.\<close>

definition destroy :: "('d session, unit) c" where
  "destroy s =
     (if s_init s then ok () (s\<lparr>s_res := False, s_results := s_results s - (if s_res s then 1 else 0)\<rparr>)
      else ub Uninit)"

section \<open>main\_mysql.cpp\<close>

text \<open>
  The loop over the query: the query, in which each \<open>&\<close> becomes a NUL byte, and the places of the
  values. When the third value is not one whose name begins with \<open>s\<close>, an empty one is put in.
\<close>

function split_values :: "string \<Rightarrow> nat \<Rightarrow> nat list \<Rightarrow> nat \<Rightarrow> string \<times> nat list" where
  "split_values q i v index =
     (if i < length q then
        if q ! i = CHR ''='' then split_values q (i + 1) (v @ [i + 1]) (index + 1)
        else if q ! i = CHR ''&'' then
          (if index = 2 \<and> (q @ [NUL]) ! (i + 1) \<noteq> CHR ''s''
           then split_values (q[i := NUL]) (i + 1) (v @ [i]) (index + 1)
           else split_values (q[i := NUL]) (i + 1) v index)
        else split_values q (i + 1) v index
      else (q, v))"
  by pat_completeness auto
termination
  by (relation "measure (\<lambda>(q, i, v, index). length q - i)") auto

declare split_values.simps [simp del]

definition value_at :: "string \<Rightarrow> nat list \<Rightarrow> nat \<Rightarrow> ('d session, string) c" where
  "value_at q v k =
     (if k < length v then return (cstring (drop (v ! k) (q @ [NUL]))) else undefined_behaviour OutOfBounds)"

definition set_values ::
  "string \<Rightarrow> string \<Rightarrow> string \<Rightarrow> string \<Rightarrow> string \<Rightarrow> ('d session, unit) c" where
  "set_values op nm sex age school s =
     ok () (s\<lparr>s_op := op, s_name := nm, s_sex := sex, s_age := age, s_school := school\<rparr>)"

definition perform :: "'d client \<Rightarrow> char \<Rightarrow> ('d session, unit) c" where
  "perform lib c =
     (if c = CHR ''i'' then bind (Insert lib) (\<lambda>r. if r then Success lib ''insert'' else return ())
      else if c = CHR ''d'' then bind (Delete lib) (\<lambda>r. if r then Success lib ''delete'' else return ())
      else if c = CHR ''s'' then Success lib ''select''
      else if c = CHR ''m'' then bind Modify (\<lambda>r. if r then Success lib ''modify'' else return ())
      else Error ''op error'')"

definition handle_query :: "'d client \<Rightarrow> string \<Rightarrow> ('d session, unit) c" where
  "handle_query lib query_string =
     (if query_string = [] then return ()
      else if query_string ! 0 \<noteq> CHR ''o'' then bind (Error ''op'') (\<lambda>_. destroy)
      else
        (let (q, v) = split_values query_string 0 [] 0 in
         bind (value_at q v 0) (\<lambda>op.
         bind (value_at q v 1) (\<lambda>nm.
         bind (value_at q v 2) (\<lambda>sex.
         bind (value_at q v 3) (\<lambda>age.
         bind (value_at q v 4) (\<lambda>school.
         bind (set_values op nm sex age school) (\<lambda>_.
         bind (Connect_database lib) (\<lambda>r.
         bind (if r < 0 then Error ''connect error'' else return ()) (\<lambda>_.
         bind (perform lib ((q @ [NUL]) ! (v ! 0))) (\<lambda>_.
         destroy)))))))))))"

text \<open>
  \<open>main\<close> finds the query in the environment or reads it into the array \<open>buf\<close> of 1024 bytes, of which
  one must stay NUL. \<open>getenv\<close> and the bytes on standard input are parameters.
\<close>

definition query_of :: "(string \<Rightarrow> string option) \<Rightarrow> string \<Rightarrow> cerr + string" where
  "query_of getenv stdin =
     (case getenv ''METHOD'' of
        None \<Rightarrow> Inl Uninit
      | Some m \<Rightarrow>
          if strcasecmp_eq m ''GET'' then
            Inr (case getenv ''QUERY_STRING'' of Some t \<Rightarrow> t | None \<Rightarrow> [])
          else if strcasecmp_eq m ''POST'' then
            (case getenv ''CONTENT_LENGTH'' of
               None \<Rightarrow> Inl Uninit
             | Some t \<Rightarrow>
                 let len = atoi t in
                 if len < 0 \<or> 1024 \<le> len then Inl OutOfBounds else Inr (cstring (take (nat len) stdin)))
          else Inl Uninit)"

definition new_session :: "'d \<Rightarrow> string option \<Rightarrow> 'd session" where
  "new_session d picture =
     \<lparr>s_op = [], s_name = [], s_sex = [], s_age = [], s_school = [], s_init = False, s_res = False,
      s_results = 0, s_db = d, s_out = [], s_picture = picture\<rparr>"

definition main_sql ::
  "'d client \<Rightarrow> (string \<Rightarrow> string option) \<Rightarrow> string \<Rightarrow> ('d session, int) c" where
  "main_sql lib getenv stdin =
     (case query_of getenv stdin of
        Inl e \<Rightarrow> undefined_behaviour e
      | Inr q \<Rightarrow> bind (handle_query lib q) (\<lambda>_. return 0))"

text \<open>
  What arrives at a pipe: \<open>sendfile\<close> does not go through the buffer of \<open>stdout\<close>, which is written out
  at the end as long as it has room for all that is printed.
\<close>

definition pipe_bytes :: "chunk list \<Rightarrow> string" where
  "pipe_bytes out =
     concat (map (\<lambda>x. case x of Sent t \<Rightarrow> t | Printed t \<Rightarrow> []) out)
     @ concat (map (\<lambda>x. case x of Printed t \<Rightarrow> t | Sent t \<Rightarrow> []) out)"

end
