(* ===== verification/DbQuery.thy ===== *)
theory DbQuery
  imports DbCgi
begin

text \<open>
  How the query of a request becomes the five values of an operation: the loop of \<open>handle_data\<close>
  equals a recursion over the rest of the query, and finds the values of the queries that the form
  \<open>mysql_response.html\<close> sends, with and without a sex. The statements of SQL made of them determine
  the values as long as these hold no quotes.
\<close>

section \<open>Splitting\<close>

definition amp :: "char \<Rightarrow> char" where
  "amp c = (if c = CHR ''&'' then NUL else c)"

lemma amp_simps [simp]: "amp (CHR ''&'') = NUL" "c \<noteq> CHR ''&'' \<Longrightarrow> amp c = c"
  by (simp_all add: amp_def)

text \<open>The places of the values in the rest of the query that begins at \<open>i\<close>.\<close>

definition begins_s :: "string \<Rightarrow> bool" where
  "begins_s t \<longleftrightarrow> take 1 t = ''s''"

lemma begins_s_append:
  "begins_s k \<Longrightarrow> begins_s (k @ z)"
  "\<not> begins_s k \<Longrightarrow> \<not> begins_s (k @ CHR ''='' # z)"
  by (cases k; simp add: begins_s_def)+

fun starts :: "string \<Rightarrow> nat \<Rightarrow> nat \<Rightarrow> nat list" where
  "starts [] i index = []"
| "starts (c # cs) i index =
     (if c = CHR ''='' then (i + 1) # starts cs (i + 1) (index + 1)
      else if c = CHR ''&'' \<and> index = 2 \<and> \<not> begins_s cs then i # starts cs (i + 1) (index + 1)
      else starts cs (i + 1) index)"

lemma split_values_starts:
  "split_values (p @ r) (length p) v index = (p @ map amp r, v @ starts r (length p) index)"
proof (induction r arbitrary: p v index)
  case Nil
  then show ?case by (simp add: split_values.simps)
next
  case (Cons c r)
  have at: "(p @ c # r) ! length p = c" "length p < length (p @ c # r)"
    "(p @ c # r)[length p := NUL] = (p @ [NUL]) @ r"
    "((p @ c # r) @ [NUL]) ! (length p + 1) = (r @ [NUL]) ! 0"
    by (simp_all add: nth_append)
  have s: "(r @ [NUL]) ! 0 \<noteq> CHR ''s'' \<longleftrightarrow> \<not> begins_s r" by (cases r) (simp_all add: begins_s_def)
  show ?case
    using Cons.IH [of "p @ [c]"] Cons.IH [of "p @ [NUL]"]
    by (subst split_values.simps) (simp only: at s, auto)
qed

lemma split_values_spec: "split_values q 0 [] 0 = (map amp q, starts q 0 0)"
  using split_values_starts [of "[]" q "[]" 0] by simp

text \<open>The values themselves, as \<open>std::string\<close> reads them from the places.\<close>

definition value_from :: "string \<Rightarrow> nat \<Rightarrow> string" where
  "value_from q k = cstring (drop k (map amp q @ [NUL]))"

definition request_values :: "string \<Rightarrow> string list" where
  "request_values q = map (value_from q) (starts q 0 0)"

text \<open>A text without the characters that end a name or a value.\<close>

definition field_text :: "string \<Rightarrow> bool" where
  "field_text t \<longleftrightarrow> CHR ''='' \<notin> set t \<and> CHR ''&'' \<notin> set t \<and> NUL \<notin> set t"

lemma starts_skip: "field_text t \<Longrightarrow> starts (t @ r) i index = starts r (i + length t) index"
  by (induction t arbitrary: i) (auto simp: field_text_def)

lemma amp_field: "field_text t \<Longrightarrow> map amp t = t"
  by (intro map_idI) (metis amp_simps(2) field_text_def)

lemma value_from_end: "field_text t \<Longrightarrow> value_from (p @ t) (length p) = t"
  by (auto simp: value_from_def cstring_def amp_field takeWhile_append field_text_def)

lemma value_from_amp:
  "field_text t \<Longrightarrow> value_from (p @ t @ CHR ''&'' # r) (length p) = t"
  by (auto simp: value_from_def cstring_def amp_field takeWhile_append field_text_def)

text \<open>One name with its value, at any place of the query.\<close>

definition values_from :: "string \<Rightarrow> string \<Rightarrow> nat \<Rightarrow> string list" where
  "values_from p r index = map (value_from (p @ r)) (starts r (length p) index)"

lemma request_values_from: "request_values q = values_from [] q 0"
  by (simp add: request_values_def values_from_def)

lemma values_last:
  assumes "field_text k" and "field_text t"
  shows "values_from p (k @ CHR ''='' # t) index = [t]"
proof -
  have "value_from ((p @ k @ ''='') @ t) (length (p @ k @ ''='')) = t"
    using assms(2) by (rule value_from_end)
  then show ?thesis
    using assms starts_skip [OF assms(2), of "[]"] by (simp add: values_from_def starts_skip)
qed

lemma values_next:
  assumes "field_text k" and "field_text t"
  shows "values_from p (k @ CHR ''='' # t @ CHR ''&'' # r) index =
    (if index = 1 \<and> \<not> begins_s r then [t, []] else [t])
    @ values_from (p @ k @ CHR ''='' # t @ ''&'') r (if index = 1 \<and> \<not> begins_s r then 3 else Suc index)"
proof -
  have v: "value_from ((p @ k @ ''='') @ t @ CHR ''&'' # r) (length (p @ k @ ''='')) = t"
    using assms(2) by (rule value_from_amp)
  have e: "value_from ((p @ k @ CHR ''='' # t) @ [] @ CHR ''&'' # r) (length (p @ k @ CHR ''='' # t)) = []"
    by (rule value_from_amp) (simp add: field_text_def)
  show ?thesis
    using v e assms by (auto simp: values_from_def starts_skip ac_simps numeral_3_eq_3)
qed

definition full_query where
  "full_query k0 op k1 nm k2 sex k3 age k4 school =
     k0 @ CHR ''='' # op @ CHR ''&'' # k1 @ CHR ''='' # nm @ CHR ''&'' # k2 @ CHR ''='' # sex @ CHR ''&''
     # k3 @ CHR ''='' # age @ CHR ''&'' # k4 @ CHR ''='' # school"

definition sexless_query where
  "sexless_query k0 op k1 nm k3 age k4 school =
     k0 @ CHR ''='' # op @ CHR ''&'' # k1 @ CHR ''='' # nm @ CHR ''&'' # k3 @ CHR ''='' # age @ CHR ''&''
     # k4 @ CHR ''='' # school"

text \<open>The query of the form with a sex, whose name begins with the letter s, and without.\<close>

lemma values_of_full_query:
  assumes "list_all field_text [k0, op, k1, nm, k2, sex, k3, age, k4, school]" and "begins_s k2"
  shows "request_values (full_query k0 op k1 nm k2 sex k3 age k4 school) = [op, nm, sex, age, school]"
  using assms begins_s_append(1) [OF assms(2)]
  by (simp add: full_query_def request_values_from values_next values_last)

lemma values_of_sexless_query:
  assumes "list_all field_text [k0, op, k1, nm, k3, age, k4, school]" and "\<not> begins_s k3"
  shows "request_values (sexless_query k0 op k1 nm k3 age k4 school) = [op, nm, [], age, school]"
  using assms begins_s_append(2) [OF assms(2)]
  by (simp add: sexless_query_def request_values_from values_next values_last)

section \<open>The values in \<open>handle\_data\<close>\<close>

lemma starts_bound: "k \<in> set (starts r i index) \<Longrightarrow> k \<le> i + length r"
  by (induction r i index rule: starts.induct) (fastforce split: if_splits)+

lemma length_starts:
  "length (starts r i index) \<le> count_list r (CHR ''='') + (if index \<le> 2 then 1 else 0)"
  by (induction r i index rule: starts.induct) (auto split: if_splits)

lemma cstring_hd: "t \<noteq> [] \<Longrightarrow> hd (cstring t @ [NUL]) = hd t"
  by (cases t) (simp_all add: cstring_def)

lemma value_from_hd:
  assumes "k \<le> length q"
  shows "(map amp q @ [NUL]) ! k = hd (value_from q k @ [NUL])"
proof -
  have "hd (value_from q k @ [NUL]) = hd (drop k (map amp q @ [NUL]))"
    using assms unfolding value_from_def by (intro cstring_hd) simp
  also have "\<dots> = (map amp q @ [NUL]) ! k" using assms by (intro hd_drop_conv_nth) simp
  finally show ?thesis by simp
qed

definition with_values :: "string list \<Rightarrow> 'd session \<Rightarrow> 'd session" where
  "with_values vs s = s\<lparr>s_op := vs ! 0, s_name := vs ! 1, s_sex := vs ! 2, s_age := vs ! 3, s_school := vs ! 4\<rparr>"

text \<open>What \<open>handle_data\<close> does once the five values are known.\<close>

definition operate :: "'d client \<Rightarrow> char \<Rightarrow> ('d session, unit) c" where
  "operate lib c =
     bind (Connect_database lib) (\<lambda>r.
     bind (if r < 0 then Error ''connect error'' else return ()) (\<lambda>_.
     bind (perform lib c) (\<lambda>_.
     destroy)))"

lemma handle_query_values:
  assumes "q \<noteq> []" and "q ! 0 = CHR ''o''" and "5 \<le> length (request_values q)"
  shows "handle_query lib q s
    = operate lib (hd (request_values q ! 0 @ [NUL])) (with_values (request_values q) s)"
proof -
  let ?v = "starts q 0 0"
  have l: "4 < length ?v" "0 < length ?v"
    using assms(3) by (auto simp only: request_values_def length_map)
  have val: "value_at (map amp q) ?v k s' = ok (request_values q ! k) s'" if "k < length ?v"
    for k and s' :: "'a session"
    using that by (simp add: value_at_def request_values_def value_from_def)
  have "?v ! 0 \<in> set ?v" using l by (intro nth_mem) linarith
  then have "?v ! 0 \<le> length q" using starts_bound [of "?v ! 0" q 0 0] by simp
  from value_from_hd [OF this]
  have c: "(map amp q @ [NUL]) ! (?v ! 0) = hd (request_values q ! 0 @ [NUL])"
    using l by (simp add: request_values_def del: length_greater_0_conv)
  show ?thesis
    using assms(1,2) l
    by (simp add: handle_query_def split_values_spec val c set_values_def operate_def with_values_def)
qed

lemma handle_query_few_values:
  assumes "q \<noteq> []" and "q ! 0 = CHR ''o''" and "length (request_values q) < 5"
  shows "handle_query lib q s = ub OutOfBounds"
proof -
  let ?v = "starts q 0 0"
  have val: "value_at (map amp q) ?v k s' = (if k < length ?v then ok (request_values q ! k) s' else ub OutOfBounds)"
    for k and s' :: "'a session"
    by (simp add: value_at_def request_values_def value_from_def)
  have "length ?v < 5" using assms(3) by (simp add: request_values_def)
  then show ?thesis
    using assms(1,2) by (simp add: handle_query_def split_values_spec val bind_def)
qed

section \<open>The statements determine the values\<close>

lemma append_Cons_inject:
  assumes "xs @ c # us = ys @ c # vs" and "c \<notin> set xs" and "c \<notin> set ys"
  shows "xs = ys \<and> us = vs"
proof -
  have t: "takeWhile (\<lambda>x. x \<noteq> c) (zs @ c # ws) = zs" if "c \<notin> set zs" for zs ws
    using that by (induction zs) auto
  have "xs = ys" using arg_cong [OF assms(1), of "takeWhile (\<lambda>x. x \<noteq> c)"]
    unfolding t [OF assms(2)] t [OF assms(3)] .
  with assms(1) show ?thesis by simp
qed

lemma sex_letter_length: "length (sex_letter t) = 1"
  by (simp add: sex_letter_def)

lemma insert_query_determines:
  fixes s s' :: "'d session"
  assumes "insert_query s = insert_query s'"
    and "QUOTE \<notin> set (s_name s)" and "QUOTE \<notin> set (s_name s')"
    and "QUOTE \<notin> set (s_school s)" and "QUOTE \<notin> set (s_school s')"
    and "CHR '','' \<notin> set (s_age s)" and "CHR '','' \<notin> set (s_age s')"
  shows "s_name s = s_name s' \<and> sex_letter (s_sex s) = sex_letter (s_sex s')
    \<and> s_age s = s_age s' \<and> s_school s = s_school s'"
proof -
  let ?r = "\<lambda>s. '' \"'' @ s_school s @ QUOTE # '', NOW())''"
  let ?t = "\<lambda>s. '', '' @ [APOSTROPHE] @ sex_letter (s_sex s) @ [APOSTROPHE] @ '', '' @ s_age s @ CHR '','' # ?r s"
  have eq: "insert_query u = ''insert into Person (Name, Sex, Age, School, Registration_time) values (''
      @ [QUOTE] @ s_name u @ QUOTE # ?t u" for u :: "'d session"
    by (simp only: insert_query_def append.simps append_assoc)
  have "s_name s @ QUOTE # ?t s = s_name s' @ QUOTE # ?t s'"
    using assms(1) unfolding eq by (simp only: same_append_eq append.simps list.inject simp_thms)
  from append_Cons_inject [OF this assms(2,3)] have n: "s_name s = s_name s'" "?t s = ?t s'" by blast+
  have "sex_letter (s_sex s) @ [APOSTROPHE] @ '', '' @ s_age s @ CHR '','' # ?r s
      = sex_letter (s_sex s') @ [APOSTROPHE] @ '', '' @ s_age s' @ CHR '','' # ?r s'"
    using n(2) by (simp only: same_append_eq)
  then have x: "sex_letter (s_sex s) = sex_letter (s_sex s')"
    and "[APOSTROPHE] @ '', '' @ s_age s @ CHR '','' # ?r s = [APOSTROPHE] @ '', '' @ s_age s' @ CHR '','' # ?r s'"
    by (simp_all only: append_eq_append_conv sex_letter_length simp_thms)
  then have "s_age s @ CHR '','' # ?r s = s_age s' @ CHR '','' # ?r s'"
    by (simp only: same_append_eq)
  from append_Cons_inject [OF this assms(6,7)] have a: "s_age s = s_age s'" "?r s = ?r s'" by blast+
  then have "s_school s @ QUOTE # '', NOW())'' = s_school s' @ QUOTE # '', NOW())''"
    by (simp only: same_append_eq append.simps list.inject simp_thms)
  from append_Cons_inject [OF this assms(4,5)] n(1) x a(1) show ?thesis by blast
qed

end
