(* ===== verification/DbOps.thy ===== *)
theory DbOps
  imports DbQuery
begin

text \<open>
  What the operations of \<open>server_database\<close> print and do: each as one equation on the state, under the
  answers the client library gives. A library whose tables fit the array of column names never makes
  an operation go wrong.
\<close>

section \<open>Sequencing\<close>

lemma bind_ok_bool [simp]:
  "m s = ok True s' \<Longrightarrow> bind m f s = f True s'" "m s = ok False s' \<Longrightarrow> bind m f s = f False s'"
  by (simp_all add: bind_def)

lemma bind_steps: "bind (return a) f = f a" "bind (bind m f) g = bind m (\<lambda>a. bind (f a) g)"
  by (rule ext, simp)+

section \<open>Output\<close>

lemma print_ok [simp]: "print t s = ok () (s\<lparr>s_out := s_out s @ [Printed t]\<rparr>)"
  by (simp add: print_def)

definition picture_chunks :: "string option \<Rightarrow> chunk list" where
  "picture_chunks p = (case p of None \<Rightarrow> [] | Some t \<Rightarrow> [Sent t])"

lemma send_picture_ok [simp]:
  "send_picture s = ok () (s\<lparr>s_out := s_out s @ picture_chunks (s_picture s)\<rparr>)"
  by (simp add: send_picture_def picture_chunks_def split: option.splits)

definition error_top :: "string \<Rightarrow> string" where
  "error_top arg =
     (if length arg < 7 then page_begin ''HTTP/1.1 400 Bad Request'' ''ERROR INFORMATION!'' @ name_message arg
      else page_begin ''HTTP/1.1 500 Internal Server Error'' ''SERVER ERROR!'' @ server_message arg)"

definition error_chunks :: "string \<Rightarrow> string option \<Rightarrow> chunk list" where
  "error_chunks arg picture =
     (if length arg < 7 then
        [Printed (page_begin ''HTTP/1.1 400 Bad Request'' ''ERROR INFORMATION!''), Printed (name_message arg)]
      else
        [Printed (page_begin ''HTTP/1.1 500 Internal Server Error'' ''SERVER ERROR!''),
         Printed (server_message arg)])
     @ picture_chunks picture @ [Printed page_end]"

lemma Error_ok [simp]:
  "Error arg s = ok () (s\<lparr>s_out := s_out s @ error_chunks arg (s_picture s)\<rparr>)"
  by (simp add: Error_def error_chunks_def)

lemma pipe_bytes_error:
  "pipe_bytes (error_chunks arg p) = (case p of None \<Rightarrow> [] | Some t \<Rightarrow> t) @ error_top arg @ page_end"
  by (simp add: pipe_bytes_def error_chunks_def picture_chunks_def error_top_def split: option.splits)

lemma pipe_bytes_printed: "pipe_bytes (map Printed ts) = concat ts"
  by (simp add: pipe_bytes_def comp_def)

section \<open>Calls of the library\<close>

lemma Connect_database_ok:
  "m_connect lib ''127.0.0.1'' ''root'' [] ''HTTP_server'' 3306 (s_db s) = (b, d) \<Longrightarrow>
   Connect_database lib s = ok (if b then 0 else - 1) (s\<lparr>s_init := True, s_db := d\<rparr>)"
  by (simp add: Connect_database_def)

lemma op_fun_ok: "m_query lib q (s_db s) = (b, d) \<Longrightarrow> op_fun lib q s = ok (if b then 0 else 1) (s\<lparr>s_db := d\<rparr>)"
  by (simp add: op_fun_def)

text \<open>A result whose names fit the array of \<open>Select\<close>.\<close>

definition fits :: "result_set \<Rightarrow> bool" where
  "fits t \<longleftrightarrow> length (r_fields t) \<le> 1024 \<and> list_all (\<lambda>f. length f < 1024) (r_fields t)"

text \<open>The library answers a query with the result \<open>t\<close>.\<close>

definition answers :: "'d client \<Rightarrow> string \<Rightarrow> 'd \<Rightarrow> result_set \<Rightarrow> 'd \<Rightarrow> bool" where
  "answers lib q d t d' \<longleftrightarrow>
     fst (m_query lib q d) \<and> m_store lib (snd (m_query lib q d)) = (Some t, d') \<and> fits t"

definition stored :: "'d client \<Rightarrow> result_set \<Rightarrow> 'd \<Rightarrow> 'd session \<Rightarrow> 'd session" where
  "stored lib t d s = s\<lparr>s_db := d, s_res := True, s_results := s_results s + 1,
     s_out := s_out s @ [Printed (result_text (m_affected lib d) t)]\<rparr>"

lemma stored_init [simp]: "s_init (stored lib t d s) = s_init s"
  by (simp add: stored_def)

lemma Select_ok:
  assumes "answers lib (select_query s) (s_db s) t d"
  shows "Select lib s = ok True (stored lib t d s)"
  using assms
  by (cases "m_query lib (select_query s) (s_db s)")
    (auto simp: answers_def fits_def Select_def op_fun_def store_result_def stored_def bind_def)

lemma Select_fails:
  assumes "m_query lib (select_query s) (s_db s) = (False, d)"
  shows "Select lib s = ok False (s\<lparr>s_db := d, s_out := s_out s @ error_chunks ''select error'' (s_picture s)\<rparr>)"
  using assms by (simp add: Select_def op_fun_def bind_def)

text \<open>A value that is missing is reported, in the order of the form, and nothing is asked.\<close>

definition missing_value :: "'d session \<Rightarrow> string option" where
  "missing_value s =
     (if s_name s = [] then Some ''name'' else if s_sex s = [] then Some ''sex''
      else if s_age s = [] then Some ''age'' else if s_school s = [] then Some ''school'' else None)"

lemma Insert_missing:
  "missing_value s = Some n \<Longrightarrow> Insert lib s = bind (Error n) (\<lambda>_. return False) s"
  by (simp only: missing_value_def Insert_def option.inject split: if_split_asm) simp_all

lemma Insert_present:
  "missing_value s = None \<Longrightarrow> Insert lib s = bind (op_fun lib (insert_query s))
     (\<lambda>failed. if failed \<noteq> 0 then bind (Error ''insert error'') (\<lambda>_. return False) else return True) s"
  by (simp only: missing_value_def Insert_def split: if_split_asm) simp_all

lemma Insert_ok:
  "missing_value s = None \<Longrightarrow> m_query lib (insert_query s) (s_db s) = (True, d) \<Longrightarrow>
   Insert lib s = ok True (s\<lparr>s_db := d\<rparr>)"
  by (simp add: Insert_present op_fun_def bind_def)

lemma Delete_ok: "m_query lib (delete_query s) (s_db s) = (True, d) \<Longrightarrow> Delete lib s = ok True (s\<lparr>s_db := d\<rparr>)"
  by (simp add: Delete_def op_fun_def bind_def)

lemma Delete_fails:
  "m_query lib (delete_query s) (s_db s) = (False, d) \<Longrightarrow>
   Delete lib s = ok False (s\<lparr>s_db := d, s_out := s_out s @ error_chunks ''delete error'' (s_picture s)\<rparr>)"
  by (simp add: Delete_def op_fun_def bind_def)

lemma clear_fields_ok [simp]:
  "clear_fields s = ok () (s\<lparr>s_name := [], s_sex := [], s_age := [], s_school := []\<rparr>)"
  by (simp add: clear_fields_def)

section \<open>Operations that always return\<close>

text \<open>On a connection that is initialised the operation returns and leaves it initialised.\<close>

definition returns :: "('d session, 'a) c \<Rightarrow> bool" where
  "returns m \<longleftrightarrow> (\<forall>s. s_init s \<longrightarrow> (\<exists>a s'. m s = ok a s' \<and> s_init s'))"

definition small_tables :: "'d client \<Rightarrow> bool" where
  "small_tables lib \<longleftrightarrow> (\<forall>d t d'. m_store lib d = (Some t, d') \<longrightarrow> fits t)"

lemma returns_bind [c_frame]: "returns m \<Longrightarrow> (\<And>a. returns (f a)) \<Longrightarrow> returns (bind m f)"
  unfolding returns_def by (metis bind_ok)

lemma returns_simple [c_frame]:
  "returns (return a)" "returns (print t)" "returns (Error arg)" "returns clear_fields"
  "returns (op_fun lib q)" "returns (store_result lib)"
  by (auto simp: returns_def op_fun_def store_result_def split: prod.splits)

lemma returns_if [c_frame]: "returns m \<Longrightarrow> returns m' \<Longrightarrow> returns (if b then m else m')"
  by simp

lemma returnsD: "returns m \<Longrightarrow> s_init s \<Longrightarrow> \<exists>a s'. m s = ok a s' \<and> s_init s'"
  by (simp add: returns_def)

lemma returns_Select [c_frame]:
  assumes "small_tables lib"
  shows "returns (Select lib)"
  unfolding returns_def
proof (intro allI impI)
  fix s :: "'a session" assume i: "s_init s"
  obtain b d1 where q: "m_query lib (select_query s) (s_db s) = (b, d1)" by fastforce
  obtain r d2 where st: "m_store lib d1 = (r, d2)" by fastforce
  show "\<exists>a s'. Select lib s = ok a s' \<and> s_init s'"
  proof (cases "b \<and> r \<noteq> None")
    case True
    with assms st have "\<exists>t. r = Some t \<and> fits t" by (auto simp: small_tables_def)
    with True q st obtain t where "answers lib (select_query s) (s_db s) t d2" by (auto simp: answers_def)
    from Select_ok [OF this] i show ?thesis by auto
  next
    case False
    then show ?thesis
      using q st i Select_fails [of lib s d1]
      by (auto simp: Select_def op_fun_def store_result_def bind_def)
  qed
qed

lemma returns_Insert [c_frame]: "returns (Insert lib)"
  unfolding returns_def
proof (intro allI impI)
  fix s :: "'a session" assume "s_init s"
  then show "\<exists>a s'. Insert lib s = ok a s' \<and> s_init s'"
    by (cases "missing_value s") (simp_all only: Insert_missing Insert_present, (intro returnsD c_frame, assumption)+)
qed

lemma returns_Delete [c_frame]: "returns (Delete lib)"
  by (subst returns_def, unfold Delete_def) (intro allI impI returnsD c_frame, assumption)

lemma returns_Success [c_frame]: "small_tables lib \<Longrightarrow> returns (Success lib arg)"
  unfolding Success_def [abs_def] by (intro c_frame)

lemma returns_perform [c_frame]: "small_tables lib \<Longrightarrow> returns (perform lib c)"
  unfolding perform_def Modify_def by (intro c_frame)

lemma operate_returns:
  assumes "small_tables lib"
  shows "\<exists>s'. operate lib c s = ok () s'"
proof -
  obtain b d where c: "m_connect lib ''127.0.0.1'' ''root'' [] ''HTTP_server'' 3306 (s_db s) = (b, d)" by fastforce
  let ?m = "\<lambda>r :: int. bind (if r < 0 then Error ''connect error'' else return ()) (\<lambda>_. perform lib c)"
  have "returns (?m r)" for r using assms by (intro c_frame)
  from returnsD [OF this, of "s\<lparr>s_init := True, s_db := d\<rparr>"]
  obtain s' where "?m (if b then 0 else - 1) (s\<lparr>s_init := True, s_db := d\<rparr>) = ok () s'" "s_init s'" by auto
  then show ?thesis
    by (cases b) (auto simp: operate_def Connect_database_ok [OF c] destroy_def bind_eq_ok_iff)
qed

end
