(* ===== verification/DbProps.thy ===== *)
theory DbProps
  imports DbOps
begin

text \<open>
  What a client of the database program is answered: the queries with which \<open>handle_data\<close> returns,
  the pages of an insertion, of a failed search and of a failed connection, and what the form's
  empty deletion sends to the database.
\<close>

section \<open>Requests of the form\<close>

text \<open>The process for a GET request with the query \<open>q\<close>.\<close>

definition asked :: "(string \<Rightarrow> string option) \<Rightarrow> string \<Rightarrow> bool" where
  "asked getenv q \<longleftrightarrow>
     (\<exists>m. getenv ''METHOD'' = Some m \<and> strcasecmp_eq m ''GET'') \<and> getenv ''QUERY_STRING'' = Some q"

lemma main_sql_asked:
  "asked getenv q \<Longrightarrow> main_sql lib getenv stdin s = bind (handle_query lib q) (\<lambda>_. return 0) s"
  by (auto simp: main_sql_def query_of_def asked_def)

text \<open>Names and values as the form \<open>mysql_response.html\<close> sends them, the names in any spelling that the program accepts.\<close>

definition form_names :: "string \<Rightarrow> string \<Rightarrow> string \<Rightarrow> string \<Rightarrow> string \<Rightarrow> bool" where
  "form_names k0 k1 k2 k3 k4 \<longleftrightarrow>
     list_all field_text [k0, k1, k2, k3, k4] \<and> take 1 k0 = ''o'' \<and> begins_s k2 \<and> \<not> begins_s k3"

lemma form_full:
  assumes "form_names k0 k1 k2 k3 k4" and "list_all field_text [op, nm, sex, age, school]"
  shows "handle_query lib (full_query k0 op k1 nm k2 sex k3 age k4 school) s
    = operate lib (hd (op @ [NUL])) (with_values [op, nm, sex, age, school] s)"
proof -
  obtain l where k: "k0 = CHR ''o'' # l" using assms(1) by (cases k0) (auto simp: form_names_def)
  have v: "request_values (full_query k0 op k1 nm k2 sex k3 age k4 school) = [op, nm, sex, age, school]"
    using assms by (intro values_of_full_query) (simp_all add: form_names_def)
  have q: "full_query k0 op k1 nm k2 sex k3 age k4 school ! 0 = CHR ''o''"
    "full_query k0 op k1 nm k2 sex k3 age k4 school \<noteq> []"
    by (simp_all add: full_query_def k)
  show ?thesis using handle_query_values [OF q(2,1), of lib s] v by simp
qed

lemma form_sexless:
  assumes "form_names k0 k1 k2 k3 k4" and "list_all field_text [op, nm, age, school]"
  shows "handle_query lib (sexless_query k0 op k1 nm k3 age k4 school) s
    = operate lib (hd (op @ [NUL])) (with_values [op, nm, [], age, school] s)"
proof -
  obtain l where k: "k0 = CHR ''o'' # l" using assms(1) by (cases k0) (auto simp: form_names_def)
  have v: "request_values (sexless_query k0 op k1 nm k3 age k4 school) = [op, nm, [], age, school]"
    using assms by (intro values_of_sexless_query) (simp_all add: form_names_def)
  have q: "sexless_query k0 op k1 nm k3 age k4 school ! 0 = CHR ''o''"
    "sexless_query k0 op k1 nm k3 age k4 school \<noteq> []"
    by (simp_all add: sexless_query_def k)
  show ?thesis using handle_query_values [OF q(2,1), of lib s] v by simp
qed

lemma with_values_simps [simp]:
  "s_op (with_values [a, b, c, d, e] s) = a" "s_name (with_values [a, b, c, d, e] s) = b"
  "s_sex (with_values [a, b, c, d, e] s) = c" "s_age (with_values [a, b, c, d, e] s) = d"
  "s_school (with_values [a, b, c, d, e] s) = e" "s_db (with_values vs s) = s_db s"
  "s_init (with_values vs s) = s_init s" "s_res (with_values vs s) = s_res s"
  "s_results (with_values vs s) = s_results s" "s_out (with_values vs s) = s_out s"
  "s_picture (with_values vs s) = s_picture s"
  by (simp_all add: with_values_def)

lemma new_session_simps [simp]:
  "s_db (new_session d p) = d" "s_out (new_session d p) = []" "s_picture (new_session d p) = p"
  "s_res (new_session d p) = False" "s_results (new_session d p) = 0" "s_init (new_session d p) = False"
  by (simp_all add: new_session_def)

text \<open>The connection is established with the parameters of the constructor.\<close>

definition connects :: "'d client \<Rightarrow> 'd \<Rightarrow> bool \<Rightarrow> 'd \<Rightarrow> bool" where
  "connects lib d b d' \<longleftrightarrow> m_connect lib ''127.0.0.1'' ''root'' [] ''HTTP_server'' 3306 d = (b, d')"

lemma operate_connected:
  "connects lib (s_db s) True d \<Longrightarrow>
   operate lib c s = bind (perform lib c) (\<lambda>_. destroy) (s\<lparr>s_init := True, s_db := d\<rparr>)"
  "connects lib (s_db s) False d \<Longrightarrow>
   operate lib c s = bind (perform lib c) (\<lambda>_. destroy)
     (s\<lparr>s_init := True, s_db := d, s_out := s_out s @ error_chunks ''connect error'' (s_picture s)\<rparr>)"
  using Connect_database_ok [of lib s True d] Connect_database_ok [of lib s False d]
  by (simp_all add: operate_def connects_def bind_def [of "Connect_database lib"])

lemma destroy_ok:
  "s_init s \<Longrightarrow> destroy s = ok () (s\<lparr>s_res := False, s_results := s_results s - (if s_res s then 1 else 0)\<rparr>)"
  by (simp add: destroy_def)

lemma query_of_fields [simp]:
  "select_query (s\<lparr>s_out := u\<rparr>) = select_query s" "select_query (s\<lparr>s_init := i\<rparr>) = select_query s"
  "select_query (s\<lparr>s_db := d\<rparr>) = select_query s"
  "delete_query (s\<lparr>s_out := u\<rparr>) = delete_query s" "delete_query (s\<lparr>s_init := i\<rparr>) = delete_query s"
  "delete_query (s\<lparr>s_db := d\<rparr>) = delete_query s"
  "insert_query (s\<lparr>s_out := u\<rparr>) = insert_query s" "insert_query (s\<lparr>s_init := i\<rparr>) = insert_query s"
  "insert_query (s\<lparr>s_db := d\<rparr>) = insert_query s"
  "missing_value (s\<lparr>s_out := u\<rparr>) = missing_value s" "missing_value (s\<lparr>s_init := i\<rparr>) = missing_value s"
  "missing_value (s\<lparr>s_db := d\<rparr>) = missing_value s"
  by (simp_all add: select_query_def delete_query_def insert_query_def conditions_def missing_value_def)

section \<open>Pages\<close>

definition success_top :: string where
  "success_top = ''HTTP/1.1 200 OK'' @ [CR, LF, CR, LF] @ ''<html>'' @ [LF] @ ''<head>'' @ [LF]"

lemma Success_select_start:
  "Success lib ''select'' s
    = bind (Select lib) (\<lambda>_. print page_end) (s\<lparr>s_out := s_out s @ map Printed [success_top, head_end]\<rparr>)"
  by (simp add: Success_def success_top_def bind_steps print_def [abs_def] cong del: bind_weak_cong)

lemma Success_select:
  assumes "answers lib (select_query s) (s_db s) t d"
  shows "Success lib ''select'' s = ok () (s\<lparr>s_db := d, s_res := True, s_results := s_results s + 1,
    s_out := s_out s @ map Printed [success_top, head_end, result_text (m_affected lib d) t, page_end]\<rparr>)"
  using assms Select_ok [of lib "s\<lparr>s_out := s_out s @ map Printed [success_top, head_end]\<rparr>" t d]
  by (simp add: Success_select_start stored_def)

lemma Success_select_fails:
  assumes "m_query lib (select_query s) (s_db s) = (False, d)"
  shows "Success lib ''select'' s = ok () (s\<lparr>s_db := d,
    s_out := s_out s @ map Printed [success_top, head_end] @ error_chunks ''select error'' (s_picture s)
      @ [Printed page_end]\<rparr>)"
  using assms Select_fails [of lib "s\<lparr>s_out := s_out s @ map Printed [success_top, head_end]\<rparr>" d]
  by (simp add: Success_select_start)

definition insert_head :: string where
  "insert_head = [TAB] @ ''<h1>Insert Success......</h1>'' @ [LF] @ head_end"

lemma Success_insert_start:
  "Success lib ''insert'' s
    = bind (Select lib) (\<lambda>_. bind clear_fields (\<lambda>_. bind (Select lib) (\<lambda>_. print page_end)))
        (s\<lparr>s_out := s_out s @ map Printed [success_top, insert_head]\<rparr>)"
  by (simp add: Success_def success_top_def insert_head_def bind_steps print_def [abs_def] cong del: bind_weak_cong)

lemma Success_insert:
  assumes "answers lib (select_query s) (s_db s) t1 d1" and "answers lib ''select * from Person'' d1 t2 d2"
  shows "Success lib ''insert'' s = ok () (s\<lparr>s_name := [], s_sex := [], s_age := [], s_school := [],
    s_db := d2, s_res := True, s_results := s_results s + 2,
    s_out := s_out s @ map Printed [success_top, insert_head, result_text (m_affected lib d1) t1,
      result_text (m_affected lib d2) t2, page_end]\<rparr>)"
proof -
  have all: "select_query u = ''select * from Person''"
    if "s_name u = []" "s_sex u = []" "s_age u = []" "s_school u = []" for u :: "'a session"
    using that by (simp add: select_query_def conditions_def name_condition_def sex_condition_def
        age_condition_def school_condition_def)
  let ?s1 = "s\<lparr>s_out := s_out s @ map Printed [success_top, insert_head]\<rparr>"
  let ?s2 = "(stored lib t1 d1 ?s1)\<lparr>s_name := [], s_sex := [], s_age := [], s_school := []\<rparr>"
  have a: "Select lib ?s1 = ok True (stored lib t1 d1 ?s1)"
    using assms(1) by (intro Select_ok) simp
  have b: "Select lib ?s2 = ok True (stored lib t2 d2 ?s2)"
    using assms(2) by (intro Select_ok) (simp add: all stored_def)
  show ?thesis using a b by (simp add: Success_insert_start stored_def)
qed

section \<open>A library to try\<close>

text \<open>A library that keeps the queries it is sent, refuses one, and answers with a table of one row.\<close>

definition sample_table :: result_set where
  "sample_table = \<lparr>r_fields = [''Name'', ''Age''], r_rows = [[Some ''Eve'', None]]\<rparr>"

definition sample_client :: "bool \<Rightarrow> string list client" where
  "sample_client up =
     \<lparr>m_connect = (\<lambda>_ _ _ _ _ l. (up, l)),
      m_query = (\<lambda>q l. (up \<and> q \<noteq> ''delete * from Person'', l @ [q])),
      m_store = (\<lambda>l. (if up then Some sample_table else None, l)), m_affected = (\<lambda>_. 1)\<rparr>"

lemma sample_fits: "fits sample_table"
  by (simp add: fits_def sample_table_def)

lemma sample_answers:
  "q \<noteq> ''delete * from Person'' \<Longrightarrow> answers (sample_client True) q l sample_table (l @ [q])"
  by (simp add: answers_def sample_client_def sample_fits)

lemma sample_connects: "connects (sample_client up) l up l"
  by (simp add: connects_def sample_client_def)

lemma sample_small: "small_tables (sample_client up)"
  by (simp add: small_tables_def sample_client_def sample_fits)

section \<open>When a query is handled\<close>



section \<open>Insertion\<close>

lemma perform_insert:
  assumes "missing_value s = None" and "m_query lib (insert_query s) (s_db s) = (True, d1)"
    and "answers lib (select_query s) d1 t1 d2" and "answers lib ''select * from Person'' d2 t2 d3"
  shows "perform lib (CHR ''i'') s = ok () (s\<lparr>s_name := [], s_sex := [], s_age := [], s_school := [],
    s_db := d3, s_res := True, s_results := s_results s + 2,
    s_out := s_out s @ map Printed [success_top, insert_head, result_text (m_affected lib d2) t1,
      result_text (m_affected lib d3) t2, page_end]\<rparr>)"
  using Insert_ok [OF assms(1,2)] Success_insert [of lib "s\<lparr>s_db := d1\<rparr>" t1 d2 t2 d3] assms(3,4)
  by (simp add: perform_def)

text \<open>
  C14: a GET request of the form to insert a person, with all four values, sends exactly the
  statement \<open>insert_query\<close> and then the two searches whose tables make up the page;
  one of the two results is never freed.
\<close>

theorem insertion_is_answered:
  assumes names: "form_names k0 k1 k2 k3 k4" and vals: "list_all field_text [CHR ''i'' # w, nm, sex, age, school]"
    and present: "nm \<noteq> []" "sex \<noteq> []" "age \<noteq> []" "school \<noteq> []"
    and get: "asked getenv (full_query k0 (CHR ''i'' # w) k1 nm k2 sex k3 age k4 school)"
    and sess: "vs = with_values [CHR ''i'' # w, nm, sex, age, school] (new_session d picture)"
    and lib: "connects lib d True d0" "m_query lib (insert_query vs) d0 = (True, d1)"
      "answers lib (select_query vs) d1 t1 d2" "answers lib ''select * from Person'' d2 t2 d3"
  shows "\<exists>s'. main_sql lib getenv stdin (new_session d picture) = ok 0 s' \<and> s_db s' = d3 \<and> s_results s' = 1
    \<and> pipe_bytes (s_out s') = success_top @ insert_head @ result_text (m_affected lib d2) t1
        @ result_text (m_affected lib d3) t2 @ page_end"
proof -
  let ?s = "vs\<lparr>s_init := True, s_db := d0\<rparr>"
  have "missing_value ?s = None" using present sess by (simp add: missing_value_def)
  from perform_insert [OF this, of lib d1 t1 d2 t2 d3] lib
  have p: "perform lib (CHR ''i'') ?s = ok () (?s\<lparr>s_name := [], s_sex := [], s_age := [], s_school := [],
      s_db := d3, s_res := True, s_results := s_results ?s + 2,
      s_out := s_out ?s @ map Printed [success_top, insert_head, result_text (m_affected lib d2) t1,
        result_text (m_affected lib d3) t2, page_end]\<rparr>)"
    by simp
  have o: "operate lib (CHR ''i'') vs = bind (perform lib (CHR ''i'')) (\<lambda>_. destroy) ?s"
    using operate_connected(1) [of lib vs d0] lib(1) sess by simp
  show ?thesis
    using main_sql_asked [OF get, of lib stdin "new_session d picture"] form_full [OF names vals, of lib] o p
    by (simp add: sess destroy_def pipe_bytes_def)
qed

definition sample_env :: "string \<Rightarrow> string \<Rightarrow> string option" where
  "sample_env q n = map_of [(''METHOD'', ''GET''), (''QUERY_STRING'', q)] n"

lemma sample_asked: "asked (sample_env q) q"
  by (simp add: asked_def sample_env_def strcasecmp_eq_def)

lemma sample_names: "form_names ''operation'' ''name'' ''sex'' ''age'' ''school''"
  by (simp add: form_names_def field_text_def begins_s_def)

theorem insertion_is_answered_witness:
  "\<exists>s'. main_sql (sample_client True) (sample_env ''operation=insert&name=Al&sex=lady&age=25&school=XPU'') []
      (new_session [] None) = ok 0 s'
    \<and> s_db s' = [''insert into Person (Name, Sex, Age, School, Registration_time) values (\"Al\", ''
          @ [APOSTROPHE, CHR ''F'', APOSTROPHE] @ '', 25, \"XPU\", NOW())'',
        ''select * from Person where Name=\"Al\" and Sex='' @ [APOSTROPHE, CHR ''F'', APOSTROPHE]
          @ '' and Age=25 and School=\"XPU\"'',
        ''select * from Person'']"
proof -
  let ?vs = "with_values [''insert'', ''Al'', ''lady'', ''25'', ''XPU''] (new_session [] None) :: string list session"
  have i: "insert_query ?vs = ''insert into Person (Name, Sex, Age, School, Registration_time) values (\"Al\", ''
          @ [APOSTROPHE, CHR ''F'', APOSTROPHE] @ '', 25, \"XPU\", NOW())''"
    by (simp add: insert_query_def sex_letter_def)
  have s: "select_query ?vs = ''select * from Person where Name=\"Al\" and Sex=''
      @ [APOSTROPHE, CHR ''F'', APOSTROPHE] @ '' and Age=25 and School=\"XPU\"''"
    by (simp add: select_query_def conditions_def name_condition_def sex_condition_def age_condition_def
        school_condition_def sex_letter_def)
  have q: "''operation=insert&name=Al&sex=lady&age=25&school=XPU''
      = full_query ''operation'' ''insert'' ''name'' ''Al'' ''sex'' ''lady'' ''age'' ''25'' ''school'' ''XPU''"
    by (simp add: full_query_def)
  have m: "m_query (sample_client True) (insert_query ?vs) [] = (True, [insert_query ?vs])"
    by (simp add: sample_client_def i)
  have a1: "answers (sample_client True) (select_query ?vs) [insert_query ?vs] sample_table
      ([insert_query ?vs] @ [select_query ?vs])"
    by (rule sample_answers) (simp add: s)
  have a2: "answers (sample_client True) ''select * from Person'' ([insert_query ?vs] @ [select_query ?vs])
      sample_table (([insert_query ?vs] @ [select_query ?vs]) @ [''select * from Person''])"
    by (rule sample_answers) simp
  have f: "list_all field_text [''insert'', ''Al'', ''lady'', ''25'', ''XPU'']" by (simp add: field_text_def)
  show ?thesis
    using insertion_is_answered [OF sample_names f _ _ _ _ sample_asked refl sample_connects m a1 a2] i s
    unfolding q by auto
qed

section \<open>Statements that determine their values\<close>



text \<open>With quotes in the values this fails: values are not escaped.\<close>

lemma insertion_statement_ambiguous:
  "insert_query (with_values [[], ''x\", '' @ [APOSTROPHE] @ ''M'' @ [APOSTROPHE] @ '', 1, \"y'', ''lady'', ''2'', ''z'']
      (new_session d p))
   = insert_query (with_values [[], ''x'', ''gentleman'', ''1'', ''y\", '' @ [APOSTROPHE] @ ''F'' @ [APOSTROPHE]
      @ '', 2, \"z''] (new_session d p))"
  by (simp add: insert_query_def sex_letter_def)

section \<open>Errors\<close>

lemma delete_query_empty:
  "s_name s = [] \<Longrightarrow> s_sex s = [] \<Longrightarrow> s_age s = [] \<Longrightarrow> s_school s = [] \<Longrightarrow> delete_query s = ''delete * from Person''"
  by (simp add: delete_query_def conditions_def name_condition_def sex_condition_def age_condition_def
      school_condition_def)

lemma perform_fails:
  "m_query lib (delete_query s) (s_db s) = (False, d) \<Longrightarrow>
   perform lib (CHR ''d'') s = ok () (s\<lparr>s_db := d, s_out := s_out s @ error_chunks ''delete error'' (s_picture s)\<rparr>)"
  "missing_value s = None \<Longrightarrow> m_query lib (insert_query s) (s_db s) = (False, d) \<Longrightarrow>
   perform lib (CHR ''i'') s = ok () (s\<lparr>s_db := d, s_out := s_out s @ error_chunks ''insert error'' (s_picture s)\<rparr>)"
  by (simp_all add: perform_def Delete_fails Insert_present op_fun_def bind_def)

text \<open>
  C31: a deletion with no value is sent as \<open>delete * from Person\<close>, and when the
  database refuses this statement, as MySQL does, the client gets the error page and no other
  statement is sent.
\<close>

theorem empty_deletion_is_refused:
  assumes names: "form_names k0 k1 k2 k3 k4" and op: "field_text (CHR ''d'' # w)"
    and get: "asked getenv (sexless_query k0 (CHR ''d'' # w) k1 [] k3 [] k4 [])"
    and lib: "connects lib d True d0" "m_query lib ''delete * from Person'' d0 = (False, d1)"
  shows "\<exists>s'. main_sql lib getenv stdin (new_session d picture) = ok 0 s' \<and> s_db s' = d1
    \<and> pipe_bytes (s_out s') = (case picture of None \<Rightarrow> [] | Some t \<Rightarrow> t) @ error_top ''delete error'' @ page_end"
proof -
  let ?vs = "with_values [CHR ''d'' # w, [], [], [], []] (new_session d picture)"
  have vals: "list_all field_text [CHR ''d'' # w, [], [], []]" using op by (simp add: field_text_def)
  have o: "operate lib (CHR ''d'') ?vs = bind (perform lib (CHR ''d'')) (\<lambda>_. destroy) (?vs\<lparr>s_init := True, s_db := d0\<rparr>)"
    using operate_connected(1) [of lib ?vs d0] lib(1) by simp
  have p: "perform lib (CHR ''d'') (?vs\<lparr>s_init := True, s_db := d0\<rparr>) = ok () (?vs\<lparr>s_init := True, s_db := d1,
      s_out := error_chunks ''delete error'' picture\<rparr>)"
    using perform_fails(1) [of lib "?vs\<lparr>s_init := True, s_db := d0\<rparr>" d1] lib(2)
    by (simp add: delete_query_empty)
  show ?thesis
    using main_sql_asked [OF get, of lib stdin "new_session d picture"] form_sexless [OF names vals, of lib] o p
    by (simp add: destroy_def pipe_bytes_error)
qed

theorem empty_deletion_is_refused_witness:
  "\<exists>s'. main_sql (sample_client True) (sample_env ''operation=delete&name=&age=&school='') []
      (new_session [] (Some ''jpg'')) = ok 0 s' \<and> s_db s' = [''delete * from Person'']
    \<and> pipe_bytes (s_out s') = ''jpg'' @ error_top ''delete error'' @ page_end"
proof -
  have q: "''operation=delete&name=&age=&school='' = sexless_query ''operation'' (CHR ''d'' # ''elete'') ''name'' []
      ''age'' [] ''school'' []"
    by (simp add: sexless_query_def)
  have f: "field_text (CHR ''d'' # ''elete'')" by (simp add: field_text_def)
  have m: "m_query (sample_client True) ''delete * from Person'' [] = (False, [''delete * from Person''])"
    by (simp add: sample_client_def)
  show ?thesis
    using empty_deletion_is_refused [OF sample_names f sample_asked sample_connects m, where picture = "Some ''jpg''"]
    unfolding q by simp
qed



text \<open>
  A search that the database refuses is announced as a success: the answer begins with the
  status 200, and the error page with its own status line is inside its body.
\<close>

theorem failed_search_is_announced:
  assumes names: "form_names k0 k1 k2 k3 k4" and vals: "list_all field_text [CHR ''s'' # w, nm, sex, age, school]"
    and get: "asked getenv (full_query k0 (CHR ''s'' # w) k1 nm k2 sex k3 age k4 school)"
    and sess: "vs = with_values [CHR ''s'' # w, nm, sex, age, school] (new_session d None)"
    and lib: "connects lib d True d0" "m_query lib (select_query vs) d0 = (False, d1)"
  shows "\<exists>s'. main_sql lib getenv stdin (new_session d None) = ok 0 s' \<and> s_db s' = d1
    \<and> pipe_bytes (s_out s') = success_top @ head_end @ error_top ''select error'' @ page_end @ page_end"
proof -
  let ?s = "vs\<lparr>s_init := True, s_db := d0\<rparr>"
  have o: "operate lib (CHR ''s'') vs = bind (perform lib (CHR ''s'')) (\<lambda>_. destroy) ?s"
    using operate_connected(1) [of lib vs d0] lib(1) sess by simp
  have p: "perform lib (CHR ''s'') ?s = ok () (?s\<lparr>s_db := d1, s_out := map Printed [success_top, head_end]
      @ error_chunks ''select error'' None @ [Printed page_end]\<rparr>)"
    using Success_select_fails [of lib ?s d1] lib(2) sess by (simp add: perform_def)
  show ?thesis
    using main_sql_asked [OF get, of lib stdin "new_session d None"] form_full [OF names vals, of lib] o p
    by (simp add: sess destroy_def pipe_bytes_def error_chunks_def picture_chunks_def error_top_def)
qed

theorem failed_search_is_announced_witness:
  "\<exists>s'. main_sql (sample_client True\<lparr>m_query := \<lambda>q l. (False, l @ [q])\<rparr>)
      (sample_env ''operation=select&name=&sex=lady&age=&school='') [] (new_session [] None) = ok 0 s'
    \<and> s_db s' = [''select * from Person where Sex='' @ [APOSTROPHE, CHR ''F'', APOSTROPHE]]
    \<and> pipe_bytes (s_out s') = success_top @ head_end @ error_top ''select error'' @ page_end @ page_end"
proof -
  let ?vs = "with_values [CHR ''s'' # ''elect'', [], ''lady'', [], []] (new_session [] None) :: string list session"
  let ?lib = "sample_client True\<lparr>m_query := \<lambda>q l. (False, l @ [q])\<rparr>"
  have q: "''operation=select&name=&sex=lady&age=&school=''
      = full_query ''operation'' (CHR ''s'' # ''elect'') ''name'' [] ''sex'' ''lady'' ''age'' [] ''school'' []"
    by (simp add: full_query_def)
  have f: "list_all field_text [CHR ''s'' # ''elect'', [], ''lady'', [], []]" by (simp add: field_text_def)
  have c: "connects ?lib [] True []" by (simp add: connects_def sample_client_def)
  have s: "select_query ?vs = ''select * from Person where Sex='' @ [APOSTROPHE, CHR ''F'', APOSTROPHE]"
    by (simp add: select_query_def conditions_def name_condition_def sex_condition_def age_condition_def
        school_condition_def sex_letter_def)
  have m: "m_query ?lib (select_query ?vs) [] = (False, [select_query ?vs])" by simp
  show ?thesis
    using failed_search_is_announced [OF sample_names f sample_asked refl c m, where stdin = "[]"]
    unfolding q s by simp
qed

end
