(* ===== verification/DbServer.thy ===== *)
theory DbServer
  imports DbProps HttpCalculator
begin

text \<open>
  The database program behind the server: its process as a program of the server, on the state in
  which the database is when the request arrives, and what a client that searches gets.
\<close>

definition process_env :: "(string \<Rightarrow> string) \<Rightarrow> (string \<times> string option) list \<Rightarrow> string \<Rightarrow> string option" where
  "process_env lost e n = map_option (\<lambda>x. env_text lost (n, x)) (map_of e n)"

definition database :: "'d client \<Rightarrow> 'd \<Rightarrow> string option \<Rightarrow> (string \<Rightarrow> string) \<Rightarrow> string \<Rightarrow> programs" where
  "database lib d picture lost crash path e body =
     (case main_sql lib (process_env lost e) body (new_session d picture) of
        None \<Rightarrow> None
      | Some (Inl _) \<Rightarrow> Some crash
      | Some (Inr (_, s)) \<Rightarrow> Some (pipe_bytes (s_out s)))"

lemma cgi_env_asked:
  assumes "strcasecmp_eq m ''GET''"
  shows "asked (process_env lost (cgi_env m q e)) q"
proof -
  have "map_of (cgi_env m q e) ''METHOD'' = Some (Some m)" "map_of (cgi_env m q e) ''QUERY_STRING'' = Some (Some q)"
    by (simp_all add: cgi_env_def map_of_env_put)
  then show ?thesis using assms by (simp add: asked_def process_env_def env_text_def)
qed

definition search_page :: "'d client \<Rightarrow> 'd \<Rightarrow> result_set \<Rightarrow> string" where
  "search_page lib d t = success_top @ head_end @ result_text (m_affected lib d) t @ page_end"

lemma search_page:
  assumes names: "form_names k0 k1 k2 k3 k4" and vals: "list_all field_text [CHR ''s'' # w, nm, sex, age, school]"
    and get: "asked ev (full_query k0 (CHR ''s'' # w) k1 nm k2 sex k3 age k4 school)"
    and lib: "connects lib d True d0"
      "answers lib (select_query (with_values [CHR ''s'' # w, nm, sex, age, school] (new_session d picture))) d0 t d1"
  shows "\<exists>s'. main_sql lib ev body (new_session d picture) = ok 0 s' \<and> s_db s' = d1 \<and> s_results s' = 0
    \<and> pipe_bytes (s_out s') = search_page lib d1 t"
proof -
  let ?vs = "with_values [CHR ''s'' # w, nm, sex, age, school] (new_session d picture)"
  let ?s = "?vs\<lparr>s_init := True, s_db := d0\<rparr>"
  have o: "operate lib (CHR ''s'') ?vs = bind (perform lib (CHR ''s'')) (\<lambda>_. destroy) ?s"
    using operate_connected(1) [of lib ?vs d0] lib(1) by simp
  have p: "perform lib (CHR ''s'') ?s = ok () (?s\<lparr>s_db := d1, s_res := True, s_results := 1,
      s_out := map Printed [success_top, head_end, result_text (m_affected lib d1) t, page_end]\<rparr>)"
    using Success_select [of lib ?s t d1] lib(2) by (simp add: perform_def)
  show ?thesis
    using main_sql_asked [OF get, of lib body "new_session d picture"] form_full [OF names vals, of lib] o p
    by (simp add: destroy_def pipe_bytes_def search_page_def)
qed


definition get_search :: string where
  "get_search = request_text ''GET'' (''/cgi'' @ ''?'' @ ''operation=select&name=&sex=lady&age=&school='') ''HTTP/1.0''
     [''Host: h''] []"


end
