(* ===== verification/PsiBase.thy ===== *)
theory PsiBase
  imports "HOL-Library.State_Monad" "HOL-Library.Word"
begin

text \<open>
  The instrumentation interface of \<open>mysql/psi/psi.h\<close>, against which the inline functions of the other
  headers of that directory are written: the operations it names, the calls of its function table, and
  programs that mix such calls with those of the operating system. What the interface answers is a
  parameter, as is the operating system.

  Two properties of such programs are defined here, with rules for each construct: to have the
  effect and the result of a given plain operation, and to end every wait that they start.
\<close>

named_theorems psi_os \<comment> \<open>effect on the operating system\<close>
named_theorems psi_wait \<comment> \<open>waits that are ended\<close>

section \<open>The interface\<close>

text \<open>Pointers to opaque structures; \<open>None\<close> is the null pointer.\<close>

type_synonym handle = "nat option"

text \<open>A place in the source, \<open>src_file\<close> and \<open>src_line\<close>.\<close>

type_synonym place = "string \<times> nat"

datatype PSI_mutex_operation = PSI_MUTEX_LOCK | PSI_MUTEX_TRYLOCK

datatype PSI_rwlock_operation =
    PSI_RWLOCK_READLOCK | PSI_RWLOCK_WRITELOCK | PSI_RWLOCK_TRYREADLOCK | PSI_RWLOCK_TRYWRITELOCK
  | PSI_RWLOCK_SHAREDLOCK | PSI_RWLOCK_SHAREDEXCLUSIVELOCK | PSI_RWLOCK_EXCLUSIVELOCK
  | PSI_RWLOCK_TRYSHAREDLOCK | PSI_RWLOCK_TRYSHAREDEXCLUSIVELOCK | PSI_RWLOCK_TRYEXCLUSIVELOCK

datatype PSI_cond_operation = PSI_COND_WAIT | PSI_COND_TIMEDWAIT

datatype PSI_file_operation =
    PSI_FILE_CREATE | PSI_FILE_CREATE_TMP | PSI_FILE_OPEN | PSI_FILE_STREAM_OPEN | PSI_FILE_CLOSE
  | PSI_FILE_STREAM_CLOSE | PSI_FILE_READ | PSI_FILE_WRITE | PSI_FILE_SEEK | PSI_FILE_TELL | PSI_FILE_FLUSH
  | PSI_FILE_STAT | PSI_FILE_FSTAT | PSI_FILE_CHSIZE | PSI_FILE_DELETE | PSI_FILE_RENAME | PSI_FILE_SYNC

datatype PSI_table_lock_operation = PSI_TABLE_LOCK | PSI_TABLE_EXTERNAL_LOCK

datatype PSI_socket_state = PSI_SOCKET_STATE_IDLE | PSI_SOCKET_STATE_ACTIVE

datatype PSI_socket_operation =
    PSI_SOCKET_CREATE | PSI_SOCKET_CONNECT | PSI_SOCKET_BIND | PSI_SOCKET_CLOSE | PSI_SOCKET_SEND
  | PSI_SOCKET_RECV | PSI_SOCKET_SENDTO | PSI_SOCKET_RECVFROM | PSI_SOCKET_SENDMSG | PSI_SOCKET_RECVMSG
  | PSI_SOCKET_SEEK | PSI_SOCKET_OPT | PSI_SOCKET_STAT | PSI_SOCKET_SHUTDOWN | PSI_SOCKET_SELECT

text \<open>
  The interface: whether it is compiled in (\<open>HAVE_PSI_INTERFACE\<close>), and what a call \<open>'e\<close> of its function
  table answers, a pointer or nothing, and how it changes the state \<open>'p\<close> of the instrumentation. The
  calls are a data type for each header, with the arguments that its functions pass.
\<close>

record ('e, 'p) interface =
  have_psi :: bool
  answer :: "'e \<Rightarrow> 'p \<Rightarrow> handle \<times> 'p"

section \<open>Programs\<close>

text \<open>
  The state: that of the operating system, that of the instrumentation, and the members \<open>m_psi\<close> of mutexes,
  locks and conditions, by their addresses.
\<close>

record ('w, 'p) sys =
  os :: 'w
  psi :: 'p
  hooks :: "nat \<Rightarrow> handle"

type_synonym ('w, 'p, 'a) program = "(('w, 'p) sys, 'a) state"

definition psi_call :: "('e, 'p) interface \<Rightarrow> 'e \<Rightarrow> ('w, 'p, handle) program" where
  "psi_call p e = State (\<lambda>s. case answer p e (psi s) of (r, x) \<Rightarrow> (r, s\<lparr>psi := x\<rparr>))"

definition psi_do :: "('e, 'p) interface \<Rightarrow> 'e \<Rightarrow> ('w, 'p, unit) program" where
  "psi_do p e = do { psi_call p e; State_Monad.return () }"

definition sys_call :: "('w \<Rightarrow> 'a \<times> 'w) \<Rightarrow> ('w, 'p, 'a) program" where
  "sys_call f = State (\<lambda>s. case f (os s) of (r, w) \<Rightarrow> (r, s\<lparr>os := w\<rparr>))"

text \<open>A call that is made only with a pointer that is not null.\<close>

definition psi_on :: "('e, 'p) interface \<Rightarrow> handle \<Rightarrow> (nat \<Rightarrow> 'e) \<Rightarrow> ('w, 'p, unit) program" where
  "psi_on p h e = (case h of None \<Rightarrow> State_Monad.return () | Some l \<Rightarrow> psi_do p (e l))"

lemma run_psi_call [simp]:
  "run_state (psi_call p e) s = (fst (answer p e (psi s)), s\<lparr>psi := snd (answer p e (psi s))\<rparr>)"
  by (simp add: psi_call_def split: prod.splits)

lemma run_psi_do [simp]: "run_state (psi_do p e) s = ((), s\<lparr>psi := snd (answer p e (psi s))\<rparr>)"
  by (simp add: psi_do_def)

lemma run_sys_call [simp]: "run_state (sys_call f) s = (fst (f (os s)), s\<lparr>os := snd (f (os s))\<rparr>)"
  by (simp add: sys_call_def split: prod.splits)

section \<open>Effect on the operating system\<close>

text \<open>A program that leaves the operating system alone, and one that does what \<open>f\<close> does.\<close>

definition silent :: "('w, 'p, 'a) program \<Rightarrow> bool" where
  "silent m \<longleftrightarrow> (\<forall>s. os (snd (run_state m s)) = os s)"

definition implements :: "('w, 'p, 'a) program \<Rightarrow> ('w \<Rightarrow> 'a \<times> 'w) \<Rightarrow> bool" where
  "implements m f \<longleftrightarrow> (\<forall>s. fst (run_state m s) = fst (f (os s)) \<and> os (snd (run_state m s)) = snd (f (os s)))"

lemma silent_basic [psi_os]: "silent (psi_call p e)" "silent (psi_do p e)" "silent (State_Monad.return a)"
  by (simp_all add: silent_def)

lemma silent_bind [psi_os]: "silent m \<Longrightarrow> (\<And>a. silent (k a)) \<Longrightarrow> silent (m \<bind> k)"
  by (simp add: silent_def split: prod.splits) (metis fst_conv snd_conv prod.collapse)

lemma silent_psi_on [psi_os]: "silent (psi_on p h e)"
  by (cases h) (simp_all add: psi_on_def silent_basic)

lemma silent_if [psi_os]: "silent m \<Longrightarrow> silent m' \<Longrightarrow> silent (if b then m else m')"
  by simp

lemma implements_sys_call [psi_os]: "implements (sys_call f) f"
  by (simp add: implements_def)

lemma implements_if [psi_os]: "implements m f \<Longrightarrow> implements m' f \<Longrightarrow> implements (if b then m else m') f"
  by simp

lemma implements_before [psi_os]: "silent m \<Longrightarrow> (\<And>a. implements (k a) f) \<Longrightarrow> implements (m \<bind> k) f"
  by (simp add: silent_def implements_def split: prod.splits) (metis fst_conv snd_conv prod.collapse)

text \<open>The result of the plain operation is passed on by whatever follows it.\<close>

definition passes :: "('w, 'p, 'a) program \<Rightarrow> 'a \<Rightarrow> bool" where
  "passes m a \<longleftrightarrow> silent m \<and> (\<forall>s. fst (run_state m s) = a)"

lemma passes_return [psi_os]: "passes (State_Monad.return a) a"
  by (simp add: passes_def silent_basic)

lemma passes_bind [psi_os]: "silent m \<Longrightarrow> (\<And>b. passes (k b) a) \<Longrightarrow> passes (m \<bind> k) a"
  by (simp add: passes_def silent_bind split: prod.splits)

lemma implements_after [psi_os]: "(\<And>r. passes (k r) r) \<Longrightarrow> implements (sys_call f \<bind> k) f"
  by (simp add: implements_def passes_def silent_def)

section \<open>Waits\<close>

text \<open>
  A history of calls with their answers. \<open>starts\<close> is the locker of a wait that a call with its answer
  starts, \<open>ends\<close> that of the wait it ends. \<open>open_wait\<close> is the wait that is open after a history; a wait
  may not start while one is open, and only the open one can end.
\<close>

fun open_wait ::
  "('e \<Rightarrow> handle \<Rightarrow> handle) \<Rightarrow> ('e \<Rightarrow> handle) \<Rightarrow> handle \<Rightarrow> ('e \<times> handle) list \<Rightarrow> handle option" where
  "open_wait starts ends w [] = Some w"
| "open_wait starts ends w ((e, r) # es) =
     (case (starts e r, ends e) of
        (Some l, _) \<Rightarrow> if w = None then open_wait starts ends (Some l) es else None
      | (None, Some l) \<Rightarrow> if w = Some l then open_wait starts ends None es else None
      | (None, None) \<Rightarrow> open_wait starts ends w es)"

text \<open>The interface that keeps the history; \<open>reply\<close> is what it answers, which may depend on the history.\<close>

definition recorder :: "(('e \<times> handle) list \<Rightarrow> 'e \<Rightarrow> handle) \<Rightarrow> ('e, ('e \<times> handle) list) interface" where
  "recorder reply = \<lparr>have_psi = True, answer = (\<lambda>e h. (reply h e, h @ [(e, reply h e)]))\<rparr>"

text \<open>
  \<open>waits w m q\<close>: if the wait \<open>w\<close> is open before \<open>m\<close>, then afterwards that is which \<open>q\<close> gives for the
  result; and a program that begins and ends with no wait open.
\<close>

definition waits ::
  "('e \<Rightarrow> handle \<Rightarrow> handle) \<Rightarrow> ('e \<Rightarrow> handle) \<Rightarrow> handle \<Rightarrow> ('w, ('e \<times> handle) list, 'a) program
    \<Rightarrow> ('a \<Rightarrow> handle) \<Rightarrow> bool" where
  "waits starts ends w m q \<longleftrightarrow>
     (\<forall>s. open_wait starts ends None (psi s) = Some w \<longrightarrow>
        open_wait starts ends None (psi (snd (run_state m s))) = Some (q (fst (run_state m s))))"

definition ends_waits ::
  "('e \<Rightarrow> handle \<Rightarrow> handle) \<Rightarrow> ('e \<Rightarrow> handle) \<Rightarrow> ('w, ('e \<times> handle) list, 'a) program \<Rightarrow> bool" where
  "ends_waits starts ends m \<longleftrightarrow> waits starts ends None m (\<lambda>_. None)"

text \<open>What a vocabulary of calls needs for this: no call both ends a wait and starts one.\<close>

locale wait_calls =
  fixes starts :: "'e \<Rightarrow> handle \<Rightarrow> handle" and ends :: "'e \<Rightarrow> handle"
  assumes no_restart: "ends e = Some l \<Longrightarrow> starts e r = None"
begin

lemma open_wait_append:
  "open_wait starts ends w (xs @ ys) =
     (case open_wait starts ends w xs of None \<Rightarrow> None | Some v \<Rightarrow> open_wait starts ends v ys)"
proof (induction xs arbitrary: w)
  case (Cons x xs)
  then show ?case by (cases x) (auto split: option.splits)
qed simp

lemma waits_return: "waits starts ends w (State_Monad.return a) (\<lambda>_. w)"
  by (simp add: waits_def)

lemma waits_sys: "waits starts ends w (sys_call f) (\<lambda>_. w)"
  by (simp add: waits_def)

lemma waits_bind:
  assumes "waits starts ends w m q" and "\<And>a. waits starts ends (q a) (k a) q'"
  shows "waits starts ends w (m \<bind> k) q'"
  using assms by (simp add: waits_def split: prod.splits) (metis fst_conv snd_conv prod.collapse)

lemma waits_if:
  "waits starts ends w m q \<Longrightarrow> waits starts ends w m' q \<Longrightarrow> waits starts ends w (if b then m else m') q"
  by simp

lemma waits_call:
  assumes "\<And>r. starts e r = None" and "ends e = None"
  shows "waits starts ends w (psi_call (recorder reply) e) (\<lambda>_. w)"
  using assms by (simp add: waits_def recorder_def open_wait_append)

lemma waits_do:
  assumes "\<And>r. starts e r = None" and "ends e = None"
  shows "waits starts ends w (psi_do (recorder reply) e) (\<lambda>_. w)"
  using assms by (simp add: waits_def recorder_def open_wait_append)

lemma waits_on:
  assumes "\<And>l r. starts (e l) r = None" and "\<And>l. ends (e l) = None"
  shows "waits starts ends w (psi_on (recorder reply) h e) (\<lambda>_. w)"
  using assms by (cases h) (simp_all add: psi_on_def waits_return waits_do)

lemma waits_start:
  assumes "\<And>r. starts e r = r" and "ends e = None"
  shows "waits starts ends None (psi_call (recorder reply) e) (\<lambda>r. r)"
  using assms by (simp add: waits_def recorder_def open_wait_append split: option.splits)

lemma waits_begin:
  assumes "\<And>r. starts e r = Some l" and "ends e = None"
  shows "waits starts ends None (psi_do (recorder reply) e) (\<lambda>_. Some l)"
  using assms by (simp add: waits_def recorder_def open_wait_append)

lemma waits_end:
  assumes "ends e = Some l"
  shows "waits starts ends (Some l) (psi_do (recorder reply) e) (\<lambda>_. None)"
  using assms no_restart by (simp add: waits_def recorder_def open_wait_append)

lemma waits_end_call:
  assumes "ends e = Some l"
  shows "waits starts ends (Some l) (psi_call (recorder reply) e) (\<lambda>_. None)"
  using assms no_restart by (simp add: waits_def recorder_def open_wait_append)

lemma waits_finish:
  assumes "\<And>l. ends (e l) = Some l"
  shows "waits starts ends h (psi_on (recorder reply) h e) (\<lambda>_. None)"
  using assms by (cases h) (simp_all add: psi_on_def waits_return waits_end)

text \<open>The common form of the functions: a wait around one call of the system.\<close>

lemma waits_around:
  assumes "\<And>r. starts e r = r" and "ends e = None" and "\<And>r l. ends (f r l) = Some l"
  shows "waits starts ends None (do { locker \<leftarrow> psi_call (recorder reply) e; result \<leftarrow> sys_call g;
    psi_on (recorder reply) locker (f result); State_Monad.return result }) (\<lambda>_. None)"
  using assms by (intro waits_bind [OF waits_start] waits_bind [OF waits_sys] waits_bind [OF waits_finish] waits_return)

end

end
