(* ===== verification/PsiSocket.thy ===== *)
theory PsiSocket
  imports PsiBase
begin

text \<open>
  The instrumented sockets of \<open>mysql/psi/mysql_socket.h\<close>: every inline function, for both values of
  \<open>HAVE_PSI_SOCKET_INTERFACE\<close>, over the socket functions of the system, which are a parameter.
\<close>

section \<open>The calls and the system\<close>

datatype socket_event =
    register_socket string nat int
  | init_socket nat int nat nat
  | destroy_socket nat
  | start_socket_wait nat PSI_socket_operation "64 word" place
  | end_socket_wait nat "64 word"
  | set_socket_state nat PSI_socket_state
  | set_socket_info nat nat nat
  | set_socket_thread_owner nat

text \<open>
  The functions of the system; addresses are numbers, a \<open>size_t\<close> is a word of 64 bits, and a result is
  negative on failure. \<open>k_accept\<close> takes the length of the address by value and returns the new one with the
  descriptor; \<open>k_load_len\<close> is the \<open>socklen_t\<close> at an address.
\<close>

record 'w socket_api =
  k_socket :: "int \<Rightarrow> int \<Rightarrow> int \<Rightarrow> 'w \<Rightarrow> int \<times> 'w"
  k_bind :: "int \<Rightarrow> nat \<Rightarrow> nat \<Rightarrow> 'w \<Rightarrow> int \<times> 'w"
  k_getsockname :: "int \<Rightarrow> nat \<Rightarrow> nat \<Rightarrow> 'w \<Rightarrow> int \<times> 'w"
  k_connect :: "int \<Rightarrow> nat \<Rightarrow> nat \<Rightarrow> 'w \<Rightarrow> int \<times> 'w"
  k_getpeername :: "int \<Rightarrow> nat \<Rightarrow> nat \<Rightarrow> 'w \<Rightarrow> int \<times> 'w"
  k_send :: "int \<Rightarrow> nat \<Rightarrow> 64 word \<Rightarrow> int \<Rightarrow> 'w \<Rightarrow> int \<times> 'w"
  k_recv :: "int \<Rightarrow> nat \<Rightarrow> 64 word \<Rightarrow> int \<Rightarrow> 'w \<Rightarrow> int \<times> 'w"
  k_sendto :: "int \<Rightarrow> nat \<Rightarrow> 64 word \<Rightarrow> int \<Rightarrow> nat \<Rightarrow> nat \<Rightarrow> 'w \<Rightarrow> int \<times> 'w"
  k_recvfrom :: "int \<Rightarrow> nat \<Rightarrow> 64 word \<Rightarrow> int \<Rightarrow> nat \<Rightarrow> nat \<Rightarrow> 'w \<Rightarrow> int \<times> 'w"
  k_getsockopt :: "int \<Rightarrow> int \<Rightarrow> int \<Rightarrow> nat \<Rightarrow> nat \<Rightarrow> 'w \<Rightarrow> int \<times> 'w"
  k_setsockopt :: "int \<Rightarrow> int \<Rightarrow> int \<Rightarrow> nat \<Rightarrow> nat \<Rightarrow> 'w \<Rightarrow> int \<times> 'w"
  k_fcntl :: "int \<Rightarrow> int \<Rightarrow> int \<Rightarrow> 'w \<Rightarrow> int \<times> 'w"
  k_errno :: "'w \<Rightarrow> int"
  k_listen :: "int \<Rightarrow> int \<Rightarrow> 'w \<Rightarrow> int \<times> 'w"
  k_accept :: "int \<Rightarrow> nat \<Rightarrow> nat \<Rightarrow> 'w \<Rightarrow> (int \<times> nat) \<times> 'w"
  k_load_len :: "nat \<Rightarrow> 'w \<Rightarrow> nat"
  k_close :: "int \<Rightarrow> 'w \<Rightarrow> int \<times> 'w"
  k_shutdown :: "int \<Rightarrow> int \<Rightarrow> 'w \<Rightarrow> int \<times> 'w"

record mysql_socket =
  fd :: int
  sock_psi :: handle

abbreviation INVALID_SOCKET :: int where
  "INVALID_SOCKET \<equiv> -1"

text \<open>The hook of a socket, which is looked at only when the instrumentation is compiled in.\<close>

definition socket_hook :: "(socket_event, 'p) interface \<Rightarrow> mysql_socket \<Rightarrow> handle" where
  "socket_hook p sock = (if have_psi p then sock_psi sock else None)"

section \<open>Helpers\<close>

definition mysql_socket_invalid :: mysql_socket where
  "mysql_socket_invalid = \<lparr>fd = INVALID_SOCKET, sock_psi = None\<rparr>"

definition mysql_socket_set_address ::
  "(socket_event, 'p) interface \<Rightarrow> mysql_socket \<Rightarrow> nat \<Rightarrow> nat \<Rightarrow> ('w, 'p, unit) program" where
  "mysql_socket_set_address p sock addr addr_len =
     psi_on p (socket_hook p sock) (\<lambda>h. set_socket_info h addr addr_len)"

definition mysql_socket_set_thread_owner ::
  "(socket_event, 'p) interface \<Rightarrow> mysql_socket \<Rightarrow> ('w, 'p, unit) program" where
  "mysql_socket_set_thread_owner p sock = psi_on p (socket_hook p sock) set_socket_thread_owner"

definition mysql_socket_getfd :: "mysql_socket \<Rightarrow> int" where
  "mysql_socket_getfd sock = fd sock"

definition mysql_socket_setfd :: "mysql_socket option \<Rightarrow> int \<Rightarrow> mysql_socket option" where
  "mysql_socket_setfd sock n = map_option (\<lambda>s. s\<lparr>fd := n\<rparr>) sock"

definition inline_mysql_start_socket_wait ::
  "(socket_event, 'p) interface \<Rightarrow> mysql_socket \<Rightarrow> PSI_socket_operation \<Rightarrow> 64 word \<Rightarrow> place
    \<Rightarrow> ('w, 'p, handle) program" where
  "inline_mysql_start_socket_wait p sock opr byte_count src =
     (case sock_psi sock of
        Some h \<Rightarrow> psi_call p (start_socket_wait h opr byte_count src)
      | None \<Rightarrow> State_Monad.return None)"

definition inline_mysql_end_socket_wait ::
  "(socket_event, 'p) interface \<Rightarrow> handle \<Rightarrow> 64 word \<Rightarrow> ('w, 'p, unit) program" where
  "inline_mysql_end_socket_wait p locker byte_count = psi_on p locker (\<lambda>l. end_socket_wait l byte_count)"

definition inline_mysql_socket_set_state ::
  "(socket_event, 'p) interface \<Rightarrow> mysql_socket \<Rightarrow> PSI_socket_state \<Rightarrow> ('w, 'p, unit) program" where
  "inline_mysql_socket_set_state p sock st = psi_on p (sock_psi sock) (\<lambda>h. set_socket_state h st)"

definition inline_mysql_socket_register ::
  "(socket_event, 'p) interface \<Rightarrow> string \<Rightarrow> nat \<Rightarrow> int \<Rightarrow> ('w, 'p, unit) program" where
  "inline_mysql_socket_register p category info count = psi_do p (register_socket category info count)"

section \<open>Creating, binding, connecting\<close>

definition inline_mysql_socket_socket ::
  "(socket_event, 'p) interface \<Rightarrow> 'w socket_api \<Rightarrow> nat \<Rightarrow> int \<Rightarrow> int \<Rightarrow> int \<Rightarrow> ('w, 'p, mysql_socket) program" where
  "inline_mysql_socket_socket p k key sdomain stype protocol = do {
     n \<leftarrow> sys_call (k_socket k sdomain stype protocol);
     if have_psi p \<and> n \<noteq> INVALID_SOCKET then do {
       h \<leftarrow> psi_call p (init_socket key n 0 0);
       State_Monad.return (mysql_socket_invalid\<lparr>fd := n, sock_psi := h\<rparr>)
     } else State_Monad.return (mysql_socket_invalid\<lparr>fd := n\<rparr>)
   }"

definition inline_mysql_socket_bind ::
  "(socket_event, 'p) interface \<Rightarrow> 'w socket_api \<Rightarrow> place \<Rightarrow> mysql_socket \<Rightarrow> nat \<Rightarrow> nat \<Rightarrow> ('w, 'p, int) program" where
  "inline_mysql_socket_bind p k src sock addr len =
     (case socket_hook p sock of
        Some h \<Rightarrow> do {
          locker \<leftarrow> psi_call p (start_socket_wait h PSI_SOCKET_BIND 0 src);
          result \<leftarrow> sys_call (k_bind k (fd sock) addr len);
          (if result = 0 then psi_do p (set_socket_info h addr len) else State_Monad.return ());
          psi_on p locker (\<lambda>l. end_socket_wait l 0);
          State_Monad.return result
        }
      | None \<Rightarrow> sys_call (k_bind k (fd sock) addr len))"

definition inline_mysql_socket_getsockname ::
  "(socket_event, 'p) interface \<Rightarrow> 'w socket_api \<Rightarrow> place \<Rightarrow> mysql_socket \<Rightarrow> nat \<Rightarrow> nat \<Rightarrow> ('w, 'p, int) program" where
  "inline_mysql_socket_getsockname p k src sock addr len =
     (case socket_hook p sock of
        Some h \<Rightarrow> do {
          locker \<leftarrow> psi_call p (start_socket_wait h PSI_SOCKET_BIND 0 src);
          result \<leftarrow> sys_call (k_getsockname k (fd sock) addr len);
          psi_on p locker (\<lambda>l. end_socket_wait l 0);
          State_Monad.return result
        }
      | None \<Rightarrow> sys_call (k_getsockname k (fd sock) addr len))"

definition inline_mysql_socket_connect ::
  "(socket_event, 'p) interface \<Rightarrow> 'w socket_api \<Rightarrow> place \<Rightarrow> mysql_socket \<Rightarrow> nat \<Rightarrow> nat \<Rightarrow> ('w, 'p, int) program" where
  "inline_mysql_socket_connect p k src sock addr len =
     (case socket_hook p sock of
        Some h \<Rightarrow> do {
          locker \<leftarrow> psi_call p (start_socket_wait h PSI_SOCKET_CONNECT 0 src);
          result \<leftarrow> sys_call (k_connect k (fd sock) addr len);
          psi_on p locker (\<lambda>l. end_socket_wait l 0);
          State_Monad.return result
        }
      | None \<Rightarrow> sys_call (k_connect k (fd sock) addr len))"

definition inline_mysql_socket_getpeername ::
  "(socket_event, 'p) interface \<Rightarrow> 'w socket_api \<Rightarrow> place \<Rightarrow> mysql_socket \<Rightarrow> nat \<Rightarrow> nat \<Rightarrow> ('w, 'p, int) program" where
  "inline_mysql_socket_getpeername p k src sock addr len =
     (case socket_hook p sock of
        Some h \<Rightarrow> do {
          locker \<leftarrow> psi_call p (start_socket_wait h PSI_SOCKET_BIND 0 src);
          result \<leftarrow> sys_call (k_getpeername k (fd sock) addr len);
          psi_on p locker (\<lambda>l. end_socket_wait l 0);
          State_Monad.return result
        }
      | None \<Rightarrow> sys_call (k_getpeername k (fd sock) addr len))"

section \<open>Sending and receiving\<close>

definition inline_mysql_socket_send ::
  "(socket_event, 'p) interface \<Rightarrow> 'w socket_api \<Rightarrow> place \<Rightarrow> mysql_socket \<Rightarrow> nat \<Rightarrow> 64 word \<Rightarrow> int
    \<Rightarrow> ('w, 'p, int) program" where
  "inline_mysql_socket_send p k src sock buf n flags =
     (case socket_hook p sock of
        Some h \<Rightarrow> do {
          locker \<leftarrow> psi_call p (start_socket_wait h PSI_SOCKET_SEND n src);
          result \<leftarrow> sys_call (k_send k (fd sock) buf n flags);
          psi_on p locker (\<lambda>l. end_socket_wait l (if - 1 < result then word_of_int result else 0));
          State_Monad.return result
        }
      | None \<Rightarrow> sys_call (k_send k (fd sock) buf n flags))"

definition inline_mysql_socket_recv ::
  "(socket_event, 'p) interface \<Rightarrow> 'w socket_api \<Rightarrow> place \<Rightarrow> mysql_socket \<Rightarrow> nat \<Rightarrow> 64 word \<Rightarrow> int
    \<Rightarrow> ('w, 'p, int) program" where
  "inline_mysql_socket_recv p k src sock buf n flags =
     (case socket_hook p sock of
        Some h \<Rightarrow> do {
          locker \<leftarrow> psi_call p (start_socket_wait h PSI_SOCKET_RECV 0 src);
          result \<leftarrow> sys_call (k_recv k (fd sock) buf n flags);
          psi_on p locker (\<lambda>l. end_socket_wait l (if - 1 < result then word_of_int result else 0));
          State_Monad.return result
        }
      | None \<Rightarrow> sys_call (k_recv k (fd sock) buf n flags))"

definition inline_mysql_socket_sendto ::
  "(socket_event, 'p) interface \<Rightarrow> 'w socket_api \<Rightarrow> place \<Rightarrow> mysql_socket \<Rightarrow> nat \<Rightarrow> 64 word \<Rightarrow> int \<Rightarrow> nat \<Rightarrow> nat
    \<Rightarrow> ('w, 'p, int) program" where
  "inline_mysql_socket_sendto p k src sock buf n flags addr addr_len =
     (case socket_hook p sock of
        Some h \<Rightarrow> do {
          locker \<leftarrow> psi_call p (start_socket_wait h PSI_SOCKET_SEND n src);
          result \<leftarrow> sys_call (k_sendto k (fd sock) buf n flags addr addr_len);
          psi_on p locker (\<lambda>l. end_socket_wait l (if - 1 < result then word_of_int result else 0));
          State_Monad.return result
        }
      | None \<Rightarrow> sys_call (k_sendto k (fd sock) buf n flags addr addr_len))"

definition inline_mysql_socket_recvfrom ::
  "(socket_event, 'p) interface \<Rightarrow> 'w socket_api \<Rightarrow> place \<Rightarrow> mysql_socket \<Rightarrow> nat \<Rightarrow> 64 word \<Rightarrow> int \<Rightarrow> nat \<Rightarrow> nat
    \<Rightarrow> ('w, 'p, int) program" where
  "inline_mysql_socket_recvfrom p k src sock buf n flags addr addr_len =
     (case socket_hook p sock of
        Some h \<Rightarrow> do {
          locker \<leftarrow> psi_call p (start_socket_wait h PSI_SOCKET_RECV 0 src);
          result \<leftarrow> sys_call (k_recvfrom k (fd sock) buf n flags addr addr_len);
          psi_on p locker (\<lambda>l. end_socket_wait l (if - 1 < result then word_of_int result else 0));
          State_Monad.return result
        }
      | None \<Rightarrow> sys_call (k_recvfrom k (fd sock) buf n flags addr addr_len))"

section \<open>Options\<close>

definition inline_mysql_socket_getsockopt ::
  "(socket_event, 'p) interface \<Rightarrow> 'w socket_api \<Rightarrow> place \<Rightarrow> mysql_socket \<Rightarrow> int \<Rightarrow> int \<Rightarrow> nat \<Rightarrow> nat
    \<Rightarrow> ('w, 'p, int) program" where
  "inline_mysql_socket_getsockopt p k src sock level optname optval optlen =
     (case socket_hook p sock of
        Some h \<Rightarrow> do {
          locker \<leftarrow> psi_call p (start_socket_wait h PSI_SOCKET_OPT 0 src);
          result \<leftarrow> sys_call (k_getsockopt k (fd sock) level optname optval optlen);
          psi_on p locker (\<lambda>l. end_socket_wait l 0);
          State_Monad.return result
        }
      | None \<Rightarrow> sys_call (k_getsockopt k (fd sock) level optname optval optlen))"

definition inline_mysql_socket_setsockopt ::
  "(socket_event, 'p) interface \<Rightarrow> 'w socket_api \<Rightarrow> place \<Rightarrow> mysql_socket \<Rightarrow> int \<Rightarrow> int \<Rightarrow> nat \<Rightarrow> nat
    \<Rightarrow> ('w, 'p, int) program" where
  "inline_mysql_socket_setsockopt p k src sock level optname optval optlen =
     (case socket_hook p sock of
        Some h \<Rightarrow> do {
          locker \<leftarrow> psi_call p (start_socket_wait h PSI_SOCKET_OPT 0 src);
          result \<leftarrow> sys_call (k_setsockopt k (fd sock) level optname optval optlen);
          psi_on p locker (\<lambda>l. end_socket_wait l 0);
          State_Monad.return result
        }
      | None \<Rightarrow> sys_call (k_setsockopt k (fd sock) level optname optval optlen))"

text \<open>The flags and commands of \<open>fcntl\<close> are those of Linux on x86-64.\<close>

abbreviation F_GETFL :: int where
  "F_GETFL \<equiv> 3"

abbreviation F_SETFL :: int where
  "F_SETFL \<equiv> 4"

abbreviation O_NONBLOCK :: int where
  "O_NONBLOCK \<equiv> 2048"

definition set_socket_nonblock :: "'w socket_api \<Rightarrow> int \<Rightarrow> 'w \<Rightarrow> int \<times> 'w" where
  "set_socket_nonblock k n w =
     (let (fd_flags, w1) = k_fcntl k n F_GETFL 0 w
      in if fd_flags < 0 then (k_errno k w1, w1)
         else let (r, w2) = k_fcntl k n F_SETFL (or fd_flags O_NONBLOCK) w1
              in (if r = - 1 then k_errno k w2 else 0, w2))"

definition inline_mysql_sock_set_nonblocking ::
  "(socket_event, 'p) interface \<Rightarrow> 'w socket_api \<Rightarrow> place \<Rightarrow> mysql_socket \<Rightarrow> ('w, 'p, int) program" where
  "inline_mysql_sock_set_nonblocking p k src sock =
     (case socket_hook p sock of
        Some h \<Rightarrow> do {
          locker \<leftarrow> psi_call p (start_socket_wait h PSI_SOCKET_OPT 0 src);
          result \<leftarrow> sys_call (set_socket_nonblock k (fd sock));
          psi_on p locker (\<lambda>l. end_socket_wait l 0);
          State_Monad.return result
        }
      | None \<Rightarrow> sys_call (set_socket_nonblock k (fd sock)))"

section \<open>Listening, accepting, closing\<close>

definition inline_mysql_socket_listen ::
  "(socket_event, 'p) interface \<Rightarrow> 'w socket_api \<Rightarrow> place \<Rightarrow> mysql_socket \<Rightarrow> int
    \<Rightarrow> ('w, 'p, int) program" where
  "inline_mysql_socket_listen p k src sock backlog =
     (case socket_hook p sock of
        Some h \<Rightarrow> do {
          locker \<leftarrow> psi_call p (start_socket_wait h PSI_SOCKET_CONNECT 0 src);
          result \<leftarrow> sys_call (k_listen k (fd sock) backlog);
          psi_on p locker (\<lambda>l. end_socket_wait l 0);
          State_Monad.return result
        }
      | None \<Rightarrow> sys_call (k_listen k (fd sock) backlog))"

text \<open>
  \<open>accept\<close> is given a copy of the caller's length, if the caller gives one, and the new length stays in
  this copy.
\<close>

definition accept_copy :: "'w socket_api \<Rightarrow> int \<Rightarrow> nat \<Rightarrow> handle \<Rightarrow> 'w \<Rightarrow> (int \<times> nat) \<times> 'w" where
  "accept_copy k n addr addr_len w =
     k_accept k n addr (case addr_len of None \<Rightarrow> 0 | Some a \<Rightarrow> k_load_len k a w) w"

definition inline_mysql_socket_accept ::
  "(socket_event, 'p) interface \<Rightarrow> 'w socket_api \<Rightarrow> place \<Rightarrow> nat \<Rightarrow> mysql_socket \<Rightarrow> nat \<Rightarrow> handle
    \<Rightarrow> ('w, 'p, mysql_socket) program" where
  "inline_mysql_socket_accept p k src key socket_listen addr addr_len = do {
     (n, addr_length) \<leftarrow>
       (case socket_hook p socket_listen of
          Some h \<Rightarrow> do {
            locker \<leftarrow> psi_call p (start_socket_wait h PSI_SOCKET_CONNECT 0 src);
            result \<leftarrow> sys_call (accept_copy k (fd socket_listen) addr addr_len);
            psi_on p locker (\<lambda>l. end_socket_wait l 0);
            State_Monad.return result
          }
        | None \<Rightarrow> sys_call (accept_copy k (fd socket_listen) addr addr_len));
     if have_psi p \<and> n \<noteq> INVALID_SOCKET then do {
       h \<leftarrow> psi_call p (init_socket key n addr addr_length);
       State_Monad.return (mysql_socket_invalid\<lparr>fd := n, sock_psi := h\<rparr>)
     } else State_Monad.return (mysql_socket_invalid\<lparr>fd := n\<rparr>)
   }"

definition inline_mysql_socket_close ::
  "(socket_event, 'p) interface \<Rightarrow> 'w socket_api \<Rightarrow> place \<Rightarrow> mysql_socket \<Rightarrow> ('w, 'p, int) program" where
  "inline_mysql_socket_close p k src sock =
     (case socket_hook p sock of
        Some h \<Rightarrow> do {
          locker \<leftarrow> psi_call p (start_socket_wait h PSI_SOCKET_CLOSE 0 src);
          result \<leftarrow> sys_call (k_close k (fd sock));
          psi_on p locker (\<lambda>l. end_socket_wait l 0);
          psi_do p (destroy_socket h);
          State_Monad.return result
        }
      | None \<Rightarrow> sys_call (k_close k (fd sock)))"

definition inline_mysql_socket_shutdown ::
  "(socket_event, 'p) interface \<Rightarrow> 'w socket_api \<Rightarrow> place \<Rightarrow> mysql_socket \<Rightarrow> int
    \<Rightarrow> ('w, 'p, int) program" where
  "inline_mysql_socket_shutdown p k src sock how =
     (case socket_hook p sock of
        Some h \<Rightarrow> do {
          locker \<leftarrow> psi_call p (start_socket_wait h PSI_SOCKET_SHUTDOWN 0 src);
          result \<leftarrow> sys_call (k_shutdown k (fd sock) how);
          psi_on p locker (\<lambda>l. end_socket_wait l 0);
          State_Monad.return result
        }
      | None \<Rightarrow> sys_call (k_shutdown k (fd sock) how))"

section \<open>The system sees the plain calls\<close>

lemma implements_hook [psi_os]:
  "(\<And>h. implements (m h) f) \<Longrightarrow> implements m' f \<Longrightarrow> implements (case x of Some h \<Rightarrow> m h | None \<Rightarrow> m') f"
  by (cases x) simp_all

lemma sockets_implement:
  "implements (inline_mysql_socket_bind p k src sock addr len) (k_bind k (fd sock) addr len)"
  "implements (inline_mysql_socket_getsockname p k src sock addr len) (k_getsockname k (fd sock) addr len)"
  "implements (inline_mysql_socket_connect p k src sock addr len) (k_connect k (fd sock) addr len)"
  "implements (inline_mysql_socket_getpeername p k src sock addr len) (k_getpeername k (fd sock) addr len)"
  "implements (inline_mysql_socket_send p k src sock buf n flags) (k_send k (fd sock) buf n flags)"
  "implements (inline_mysql_socket_recv p k src sock buf n flags) (k_recv k (fd sock) buf n flags)"
  "implements (inline_mysql_socket_sendto p k src sock buf n flags addr len) (k_sendto k (fd sock) buf n flags addr len)"
  "implements (inline_mysql_socket_recvfrom p k src sock buf n flags addr len)
     (k_recvfrom k (fd sock) buf n flags addr len)"
  "implements (inline_mysql_socket_getsockopt p k src sock level optname val optlen)
     (k_getsockopt k (fd sock) level optname val optlen)"
  "implements (inline_mysql_socket_setsockopt p k src sock level optname val optlen)
     (k_setsockopt k (fd sock) level optname val optlen)"
  "implements (inline_mysql_sock_set_nonblocking p k src sock) (set_socket_nonblock k (fd sock))"
  "implements (inline_mysql_socket_listen p k src sock backlog) (k_listen k (fd sock) backlog)"
  "implements (inline_mysql_socket_close p k src sock) (k_close k (fd sock))"
  "implements (inline_mysql_socket_shutdown p k src sock how) (k_shutdown k (fd sock) how)"
  unfolding inline_mysql_socket_bind_def inline_mysql_socket_getsockname_def inline_mysql_socket_connect_def
    inline_mysql_socket_getpeername_def inline_mysql_socket_send_def inline_mysql_socket_recv_def
    inline_mysql_socket_sendto_def inline_mysql_socket_recvfrom_def inline_mysql_socket_getsockopt_def
    inline_mysql_socket_setsockopt_def inline_mysql_sock_set_nonblocking_def inline_mysql_socket_listen_def
    inline_mysql_socket_close_def inline_mysql_socket_shutdown_def
  by (intro psi_os)+

section \<open>Waits\<close>

definition socket_starts :: "socket_event \<Rightarrow> handle \<Rightarrow> handle" where
  "socket_starts e r = (case e of start_socket_wait h opr n src \<Rightarrow> r | _ \<Rightarrow> None)"

definition socket_ends :: "socket_event \<Rightarrow> handle" where
  "socket_ends e = (case e of end_socket_wait l n \<Rightarrow> Some l | _ \<Rightarrow> None)"

lemma socket_wait_simps [simp]:
  "socket_starts (start_socket_wait h opr n src) r = r" "socket_starts (end_socket_wait l n) r = None"
  "socket_starts (set_socket_info h a m) r = None" "socket_starts (destroy_socket h) r = None"
  "socket_starts (init_socket key f a m) r = None" "socket_ends (start_socket_wait h opr n src) = None"
  "socket_ends (end_socket_wait l n) = Some l" "socket_ends (set_socket_info h a m) = None"
  "socket_ends (destroy_socket h) = None" "socket_ends (init_socket key f a m) = None"
  by (simp_all add: socket_starts_def socket_ends_def)

interpretation socket_waits: wait_calls socket_starts socket_ends
  by unfold_locales (auto simp: socket_starts_def socket_ends_def split: socket_event.splits)

lemmas socket_wait_rules =
  socket_waits.waits_return socket_waits.waits_sys socket_waits.waits_bind socket_waits.waits_if
  socket_waits.waits_call socket_waits.waits_do socket_waits.waits_on

abbreviation closed :: "('w, (socket_event \<times> handle) list, 'a) program \<Rightarrow> bool" where
  "closed m \<equiv> ends_waits socket_starts socket_ends m"

lemma closed_hook:
  "(\<And>h. closed (m h)) \<Longrightarrow> closed m' \<Longrightarrow> closed (case x of Some h \<Rightarrow> m h | None \<Rightarrow> m')"
  by (cases x) simp_all

lemma closed_around:
  "closed (do { locker \<leftarrow> psi_call (recorder reply) (start_socket_wait h opr n src); result \<leftarrow> sys_call g;
     psi_on (recorder reply) locker (\<lambda>l. end_socket_wait l (b result)); State_Monad.return result })"
  unfolding ends_waits_def by (rule socket_waits.waits_around) simp_all

lemma closed_sys: "closed (sys_call f)"
  unfolding ends_waits_def by (rule socket_waits.waits_sys)

lemma sockets_closed:
  fixes reply defines "p \<equiv> recorder reply"
  shows "closed (inline_mysql_socket_getsockname p k src sock addr len)"
    and "closed (inline_mysql_socket_connect p k src sock addr len)"
    and "closed (inline_mysql_socket_getpeername p k src sock addr len)"
    and "closed (inline_mysql_socket_send p k src sock buf n flags)"
    and "closed (inline_mysql_socket_recv p k src sock buf n flags)"
    and "closed (inline_mysql_socket_sendto p k src sock buf n flags addr len)"
    and "closed (inline_mysql_socket_recvfrom p k src sock buf n flags addr len)"
    and "closed (inline_mysql_socket_getsockopt p k src sock level optname val optlen)"
    and "closed (inline_mysql_socket_setsockopt p k src sock level optname val optlen)"
    and "closed (inline_mysql_sock_set_nonblocking p k src sock)"
    and "closed (inline_mysql_socket_listen p k src sock backlog)"
    and "closed (inline_mysql_socket_shutdown p k src sock how)"
  unfolding inline_mysql_socket_getsockname_def inline_mysql_socket_connect_def
    inline_mysql_socket_getpeername_def inline_mysql_socket_send_def inline_mysql_socket_recv_def
    inline_mysql_socket_sendto_def inline_mysql_socket_recvfrom_def inline_mysql_socket_getsockopt_def
    inline_mysql_socket_setsockopt_def inline_mysql_sock_set_nonblocking_def inline_mysql_socket_listen_def
    inline_mysql_socket_shutdown_def p_def
  by (intro closed_hook closed_around closed_sys)+

lemma bind_closed: "closed (inline_mysql_socket_bind (recorder reply) k src sock addr len)"
proof -
  have i: "waits socket_starts socket_ends w
      (if b then psi_do (recorder reply) (set_socket_info h addr len) else State_Monad.return ()) (\<lambda>_. w)" for w b h
    by (intro socket_waits.waits_if socket_waits.waits_do socket_waits.waits_return) simp_all
  show ?thesis
    unfolding inline_mysql_socket_bind_def
    by (intro closed_hook closed_sys, unfold ends_waits_def)
      (intro socket_waits.waits_bind [OF socket_waits.waits_start] socket_waits.waits_bind [OF socket_waits.waits_sys]
        socket_waits.waits_bind [OF i] socket_waits.waits_bind [OF socket_waits.waits_finish]
        socket_waits.waits_return; simp)
qed

lemma close_closed: "closed (inline_mysql_socket_close (recorder reply) k src sock)"
  unfolding inline_mysql_socket_close_def
  by (intro closed_hook closed_sys, unfold ends_waits_def)
    (intro socket_waits.waits_bind [OF socket_waits.waits_start] socket_waits.waits_bind [OF socket_waits.waits_sys]
      socket_waits.waits_bind [OF socket_waits.waits_finish] socket_waits.waits_bind [OF socket_waits.waits_do]
      socket_waits.waits_return; simp)

lemma closed_bind: "closed m \<Longrightarrow> (\<And>a. closed (f a)) \<Longrightarrow> closed (m \<bind> f)"
  unfolding ends_waits_def by (rule socket_waits.waits_bind)

lemma closed_simple:
  "closed (State_Monad.return a)" "closed (psi_call (recorder reply) (init_socket key n addr len))"
  unfolding ends_waits_def by (rule socket_waits.waits_return) (rule socket_waits.waits_call; simp)

lemma accept_waits:
  "closed (inline_mysql_socket_socket (recorder reply) k key sdomain stype protocol)"
  "closed (inline_mysql_socket_accept (recorder reply) k src key sock addr addr_len)"
proof -
  have c: "closed (if b then m else m')" if "closed m" "closed m'"
    for b and m m' :: "('c, (socket_event \<times> handle) list, mysql_socket) program"
    using that by simp
  show "closed (inline_mysql_socket_socket (recorder reply) k key sdomain stype protocol)"
    unfolding inline_mysql_socket_socket_def by (intro closed_bind c closed_simple closed_sys)
  show "closed (inline_mysql_socket_accept (recorder reply) k src key sock addr addr_len)"
    unfolding inline_mysql_socket_accept_def case_prod_beta
    by (intro closed_bind c closed_simple closed_sys closed_hook closed_around)
qed

section \<open>Properties\<close>


text \<open>
  Every function on instrumented sockets ends each wait that the instrumentation granted it,
  once, before it returns, and never ends another one.
\<close>

theorem socket_waits_are_ended:
  "closed (inline_mysql_socket_bind (recorder reply) k src sock addr len)
   \<and> closed (inline_mysql_socket_getsockname (recorder reply) k src sock addr len)
   \<and> closed (inline_mysql_socket_connect (recorder reply) k src sock addr len)
   \<and> closed (inline_mysql_socket_getpeername (recorder reply) k src sock addr len)
   \<and> closed (inline_mysql_socket_send (recorder reply) k src sock buf n flags)
   \<and> closed (inline_mysql_socket_recv (recorder reply) k src sock buf n flags)
   \<and> closed (inline_mysql_socket_sendto (recorder reply) k src sock buf n flags addr len)
   \<and> closed (inline_mysql_socket_recvfrom (recorder reply) k src sock buf n flags addr len)
   \<and> closed (inline_mysql_socket_getsockopt (recorder reply) k src sock level optname val optlen)
   \<and> closed (inline_mysql_socket_setsockopt (recorder reply) k src sock level optname val optlen)
   \<and> closed (inline_mysql_sock_set_nonblocking (recorder reply) k src sock)
   \<and> closed (inline_mysql_socket_listen (recorder reply) k src sock backlog)
   \<and> closed (inline_mysql_socket_accept (recorder reply) k src key sock addr addr_len)
   \<and> closed (inline_mysql_socket_close (recorder reply) k src sock)
   \<and> closed (inline_mysql_socket_shutdown (recorder reply) k src sock how)
   \<and> closed (inline_mysql_socket_socket (recorder reply) k key sdomain stype protocol)"
  by (intro conjI sockets_closed bind_closed close_closed accept_waits)

text \<open>
  What a caller of \<open>accept\<close> would get: the length of the peer's address is stored through the pointer.
\<close>

definition plain_accept ::
  "'w socket_api \<Rightarrow> (nat \<Rightarrow> nat \<Rightarrow> 'w \<Rightarrow> 'w) \<Rightarrow> int \<Rightarrow> nat \<Rightarrow> nat \<Rightarrow> 'w \<Rightarrow> int \<times> 'w" where
  "plain_accept k store n addr a w = (case k_accept k n addr (k_load_len k a w) w of ((r, l), w') \<Rightarrow> (r, store a l w'))"

text \<open>
  C36: \<open>mysql_socket_accept\<close> returns the descriptor that \<open>accept\<close>
  returns but never stores the length of the peer's address through the pointer it is given: the
  system is left as by \<open>accept\<close> on a copy, and when the length has changed, it
  differs from the system after a plain \<open>accept\<close>.
\<close>

theorem accept_loses_the_length:
  assumes "k_accept k (fd sock) addr (k_load_len k a (os s)) (os s) = ((n, l), w)"
    and "\<And>v. k_load_len k a (store a v w) = v" and "l \<noteq> k_load_len k a w"
  shows "fd (fst (run_state (inline_mysql_socket_accept p k src key sock addr (Some a)) s)) = n
    \<and> os (snd (run_state (inline_mysql_socket_accept p k src key sock addr (Some a)) s)) = w
    \<and> os (snd (run_state (inline_mysql_socket_accept p k src key sock addr (Some a)) s))
        \<noteq> snd (plain_accept k store (fd sock) addr a (os s))"
proof -
  have c: "accept_copy k (fd sock) addr (Some a) (os s) = ((n, l), w)"
    using assms(1) by (simp add: accept_copy_def)
  have i: "implements (case socket_hook p sock of
      Some h \<Rightarrow> do { locker \<leftarrow> psi_call p (start_socket_wait h PSI_SOCKET_CONNECT 0 src);
        result \<leftarrow> sys_call (accept_copy k (fd sock) addr (Some a)); psi_on p locker (\<lambda>l. end_socket_wait l 0);
        State_Monad.return result }
    | None \<Rightarrow> sys_call (accept_copy k (fd sock) addr (Some a))) (accept_copy k (fd sock) addr (Some a))" (is "implements ?m _")
    by (intro psi_os)
  from i have "fst (run_state ?m s) = fst (accept_copy k (fd sock) addr (Some a) (os s))
      \<and> os (snd (run_state ?m s)) = snd (accept_copy k (fd sock) addr (Some a) (os s))"
    unfolding implements_def by (rule spec)
  then obtain s' where r: "run_state ?m s = ((n, l), s')" "os s' = w"
    unfolding c by (metis fst_conv snd_conv prod.collapse)
  have "fd (fst (run_state (inline_mysql_socket_accept p k src key sock addr (Some a)) s)) = n"
    and w: "os (snd (run_state (inline_mysql_socket_accept p k src key sock addr (Some a)) s)) = w"
    using r by (simp_all add: inline_mysql_socket_accept_def mysql_socket_invalid_def)
  moreover have "snd (plain_accept k store (fd sock) addr a (os s)) = store a l w"
    using assms(1) by (simp add: plain_accept_def)
  moreover have "store a l w \<noteq> w" using assms(2) [of l] assms(3) by auto
  ultimately show ?thesis by simp
qed

text \<open>A system with one connection to accept; its state is the length stored at the only address.\<close>

definition sample_sockets :: "nat socket_api" where
  "sample_sockets =
     \<lparr>k_socket = (\<lambda>_ _ _ w. (3, w)), k_bind = (\<lambda>_ _ _ w. (0, w)), k_getsockname = (\<lambda>_ _ _ w. (0, w)),
      k_connect = (\<lambda>_ _ _ w. (0, w)), k_getpeername = (\<lambda>_ _ _ w. (0, w)), k_send = (\<lambda>_ _ n _ w. (uint n, w)),
      k_recv = (\<lambda>_ _ _ _ w. (0, w)), k_sendto = (\<lambda>_ _ n _ _ _ w. (uint n, w)),
      k_recvfrom = (\<lambda>_ _ _ _ _ _ w. (0, w)), k_getsockopt = (\<lambda>_ _ _ _ _ w. (0, w)),
      k_setsockopt = (\<lambda>_ _ _ _ _ w. (0, w)), k_fcntl = (\<lambda>_ _ _ w. (0, w)), k_errno = (\<lambda>_. 0),
      k_listen = (\<lambda>_ _ w. (0, w)), k_accept = (\<lambda>_ _ _ w. ((4, 16), w)), k_load_len = (\<lambda>_ w. w),
      k_close = (\<lambda>_ w. (0, w)), k_shutdown = (\<lambda>_ _ w. (0, w))\<rparr>"

theorem accept_loses_the_length_witness:
  "fd (fst (run_state (inline_mysql_socket_accept (recorder (\<lambda>_ _. Some 7)) sample_sockets (''a.c'', 1) 2
      \<lparr>fd = 3, sock_psi = Some 5\<rparr> 100 (Some 200)) \<lparr>os = 28, psi = [], hooks = \<lambda>_. None\<rparr>)) = 4
   \<and> os (snd (run_state (inline_mysql_socket_accept (recorder (\<lambda>_ _. Some 7)) sample_sockets (''a.c'', 1) 2
      \<lparr>fd = 3, sock_psi = Some 5\<rparr> 100 (Some 200)) \<lparr>os = 28, psi = [], hooks = \<lambda>_. None\<rparr>)) = 28
   \<and> snd (plain_accept sample_sockets (\<lambda>_ v _. v) 3 100 200 28) = 16"
proof -
  have a: "k_accept sample_sockets n addr l w = ((4, 16), w)" "k_load_len sample_sockets v w = w" for n addr l w v
    by (simp_all add: sample_sockets_def)
  show ?thesis
    using accept_loses_the_length [of sample_sockets "\<lparr>fd = 3, sock_psi = Some 5\<rparr>" 100 200
        "\<lparr>os = 28, psi = [], hooks = \<lambda>_. None\<rparr>" 4 16 28 "\<lambda>_ v _. v" "recorder (\<lambda>_ _. Some 7)" "(''a.c'', 1)" 2]
    by (simp add: a plain_accept_def)
qed

end
