(* ===== verification/PsiSocketMacros.thy ===== *)
theory PsiSocketMacros
  imports PsiSocket
begin

text \<open>
  The public names of \<open>mysql/psi/mysql_socket.h\<close>: the macros over the inline functions.
\<close>

section \<open>Waits and states\<close>

text \<open>
  The macro that starts a wait assigns the locker of the caller, or leaves it as it is. Those without a
  result are empty when the instrumentation is not compiled in.
\<close>

definition mysql_socket_register ::
  "(socket_event, 'p) interface \<Rightarrow> string \<Rightarrow> nat \<Rightarrow> int \<Rightarrow> ('w, 'p, unit) program" where
  "mysql_socket_register p category info count = (if have_psi p then inline_mysql_socket_register p category
     info count else State_Monad.return ())"

definition MYSQL_START_SOCKET_WAIT ::
  "(socket_event, 'p) interface \<Rightarrow> handle \<Rightarrow> mysql_socket \<Rightarrow> PSI_socket_operation \<Rightarrow> 64 word \<Rightarrow> place \<Rightarrow> ('w, 'p,
    handle) program" where
  "MYSQL_START_SOCKET_WAIT p locker sock opr count src = (if have_psi p then inline_mysql_start_socket_wait
     p sock opr count src else State_Monad.return locker)"

definition MYSQL_END_SOCKET_WAIT ::
  "(socket_event, 'p) interface \<Rightarrow> handle \<Rightarrow> 64 word \<Rightarrow> ('w, 'p, unit) program" where
  "MYSQL_END_SOCKET_WAIT p locker byte_count = (if have_psi p then inline_mysql_end_socket_wait p locker
     byte_count else State_Monad.return ())"

definition MYSQL_SOCKET_SET_STATE ::
  "(socket_event, 'p) interface \<Rightarrow> mysql_socket \<Rightarrow> PSI_socket_state \<Rightarrow> ('w, 'p, unit) program" where
  "MYSQL_SOCKET_SET_STATE p sock st = (if have_psi p then inline_mysql_socket_set_state p sock st else
     State_Monad.return ())"

section \<open>Calls of the system\<close>

definition mysql_socket_socket ::
  "(socket_event, 'p) interface \<Rightarrow> 'w socket_api \<Rightarrow> nat \<Rightarrow> int \<Rightarrow> int \<Rightarrow> int \<Rightarrow> ('w, 'p, mysql_socket) program"
    where
  "mysql_socket_socket p k key sdomain stype protocol = inline_mysql_socket_socket p k key sdomain stype
     protocol"

definition mysql_socket_bind ::
  "(socket_event, 'p) interface \<Rightarrow> 'w socket_api \<Rightarrow> place \<Rightarrow> mysql_socket \<Rightarrow> nat \<Rightarrow> nat \<Rightarrow> ('w, 'p, int) program"
    where
  "mysql_socket_bind p k src sock addr len = inline_mysql_socket_bind p k src sock addr len"

definition mysql_socket_getsockname ::
  "(socket_event, 'p) interface \<Rightarrow> 'w socket_api \<Rightarrow> place \<Rightarrow> mysql_socket \<Rightarrow> nat \<Rightarrow> nat \<Rightarrow> ('w, 'p, int) program"
    where
  "mysql_socket_getsockname p k src sock addr len = inline_mysql_socket_getsockname p k src sock addr len"

definition mysql_socket_connect ::
  "(socket_event, 'p) interface \<Rightarrow> 'w socket_api \<Rightarrow> place \<Rightarrow> mysql_socket \<Rightarrow> nat \<Rightarrow> nat \<Rightarrow> ('w, 'p, int) program"
    where
  "mysql_socket_connect p k src sock addr len = inline_mysql_socket_connect p k src sock addr len"

definition mysql_socket_getpeername ::
  "(socket_event, 'p) interface \<Rightarrow> 'w socket_api \<Rightarrow> place \<Rightarrow> mysql_socket \<Rightarrow> nat \<Rightarrow> nat \<Rightarrow> ('w, 'p, int) program"
    where
  "mysql_socket_getpeername p k src sock addr len = inline_mysql_socket_getpeername p k src sock addr len"

definition mysql_socket_send ::
  "(socket_event, 'p) interface \<Rightarrow> 'w socket_api \<Rightarrow> place \<Rightarrow> mysql_socket \<Rightarrow> nat \<Rightarrow> 64 word \<Rightarrow> int \<Rightarrow> ('w, 'p, int)
    program" where
  "mysql_socket_send p k src sock buf n flags = inline_mysql_socket_send p k src sock buf n flags"

definition mysql_socket_recv ::
  "(socket_event, 'p) interface \<Rightarrow> 'w socket_api \<Rightarrow> place \<Rightarrow> mysql_socket \<Rightarrow> nat \<Rightarrow> 64 word \<Rightarrow> int \<Rightarrow> ('w, 'p, int)
    program" where
  "mysql_socket_recv p k src sock buf n flags = inline_mysql_socket_recv p k src sock buf n flags"

definition mysql_socket_sendto ::
  "(socket_event, 'p) interface \<Rightarrow> 'w socket_api \<Rightarrow> place \<Rightarrow> mysql_socket \<Rightarrow> nat \<Rightarrow> 64 word \<Rightarrow> int \<Rightarrow> nat \<Rightarrow> nat \<Rightarrow>
    ('w, 'p, int) program" where
  "mysql_socket_sendto p k src sock buf n flags addr addr_len = inline_mysql_socket_sendto p k src sock buf
     n flags addr addr_len"

definition mysql_socket_recvfrom ::
  "(socket_event, 'p) interface \<Rightarrow> 'w socket_api \<Rightarrow> place \<Rightarrow> mysql_socket \<Rightarrow> nat \<Rightarrow> 64 word \<Rightarrow> int \<Rightarrow> nat \<Rightarrow> nat \<Rightarrow>
    ('w, 'p, int) program" where
  "mysql_socket_recvfrom p k src sock buf n flags addr addr_len = inline_mysql_socket_recvfrom p k src sock
     buf n flags addr addr_len"

definition mysql_socket_getsockopt ::
  "(socket_event, 'p) interface \<Rightarrow> 'w socket_api \<Rightarrow> place \<Rightarrow> mysql_socket \<Rightarrow> int \<Rightarrow> int \<Rightarrow> nat \<Rightarrow> nat \<Rightarrow> ('w, 'p,
    int) program" where
  "mysql_socket_getsockopt p k src sock level optname optval optlen = inline_mysql_socket_getsockopt p k src
     sock level optname optval optlen"

definition mysql_socket_setsockopt ::
  "(socket_event, 'p) interface \<Rightarrow> 'w socket_api \<Rightarrow> place \<Rightarrow> mysql_socket \<Rightarrow> int \<Rightarrow> int \<Rightarrow> nat \<Rightarrow> nat \<Rightarrow> ('w, 'p,
    int) program" where
  "mysql_socket_setsockopt p k src sock level optname optval optlen = inline_mysql_socket_setsockopt p k src
     sock level optname optval optlen"

definition mysql_sock_set_nonblocking ::
  "(socket_event, 'p) interface \<Rightarrow> 'w socket_api \<Rightarrow> place \<Rightarrow> mysql_socket \<Rightarrow> ('w, 'p, int) program" where
  "mysql_sock_set_nonblocking p k src sock = inline_mysql_sock_set_nonblocking p k src sock"

definition mysql_socket_listen ::
  "(socket_event, 'p) interface \<Rightarrow> 'w socket_api \<Rightarrow> place \<Rightarrow> mysql_socket \<Rightarrow> int \<Rightarrow> ('w, 'p, int) program" where
  "mysql_socket_listen p k src sock backlog = inline_mysql_socket_listen p k src sock backlog"

definition mysql_socket_accept ::
  "(socket_event, 'p) interface \<Rightarrow> 'w socket_api \<Rightarrow> place \<Rightarrow> nat \<Rightarrow> mysql_socket \<Rightarrow> nat \<Rightarrow> handle \<Rightarrow> ('w, 'p,
    mysql_socket) program" where
  "mysql_socket_accept p k src key socket_listen addr addr_len = inline_mysql_socket_accept p k src key
     socket_listen addr addr_len"

definition mysql_socket_close ::
  "(socket_event, 'p) interface \<Rightarrow> 'w socket_api \<Rightarrow> place \<Rightarrow> mysql_socket \<Rightarrow> ('w, 'p, int) program" where
  "mysql_socket_close p k src sock = inline_mysql_socket_close p k src sock"

definition mysql_socket_shutdown ::
  "(socket_event, 'p) interface \<Rightarrow> 'w socket_api \<Rightarrow> place \<Rightarrow> mysql_socket \<Rightarrow> int \<Rightarrow> ('w, 'p, int) program" where
  "mysql_socket_shutdown p k src sock how = inline_mysql_socket_shutdown p k src sock how"

section \<open>The macros do what the plain functions do\<close>

lemmas socket_macros = mysql_socket_register_def MYSQL_START_SOCKET_WAIT_def MYSQL_END_SOCKET_WAIT_def MYSQL_SOCKET_SET_STATE_def
  mysql_socket_socket_def mysql_socket_bind_def mysql_socket_getsockname_def mysql_socket_connect_def
  mysql_socket_getpeername_def mysql_socket_send_def mysql_socket_recv_def mysql_socket_sendto_def
  mysql_socket_recvfrom_def mysql_socket_getsockopt_def mysql_socket_setsockopt_def
  mysql_sock_set_nonblocking_def mysql_socket_listen_def mysql_socket_accept_def mysql_socket_close_def
  mysql_socket_shutdown_def

lemma socket_macros_transparent:
  "implements (mysql_socket_bind p k src sock addr len) (k_bind k (fd sock) addr len)
   \<and> implements (mysql_socket_getsockname p k src sock addr len) (k_getsockname k (fd sock) addr len)
   \<and> implements (mysql_socket_connect p k src sock addr len) (k_connect k (fd sock) addr len)
   \<and> implements (mysql_socket_getpeername p k src sock addr len) (k_getpeername k (fd sock) addr len)
   \<and> implements (mysql_socket_send p k src sock buf n flags) (k_send k (fd sock) buf n flags)
   \<and> implements (mysql_socket_recv p k src sock buf n flags) (k_recv k (fd sock) buf n flags)
   \<and> implements (mysql_socket_sendto p k src sock buf n flags addr len)
       (k_sendto k (fd sock) buf n flags addr len)
   \<and> implements (mysql_socket_recvfrom p k src sock buf n flags addr len)
       (k_recvfrom k (fd sock) buf n flags addr len)
   \<and> implements (mysql_socket_getsockopt p k src sock level optname val optlen)
       (k_getsockopt k (fd sock) level optname val optlen)
   \<and> implements (mysql_socket_setsockopt p k src sock level optname val optlen)
       (k_setsockopt k (fd sock) level optname val optlen)
   \<and> implements (mysql_sock_set_nonblocking p k src sock) (set_socket_nonblock k (fd sock))
   \<and> implements (mysql_socket_listen p k src sock backlog) (k_listen k (fd sock) backlog)
   \<and> implements (mysql_socket_close p k src sock) (k_close k (fd sock))
   \<and> implements (mysql_socket_shutdown p k src sock how) (k_shutdown k (fd sock) how)
   \<and> implements (mysql_socket_socket p k key sdomain stype protocol \<bind> (\<lambda>x. State_Monad.return (fd x)))
       (k_socket k sdomain stype protocol)"
  unfolding socket_macros
  by (intro conjI sockets_implement)
    (auto simp: implements_def inline_mysql_socket_socket_def mysql_socket_invalid_def split: prod.splits)

lemma socket_macros_end_waits:
  "closed (mysql_socket_bind (recorder reply) k src sock addr len)
   \<and> closed (mysql_socket_getsockname (recorder reply) k src sock addr len)
   \<and> closed (mysql_socket_connect (recorder reply) k src sock addr len)
   \<and> closed (mysql_socket_getpeername (recorder reply) k src sock addr len)
   \<and> closed (mysql_socket_send (recorder reply) k src sock buf n flags)
   \<and> closed (mysql_socket_recv (recorder reply) k src sock buf n flags)
   \<and> closed (mysql_socket_sendto (recorder reply) k src sock buf n flags addr len)
   \<and> closed (mysql_socket_recvfrom (recorder reply) k src sock buf n flags addr len)
   \<and> closed (mysql_socket_getsockopt (recorder reply) k src sock level optname val optlen)
   \<and> closed (mysql_socket_setsockopt (recorder reply) k src sock level optname val optlen)
   \<and> closed (mysql_sock_set_nonblocking (recorder reply) k src sock)
   \<and> closed (mysql_socket_listen (recorder reply) k src sock backlog)
   \<and> closed (mysql_socket_accept (recorder reply) k src key sock addr addr_len)
   \<and> closed (mysql_socket_close (recorder reply) k src sock)
   \<and> closed (mysql_socket_shutdown (recorder reply) k src sock how)
   \<and> closed (mysql_socket_socket (recorder reply) k key sdomain stype protocol)"
  unfolding socket_macros
  by (intro conjI sockets_closed bind_closed close_closed accept_waits)

text \<open>
  Code that is put between the two macros for a wait runs as it would without them.
\<close>

lemma socket_wait_around:
  "implements (do {
     locker \<leftarrow> MYSQL_START_SOCKET_WAIT p locker sock opr count src;
     r \<leftarrow> sys_call f;
     MYSQL_END_SOCKET_WAIT p locker n;
     State_Monad.return r
   }) f"
  unfolding socket_macros inline_mysql_start_socket_wait_def inline_mysql_end_socket_wait_def
  by (cases "sock_psi sock") (auto intro!: psi_os)

end
