(* ===== verification/PsiFile.thy ===== *)
theory PsiFile
  imports PsiBase
begin

text \<open>
  The instrumented files of \<open>mysql/psi/mysql_file.h\<close>: every inline function, for both values of
  \<open>HAVE_PSI_FILE_INTERFACE\<close>, over the file functions of mysys, which are not in the repository and so a
  parameter. A pointer to a \<open>MYSQL_FILE\<close> is given by the object it points to.
\<close>

section \<open>The calls and the system\<close>

datatype file_event =
    register_file string nat int
  | create_file nat string int
  | get_thread_file_name_locker nat PSI_file_operation string
  | get_thread_file_stream_locker handle PSI_file_operation
  | get_thread_file_descriptor_locker int PSI_file_operation
  | start_file_open_wait nat place
  | end_file_open_wait nat handle
  | end_file_open_wait_and_bind_to_descriptor nat int
  | start_file_wait nat "64 word" place
  | end_file_wait nat "64 word"
  | start_file_close_wait nat place
  | end_file_close_wait nat int

text \<open>
  Results that are pointers are given by what they point to or as handles; \<open>f_create_temp_file\<close> also
  gives the name it stores, \<open>f_vfprintf\<close> takes the rest of the arguments as one.
\<close>

record 'w file_api =
  f_fgets :: "handle \<Rightarrow> nat \<Rightarrow> int \<Rightarrow> 'w \<Rightarrow> string option \<times> 'w"
  f_fgetc :: "handle \<Rightarrow> 'w \<Rightarrow> int \<times> 'w"
  f_fputs :: "string option \<Rightarrow> handle \<Rightarrow> 'w \<Rightarrow> int \<times> 'w"
  f_fputc :: "char \<Rightarrow> handle \<Rightarrow> 'w \<Rightarrow> int \<times> 'w"
  f_vfprintf :: "handle \<Rightarrow> string \<Rightarrow> nat \<Rightarrow> 'w \<Rightarrow> int \<times> 'w"
  f_fflush :: "handle \<Rightarrow> 'w \<Rightarrow> int \<times> 'w"
  f_my_fstat :: "int \<Rightarrow> nat \<Rightarrow> int \<Rightarrow> 'w \<Rightarrow> int \<times> 'w"
  f_my_stat :: "string \<Rightarrow> nat \<Rightarrow> int \<Rightarrow> 'w \<Rightarrow> handle \<times> 'w"
  f_my_chsize :: "int \<Rightarrow> 64 word \<Rightarrow> int \<Rightarrow> int \<Rightarrow> 'w \<Rightarrow> int \<times> 'w"
  f_my_fread :: "handle \<Rightarrow> nat \<Rightarrow> 64 word \<Rightarrow> int \<Rightarrow> 'w \<Rightarrow> 64 word \<times> 'w"
  f_my_fwrite :: "handle \<Rightarrow> nat \<Rightarrow> 64 word \<Rightarrow> int \<Rightarrow> 'w \<Rightarrow> 64 word \<times> 'w"
  f_my_fseek :: "handle \<Rightarrow> 64 word \<Rightarrow> int \<Rightarrow> int \<Rightarrow> 'w \<Rightarrow> 64 word \<times> 'w"
  f_my_ftell :: "handle \<Rightarrow> int \<Rightarrow> 'w \<Rightarrow> 64 word \<times> 'w"
  f_my_create :: "string \<Rightarrow> int \<Rightarrow> int \<Rightarrow> int \<Rightarrow> 'w \<Rightarrow> int \<times> 'w"
  f_my_open :: "string \<Rightarrow> int \<Rightarrow> int \<Rightarrow> 'w \<Rightarrow> int \<times> 'w"
  f_my_close :: "int \<Rightarrow> int \<Rightarrow> 'w \<Rightarrow> int \<times> 'w"
  f_my_read :: "int \<Rightarrow> nat \<Rightarrow> 64 word \<Rightarrow> int \<Rightarrow> 'w \<Rightarrow> 64 word \<times> 'w"
  f_my_write :: "int \<Rightarrow> nat \<Rightarrow> 64 word \<Rightarrow> int \<Rightarrow> 'w \<Rightarrow> 64 word \<times> 'w"
  f_my_pread :: "int \<Rightarrow> nat \<Rightarrow> 64 word \<Rightarrow> 64 word \<Rightarrow> int \<Rightarrow> 'w \<Rightarrow> 64 word \<times> 'w"
  f_my_pwrite :: "int \<Rightarrow> nat \<Rightarrow> 64 word \<Rightarrow> 64 word \<Rightarrow> int \<Rightarrow> 'w \<Rightarrow> 64 word \<times> 'w"
  f_my_seek :: "int \<Rightarrow> 64 word \<Rightarrow> int \<Rightarrow> int \<Rightarrow> 'w \<Rightarrow> 64 word \<times> 'w"
  f_my_tell :: "int \<Rightarrow> int \<Rightarrow> 'w \<Rightarrow> 64 word \<times> 'w"
  f_my_delete :: "string \<Rightarrow> int \<Rightarrow> 'w \<Rightarrow> int \<times> 'w"
  f_my_rename :: "string \<Rightarrow> string \<Rightarrow> int \<Rightarrow> 'w \<Rightarrow> int \<times> 'w"
  f_my_create_with_symlink :: "string \<Rightarrow> string \<Rightarrow> int \<Rightarrow> int \<Rightarrow> int \<Rightarrow> 'w \<Rightarrow> int \<times> 'w"
  f_my_delete_with_symlink :: "string \<Rightarrow> int \<Rightarrow> 'w \<Rightarrow> int \<times> 'w"
  f_my_rename_with_symlink :: "string \<Rightarrow> string \<Rightarrow> int \<Rightarrow> 'w \<Rightarrow> int \<times> 'w"
  f_my_sync :: "int \<Rightarrow> int \<Rightarrow> 'w \<Rightarrow> int \<times> 'w"
  f_feof :: "handle \<Rightarrow> 'w \<Rightarrow> int \<times> 'w"
  f_my_malloc :: "64 word \<Rightarrow> 'w \<Rightarrow> handle \<times> 'w"
  f_my_free :: "nat \<Rightarrow> 'w \<Rightarrow> 'w"
  f_my_fopen :: "string \<Rightarrow> int \<Rightarrow> int \<Rightarrow> 'w \<Rightarrow> handle \<times> 'w"
  f_my_fclose :: "handle \<Rightarrow> int \<Rightarrow> 'w \<Rightarrow> int \<times> 'w"
  f_create_temp_file :: "string \<Rightarrow> string \<Rightarrow> int \<Rightarrow> int \<Rightarrow> 'w \<Rightarrow> (int \<times> string) \<times> 'w"

record mysql_file =
  m_file :: handle
  m_psi :: handle

text \<open>The locker of an operation, which there is only when the instrumentation is compiled in.\<close>

definition locker_for :: "(file_event, 'p) interface \<Rightarrow> file_event \<Rightarrow> ('w, 'p, handle) program" where
  "locker_for p e = (if have_psi p then psi_call p e else State_Monad.return None)"

text \<open>
  The bytes reported for a read or write: with the flags \<open>MY_NABP\<close> (4) and \<open>MY_FNABP\<close> (2) the result is
  zero on success, otherwise it is the number of bytes or \<open>MY_FILE_ERROR\<close>.
\<close>

abbreviation MY_FILE_ERROR :: "64 word" where
  "MY_FILE_ERROR \<equiv> - 1"

definition reported_bytes :: "int \<Rightarrow> 64 word \<Rightarrow> 64 word \<Rightarrow> 64 word" where
  "reported_bytes flags count result =
     (if and flags 6 \<noteq> 0 then if result = 0 then count else 0
      else if result \<noteq> MY_FILE_ERROR then result else 0)"

text \<open>\<open>fprintf\<close> passes its own place in the header.\<close>

definition fprintf_place :: place where
  "fprintf_place = (''mysql_file.h'', 650)"

section \<open>Functions around one call\<close>

definition inline_mysql_file_fgets ::
  "(file_event, 'p) interface \<Rightarrow> 'w file_api \<Rightarrow> place \<Rightarrow> mysql_file \<Rightarrow> nat \<Rightarrow> int
    \<Rightarrow> ('w, 'p, string option) program" where
  "inline_mysql_file_fgets p k src file str n = do {
     locker \<leftarrow> locker_for p (get_thread_file_stream_locker (m_psi file) PSI_FILE_READ);
     (case locker of
        Some l \<Rightarrow> do {
          psi_do p (start_file_wait l (word_of_int n) src);
          result \<leftarrow> sys_call (f_fgets k (m_file file) str n);
          psi_do p (end_file_wait l (case result of Some t \<Rightarrow> of_nat (length t) | None \<Rightarrow> 0));
          State_Monad.return result
        }
      | None \<Rightarrow> sys_call (f_fgets k (m_file file) str n))
   }"

definition inline_mysql_file_fgetc ::
  "(file_event, 'p) interface \<Rightarrow> 'w file_api \<Rightarrow> place \<Rightarrow> mysql_file
    \<Rightarrow> ('w, 'p, int) program" where
  "inline_mysql_file_fgetc p k src file = do {
     locker \<leftarrow> locker_for p (get_thread_file_stream_locker (m_psi file) PSI_FILE_READ);
     (case locker of
        Some l \<Rightarrow> do {
          psi_do p (start_file_wait l 1 src);
          result \<leftarrow> sys_call (f_fgetc k (m_file file));
          psi_do p (end_file_wait l 1);
          State_Monad.return result
        }
      | None \<Rightarrow> sys_call (f_fgetc k (m_file file)))
   }"

definition inline_mysql_file_fputs ::
  "(file_event, 'p) interface \<Rightarrow> 'w file_api \<Rightarrow> place \<Rightarrow> mysql_file \<Rightarrow> string option
    \<Rightarrow> ('w, 'p, int) program" where
  "inline_mysql_file_fputs p k src file line = do {
     locker \<leftarrow> locker_for p (get_thread_file_stream_locker (m_psi file) PSI_FILE_WRITE);
     (case locker of
        Some l \<Rightarrow> do {
          psi_do p (start_file_wait l (case line of Some t \<Rightarrow> of_nat (length t) | None \<Rightarrow> 0) src);
          result \<leftarrow> sys_call (f_fputs k line (m_file file));
          psi_do p (end_file_wait l (case line of Some t \<Rightarrow> of_nat (length t) | None \<Rightarrow> 0));
          State_Monad.return result
        }
      | None \<Rightarrow> sys_call (f_fputs k line (m_file file)))
   }"

definition inline_mysql_file_fputc ::
  "(file_event, 'p) interface \<Rightarrow> 'w file_api \<Rightarrow> place \<Rightarrow> mysql_file \<Rightarrow> char
    \<Rightarrow> ('w, 'p, int) program" where
  "inline_mysql_file_fputc p k src file c = do {
     locker \<leftarrow> locker_for p (get_thread_file_stream_locker (m_psi file) PSI_FILE_WRITE);
     (case locker of
        Some l \<Rightarrow> do {
          psi_do p (start_file_wait l 1 src);
          result \<leftarrow> sys_call (f_fputc k c (m_file file));
          psi_do p (end_file_wait l 1);
          State_Monad.return result
        }
      | None \<Rightarrow> sys_call (f_fputc k c (m_file file)))
   }"

definition inline_mysql_file_fprintf ::
  "(file_event, 'p) interface \<Rightarrow> 'w file_api \<Rightarrow> mysql_file \<Rightarrow> string \<Rightarrow> nat
    \<Rightarrow> ('w, 'p, int) program" where
  "inline_mysql_file_fprintf p k file format args = do {
     locker \<leftarrow> locker_for p (get_thread_file_stream_locker (m_psi file) PSI_FILE_WRITE);
     (case locker of
        Some l \<Rightarrow> do {
          psi_do p (start_file_wait l 0 fprintf_place);
          result \<leftarrow> sys_call (f_vfprintf k (m_file file) format args);
          psi_do p (end_file_wait l (word_of_int result));
          State_Monad.return result
        }
      | None \<Rightarrow> sys_call (f_vfprintf k (m_file file) format args))
   }"

definition inline_mysql_file_vfprintf ::
  "(file_event, 'p) interface \<Rightarrow> 'w file_api \<Rightarrow> place \<Rightarrow> mysql_file \<Rightarrow> string \<Rightarrow> nat
    \<Rightarrow> ('w, 'p, int) program" where
  "inline_mysql_file_vfprintf p k src file format args = do {
     locker \<leftarrow> locker_for p (get_thread_file_stream_locker (m_psi file) PSI_FILE_WRITE);
     (case locker of
        Some l \<Rightarrow> do {
          psi_do p (start_file_wait l 0 src);
          result \<leftarrow> sys_call (f_vfprintf k (m_file file) format args);
          psi_do p (end_file_wait l (word_of_int result));
          State_Monad.return result
        }
      | None \<Rightarrow> sys_call (f_vfprintf k (m_file file) format args))
   }"

definition inline_mysql_file_fflush ::
  "(file_event, 'p) interface \<Rightarrow> 'w file_api \<Rightarrow> place \<Rightarrow> mysql_file
    \<Rightarrow> ('w, 'p, int) program" where
  "inline_mysql_file_fflush p k src file = do {
     locker \<leftarrow> locker_for p (get_thread_file_stream_locker (m_psi file) PSI_FILE_FLUSH);
     (case locker of
        Some l \<Rightarrow> do {
          psi_do p (start_file_wait l 0 src);
          result \<leftarrow> sys_call (f_fflush k (m_file file));
          psi_do p (end_file_wait l 0);
          State_Monad.return result
        }
      | None \<Rightarrow> sys_call (f_fflush k (m_file file)))
   }"

definition inline_mysql_file_fstat ::
  "(file_event, 'p) interface \<Rightarrow> 'w file_api \<Rightarrow> place \<Rightarrow> int \<Rightarrow> nat \<Rightarrow> int
    \<Rightarrow> ('w, 'p, int) program" where
  "inline_mysql_file_fstat p k src filenr stat_area flags = do {
     locker \<leftarrow> locker_for p (get_thread_file_descriptor_locker filenr PSI_FILE_FSTAT);
     (case locker of
        Some l \<Rightarrow> do {
          psi_do p (start_file_wait l 0 src);
          result \<leftarrow> sys_call (f_my_fstat k filenr stat_area flags);
          psi_do p (end_file_wait l 0);
          State_Monad.return result
        }
      | None \<Rightarrow> sys_call (f_my_fstat k filenr stat_area flags))
   }"

definition inline_mysql_file_stat ::
  "(file_event, 'p) interface \<Rightarrow> 'w file_api \<Rightarrow> nat \<Rightarrow> place \<Rightarrow> string \<Rightarrow> nat \<Rightarrow> int
    \<Rightarrow> ('w, 'p, handle) program" where
  "inline_mysql_file_stat p k key src path stat_area flags = do {
     locker \<leftarrow> locker_for p (get_thread_file_name_locker key PSI_FILE_STAT path);
     (case locker of
        Some l \<Rightarrow> do {
          psi_do p (start_file_open_wait l src);
          result \<leftarrow> sys_call (f_my_stat k path stat_area flags);
          psi_do p (end_file_open_wait l result);
          State_Monad.return result
        }
      | None \<Rightarrow> sys_call (f_my_stat k path stat_area flags))
   }"

definition inline_mysql_file_chsize ::
  "(file_event, 'p) interface \<Rightarrow> 'w file_api \<Rightarrow> place \<Rightarrow> int \<Rightarrow> 64 word \<Rightarrow> int \<Rightarrow> int
    \<Rightarrow> ('w, 'p, int) program" where
  "inline_mysql_file_chsize p k src fdes newlength filler flags = do {
     locker \<leftarrow> locker_for p (get_thread_file_descriptor_locker fdes PSI_FILE_CHSIZE);
     (case locker of
        Some l \<Rightarrow> do {
          psi_do p (start_file_wait l newlength src);
          result \<leftarrow> sys_call (f_my_chsize k fdes newlength filler flags);
          psi_do p (end_file_wait l newlength);
          State_Monad.return result
        }
      | None \<Rightarrow> sys_call (f_my_chsize k fdes newlength filler flags))
   }"

definition inline_mysql_file_fread ::
  "(file_event, 'p) interface \<Rightarrow> 'w file_api \<Rightarrow> place \<Rightarrow> mysql_file \<Rightarrow> nat \<Rightarrow> 64 word \<Rightarrow> int
    \<Rightarrow> ('w, 'p, 64 word) program" where
  "inline_mysql_file_fread p k src file buffer count flags = do {
     locker \<leftarrow> locker_for p (get_thread_file_stream_locker (m_psi file) PSI_FILE_READ);
     (case locker of
        Some l \<Rightarrow> do {
          psi_do p (start_file_wait l count src);
          result \<leftarrow> sys_call (f_my_fread k (m_file file) buffer count flags);
          psi_do p (end_file_wait l (reported_bytes flags count result));
          State_Monad.return result
        }
      | None \<Rightarrow> sys_call (f_my_fread k (m_file file) buffer count flags))
   }"

definition inline_mysql_file_fwrite ::
  "(file_event, 'p) interface \<Rightarrow> 'w file_api \<Rightarrow> place \<Rightarrow> mysql_file \<Rightarrow> nat \<Rightarrow> 64 word \<Rightarrow> int
    \<Rightarrow> ('w, 'p, 64 word) program" where
  "inline_mysql_file_fwrite p k src file buffer count flags = do {
     locker \<leftarrow> locker_for p (get_thread_file_stream_locker (m_psi file) PSI_FILE_WRITE);
     (case locker of
        Some l \<Rightarrow> do {
          psi_do p (start_file_wait l count src);
          result \<leftarrow> sys_call (f_my_fwrite k (m_file file) buffer count flags);
          psi_do p (end_file_wait l (reported_bytes flags count result));
          State_Monad.return result
        }
      | None \<Rightarrow> sys_call (f_my_fwrite k (m_file file) buffer count flags))
   }"

definition inline_mysql_file_fseek ::
  "(file_event, 'p) interface \<Rightarrow> 'w file_api \<Rightarrow> place \<Rightarrow> mysql_file \<Rightarrow> 64 word \<Rightarrow> int \<Rightarrow> int
    \<Rightarrow> ('w, 'p, 64 word) program" where
  "inline_mysql_file_fseek p k src file pos whence flags = do {
     locker \<leftarrow> locker_for p (get_thread_file_stream_locker (m_psi file) PSI_FILE_SEEK);
     (case locker of
        Some l \<Rightarrow> do {
          psi_do p (start_file_wait l 0 src);
          result \<leftarrow> sys_call (f_my_fseek k (m_file file) pos whence flags);
          psi_do p (end_file_wait l 0);
          State_Monad.return result
        }
      | None \<Rightarrow> sys_call (f_my_fseek k (m_file file) pos whence flags))
   }"

definition inline_mysql_file_ftell ::
  "(file_event, 'p) interface \<Rightarrow> 'w file_api \<Rightarrow> place \<Rightarrow> mysql_file \<Rightarrow> int
    \<Rightarrow> ('w, 'p, 64 word) program" where
  "inline_mysql_file_ftell p k src file flags = do {
     locker \<leftarrow> locker_for p (get_thread_file_stream_locker (m_psi file) PSI_FILE_TELL);
     (case locker of
        Some l \<Rightarrow> do {
          psi_do p (start_file_wait l 0 src);
          result \<leftarrow> sys_call (f_my_ftell k (m_file file) flags);
          psi_do p (end_file_wait l 0);
          State_Monad.return result
        }
      | None \<Rightarrow> sys_call (f_my_ftell k (m_file file) flags))
   }"

definition inline_mysql_file_create ::
  "(file_event, 'p) interface \<Rightarrow> 'w file_api \<Rightarrow> nat \<Rightarrow> place \<Rightarrow> string \<Rightarrow> int \<Rightarrow> int \<Rightarrow> int
    \<Rightarrow> ('w, 'p, int) program" where
  "inline_mysql_file_create p k key src filename create_flags access_flags flags = do {
     locker \<leftarrow> locker_for p (get_thread_file_name_locker key PSI_FILE_CREATE filename);
     (case locker of
        Some l \<Rightarrow> do {
          psi_do p (start_file_open_wait l src);
          result \<leftarrow> sys_call (f_my_create k filename create_flags access_flags flags);
          psi_do p (end_file_open_wait_and_bind_to_descriptor l result);
          State_Monad.return result
        }
      | None \<Rightarrow> sys_call (f_my_create k filename create_flags access_flags flags))
   }"

definition inline_mysql_file_open ::
  "(file_event, 'p) interface \<Rightarrow> 'w file_api \<Rightarrow> nat \<Rightarrow> place \<Rightarrow> string \<Rightarrow> int \<Rightarrow> int
    \<Rightarrow> ('w, 'p, int) program" where
  "inline_mysql_file_open p k key src filename oflags flags = do {
     locker \<leftarrow> locker_for p (get_thread_file_name_locker key PSI_FILE_OPEN filename);
     (case locker of
        Some l \<Rightarrow> do {
          psi_do p (start_file_open_wait l src);
          result \<leftarrow> sys_call (f_my_open k filename oflags flags);
          psi_do p (end_file_open_wait_and_bind_to_descriptor l result);
          State_Monad.return result
        }
      | None \<Rightarrow> sys_call (f_my_open k filename oflags flags))
   }"

definition inline_mysql_file_close ::
  "(file_event, 'p) interface \<Rightarrow> 'w file_api \<Rightarrow> place \<Rightarrow> int \<Rightarrow> int
    \<Rightarrow> ('w, 'p, int) program" where
  "inline_mysql_file_close p k src fdes flags = do {
     locker \<leftarrow> locker_for p (get_thread_file_descriptor_locker fdes PSI_FILE_CLOSE);
     (case locker of
        Some l \<Rightarrow> do {
          psi_do p (start_file_close_wait l src);
          result \<leftarrow> sys_call (f_my_close k fdes flags);
          psi_do p (end_file_close_wait l result);
          State_Monad.return result
        }
      | None \<Rightarrow> sys_call (f_my_close k fdes flags))
   }"

definition inline_mysql_file_read ::
  "(file_event, 'p) interface \<Rightarrow> 'w file_api \<Rightarrow> place \<Rightarrow> int \<Rightarrow> nat \<Rightarrow> 64 word \<Rightarrow> int
    \<Rightarrow> ('w, 'p, 64 word) program" where
  "inline_mysql_file_read p k src fdes buffer count flags = do {
     locker \<leftarrow> locker_for p (get_thread_file_descriptor_locker fdes PSI_FILE_READ);
     (case locker of
        Some l \<Rightarrow> do {
          psi_do p (start_file_wait l count src);
          result \<leftarrow> sys_call (f_my_read k fdes buffer count flags);
          psi_do p (end_file_wait l (reported_bytes flags count result));
          State_Monad.return result
        }
      | None \<Rightarrow> sys_call (f_my_read k fdes buffer count flags))
   }"

definition inline_mysql_file_write ::
  "(file_event, 'p) interface \<Rightarrow> 'w file_api \<Rightarrow> place \<Rightarrow> int \<Rightarrow> nat \<Rightarrow> 64 word \<Rightarrow> int
    \<Rightarrow> ('w, 'p, 64 word) program" where
  "inline_mysql_file_write p k src fdes buffer count flags = do {
     locker \<leftarrow> locker_for p (get_thread_file_descriptor_locker fdes PSI_FILE_WRITE);
     (case locker of
        Some l \<Rightarrow> do {
          psi_do p (start_file_wait l count src);
          result \<leftarrow> sys_call (f_my_write k fdes buffer count flags);
          psi_do p (end_file_wait l (reported_bytes flags count result));
          State_Monad.return result
        }
      | None \<Rightarrow> sys_call (f_my_write k fdes buffer count flags))
   }"

definition inline_mysql_file_pread ::
  "(file_event, 'p) interface \<Rightarrow> 'w file_api \<Rightarrow> place \<Rightarrow> int \<Rightarrow> nat \<Rightarrow> 64 word \<Rightarrow> 64 word \<Rightarrow> int
    \<Rightarrow> ('w, 'p, 64 word) program" where
  "inline_mysql_file_pread p k src fdes buffer count offset flags = do {
     locker \<leftarrow> locker_for p (get_thread_file_descriptor_locker fdes PSI_FILE_READ);
     (case locker of
        Some l \<Rightarrow> do {
          psi_do p (start_file_wait l count src);
          result \<leftarrow> sys_call (f_my_pread k fdes buffer count offset flags);
          psi_do p (end_file_wait l (reported_bytes flags count result));
          State_Monad.return result
        }
      | None \<Rightarrow> sys_call (f_my_pread k fdes buffer count offset flags))
   }"

definition inline_mysql_file_pwrite ::
  "(file_event, 'p) interface \<Rightarrow> 'w file_api \<Rightarrow> place \<Rightarrow> int \<Rightarrow> nat \<Rightarrow> 64 word \<Rightarrow> 64 word \<Rightarrow> int
    \<Rightarrow> ('w, 'p, 64 word) program" where
  "inline_mysql_file_pwrite p k src fdes buffer count offset flags = do {
     locker \<leftarrow> locker_for p (get_thread_file_descriptor_locker fdes PSI_FILE_WRITE);
     (case locker of
        Some l \<Rightarrow> do {
          psi_do p (start_file_wait l count src);
          result \<leftarrow> sys_call (f_my_pwrite k fdes buffer count offset flags);
          psi_do p (end_file_wait l (reported_bytes flags count result));
          State_Monad.return result
        }
      | None \<Rightarrow> sys_call (f_my_pwrite k fdes buffer count offset flags))
   }"

definition inline_mysql_file_seek ::
  "(file_event, 'p) interface \<Rightarrow> 'w file_api \<Rightarrow> place \<Rightarrow> int \<Rightarrow> 64 word \<Rightarrow> int \<Rightarrow> int
    \<Rightarrow> ('w, 'p, 64 word) program" where
  "inline_mysql_file_seek p k src fdes pos whence flags = do {
     locker \<leftarrow> locker_for p (get_thread_file_descriptor_locker fdes PSI_FILE_SEEK);
     (case locker of
        Some l \<Rightarrow> do {
          psi_do p (start_file_wait l 0 src);
          result \<leftarrow> sys_call (f_my_seek k fdes pos whence flags);
          psi_do p (end_file_wait l 0);
          State_Monad.return result
        }
      | None \<Rightarrow> sys_call (f_my_seek k fdes pos whence flags))
   }"

definition inline_mysql_file_tell ::
  "(file_event, 'p) interface \<Rightarrow> 'w file_api \<Rightarrow> place \<Rightarrow> int \<Rightarrow> int
    \<Rightarrow> ('w, 'p, 64 word) program" where
  "inline_mysql_file_tell p k src fdes flags = do {
     locker \<leftarrow> locker_for p (get_thread_file_descriptor_locker fdes PSI_FILE_TELL);
     (case locker of
        Some l \<Rightarrow> do {
          psi_do p (start_file_wait l 0 src);
          result \<leftarrow> sys_call (f_my_tell k fdes flags);
          psi_do p (end_file_wait l 0);
          State_Monad.return result
        }
      | None \<Rightarrow> sys_call (f_my_tell k fdes flags))
   }"

definition inline_mysql_file_delete ::
  "(file_event, 'p) interface \<Rightarrow> 'w file_api \<Rightarrow> nat \<Rightarrow> place \<Rightarrow> string \<Rightarrow> int
    \<Rightarrow> ('w, 'p, int) program" where
  "inline_mysql_file_delete p k key src name flags = do {
     locker \<leftarrow> locker_for p (get_thread_file_name_locker key PSI_FILE_DELETE name);
     (case locker of
        Some l \<Rightarrow> do {
          psi_do p (start_file_close_wait l src);
          result \<leftarrow> sys_call (f_my_delete k name flags);
          psi_do p (end_file_close_wait l result);
          State_Monad.return result
        }
      | None \<Rightarrow> sys_call (f_my_delete k name flags))
   }"

definition inline_mysql_file_rename ::
  "(file_event, 'p) interface \<Rightarrow> 'w file_api \<Rightarrow> nat \<Rightarrow> place \<Rightarrow> string \<Rightarrow> string \<Rightarrow> int
    \<Rightarrow> ('w, 'p, int) program" where
  "inline_mysql_file_rename p k key src from_name to_name flags = do {
     locker \<leftarrow> locker_for p (get_thread_file_name_locker key PSI_FILE_RENAME to_name);
     (case locker of
        Some l \<Rightarrow> do {
          psi_do p (start_file_wait l 0 src);
          result \<leftarrow> sys_call (f_my_rename k from_name to_name flags);
          psi_do p (end_file_wait l 0);
          State_Monad.return result
        }
      | None \<Rightarrow> sys_call (f_my_rename k from_name to_name flags))
   }"

definition inline_mysql_file_create_with_symlink ::
  "(file_event, 'p) interface \<Rightarrow> 'w file_api \<Rightarrow> nat \<Rightarrow> place \<Rightarrow> string \<Rightarrow> string \<Rightarrow> int \<Rightarrow> int \<Rightarrow> int
    \<Rightarrow> ('w, 'p, int) program" where
  "inline_mysql_file_create_with_symlink p k key src linkname filename create_flags access_flags flags = do {
     locker \<leftarrow> locker_for p (get_thread_file_name_locker key PSI_FILE_CREATE filename);
     (case locker of
        Some l \<Rightarrow> do {
          psi_do p (start_file_open_wait l src);
          result \<leftarrow> sys_call (f_my_create_with_symlink k linkname filename create_flags access_flags flags);
          psi_do p (end_file_open_wait_and_bind_to_descriptor l result);
          State_Monad.return result
        }
      | None \<Rightarrow> sys_call (f_my_create_with_symlink k linkname filename create_flags access_flags flags))
   }"

definition inline_mysql_file_delete_with_symlink ::
  "(file_event, 'p) interface \<Rightarrow> 'w file_api \<Rightarrow> nat \<Rightarrow> place \<Rightarrow> string \<Rightarrow> int
    \<Rightarrow> ('w, 'p, int) program" where
  "inline_mysql_file_delete_with_symlink p k key src name flags = do {
     locker \<leftarrow> locker_for p (get_thread_file_name_locker key PSI_FILE_DELETE name);
     (case locker of
        Some l \<Rightarrow> do {
          psi_do p (start_file_close_wait l src);
          result \<leftarrow> sys_call (f_my_delete_with_symlink k name flags);
          psi_do p (end_file_close_wait l result);
          State_Monad.return result
        }
      | None \<Rightarrow> sys_call (f_my_delete_with_symlink k name flags))
   }"

definition inline_mysql_file_rename_with_symlink ::
  "(file_event, 'p) interface \<Rightarrow> 'w file_api \<Rightarrow> nat \<Rightarrow> place \<Rightarrow> string \<Rightarrow> string \<Rightarrow> int
    \<Rightarrow> ('w, 'p, int) program" where
  "inline_mysql_file_rename_with_symlink p k key src from_name to_name flags = do {
     locker \<leftarrow> locker_for p (get_thread_file_name_locker key PSI_FILE_RENAME to_name);
     (case locker of
        Some l \<Rightarrow> do {
          psi_do p (start_file_wait l 0 src);
          result \<leftarrow> sys_call (f_my_rename_with_symlink k from_name to_name flags);
          psi_do p (end_file_wait l 0);
          State_Monad.return result
        }
      | None \<Rightarrow> sys_call (f_my_rename_with_symlink k from_name to_name flags))
   }"

definition inline_mysql_file_sync ::
  "(file_event, 'p) interface \<Rightarrow> 'w file_api \<Rightarrow> place \<Rightarrow> int \<Rightarrow> int
    \<Rightarrow> ('w, 'p, int) program" where
  "inline_mysql_file_sync p k src fdes flags = do {
     locker \<leftarrow> locker_for p (get_thread_file_descriptor_locker fdes PSI_FILE_SYNC);
     (case locker of
        Some l \<Rightarrow> do {
          psi_do p (start_file_wait l 0 src);
          result \<leftarrow> sys_call (f_my_sync k fdes flags);
          psi_do p (end_file_wait l 0);
          State_Monad.return result
        }
      | None \<Rightarrow> sys_call (f_my_sync k fdes flags))
   }"

definition inline_mysql_file_register ::
  "(file_event, 'p) interface \<Rightarrow> string \<Rightarrow> nat \<Rightarrow> int \<Rightarrow> ('w, 'p, unit) program" where
  "inline_mysql_file_register p category info count =
     (if have_psi p then psi_do p (register_file category info count) else State_Monad.return ())"

definition inline_mysql_file_feof :: "'w file_api \<Rightarrow> mysql_file \<Rightarrow> ('w, 'p, int) program" where
  "inline_mysql_file_feof k file = sys_call (f_feof k (m_file file))"

section \<open>Temporary files, opening and closing streams\<close>

definition inline_mysql_file_create_temp ::
  "(file_event, 'p) interface \<Rightarrow> 'w file_api \<Rightarrow> nat \<Rightarrow> string \<Rightarrow> string \<Rightarrow> int \<Rightarrow> int
    \<Rightarrow> ('w, 'p, int \<times> string) program" where
  "inline_mysql_file_create_temp p k key dir pfx mode flags = do {
     result \<leftarrow> sys_call (f_create_temp_file k dir pfx mode flags);
     (if have_psi p then psi_do p (create_file key (snd result) (fst result)) else State_Monad.return ());
     State_Monad.return result
   }"

text \<open>A stream that is open: the address of the \<open>MYSQL_FILE\<close>, which has 16 bytes, and its content.\<close>

definition inline_mysql_file_fopen ::
  "(file_event, 'p) interface \<Rightarrow> 'w file_api \<Rightarrow> nat \<Rightarrow> place \<Rightarrow> string \<Rightarrow> int \<Rightarrow> int
    \<Rightarrow> ('w, 'p, (nat \<times> mysql_file) option) program" where
  "inline_mysql_file_fopen p k key src filename flags my_flags = do {
     that \<leftarrow> sys_call (f_my_malloc k 16);
     (case that of
        None \<Rightarrow> State_Monad.return None
      | Some a \<Rightarrow> do {
          locker \<leftarrow> locker_for p (get_thread_file_name_locker key PSI_FILE_STREAM_OPEN filename);
          (case locker of
             Some l \<Rightarrow> do {
               psi_do p (start_file_open_wait l src);
               f \<leftarrow> sys_call (f_my_fopen k filename flags my_flags);
               h \<leftarrow> psi_call p (end_file_open_wait l f);
               (if f = None then do {
                  sys_call (\<lambda>w. ((), f_my_free k a w));
                  State_Monad.return None
                } else State_Monad.return (Some (a, \<lparr>m_file = f, m_psi = h\<rparr>)))
             }
           | None \<Rightarrow> do {
               f \<leftarrow> sys_call (f_my_fopen k filename flags my_flags);
               (if f = None then do {
                  sys_call (\<lambda>w. ((), f_my_free k a w));
                  State_Monad.return None
                } else State_Monad.return (Some (a, \<lparr>m_file = f, m_psi = None\<rparr>)))
             })
        })
   }"

definition inline_mysql_file_fclose ::
  "(file_event, 'p) interface \<Rightarrow> 'w file_api \<Rightarrow> place \<Rightarrow> (nat \<times> mysql_file) option \<Rightarrow> int
    \<Rightarrow> ('w, 'p, int) program" where
  "inline_mysql_file_fclose p k src stream flags =
     (case stream of
        None \<Rightarrow> State_Monad.return 0
      | Some (a, file) \<Rightarrow> do {
          locker \<leftarrow> locker_for p (get_thread_file_stream_locker (m_psi file) PSI_FILE_STREAM_CLOSE);
          (case locker of
             Some l \<Rightarrow> do {
               psi_do p (start_file_close_wait l src);
               result \<leftarrow> sys_call (f_my_fclose k (m_file file) flags);
               psi_do p (end_file_close_wait l result);
               sys_call (\<lambda>w. ((), f_my_free k a w));
               State_Monad.return result
             }
           | None \<Rightarrow> do {
               result \<leftarrow> sys_call (f_my_fclose k (m_file file) flags);
               sys_call (\<lambda>w. ((), f_my_free k a w));
               State_Monad.return result
             })
        })"

section \<open>The system sees the plain calls\<close>

lemma silent_locker [psi_os]: "silent (locker_for p e)"
  by (simp add: locker_for_def silent_basic)

lemma implements_locker [psi_os]:
  "(\<And>l. implements (m l) f) \<Longrightarrow> implements m' f \<Longrightarrow> implements (case x of Some l \<Rightarrow> m l | None \<Rightarrow> m') f"
  by (cases x) simp_all

lemmas file_operations =
  inline_mysql_file_fgets_def
  inline_mysql_file_fgetc_def
  inline_mysql_file_fputs_def
  inline_mysql_file_fputc_def
  inline_mysql_file_fprintf_def
  inline_mysql_file_vfprintf_def
  inline_mysql_file_fflush_def
  inline_mysql_file_fstat_def
  inline_mysql_file_stat_def
  inline_mysql_file_chsize_def
  inline_mysql_file_fread_def
  inline_mysql_file_fwrite_def
  inline_mysql_file_fseek_def
  inline_mysql_file_ftell_def
  inline_mysql_file_create_def
  inline_mysql_file_open_def
  inline_mysql_file_close_def
  inline_mysql_file_read_def
  inline_mysql_file_write_def
  inline_mysql_file_pread_def
  inline_mysql_file_pwrite_def
  inline_mysql_file_seek_def
  inline_mysql_file_tell_def
  inline_mysql_file_delete_def
  inline_mysql_file_rename_def
  inline_mysql_file_create_with_symlink_def
  inline_mysql_file_delete_with_symlink_def
  inline_mysql_file_rename_with_symlink_def
  inline_mysql_file_sync_def

lemma files_implement:
  "implements (inline_mysql_file_fgets p k src file str n)
     (f_fgets k (m_file file) str n)"
  "implements (inline_mysql_file_fgetc p k src file)
     (f_fgetc k (m_file file))"
  "implements (inline_mysql_file_fputs p k src file line)
     (f_fputs k line (m_file file))"
  "implements (inline_mysql_file_fputc p k src file c)
     (f_fputc k c (m_file file))"
  "implements (inline_mysql_file_fprintf p k file format args)
     (f_vfprintf k (m_file file) format args)"
  "implements (inline_mysql_file_vfprintf p k src file format args)
     (f_vfprintf k (m_file file) format args)"
  "implements (inline_mysql_file_fflush p k src file)
     (f_fflush k (m_file file))"
  "implements (inline_mysql_file_fstat p k src filenr stat_area flags)
     (f_my_fstat k filenr stat_area flags)"
  "implements (inline_mysql_file_stat p k key src path stat_area flags)
     (f_my_stat k path stat_area flags)"
  "implements (inline_mysql_file_chsize p k src fdes newlength filler flags)
     (f_my_chsize k fdes newlength filler flags)"
  "implements (inline_mysql_file_fread p k src file buffer count flags)
     (f_my_fread k (m_file file) buffer count flags)"
  "implements (inline_mysql_file_fwrite p k src file buffer count flags)
     (f_my_fwrite k (m_file file) buffer count flags)"
  "implements (inline_mysql_file_fseek p k src file pos whence flags)
     (f_my_fseek k (m_file file) pos whence flags)"
  "implements (inline_mysql_file_ftell p k src file flags)
     (f_my_ftell k (m_file file) flags)"
  "implements (inline_mysql_file_create p k key src filename create_flags access_flags flags)
     (f_my_create k filename create_flags access_flags flags)"
  "implements (inline_mysql_file_open p k key src filename oflags flags)
     (f_my_open k filename oflags flags)"
  "implements (inline_mysql_file_close p k src fdes flags)
     (f_my_close k fdes flags)"
  "implements (inline_mysql_file_read p k src fdes buffer count flags)
     (f_my_read k fdes buffer count flags)"
  "implements (inline_mysql_file_write p k src fdes buffer count flags)
     (f_my_write k fdes buffer count flags)"
  "implements (inline_mysql_file_pread p k src fdes buffer count offset flags)
     (f_my_pread k fdes buffer count offset flags)"
  "implements (inline_mysql_file_pwrite p k src fdes buffer count offset flags)
     (f_my_pwrite k fdes buffer count offset flags)"
  "implements (inline_mysql_file_seek p k src fdes pos whence flags)
     (f_my_seek k fdes pos whence flags)"
  "implements (inline_mysql_file_tell p k src fdes flags)
     (f_my_tell k fdes flags)"
  "implements (inline_mysql_file_delete p k key src name flags)
     (f_my_delete k name flags)"
  "implements (inline_mysql_file_rename p k key src from_name to_name flags)
     (f_my_rename k from_name to_name flags)"
  "implements (inline_mysql_file_create_with_symlink p k key src linkname filename create_flags access_flags flags)
     (f_my_create_with_symlink k linkname filename create_flags access_flags flags)"
  "implements (inline_mysql_file_delete_with_symlink p k key src name flags)
     (f_my_delete_with_symlink k name flags)"
  "implements (inline_mysql_file_rename_with_symlink p k key src from_name to_name flags)
     (f_my_rename_with_symlink k from_name to_name flags)"
  "implements (inline_mysql_file_sync p k src fdes flags)
     (f_my_sync k fdes flags)"
  unfolding file_operations by (intro psi_os)+

section \<open>Waits\<close>

definition file_starts :: "file_event \<Rightarrow> handle \<Rightarrow> handle" where
  "file_starts e r = (case e of start_file_wait l n src \<Rightarrow> Some l | start_file_open_wait l src \<Rightarrow> Some l
     | start_file_close_wait l src \<Rightarrow> Some l | _ \<Rightarrow> None)"

definition file_ends :: "file_event \<Rightarrow> handle" where
  "file_ends e = (case e of end_file_wait l n \<Rightarrow> Some l | end_file_open_wait l f \<Rightarrow> Some l
     | end_file_open_wait_and_bind_to_descriptor l n \<Rightarrow> Some l | end_file_close_wait l r \<Rightarrow> Some l | _ \<Rightarrow> None)"

interpretation file_waits: wait_calls file_starts file_ends
  by unfold_locales (auto simp: file_starts_def file_ends_def split: file_event.splits)

abbreviation file_closed :: "('w, (file_event \<times> handle) list, 'a) program \<Rightarrow> bool" where
  "file_closed m \<equiv> ends_waits file_starts file_ends m"

lemma file_closed_sys: "file_closed (sys_call f)"
  unfolding ends_waits_def by (rule file_waits.waits_sys)

lemma file_closed_return: "file_closed (State_Monad.return a)"
  unfolding ends_waits_def by (rule file_waits.waits_return)

lemma file_closed_bind: "file_closed m \<Longrightarrow> (\<And>a. file_closed (f a)) \<Longrightarrow> file_closed (m \<bind> f)"
  unfolding ends_waits_def by (rule file_waits.waits_bind)

lemma file_closed_case:
  "(\<And>l. file_closed (m l)) \<Longrightarrow> file_closed m' \<Longrightarrow> file_closed (case x of Some l \<Rightarrow> m l | None \<Rightarrow> m')"
  by (cases x) simp_all

lemma file_closed_locker:
  "file_closed (locker_for (recorder reply) (get_thread_file_stream_locker h opr))"
  "file_closed (locker_for (recorder reply) (get_thread_file_descriptor_locker n opr))"
  "file_closed (locker_for (recorder reply) (get_thread_file_name_locker key opr t))"
  unfolding ends_waits_def locker_for_def
  by (simp_all add: file_waits.waits_call file_waits.waits_return file_starts_def file_ends_def)

text \<open>The common form: one call of the system between the start and the end of a wait.\<close>

lemma file_closed_around:
  assumes "\<And>r. file_starts e r = Some l" and "file_ends e = None" and "\<And>r. file_ends (f r) = Some l"
  shows "file_closed (do { psi_do (recorder reply) e; result \<leftarrow> sys_call g; psi_do (recorder reply) (f result);
    State_Monad.return result })"
  unfolding ends_waits_def using assms
  by (intro file_waits.waits_bind [OF file_waits.waits_begin] file_waits.waits_bind [OF file_waits.waits_sys]
      file_waits.waits_bind [OF file_waits.waits_end] file_waits.waits_return)

lemma file_closed_op:
  "file_closed m \<Longrightarrow> (\<And>l. file_closed (f l)) \<Longrightarrow>
   file_closed (do { x \<leftarrow> m; (case x of Some l \<Rightarrow> f l | None \<Rightarrow> sys_call g) })"
  by (intro file_closed_bind file_closed_case file_closed_sys)

lemma files_closed:
  fixes reply defines "p \<equiv> recorder reply"
  shows "file_closed (inline_mysql_file_fgets p k src file str n)"
    and "file_closed (inline_mysql_file_fgetc p k src file)"
    and "file_closed (inline_mysql_file_fputs p k src file line)"
    and "file_closed (inline_mysql_file_fputc p k src file c)"
    and "file_closed (inline_mysql_file_fprintf p k file format args)"
    and "file_closed (inline_mysql_file_vfprintf p k src file format args)"
    and "file_closed (inline_mysql_file_fflush p k src file)"
    and "file_closed (inline_mysql_file_fstat p k src filenr stat_area flags)"
    and "file_closed (inline_mysql_file_stat p k key src path stat_area flags)"
    and "file_closed (inline_mysql_file_chsize p k src fdes newlength filler flags)"
    and "file_closed (inline_mysql_file_fread p k src file buffer count flags)"
    and "file_closed (inline_mysql_file_fwrite p k src file buffer count flags)"
    and "file_closed (inline_mysql_file_fseek p k src file pos whence flags)"
    and "file_closed (inline_mysql_file_ftell p k src file flags)"
    and "file_closed (inline_mysql_file_create p k key src filename create_flags access_flags flags)"
    and "file_closed (inline_mysql_file_open p k key src filename oflags flags)"
    and "file_closed (inline_mysql_file_close p k src fdes flags)"
    and "file_closed (inline_mysql_file_read p k src fdes buffer count flags)"
    and "file_closed (inline_mysql_file_write p k src fdes buffer count flags)"
    and "file_closed (inline_mysql_file_pread p k src fdes buffer count offset flags)"
    and "file_closed (inline_mysql_file_pwrite p k src fdes buffer count offset flags)"
    and "file_closed (inline_mysql_file_seek p k src fdes pos whence flags)"
    and "file_closed (inline_mysql_file_tell p k src fdes flags)"
    and "file_closed (inline_mysql_file_delete p k key src name flags)"
    and "file_closed (inline_mysql_file_rename p k key src from_name to_name flags)"
    and "file_closed (inline_mysql_file_create_with_symlink p k key src linkname filename create_flags access_flags flags)"
    and "file_closed (inline_mysql_file_delete_with_symlink p k key src name flags)"
    and "file_closed (inline_mysql_file_rename_with_symlink p k key src from_name to_name flags)"
    and "file_closed (inline_mysql_file_sync p k src fdes flags)"
  unfolding file_operations p_def
  by (intro file_closed_op file_closed_locker; rule file_closed_around; simp add: file_starts_def file_ends_def)+

section \<open>Streams\<close>

text \<open>The plain operations on streams: the object of 16 bytes is freed when the file cannot be opened.\<close>

definition plain_fopen :: "'w file_api \<Rightarrow> string \<Rightarrow> int \<Rightarrow> int \<Rightarrow> 'w \<Rightarrow> (nat \<times> handle) option \<times> 'w" where
  "plain_fopen k filename flags my_flags w =
     (let (that, w1) = f_my_malloc k 16 w in
      case that of
        None \<Rightarrow> (None, w1)
      | Some a \<Rightarrow>
          let (f, w2) = f_my_fopen k filename flags my_flags w1
          in if f = None then (None, f_my_free k a w2) else (Some (a, f), w2))"

definition plain_fclose :: "'w file_api \<Rightarrow> (nat \<times> mysql_file) option \<Rightarrow> int \<Rightarrow> 'w \<Rightarrow> int \<times> 'w" where
  "plain_fclose k stream flags w =
     (case stream of
        None \<Rightarrow> (0, w)
      | Some (a, file) \<Rightarrow> let (r, w1) = f_my_fclose k (m_file file) flags w in (r, f_my_free k a w1))"

lemma fopen_implements:
  "implements (inline_mysql_file_fopen p k key src filename flags my_flags
      \<bind> (\<lambda>r. State_Monad.return (map_option (\<lambda>(a, x). (a, m_file x)) r)))
     (plain_fopen k filename flags my_flags)"
  by (auto simp: implements_def plain_fopen_def inline_mysql_file_fopen_def locker_for_def
      split: prod.splits option.splits)

lemma fclose_implements:
  "implements (inline_mysql_file_fclose p k src stream flags) (plain_fclose k stream flags)"
  by (auto simp: implements_def plain_fclose_def inline_mysql_file_fclose_def locker_for_def
      split: prod.splits option.splits)

lemma create_temp_implements:
  "implements (inline_mysql_file_create_temp p k key dir pfx mode flags) (f_create_temp_file k dir pfx mode flags)"
  by (auto simp: implements_def inline_mysql_file_create_temp_def split: prod.splits)

lemma file_closed_if: "file_closed m \<Longrightarrow> file_closed m' \<Longrightarrow> file_closed (if b then m else m')"
  by simp

lemma file_closed_opening:
  assumes "\<And>f h. file_closed (m f h)"
  shows "file_closed (do { psi_do (recorder reply) (start_file_open_wait l src); f \<leftarrow> sys_call g;
    h \<leftarrow> psi_call (recorder reply) (end_file_open_wait l f); m f h })"
  using assms unfolding ends_waits_def
  by (intro file_waits.waits_bind [OF file_waits.waits_begin] file_waits.waits_bind [OF file_waits.waits_sys]
      file_waits.waits_bind [OF file_waits.waits_end_call]) (simp_all add: file_starts_def file_ends_def)

lemma file_closed_closing:
  assumes "\<And>r. file_closed (m r)"
  shows "file_closed (do { psi_do (recorder reply) (start_file_close_wait l src); result \<leftarrow> sys_call g;
    psi_do (recorder reply) (end_file_close_wait l result); m result })"
  using assms unfolding ends_waits_def
  by (intro file_waits.waits_bind [OF file_waits.waits_begin] file_waits.waits_bind [OF file_waits.waits_sys]
      file_waits.waits_bind [OF file_waits.waits_end]) (simp_all add: file_starts_def file_ends_def)

lemma fopen_closed:
  "file_closed (inline_mysql_file_fopen (recorder reply) k key src filename flags my_flags)"
  unfolding inline_mysql_file_fopen_def
  by (intro file_closed_bind [OF file_closed_sys] file_closed_bind [OF file_closed_locker(3)] file_closed_case
      file_closed_return file_closed_if file_closed_opening)

lemma fclose_closed: "file_closed (inline_mysql_file_fclose (recorder reply) k src stream flags)"
  unfolding inline_mysql_file_fclose_def
  by (cases stream)
    (auto simp only: option.case prod.case
      intro!: file_closed_bind [OF file_closed_sys] file_closed_bind [OF file_closed_locker(1)] file_closed_case
        file_closed_return file_closed_closing)

lemma create_temp_closed: "file_closed (inline_mysql_file_create_temp (recorder reply) k key dir pfx mode flags)"
proof -
  have "file_closed (psi_do (recorder reply) (create_file key t n))" for t n
    unfolding ends_waits_def by (rule file_waits.waits_do) (simp_all add: file_starts_def file_ends_def)
  then show ?thesis
    unfolding inline_mysql_file_create_temp_def
    by (intro file_closed_bind [OF file_closed_sys] file_closed_bind file_closed_if file_closed_return)
qed

section \<open>Properties\<close>

text \<open>
  C16: every function on instrumented files has the result and the effect on the system of the
  plain function, whatever the instrumentation answers and whether or not it is compiled in;
  opening a stream frees the object that it allocated when the file cannot be opened, and
  closing one frees it.
\<close>

theorem files_are_transparent:
  "implements (inline_mysql_file_fgets p k src file str n)
       (f_fgets k (m_file file) str n)
   \<and> implements (inline_mysql_file_fgetc p k src file)
       (f_fgetc k (m_file file))
   \<and> implements (inline_mysql_file_fputs p k src file line)
       (f_fputs k line (m_file file))
   \<and> implements (inline_mysql_file_fputc p k src file c)
       (f_fputc k c (m_file file))
   \<and> implements (inline_mysql_file_fprintf p k file format args)
       (f_vfprintf k (m_file file) format args)
   \<and> implements (inline_mysql_file_vfprintf p k src file format args)
       (f_vfprintf k (m_file file) format args)
   \<and> implements (inline_mysql_file_fflush p k src file)
       (f_fflush k (m_file file))
   \<and> implements (inline_mysql_file_fstat p k src filenr stat_area flags)
       (f_my_fstat k filenr stat_area flags)
   \<and> implements (inline_mysql_file_stat p k key src path stat_area flags)
       (f_my_stat k path stat_area flags)
   \<and> implements (inline_mysql_file_chsize p k src fdes newlength filler flags)
       (f_my_chsize k fdes newlength filler flags)
   \<and> implements (inline_mysql_file_fread p k src file buffer count flags)
       (f_my_fread k (m_file file) buffer count flags)
   \<and> implements (inline_mysql_file_fwrite p k src file buffer count flags)
       (f_my_fwrite k (m_file file) buffer count flags)
   \<and> implements (inline_mysql_file_fseek p k src file pos whence flags)
       (f_my_fseek k (m_file file) pos whence flags)
   \<and> implements (inline_mysql_file_ftell p k src file flags)
       (f_my_ftell k (m_file file) flags)
   \<and> implements (inline_mysql_file_create p k key src filename create_flags access_flags flags)
       (f_my_create k filename create_flags access_flags flags)
   \<and> implements (inline_mysql_file_open p k key src filename oflags flags)
       (f_my_open k filename oflags flags)
   \<and> implements (inline_mysql_file_close p k src fdes flags)
       (f_my_close k fdes flags)
   \<and> implements (inline_mysql_file_read p k src fdes buffer count flags)
       (f_my_read k fdes buffer count flags)
   \<and> implements (inline_mysql_file_write p k src fdes buffer count flags)
       (f_my_write k fdes buffer count flags)
   \<and> implements (inline_mysql_file_pread p k src fdes buffer count offset flags)
       (f_my_pread k fdes buffer count offset flags)
   \<and> implements (inline_mysql_file_pwrite p k src fdes buffer count offset flags)
       (f_my_pwrite k fdes buffer count offset flags)
   \<and> implements (inline_mysql_file_seek p k src fdes pos whence flags)
       (f_my_seek k fdes pos whence flags)
   \<and> implements (inline_mysql_file_tell p k src fdes flags)
       (f_my_tell k fdes flags)
   \<and> implements (inline_mysql_file_delete p k key src name flags)
       (f_my_delete k name flags)
   \<and> implements (inline_mysql_file_rename p k key src from_name to_name flags)
       (f_my_rename k from_name to_name flags)
   \<and> implements (inline_mysql_file_create_with_symlink p k key src linkname filename create_flags access_flags flags)
       (f_my_create_with_symlink k linkname filename create_flags access_flags flags)
   \<and> implements (inline_mysql_file_delete_with_symlink p k key src name flags)
       (f_my_delete_with_symlink k name flags)
   \<and> implements (inline_mysql_file_rename_with_symlink p k key src from_name to_name flags)
       (f_my_rename_with_symlink k from_name to_name flags)
   \<and> implements (inline_mysql_file_sync p k src fdes flags)
       (f_my_sync k fdes flags)
   \<and> implements (inline_mysql_file_create_temp p k key dir pfx mode flags)
       (f_create_temp_file k dir pfx mode flags)
   \<and> implements (inline_mysql_file_fopen p k key src filename oflags flags
         \<bind> (\<lambda>r. State_Monad.return (map_option (\<lambda>(a, x). (a, m_file x)) r)))
       (plain_fopen k filename oflags flags)
   \<and> implements (inline_mysql_file_fclose p k src stream flags) (plain_fclose k stream flags)"
  by (intro conjI files_implement create_temp_implements fopen_implements fclose_implements)

text \<open>
  C35: every function on instrumented files ends each wait that it has announced, once, before
  it returns, and never ends another one.
\<close>

theorem file_waits_are_ended:
  "file_closed (inline_mysql_file_fgets (recorder reply) k src file str n)
   \<and> file_closed (inline_mysql_file_fgetc (recorder reply) k src file)
   \<and> file_closed (inline_mysql_file_fputs (recorder reply) k src file line)
   \<and> file_closed (inline_mysql_file_fputc (recorder reply) k src file c)
   \<and> file_closed (inline_mysql_file_fprintf (recorder reply) k file format args)
   \<and> file_closed (inline_mysql_file_vfprintf (recorder reply) k src file format args)
   \<and> file_closed (inline_mysql_file_fflush (recorder reply) k src file)
   \<and> file_closed (inline_mysql_file_fstat (recorder reply) k src filenr stat_area flags)
   \<and> file_closed (inline_mysql_file_stat (recorder reply) k key src path stat_area flags)
   \<and> file_closed (inline_mysql_file_chsize (recorder reply) k src fdes newlength filler flags)
   \<and> file_closed (inline_mysql_file_fread (recorder reply) k src file buffer count flags)
   \<and> file_closed (inline_mysql_file_fwrite (recorder reply) k src file buffer count flags)
   \<and> file_closed (inline_mysql_file_fseek (recorder reply) k src file pos whence flags)
   \<and> file_closed (inline_mysql_file_ftell (recorder reply) k src file flags)
   \<and> file_closed (inline_mysql_file_create (recorder reply) k key src filename create_flags access_flags flags)
   \<and> file_closed (inline_mysql_file_open (recorder reply) k key src filename oflags flags)
   \<and> file_closed (inline_mysql_file_close (recorder reply) k src fdes flags)
   \<and> file_closed (inline_mysql_file_read (recorder reply) k src fdes buffer count flags)
   \<and> file_closed (inline_mysql_file_write (recorder reply) k src fdes buffer count flags)
   \<and> file_closed (inline_mysql_file_pread (recorder reply) k src fdes buffer count offset flags)
   \<and> file_closed (inline_mysql_file_pwrite (recorder reply) k src fdes buffer count offset flags)
   \<and> file_closed (inline_mysql_file_seek (recorder reply) k src fdes pos whence flags)
   \<and> file_closed (inline_mysql_file_tell (recorder reply) k src fdes flags)
   \<and> file_closed (inline_mysql_file_delete (recorder reply) k key src name flags)
   \<and> file_closed (inline_mysql_file_rename (recorder reply) k key src from_name to_name flags)
   \<and> file_closed (inline_mysql_file_create_with_symlink (recorder reply) k key src linkname filename create_flags access_flags flags)
   \<and> file_closed (inline_mysql_file_delete_with_symlink (recorder reply) k key src name flags)
   \<and> file_closed (inline_mysql_file_rename_with_symlink (recorder reply) k key src from_name to_name flags)
   \<and> file_closed (inline_mysql_file_sync (recorder reply) k src fdes flags)
   \<and> file_closed (inline_mysql_file_create_temp (recorder reply) k key dir pfx mode flags)
   \<and> file_closed (inline_mysql_file_fopen (recorder reply) k key src filename oflags flags)
   \<and> file_closed (inline_mysql_file_fclose (recorder reply) k src stream flags)"
  by (intro conjI files_closed create_temp_closed fopen_closed fclose_closed)

text \<open>
  A read or write of at most \<open>count\<close> bytes is reported with at most
  \<open>count\<close> bytes when mysys keeps its contract, but a formatted output that fails is
  reported with all the bytes that a number of 64 bits can hold.
\<close>

theorem reported_sizes:
  assumes "result \<le> count \<or> result = MY_FILE_ERROR"
    and "f_vfprintf k (m_file file) format args (os s) = (- 1, w)"
    and "reply (psi s) (get_thread_file_stream_locker (m_psi file) PSI_FILE_WRITE) = Some l"
  shows "reported_bytes flags count result \<le> count
    \<and> (\<exists>r1 r2. psi (snd (run_state (inline_mysql_file_vfprintf (recorder reply) k src file format args) s))
        = psi s @ [(get_thread_file_stream_locker (m_psi file) PSI_FILE_WRITE, Some l),
            (start_file_wait l 0 src, r1), (end_file_wait l 0xFFFFFFFFFFFFFFFF, r2)])"
  using assms
  by (auto simp: reported_bytes_def inline_mysql_file_vfprintf_def locker_for_def recorder_def)

text \<open>A system in which nothing can be written, and whose state never changes.\<close>

definition failing_files :: "unit file_api" where
  "failing_files =
     \<lparr>f_fgets = (\<lambda>_ _ _ w. (None, w)),
      f_fgetc = (\<lambda>_ w. (- 1, w)),
      f_fputs = (\<lambda>_ _ w. (- 1, w)),
      f_fputc = (\<lambda>_ _ w. (- 1, w)),
      f_vfprintf = (\<lambda>_ _ _ w. (- 1, w)),
      f_fflush = (\<lambda>_ w. (- 1, w)),
      f_my_fstat = (\<lambda>_ _ _ w. (- 1, w)),
      f_my_stat = (\<lambda>_ _ _ w. (None, w)),
      f_my_chsize = (\<lambda>_ _ _ _ w. (- 1, w)),
      f_my_fread = (\<lambda>_ _ _ _ w. (MY_FILE_ERROR, w)),
      f_my_fwrite = (\<lambda>_ _ _ _ w. (MY_FILE_ERROR, w)),
      f_my_fseek = (\<lambda>_ _ _ _ w. (MY_FILE_ERROR, w)),
      f_my_ftell = (\<lambda>_ _ w. (MY_FILE_ERROR, w)),
      f_my_create = (\<lambda>_ _ _ _ w. (- 1, w)),
      f_my_open = (\<lambda>_ _ _ w. (- 1, w)),
      f_my_close = (\<lambda>_ _ w. (- 1, w)),
      f_my_read = (\<lambda>_ _ _ _ w. (MY_FILE_ERROR, w)),
      f_my_write = (\<lambda>_ _ _ _ w. (MY_FILE_ERROR, w)),
      f_my_pread = (\<lambda>_ _ _ _ _ w. (MY_FILE_ERROR, w)),
      f_my_pwrite = (\<lambda>_ _ _ _ _ w. (MY_FILE_ERROR, w)),
      f_my_seek = (\<lambda>_ _ _ _ w. (MY_FILE_ERROR, w)),
      f_my_tell = (\<lambda>_ _ w. (MY_FILE_ERROR, w)),
      f_my_delete = (\<lambda>_ _ w. (- 1, w)),
      f_my_rename = (\<lambda>_ _ _ w. (- 1, w)),
      f_my_create_with_symlink = (\<lambda>_ _ _ _ _ w. (- 1, w)),
      f_my_delete_with_symlink = (\<lambda>_ _ w. (- 1, w)),
      f_my_rename_with_symlink = (\<lambda>_ _ _ w. (- 1, w)),
      f_my_sync = (\<lambda>_ _ w. (- 1, w)),
      f_feof = (\<lambda>_ w. (- 1, w)),
      f_my_malloc = (\<lambda>_ w. (None, w)),
      f_my_free = (\<lambda>_ w. w),
      f_my_fopen = (\<lambda>_ _ _ w. (None, w)),
      f_my_fclose = (\<lambda>_ _ w. (- 1, w)),
      f_create_temp_file = (\<lambda>_ _ _ _ w. ((- 1, []), w))\<rparr>"

theorem reported_sizes_witness:
  "\<exists>r1 r2. psi (snd (run_state (inline_mysql_file_vfprintf (recorder (\<lambda>_ _. Some 7)) failing_files (''a.c'', 1)
        \<lparr>m_file = Some 3, m_psi = Some 4\<rparr> ''%d'' 5) \<lparr>os = (), psi = [], hooks = \<lambda>_. None\<rparr>))
    = [(get_thread_file_stream_locker (Some 4) PSI_FILE_WRITE, Some 7), (start_file_wait 7 0 (''a.c'', 1), r1),
       (end_file_wait 7 0xFFFFFFFFFFFFFFFF, r2)]"
  using reported_sizes [of 0 0 failing_files "\<lparr>m_file = Some 3, m_psi = Some 4\<rparr>" "''%d''" 5
      "\<lparr>os = (), psi = [], hooks = \<lambda>_. None\<rparr>" "()" "\<lambda>_ _. Some 7" 7 0 "(''a.c'', 1)"]
  by (simp add: failing_files_def)

end
