(* ===== verification/PsiFileMacros.thy ===== *)
theory PsiFileMacros
  imports PsiFile
begin

text \<open>
  The public names of \<open>mysql/psi/mysql_file.h\<close>: each macro passes its arguments and its place in the
  source to the inline function, without the place and the key where the instrumentation is not compiled
  in; the model of the inline function then ignores them.
\<close>

definition mysql_file_register ::
  "(file_event, 'p) interface \<Rightarrow> string \<Rightarrow> nat \<Rightarrow> int \<Rightarrow> ('w, 'p, unit) program" where
  "mysql_file_register p category info count = inline_mysql_file_register p category info count"

definition mysql_file_fgets ::
  "(file_event, 'p) interface \<Rightarrow> 'w file_api \<Rightarrow> place \<Rightarrow> nat \<Rightarrow> int \<Rightarrow> mysql_file \<Rightarrow> ('w, 'p, string option)
    program" where
  "mysql_file_fgets p k src str n file = inline_mysql_file_fgets p k src file str n"

definition mysql_file_fgetc ::
  "(file_event, 'p) interface \<Rightarrow> 'w file_api \<Rightarrow> place \<Rightarrow> mysql_file \<Rightarrow> ('w, 'p, int) program" where
  "mysql_file_fgetc p k src file = inline_mysql_file_fgetc p k src file"

definition mysql_file_fputs ::
  "(file_event, 'p) interface \<Rightarrow> 'w file_api \<Rightarrow> place \<Rightarrow> string option \<Rightarrow> mysql_file \<Rightarrow> ('w, 'p, int) program"
    where
  "mysql_file_fputs p k src line file = inline_mysql_file_fputs p k src file line"

definition mysql_file_fputc ::
  "(file_event, 'p) interface \<Rightarrow> 'w file_api \<Rightarrow> place \<Rightarrow> char \<Rightarrow> mysql_file \<Rightarrow> ('w, 'p, int) program" where
  "mysql_file_fputc p k src c file = inline_mysql_file_fputc p k src file c"

definition mysql_file_fprintf ::
  "(file_event, 'p) interface \<Rightarrow> 'w file_api \<Rightarrow> mysql_file \<Rightarrow> string \<Rightarrow> nat \<Rightarrow> ('w, 'p, int) program" where
  "mysql_file_fprintf p k file format args = inline_mysql_file_fprintf p k file format args"

definition mysql_file_vfprintf ::
  "(file_event, 'p) interface \<Rightarrow> 'w file_api \<Rightarrow> place \<Rightarrow> mysql_file \<Rightarrow> string \<Rightarrow> nat \<Rightarrow> ('w, 'p, int) program"
    where
  "mysql_file_vfprintf p k src file format args = inline_mysql_file_vfprintf p k src file format args"

definition mysql_file_fflush ::
  "(file_event, 'p) interface \<Rightarrow> 'w file_api \<Rightarrow> place \<Rightarrow> mysql_file \<Rightarrow> ('w, 'p, int) program" where
  "mysql_file_fflush p k src file = inline_mysql_file_fflush p k src file"

definition mysql_file_feof ::
  "'w file_api \<Rightarrow> mysql_file \<Rightarrow> ('w, 'p, int) program" where
  "mysql_file_feof k file = inline_mysql_file_feof k file"

definition mysql_file_fstat ::
  "(file_event, 'p) interface \<Rightarrow> 'w file_api \<Rightarrow> place \<Rightarrow> int \<Rightarrow> nat \<Rightarrow> int \<Rightarrow> ('w, 'p, int) program" where
  "mysql_file_fstat p k src filenr stat_area flags = inline_mysql_file_fstat p k src filenr stat_area flags"

definition mysql_file_stat ::
  "(file_event, 'p) interface \<Rightarrow> 'w file_api \<Rightarrow> nat \<Rightarrow> place \<Rightarrow> string \<Rightarrow> nat \<Rightarrow> int \<Rightarrow> ('w, 'p, handle) program"
    where
  "mysql_file_stat p k key src path stat_area flags = inline_mysql_file_stat p k key src path stat_area
     flags"

definition mysql_file_chsize ::
  "(file_event, 'p) interface \<Rightarrow> 'w file_api \<Rightarrow> place \<Rightarrow> int \<Rightarrow> 64 word \<Rightarrow> int \<Rightarrow> int \<Rightarrow> ('w, 'p, int) program"
    where
  "mysql_file_chsize p k src fdes newlength filler flags = inline_mysql_file_chsize p k src fdes newlength
     filler flags"

definition mysql_file_fopen ::
  "(file_event, 'p) interface \<Rightarrow> 'w file_api \<Rightarrow> nat \<Rightarrow> place \<Rightarrow> string \<Rightarrow> int \<Rightarrow> int \<Rightarrow> ('w, 'p, (nat \<times> mysql_file)
    option) program" where
  "mysql_file_fopen p k key src filename flags my_flags = inline_mysql_file_fopen p k key src filename flags
     my_flags"

definition mysql_file_fclose ::
  "(file_event, 'p) interface \<Rightarrow> 'w file_api \<Rightarrow> place \<Rightarrow> (nat \<times> mysql_file) option \<Rightarrow> int \<Rightarrow> ('w, 'p, int)
    program" where
  "mysql_file_fclose p k src stream flags = inline_mysql_file_fclose p k src stream flags"

definition mysql_file_fread ::
  "(file_event, 'p) interface \<Rightarrow> 'w file_api \<Rightarrow> place \<Rightarrow> mysql_file \<Rightarrow> nat \<Rightarrow> 64 word \<Rightarrow> int \<Rightarrow> ('w, 'p, 64 word)
    program" where
  "mysql_file_fread p k src file buffer count flags = inline_mysql_file_fread p k src file buffer count
     flags"

definition mysql_file_fwrite ::
  "(file_event, 'p) interface \<Rightarrow> 'w file_api \<Rightarrow> place \<Rightarrow> mysql_file \<Rightarrow> nat \<Rightarrow> 64 word \<Rightarrow> int \<Rightarrow> ('w, 'p, 64 word)
    program" where
  "mysql_file_fwrite p k src file buffer count flags = inline_mysql_file_fwrite p k src file buffer count
     flags"

definition mysql_file_fseek ::
  "(file_event, 'p) interface \<Rightarrow> 'w file_api \<Rightarrow> place \<Rightarrow> mysql_file \<Rightarrow> 64 word \<Rightarrow> int \<Rightarrow> int \<Rightarrow> ('w, 'p, 64 word)
    program" where
  "mysql_file_fseek p k src file pos whence flags = inline_mysql_file_fseek p k src file pos whence flags"

definition mysql_file_ftell ::
  "(file_event, 'p) interface \<Rightarrow> 'w file_api \<Rightarrow> place \<Rightarrow> mysql_file \<Rightarrow> int \<Rightarrow> ('w, 'p, 64 word) program" where
  "mysql_file_ftell p k src file flags = inline_mysql_file_ftell p k src file flags"

definition mysql_file_create ::
  "(file_event, 'p) interface \<Rightarrow> 'w file_api \<Rightarrow> nat \<Rightarrow> place \<Rightarrow> string \<Rightarrow> int \<Rightarrow> int \<Rightarrow> int \<Rightarrow> ('w, 'p, int)
    program" where
  "mysql_file_create p k key src filename create_flags access_flags flags = inline_mysql_file_create p k key
     src filename create_flags access_flags flags"

definition mysql_file_create_temp ::
  "(file_event, 'p) interface \<Rightarrow> 'w file_api \<Rightarrow> nat \<Rightarrow> string \<Rightarrow> string \<Rightarrow> int \<Rightarrow> int \<Rightarrow> ('w, 'p, int \<times> string)
    program" where
  "mysql_file_create_temp p k key dir pfx mode flags = inline_mysql_file_create_temp p k key dir pfx mode
     flags"

definition mysql_file_open ::
  "(file_event, 'p) interface \<Rightarrow> 'w file_api \<Rightarrow> nat \<Rightarrow> place \<Rightarrow> string \<Rightarrow> int \<Rightarrow> int \<Rightarrow> ('w, 'p, int) program"
    where
  "mysql_file_open p k key src filename oflags flags = inline_mysql_file_open p k key src filename oflags
     flags"

definition mysql_file_close ::
  "(file_event, 'p) interface \<Rightarrow> 'w file_api \<Rightarrow> place \<Rightarrow> int \<Rightarrow> int \<Rightarrow> ('w, 'p, int) program" where
  "mysql_file_close p k src fdes flags = inline_mysql_file_close p k src fdes flags"

definition mysql_file_read ::
  "(file_event, 'p) interface \<Rightarrow> 'w file_api \<Rightarrow> place \<Rightarrow> int \<Rightarrow> nat \<Rightarrow> 64 word \<Rightarrow> int \<Rightarrow> ('w, 'p, 64 word) program"
    where
  "mysql_file_read p k src fdes buffer count flags = inline_mysql_file_read p k src fdes buffer count flags"

definition mysql_file_write ::
  "(file_event, 'p) interface \<Rightarrow> 'w file_api \<Rightarrow> place \<Rightarrow> int \<Rightarrow> nat \<Rightarrow> 64 word \<Rightarrow> int \<Rightarrow> ('w, 'p, 64 word) program"
    where
  "mysql_file_write p k src fdes buffer count flags = inline_mysql_file_write p k src fdes buffer count
     flags"

definition mysql_file_pread ::
  "(file_event, 'p) interface \<Rightarrow> 'w file_api \<Rightarrow> place \<Rightarrow> int \<Rightarrow> nat \<Rightarrow> 64 word \<Rightarrow> 64 word \<Rightarrow> int \<Rightarrow> ('w, 'p, 64
    word) program" where
  "mysql_file_pread p k src fdes buffer count offset flags = inline_mysql_file_pread p k src fdes buffer
     count offset flags"

definition mysql_file_pwrite ::
  "(file_event, 'p) interface \<Rightarrow> 'w file_api \<Rightarrow> place \<Rightarrow> int \<Rightarrow> nat \<Rightarrow> 64 word \<Rightarrow> 64 word \<Rightarrow> int \<Rightarrow> ('w, 'p, 64
    word) program" where
  "mysql_file_pwrite p k src fdes buffer count offset flags = inline_mysql_file_pwrite p k src fdes buffer
     count offset flags"

definition mysql_file_seek ::
  "(file_event, 'p) interface \<Rightarrow> 'w file_api \<Rightarrow> place \<Rightarrow> int \<Rightarrow> 64 word \<Rightarrow> int \<Rightarrow> int \<Rightarrow> ('w, 'p, 64 word) program"
    where
  "mysql_file_seek p k src fdes pos whence flags = inline_mysql_file_seek p k src fdes pos whence flags"

definition mysql_file_tell ::
  "(file_event, 'p) interface \<Rightarrow> 'w file_api \<Rightarrow> place \<Rightarrow> int \<Rightarrow> int \<Rightarrow> ('w, 'p, 64 word) program" where
  "mysql_file_tell p k src fdes flags = inline_mysql_file_tell p k src fdes flags"

definition mysql_file_delete ::
  "(file_event, 'p) interface \<Rightarrow> 'w file_api \<Rightarrow> nat \<Rightarrow> place \<Rightarrow> string \<Rightarrow> int \<Rightarrow> ('w, 'p, int) program" where
  "mysql_file_delete p k key src name flags = inline_mysql_file_delete p k key src name flags"

definition mysql_file_rename ::
  "(file_event, 'p) interface \<Rightarrow> 'w file_api \<Rightarrow> nat \<Rightarrow> place \<Rightarrow> string \<Rightarrow> string \<Rightarrow> int \<Rightarrow> ('w, 'p, int) program"
    where
  "mysql_file_rename p k key src from_name to_name flags = inline_mysql_file_rename p k key src from_name
     to_name flags"

definition mysql_file_create_with_symlink ::
  "(file_event, 'p) interface \<Rightarrow> 'w file_api \<Rightarrow> nat \<Rightarrow> place \<Rightarrow> string \<Rightarrow> string \<Rightarrow> int \<Rightarrow> int \<Rightarrow> int \<Rightarrow> ('w, 'p,
    int) program" where
  "mysql_file_create_with_symlink p k key src linkname filename create_flags access_flags flags =
     inline_mysql_file_create_with_symlink p k key src linkname filename create_flags access_flags flags"

definition mysql_file_delete_with_symlink ::
  "(file_event, 'p) interface \<Rightarrow> 'w file_api \<Rightarrow> nat \<Rightarrow> place \<Rightarrow> string \<Rightarrow> int \<Rightarrow> ('w, 'p, int) program" where
  "mysql_file_delete_with_symlink p k key src name flags = inline_mysql_file_delete_with_symlink p k key src
     name flags"

definition mysql_file_rename_with_symlink ::
  "(file_event, 'p) interface \<Rightarrow> 'w file_api \<Rightarrow> nat \<Rightarrow> place \<Rightarrow> string \<Rightarrow> string \<Rightarrow> int \<Rightarrow> ('w, 'p, int) program"
    where
  "mysql_file_rename_with_symlink p k key src from_name to_name flags =
     inline_mysql_file_rename_with_symlink p k key src from_name to_name flags"

definition mysql_file_sync ::
  "(file_event, 'p) interface \<Rightarrow> 'w file_api \<Rightarrow> place \<Rightarrow> int \<Rightarrow> int \<Rightarrow> ('w, 'p, int) program" where
  "mysql_file_sync p k src fdes flags = inline_mysql_file_sync p k src fdes flags"

section \<open>The macros do what the plain functions do\<close>

lemmas file_macros = mysql_file_register_def mysql_file_fgets_def mysql_file_fgetc_def mysql_file_fputs_def mysql_file_fputc_def
  mysql_file_fprintf_def mysql_file_vfprintf_def mysql_file_fflush_def mysql_file_feof_def
  mysql_file_fstat_def mysql_file_stat_def mysql_file_chsize_def mysql_file_fopen_def mysql_file_fclose_def
  mysql_file_fread_def mysql_file_fwrite_def mysql_file_fseek_def mysql_file_ftell_def mysql_file_create_def
  mysql_file_create_temp_def mysql_file_open_def mysql_file_close_def mysql_file_read_def
  mysql_file_write_def mysql_file_pread_def mysql_file_pwrite_def mysql_file_seek_def mysql_file_tell_def
  mysql_file_delete_def mysql_file_rename_def mysql_file_create_with_symlink_def
  mysql_file_delete_with_symlink_def mysql_file_rename_with_symlink_def mysql_file_sync_def

text \<open>The result and the effect on the system are those of the plain function.\<close>

lemma file_macros_transparent:
  "implements (mysql_file_fgets p k src str n file)
       (f_fgets k (m_file file) str n)
   \<and> implements (mysql_file_fgetc p k src file)
       (f_fgetc k (m_file file))
   \<and> implements (mysql_file_fputs p k src line file)
       (f_fputs k line (m_file file))
   \<and> implements (mysql_file_fputc p k src c file)
       (f_fputc k c (m_file file))
   \<and> implements (mysql_file_fprintf p k file format args)
       (f_vfprintf k (m_file file) format args)
   \<and> implements (mysql_file_vfprintf p k src file format args)
       (f_vfprintf k (m_file file) format args)
   \<and> implements (mysql_file_fflush p k src file)
       (f_fflush k (m_file file))
   \<and> implements (mysql_file_fstat p k src filenr stat_area flags)
       (f_my_fstat k filenr stat_area flags)
   \<and> implements (mysql_file_stat p k key src path stat_area flags)
       (f_my_stat k path stat_area flags)
   \<and> implements (mysql_file_chsize p k src fdes newlength filler flags)
       (f_my_chsize k fdes newlength filler flags)
   \<and> implements (mysql_file_fread p k src file buffer count flags)
       (f_my_fread k (m_file file) buffer count flags)
   \<and> implements (mysql_file_fwrite p k src file buffer count flags)
       (f_my_fwrite k (m_file file) buffer count flags)
   \<and> implements (mysql_file_fseek p k src file pos whence flags)
       (f_my_fseek k (m_file file) pos whence flags)
   \<and> implements (mysql_file_ftell p k src file flags)
       (f_my_ftell k (m_file file) flags)
   \<and> implements (mysql_file_create p k key src filename create_flags access_flags flags)
       (f_my_create k filename create_flags access_flags flags)
   \<and> implements (mysql_file_open p k key src filename oflags flags)
       (f_my_open k filename oflags flags)
   \<and> implements (mysql_file_close p k src fdes flags)
       (f_my_close k fdes flags)
   \<and> implements (mysql_file_read p k src fdes buffer count flags)
       (f_my_read k fdes buffer count flags)
   \<and> implements (mysql_file_write p k src fdes buffer count flags)
       (f_my_write k fdes buffer count flags)
   \<and> implements (mysql_file_pread p k src fdes buffer count offset flags)
       (f_my_pread k fdes buffer count offset flags)
   \<and> implements (mysql_file_pwrite p k src fdes buffer count offset flags)
       (f_my_pwrite k fdes buffer count offset flags)
   \<and> implements (mysql_file_seek p k src fdes pos whence flags)
       (f_my_seek k fdes pos whence flags)
   \<and> implements (mysql_file_tell p k src fdes flags)
       (f_my_tell k fdes flags)
   \<and> implements (mysql_file_delete p k key src name flags)
       (f_my_delete k name flags)
   \<and> implements (mysql_file_rename p k key src from_name to_name flags)
       (f_my_rename k from_name to_name flags)
   \<and> implements (mysql_file_create_with_symlink p k key src linkname filename create_flags access_flags flags)
       (f_my_create_with_symlink k linkname filename create_flags access_flags flags)
   \<and> implements (mysql_file_delete_with_symlink p k key src name flags)
       (f_my_delete_with_symlink k name flags)
   \<and> implements (mysql_file_rename_with_symlink p k key src from_name to_name flags)
       (f_my_rename_with_symlink k from_name to_name flags)
   \<and> implements (mysql_file_sync p k src fdes flags)
       (f_my_sync k fdes flags)
   \<and> implements (mysql_file_create_temp p k key dir pfx mode flags)
       (f_create_temp_file k dir pfx mode flags)
   \<and> implements (mysql_file_fopen p k key src filename oflags flags
         \<bind> (\<lambda>r. State_Monad.return (map_option (\<lambda>(a, x). (a, m_file x)) r)))
       (plain_fopen k filename oflags flags)
   \<and> implements (mysql_file_fclose p k src stream flags) (plain_fclose k stream flags)"
  unfolding file_macros
  by (intro conjI files_implement create_temp_implements fopen_implements fclose_implements)

text \<open>What a macro announces as the start of a wait it ends.\<close>

lemma file_macros_end_waits:
  "file_closed (mysql_file_fgets (recorder reply) k src str n file)
   \<and> file_closed (mysql_file_fgetc (recorder reply) k src file)
   \<and> file_closed (mysql_file_fputs (recorder reply) k src line file)
   \<and> file_closed (mysql_file_fputc (recorder reply) k src c file)
   \<and> file_closed (mysql_file_fprintf (recorder reply) k file format args)
   \<and> file_closed (mysql_file_vfprintf (recorder reply) k src file format args)
   \<and> file_closed (mysql_file_fflush (recorder reply) k src file)
   \<and> file_closed (mysql_file_fstat (recorder reply) k src filenr stat_area flags)
   \<and> file_closed (mysql_file_stat (recorder reply) k key src path stat_area flags)
   \<and> file_closed (mysql_file_chsize (recorder reply) k src fdes newlength filler flags)
   \<and> file_closed (mysql_file_fread (recorder reply) k src file buffer count flags)
   \<and> file_closed (mysql_file_fwrite (recorder reply) k src file buffer count flags)
   \<and> file_closed (mysql_file_fseek (recorder reply) k src file pos whence flags)
   \<and> file_closed (mysql_file_ftell (recorder reply) k src file flags)
   \<and> file_closed (mysql_file_create (recorder reply) k key src filename create_flags access_flags flags)
   \<and> file_closed (mysql_file_open (recorder reply) k key src filename oflags flags)
   \<and> file_closed (mysql_file_close (recorder reply) k src fdes flags)
   \<and> file_closed (mysql_file_read (recorder reply) k src fdes buffer count flags)
   \<and> file_closed (mysql_file_write (recorder reply) k src fdes buffer count flags)
   \<and> file_closed (mysql_file_pread (recorder reply) k src fdes buffer count offset flags)
   \<and> file_closed (mysql_file_pwrite (recorder reply) k src fdes buffer count offset flags)
   \<and> file_closed (mysql_file_seek (recorder reply) k src fdes pos whence flags)
   \<and> file_closed (mysql_file_tell (recorder reply) k src fdes flags)
   \<and> file_closed (mysql_file_delete (recorder reply) k key src name flags)
   \<and> file_closed (mysql_file_rename (recorder reply) k key src from_name to_name flags)
   \<and> file_closed (mysql_file_create_with_symlink (recorder reply) k key src linkname filename create_flags access_flags flags)
   \<and> file_closed (mysql_file_delete_with_symlink (recorder reply) k key src name flags)
   \<and> file_closed (mysql_file_rename_with_symlink (recorder reply) k key src from_name to_name flags)
   \<and> file_closed (mysql_file_sync (recorder reply) k src fdes flags)
   \<and> file_closed (mysql_file_create_temp (recorder reply) k key dir pfx mode flags)
   \<and> file_closed (mysql_file_fopen (recorder reply) k key src filename oflags flags)
   \<and> file_closed (mysql_file_fclose (recorder reply) k src stream flags)"
  unfolding file_macros
  by (intro conjI files_closed create_temp_closed fopen_closed fclose_closed)

end
