(* ===== verification/PsiThread.thy ===== *)
theory PsiThread
  imports PsiBase
begin

text \<open>
  The instrumented mutexes, read-write locks, condition variables and threads of
  \<open>mysql/psi/mysql_thread.h\<close>: every inline function, for both values of \<open>HAVE_PSI_INTERFACE\<close> and without
  \<open>SAFE_MUTEX\<close>, over the locking functions of mysys and the system, which are a parameter. An object is
  given by its address, which is also that of the native object in it; its hook is in the state.
\<close>

section \<open>The calls and the system\<close>

datatype thread_event =
    register_mutex string nat int | register_rwlock string nat int | register_cond string nat int
  | register_thread string nat int
  | init_mutex nat nat | destroy_mutex nat | init_rwlock nat nat | destroy_rwlock nat
  | init_cond nat nat | destroy_cond nat
  | unlock_mutex nat | unlock_rwlock nat | signal_cond nat | broadcast_cond nat
  | start_mutex_wait nat PSI_mutex_operation place | end_mutex_wait nat int
  | start_rwlock_rdwait nat PSI_rwlock_operation place | end_rwlock_rdwait nat int
  | start_rwlock_wrwait nat PSI_rwlock_operation place | end_rwlock_wrwait nat int
  | start_cond_wait nat handle PSI_cond_operation place | end_cond_wait nat int
  | get_thread | set_thread_id handle nat | set_thread_THD handle nat

text \<open>The functions of the system. \<open>t_spawn_thread\<close> is that of the instrumentation, which starts a thread.\<close>

record 'w thread_api =
  t_mutex_init :: "nat \<Rightarrow> nat \<Rightarrow> 'w \<Rightarrow> int \<times> 'w"
  t_mutex_destroy :: "nat \<Rightarrow> 'w \<Rightarrow> int \<times> 'w"
  t_mutex_lock :: "nat \<Rightarrow> 'w \<Rightarrow> int \<times> 'w"
  t_mutex_trylock :: "nat \<Rightarrow> 'w \<Rightarrow> int \<times> 'w"
  t_mutex_unlock :: "nat \<Rightarrow> 'w \<Rightarrow> int \<times> 'w"
  t_rw_init :: "nat \<Rightarrow> 'w \<Rightarrow> int \<times> 'w"
  t_rw_destroy :: "nat \<Rightarrow> 'w \<Rightarrow> int \<times> 'w"
  t_rw_rdlock :: "nat \<Rightarrow> 'w \<Rightarrow> int \<times> 'w"
  t_rw_wrlock :: "nat \<Rightarrow> 'w \<Rightarrow> int \<times> 'w"
  t_rw_tryrdlock :: "nat \<Rightarrow> 'w \<Rightarrow> int \<times> 'w"
  t_rw_trywrlock :: "nat \<Rightarrow> 'w \<Rightarrow> int \<times> 'w"
  t_rw_unlock :: "nat \<Rightarrow> 'w \<Rightarrow> int \<times> 'w"
  t_pr_init :: "nat \<Rightarrow> 'w \<Rightarrow> int \<times> 'w"
  t_pr_destroy :: "nat \<Rightarrow> 'w \<Rightarrow> int \<times> 'w"
  t_pr_rdlock :: "nat \<Rightarrow> 'w \<Rightarrow> int \<times> 'w"
  t_pr_wrlock :: "nat \<Rightarrow> 'w \<Rightarrow> int \<times> 'w"
  t_pr_unlock :: "nat \<Rightarrow> 'w \<Rightarrow> int \<times> 'w"
  t_cond_init :: "nat \<Rightarrow> 'w \<Rightarrow> int \<times> 'w"
  t_cond_destroy :: "nat \<Rightarrow> 'w \<Rightarrow> int \<times> 'w"
  t_cond_wait :: "nat \<Rightarrow> nat \<Rightarrow> 'w \<Rightarrow> int \<times> 'w"
  t_cond_timedwait :: "nat \<Rightarrow> nat \<Rightarrow> nat \<Rightarrow> 'w \<Rightarrow> int \<times> 'w"
  t_cond_signal :: "nat \<Rightarrow> 'w \<Rightarrow> int \<times> 'w"
  t_cond_broadcast :: "nat \<Rightarrow> 'w \<Rightarrow> int \<times> 'w"
  t_spawn_thread :: "nat \<Rightarrow> nat \<Rightarrow> nat \<Rightarrow> nat \<Rightarrow> nat \<Rightarrow> 'w \<Rightarrow> int \<times> 'w"

definition get_hook :: "nat \<Rightarrow> ('w, 'p, handle) program" where
  "get_hook a = State (\<lambda>s. (hooks s a, s))"

definition set_hook :: "nat \<Rightarrow> handle \<Rightarrow> ('w, 'p, unit) program" where
  "set_hook a h = State (\<lambda>s. ((), s\<lparr>hooks := (hooks s)(a := h)\<rparr>))"

text \<open>The hook of an object, which is looked at only when the instrumentation is compiled in.\<close>

definition hook_of :: "(thread_event, 'p) interface \<Rightarrow> nat \<Rightarrow> ('w, 'p, handle) program" where
  "hook_of p a = (if have_psi p then get_hook a else State_Monad.return None)"

section \<open>Mutexes\<close>

definition inline_mysql_mutex_register ::
  "(thread_event, 'p) interface \<Rightarrow> string \<Rightarrow> nat \<Rightarrow> int \<Rightarrow> ('w, 'p, unit) program" where
  "inline_mysql_mutex_register p category info count =
     (if have_psi p then psi_do p (register_mutex category info count) else State_Monad.return ())"

definition inline_mysql_mutex_init ::
  "(thread_event, 'p) interface \<Rightarrow> 'w thread_api \<Rightarrow> nat \<Rightarrow> nat \<Rightarrow> nat \<Rightarrow> ('w, 'p, int) program" where
  "inline_mysql_mutex_init p k key that attr = do {
     h \<leftarrow> (if have_psi p then psi_call p (init_mutex key that) else State_Monad.return None);
     set_hook that h;
     sys_call (t_mutex_init k that attr)
   }"

definition inline_mysql_mutex_destroy ::
  "(thread_event, 'p) interface \<Rightarrow> 'w thread_api \<Rightarrow> nat \<Rightarrow> ('w, 'p, int) program" where
  "inline_mysql_mutex_destroy p k that = do {
     h \<leftarrow> hook_of p that;
     (case h of
        Some x \<Rightarrow> do { psi_do p (destroy_mutex x); set_hook that None }
      | None \<Rightarrow> State_Monad.return ());
     sys_call (t_mutex_destroy k that)
   }"

definition inline_mysql_mutex_lock ::
  "(thread_event, 'p) interface \<Rightarrow> 'w thread_api \<Rightarrow> place \<Rightarrow> nat \<Rightarrow> ('w, 'p, int) program" where
  "inline_mysql_mutex_lock p k src that = do {
     h \<leftarrow> hook_of p that;
     (case h of
        Some x \<Rightarrow> do {
          locker \<leftarrow> psi_call p (start_mutex_wait x PSI_MUTEX_LOCK src);
          result \<leftarrow> sys_call (t_mutex_lock k that);
          psi_on p locker (\<lambda>l. end_mutex_wait l result);
          State_Monad.return result
        }
      | None \<Rightarrow> sys_call (t_mutex_lock k that))
   }"

definition inline_mysql_mutex_trylock ::
  "(thread_event, 'p) interface \<Rightarrow> 'w thread_api \<Rightarrow> place \<Rightarrow> nat \<Rightarrow> ('w, 'p, int) program" where
  "inline_mysql_mutex_trylock p k src that = do {
     h \<leftarrow> hook_of p that;
     (case h of
        Some x \<Rightarrow> do {
          locker \<leftarrow> psi_call p (start_mutex_wait x PSI_MUTEX_TRYLOCK src);
          result \<leftarrow> sys_call (t_mutex_trylock k that);
          psi_on p locker (\<lambda>l. end_mutex_wait l result);
          State_Monad.return result
        }
      | None \<Rightarrow> sys_call (t_mutex_trylock k that))
   }"

definition inline_mysql_mutex_unlock ::
  "(thread_event, 'p) interface \<Rightarrow> 'w thread_api \<Rightarrow> nat \<Rightarrow> ('w, 'p, int) program" where
  "inline_mysql_mutex_unlock p k that = do {
     h \<leftarrow> hook_of p that;
     psi_on p h unlock_mutex;
     sys_call (t_mutex_unlock k that)
   }"

section \<open>Read-write locks\<close>

definition inline_mysql_rwlock_register ::
  "(thread_event, 'p) interface \<Rightarrow> string \<Rightarrow> nat \<Rightarrow> int \<Rightarrow> ('w, 'p, unit) program" where
  "inline_mysql_rwlock_register p category info count =
     (if have_psi p then psi_do p (register_rwlock category info count) else State_Monad.return ())"

definition inline_mysql_rwlock_init ::
  "(thread_event, 'p) interface \<Rightarrow> 'w thread_api \<Rightarrow> nat \<Rightarrow> nat \<Rightarrow> ('w, 'p, int) program" where
  "inline_mysql_rwlock_init p k key that = do {
     h \<leftarrow> (if have_psi p then psi_call p (init_rwlock key that) else State_Monad.return None);
     set_hook that h;
     sys_call (t_rw_init k that)
   }"

definition inline_mysql_prlock_init ::
  "(thread_event, 'p) interface \<Rightarrow> 'w thread_api \<Rightarrow> nat \<Rightarrow> nat \<Rightarrow> ('w, 'p, int) program" where
  "inline_mysql_prlock_init p k key that = do {
     h \<leftarrow> (if have_psi p then psi_call p (init_rwlock key that) else State_Monad.return None);
     set_hook that h;
     sys_call (t_pr_init k that)
   }"

definition inline_mysql_rwlock_destroy ::
  "(thread_event, 'p) interface \<Rightarrow> 'w thread_api \<Rightarrow> nat \<Rightarrow> ('w, 'p, int) program" where
  "inline_mysql_rwlock_destroy p k that = do {
     h \<leftarrow> hook_of p that;
     (case h of
        Some x \<Rightarrow> do { psi_do p (destroy_rwlock x); set_hook that None }
      | None \<Rightarrow> State_Monad.return ());
     sys_call (t_rw_destroy k that)
   }"

definition inline_mysql_prlock_destroy ::
  "(thread_event, 'p) interface \<Rightarrow> 'w thread_api \<Rightarrow> nat \<Rightarrow> ('w, 'p, int) program" where
  "inline_mysql_prlock_destroy p k that = do {
     h \<leftarrow> hook_of p that;
     (case h of
        Some x \<Rightarrow> do { psi_do p (destroy_rwlock x); set_hook that None }
      | None \<Rightarrow> State_Monad.return ());
     sys_call (t_pr_destroy k that)
   }"

definition inline_mysql_rwlock_rdlock ::
  "(thread_event, 'p) interface \<Rightarrow> 'w thread_api \<Rightarrow> place \<Rightarrow> nat \<Rightarrow> ('w, 'p, int) program" where
  "inline_mysql_rwlock_rdlock p k src that = do {
     h \<leftarrow> hook_of p that;
     (case h of
        Some x \<Rightarrow> do {
          locker \<leftarrow> psi_call p (start_rwlock_rdwait x PSI_RWLOCK_READLOCK src);
          result \<leftarrow> sys_call (t_rw_rdlock k that);
          psi_on p locker (\<lambda>l. end_rwlock_rdwait l result);
          State_Monad.return result
        }
      | None \<Rightarrow> sys_call (t_rw_rdlock k that))
   }"

definition inline_mysql_prlock_rdlock ::
  "(thread_event, 'p) interface \<Rightarrow> 'w thread_api \<Rightarrow> place \<Rightarrow> nat \<Rightarrow> ('w, 'p, int) program" where
  "inline_mysql_prlock_rdlock p k src that = do {
     h \<leftarrow> hook_of p that;
     (case h of
        Some x \<Rightarrow> do {
          locker \<leftarrow> psi_call p (start_rwlock_rdwait x PSI_RWLOCK_READLOCK src);
          result \<leftarrow> sys_call (t_pr_rdlock k that);
          psi_on p locker (\<lambda>l. end_rwlock_rdwait l result);
          State_Monad.return result
        }
      | None \<Rightarrow> sys_call (t_pr_rdlock k that))
   }"

definition inline_mysql_rwlock_wrlock ::
  "(thread_event, 'p) interface \<Rightarrow> 'w thread_api \<Rightarrow> place \<Rightarrow> nat \<Rightarrow> ('w, 'p, int) program" where
  "inline_mysql_rwlock_wrlock p k src that = do {
     h \<leftarrow> hook_of p that;
     (case h of
        Some x \<Rightarrow> do {
          locker \<leftarrow> psi_call p (start_rwlock_wrwait x PSI_RWLOCK_WRITELOCK src);
          result \<leftarrow> sys_call (t_rw_wrlock k that);
          psi_on p locker (\<lambda>l. end_rwlock_wrwait l result);
          State_Monad.return result
        }
      | None \<Rightarrow> sys_call (t_rw_wrlock k that))
   }"

definition inline_mysql_prlock_wrlock ::
  "(thread_event, 'p) interface \<Rightarrow> 'w thread_api \<Rightarrow> place \<Rightarrow> nat \<Rightarrow> ('w, 'p, int) program" where
  "inline_mysql_prlock_wrlock p k src that = do {
     h \<leftarrow> hook_of p that;
     (case h of
        Some x \<Rightarrow> do {
          locker \<leftarrow> psi_call p (start_rwlock_wrwait x PSI_RWLOCK_WRITELOCK src);
          result \<leftarrow> sys_call (t_pr_wrlock k that);
          psi_on p locker (\<lambda>l. end_rwlock_wrwait l result);
          State_Monad.return result
        }
      | None \<Rightarrow> sys_call (t_pr_wrlock k that))
   }"

definition inline_mysql_rwlock_tryrdlock ::
  "(thread_event, 'p) interface \<Rightarrow> 'w thread_api \<Rightarrow> place \<Rightarrow> nat \<Rightarrow> ('w, 'p, int) program" where
  "inline_mysql_rwlock_tryrdlock p k src that = do {
     h \<leftarrow> hook_of p that;
     (case h of
        Some x \<Rightarrow> do {
          locker \<leftarrow> psi_call p (start_rwlock_rdwait x PSI_RWLOCK_TRYREADLOCK src);
          result \<leftarrow> sys_call (t_rw_tryrdlock k that);
          psi_on p locker (\<lambda>l. end_rwlock_rdwait l result);
          State_Monad.return result
        }
      | None \<Rightarrow> sys_call (t_rw_tryrdlock k that))
   }"

definition inline_mysql_rwlock_trywrlock ::
  "(thread_event, 'p) interface \<Rightarrow> 'w thread_api \<Rightarrow> place \<Rightarrow> nat \<Rightarrow> ('w, 'p, int) program" where
  "inline_mysql_rwlock_trywrlock p k src that = do {
     h \<leftarrow> hook_of p that;
     (case h of
        Some x \<Rightarrow> do {
          locker \<leftarrow> psi_call p (start_rwlock_wrwait x PSI_RWLOCK_TRYWRITELOCK src);
          result \<leftarrow> sys_call (t_rw_trywrlock k that);
          psi_on p locker (\<lambda>l. end_rwlock_wrwait l result);
          State_Monad.return result
        }
      | None \<Rightarrow> sys_call (t_rw_trywrlock k that))
   }"

definition inline_mysql_rwlock_unlock ::
  "(thread_event, 'p) interface \<Rightarrow> 'w thread_api \<Rightarrow> nat \<Rightarrow> ('w, 'p, int) program" where
  "inline_mysql_rwlock_unlock p k that = do {
     h \<leftarrow> hook_of p that;
     psi_on p h unlock_rwlock;
     sys_call (t_rw_unlock k that)
   }"

definition inline_mysql_prlock_unlock ::
  "(thread_event, 'p) interface \<Rightarrow> 'w thread_api \<Rightarrow> nat \<Rightarrow> ('w, 'p, int) program" where
  "inline_mysql_prlock_unlock p k that = do {
     h \<leftarrow> hook_of p that;
     psi_on p h unlock_rwlock;
     sys_call (t_pr_unlock k that)
   }"

section \<open>Condition variables\<close>

definition inline_mysql_cond_register ::
  "(thread_event, 'p) interface \<Rightarrow> string \<Rightarrow> nat \<Rightarrow> int \<Rightarrow> ('w, 'p, unit) program" where
  "inline_mysql_cond_register p category info count =
     (if have_psi p then psi_do p (register_cond category info count) else State_Monad.return ())"

definition inline_mysql_cond_init ::
  "(thread_event, 'p) interface \<Rightarrow> 'w thread_api \<Rightarrow> nat \<Rightarrow> nat \<Rightarrow> ('w, 'p, int) program" where
  "inline_mysql_cond_init p k key that = do {
     h \<leftarrow> (if have_psi p then psi_call p (init_cond key that) else State_Monad.return None);
     set_hook that h;
     sys_call (t_cond_init k that)
   }"

definition inline_mysql_cond_destroy ::
  "(thread_event, 'p) interface \<Rightarrow> 'w thread_api \<Rightarrow> nat \<Rightarrow> ('w, 'p, int) program" where
  "inline_mysql_cond_destroy p k that = do {
     h \<leftarrow> hook_of p that;
     (case h of
        Some x \<Rightarrow> do { psi_do p (destroy_cond x); set_hook that None }
      | None \<Rightarrow> State_Monad.return ());
     sys_call (t_cond_destroy k that)
   }"

definition inline_mysql_cond_wait ::
  "(thread_event, 'p) interface \<Rightarrow> 'w thread_api \<Rightarrow> place \<Rightarrow> nat \<Rightarrow> nat \<Rightarrow> ('w, 'p, int) program" where
  "inline_mysql_cond_wait p k src that mutex = do {
     h \<leftarrow> hook_of p that;
     (case h of
        Some x \<Rightarrow> do {
          m \<leftarrow> get_hook mutex;
          locker \<leftarrow> psi_call p (start_cond_wait x m PSI_COND_WAIT src);
          result \<leftarrow> sys_call (t_cond_wait k that mutex);
          psi_on p locker (\<lambda>l. end_cond_wait l result);
          State_Monad.return result
        }
      | None \<Rightarrow> sys_call (t_cond_wait k that mutex))
   }"

definition inline_mysql_cond_timedwait ::
  "(thread_event, 'p) interface \<Rightarrow> 'w thread_api \<Rightarrow> place \<Rightarrow> nat \<Rightarrow> nat \<Rightarrow> nat \<Rightarrow> ('w, 'p, int) program" where
  "inline_mysql_cond_timedwait p k src that mutex abstime = do {
     h \<leftarrow> hook_of p that;
     (case h of
        Some x \<Rightarrow> do {
          m \<leftarrow> get_hook mutex;
          locker \<leftarrow> psi_call p (start_cond_wait x m PSI_COND_TIMEDWAIT src);
          result \<leftarrow> sys_call (t_cond_timedwait k that mutex abstime);
          psi_on p locker (\<lambda>l. end_cond_wait l result);
          State_Monad.return result
        }
      | None \<Rightarrow> sys_call (t_cond_timedwait k that mutex abstime))
   }"

definition inline_mysql_cond_signal ::
  "(thread_event, 'p) interface \<Rightarrow> 'w thread_api \<Rightarrow> nat \<Rightarrow> ('w, 'p, int) program" where
  "inline_mysql_cond_signal p k that = do {
     h \<leftarrow> hook_of p that;
     psi_on p h signal_cond;
     sys_call (t_cond_signal k that)
   }"

definition inline_mysql_cond_broadcast ::
  "(thread_event, 'p) interface \<Rightarrow> 'w thread_api \<Rightarrow> nat \<Rightarrow> ('w, 'p, int) program" where
  "inline_mysql_cond_broadcast p k that = do {
     h \<leftarrow> hook_of p that;
     psi_on p h broadcast_cond;
     sys_call (t_cond_broadcast k that)
   }"

section \<open>Threads\<close>

definition inline_mysql_thread_register ::
  "(thread_event, 'p) interface \<Rightarrow> string \<Rightarrow> nat \<Rightarrow> int \<Rightarrow> ('w, 'p, unit) program" where
  "inline_mysql_thread_register p category info count =
     (if have_psi p then psi_do p (register_thread category info count) else State_Monad.return ())"

definition inline_mysql_thread_create ::
  "'w thread_api \<Rightarrow> nat \<Rightarrow> nat \<Rightarrow> nat \<Rightarrow> nat \<Rightarrow> nat \<Rightarrow> ('w, 'p, int) program" where
  "inline_mysql_thread_create k key thread attr start_routine arg =
     sys_call (t_spawn_thread k key thread attr start_routine arg)"

definition inline_mysql_thread_set_psi_id :: "(thread_event, 'p) interface \<Rightarrow> nat \<Rightarrow> ('w, 'p, unit) program" where
  "inline_mysql_thread_set_psi_id p ident = do {
     h \<leftarrow> psi_call p get_thread;
     psi_do p (set_thread_id h ident)
   }"

definition inline_mysql_thread_set_psi_THD :: "(thread_event, 'p) interface \<Rightarrow> nat \<Rightarrow> ('w, 'p, unit) program" where
  "inline_mysql_thread_set_psi_THD p thd = do {
     h \<leftarrow> psi_call p get_thread;
     psi_do p (set_thread_THD h thd)
   }"

section \<open>The system sees the plain calls\<close>

lemma silent_hooks [psi_os]: "silent (get_hook a)" "silent (set_hook a h)" "silent (hook_of p a)"
  by (simp_all add: silent_def get_hook_def set_hook_def hook_of_def)

lemma silent_case [psi_os]:
  "(\<And>x. silent (m x)) \<Longrightarrow> silent m' \<Longrightarrow> silent (case h of Some x \<Rightarrow> m x | None \<Rightarrow> m')"
  by (cases h) simp_all

lemma implements_case [psi_os]:
  "(\<And>x. implements (m x) f) \<Longrightarrow> implements m' f \<Longrightarrow> implements (case h of Some x \<Rightarrow> m x | None \<Rightarrow> m') f"
  by (cases h) simp_all

lemmas thread_operations =
  inline_mysql_mutex_init_def
  inline_mysql_mutex_destroy_def
  inline_mysql_mutex_lock_def
  inline_mysql_mutex_trylock_def
  inline_mysql_mutex_unlock_def
  inline_mysql_rwlock_init_def
  inline_mysql_prlock_init_def
  inline_mysql_rwlock_destroy_def
  inline_mysql_prlock_destroy_def
  inline_mysql_rwlock_rdlock_def
  inline_mysql_prlock_rdlock_def
  inline_mysql_rwlock_wrlock_def
  inline_mysql_prlock_wrlock_def
  inline_mysql_rwlock_tryrdlock_def
  inline_mysql_rwlock_trywrlock_def
  inline_mysql_rwlock_unlock_def
  inline_mysql_prlock_unlock_def
  inline_mysql_cond_init_def
  inline_mysql_cond_destroy_def
  inline_mysql_cond_wait_def
  inline_mysql_cond_timedwait_def
  inline_mysql_cond_signal_def
  inline_mysql_cond_broadcast_def

lemma threads_implement:
  "implements (inline_mysql_mutex_init p k key that attr) (t_mutex_init k that attr)"
  "implements (inline_mysql_mutex_destroy p k that) (t_mutex_destroy k that)"
  "implements (inline_mysql_mutex_lock p k src that) (t_mutex_lock k that)"
  "implements (inline_mysql_mutex_trylock p k src that) (t_mutex_trylock k that)"
  "implements (inline_mysql_mutex_unlock p k that) (t_mutex_unlock k that)"
  "implements (inline_mysql_rwlock_init p k key that) (t_rw_init k that)"
  "implements (inline_mysql_prlock_init p k key that) (t_pr_init k that)"
  "implements (inline_mysql_rwlock_destroy p k that) (t_rw_destroy k that)"
  "implements (inline_mysql_prlock_destroy p k that) (t_pr_destroy k that)"
  "implements (inline_mysql_rwlock_rdlock p k src that) (t_rw_rdlock k that)"
  "implements (inline_mysql_prlock_rdlock p k src that) (t_pr_rdlock k that)"
  "implements (inline_mysql_rwlock_wrlock p k src that) (t_rw_wrlock k that)"
  "implements (inline_mysql_prlock_wrlock p k src that) (t_pr_wrlock k that)"
  "implements (inline_mysql_rwlock_tryrdlock p k src that) (t_rw_tryrdlock k that)"
  "implements (inline_mysql_rwlock_trywrlock p k src that) (t_rw_trywrlock k that)"
  "implements (inline_mysql_rwlock_unlock p k that) (t_rw_unlock k that)"
  "implements (inline_mysql_prlock_unlock p k that) (t_pr_unlock k that)"
  "implements (inline_mysql_cond_init p k key that) (t_cond_init k that)"
  "implements (inline_mysql_cond_destroy p k that) (t_cond_destroy k that)"
  "implements (inline_mysql_cond_wait p k src that mutex) (t_cond_wait k that mutex)"
  "implements (inline_mysql_cond_timedwait p k src that mutex abstime) (t_cond_timedwait k that mutex abstime)"
  "implements (inline_mysql_cond_signal p k that) (t_cond_signal k that)"
  "implements (inline_mysql_cond_broadcast p k that) (t_cond_broadcast k that)"
  unfolding thread_operations by (intro psi_os)+

section \<open>Waits\<close>

definition thread_starts :: "thread_event \<Rightarrow> handle \<Rightarrow> handle" where
  "thread_starts e r = (case e of start_mutex_wait x opr src \<Rightarrow> r | start_rwlock_rdwait x opr src \<Rightarrow> r
     | start_rwlock_wrwait x opr src \<Rightarrow> r | start_cond_wait x m opr src \<Rightarrow> r | _ \<Rightarrow> None)"

definition thread_ends :: "thread_event \<Rightarrow> handle" where
  "thread_ends e = (case e of end_mutex_wait l r \<Rightarrow> Some l | end_rwlock_rdwait l r \<Rightarrow> Some l
     | end_rwlock_wrwait l r \<Rightarrow> Some l | end_cond_wait l r \<Rightarrow> Some l | _ \<Rightarrow> None)"

interpretation thread_waits: wait_calls thread_starts thread_ends
  by unfold_locales (auto simp: thread_starts_def thread_ends_def split: thread_event.splits)

abbreviation thread_closed :: "('w, (thread_event \<times> handle) list, 'a) program \<Rightarrow> bool" where
  "thread_closed m \<equiv> ends_waits thread_starts thread_ends m"

lemma thread_closed_sys: "thread_closed (sys_call f)"
  unfolding ends_waits_def by (rule thread_waits.waits_sys)

lemma thread_closed_return: "thread_closed (State_Monad.return a)"
  unfolding ends_waits_def by (rule thread_waits.waits_return)

lemma thread_closed_hooks: "thread_closed (get_hook a)" "thread_closed (set_hook a h)" "thread_closed (hook_of p a)"
  by (simp_all add: ends_waits_def waits_def get_hook_def set_hook_def hook_of_def)

lemma thread_closed_bind: "thread_closed m \<Longrightarrow> (\<And>a. thread_closed (f a)) \<Longrightarrow> thread_closed (m \<bind> f)"
  unfolding ends_waits_def by (rule thread_waits.waits_bind)

lemma thread_closed_case:
  "(\<And>x. thread_closed (m x)) \<Longrightarrow> thread_closed m' \<Longrightarrow> thread_closed (case h of Some x \<Rightarrow> m x | None \<Rightarrow> m')"
  by (cases h) simp_all

lemma thread_closed_if: "thread_closed m \<Longrightarrow> thread_closed m' \<Longrightarrow> thread_closed (if b then m else m')"
  by simp

lemma thread_closed_call:
  "(\<And>r. thread_starts e r = None) \<Longrightarrow> thread_ends e = None \<Longrightarrow> thread_closed (psi_call (recorder reply) e)"
  "(\<And>r. thread_starts e r = None) \<Longrightarrow> thread_ends e = None \<Longrightarrow> thread_closed (psi_do (recorder reply) e)"
  "(\<And>l r. thread_starts (g l) r = None) \<Longrightarrow> (\<And>l. thread_ends (g l) = None) \<Longrightarrow>
    thread_closed (psi_on (recorder reply) h g)"
  unfolding ends_waits_def by (rule thread_waits.waits_call thread_waits.waits_do thread_waits.waits_on; simp)+

lemma thread_closed_around:
  assumes "\<And>r. thread_starts e r = r" and "thread_ends e = None" and "\<And>r l. thread_ends (f r l) = Some l"
  shows "thread_closed (do { locker \<leftarrow> psi_call (recorder reply) e; result \<leftarrow> sys_call g;
    psi_on (recorder reply) locker (f result); State_Monad.return result })"
  unfolding ends_waits_def using assms by (rule thread_waits.waits_around)

text \<open>The common forms: a wait if there is a hook, and a call to tell the instrumentation.\<close>

lemma thread_closed_wait:
  assumes "\<And>x r. thread_starts (e x) r = r" and "\<And>x. thread_ends (e x) = None" and "\<And>r l. thread_ends (f r l) = Some l"
  shows "thread_closed (do { h \<leftarrow> hook_of p a; (case h of
      Some x \<Rightarrow> do { locker \<leftarrow> psi_call (recorder reply) (e x); result \<leftarrow> sys_call g;
        psi_on (recorder reply) locker (f result); State_Monad.return result }
    | None \<Rightarrow> sys_call g) })"
  using assms
  by (intro thread_closed_bind [OF thread_closed_hooks(3)] thread_closed_case thread_closed_sys thread_closed_around)

lemma thread_closed_cond:
  assumes "\<And>x m r. thread_starts (e x m) r = r" and "\<And>x m. thread_ends (e x m) = None"
    and "\<And>r l. thread_ends (f r l) = Some l"
  shows "thread_closed (do { h \<leftarrow> hook_of p a; (case h of
      Some x \<Rightarrow> do { m \<leftarrow> get_hook b; locker \<leftarrow> psi_call (recorder reply) (e x m); result \<leftarrow> sys_call g;
        psi_on (recorder reply) locker (f result); State_Monad.return result }
    | None \<Rightarrow> sys_call g) })"
  using assms
  by (intro thread_closed_bind [OF thread_closed_hooks(3)] thread_closed_bind [OF thread_closed_hooks(1)]
      thread_closed_case thread_closed_sys thread_closed_around)

lemma threads_wait_closed:
  fixes reply defines "p \<equiv> recorder reply"
  shows "thread_closed (inline_mysql_mutex_lock p k src that)"
    and "thread_closed (inline_mysql_mutex_trylock p k src that)"
    and "thread_closed (inline_mysql_rwlock_rdlock p k src that)"
    and "thread_closed (inline_mysql_prlock_rdlock p k src that)"
    and "thread_closed (inline_mysql_rwlock_wrlock p k src that)"
    and "thread_closed (inline_mysql_prlock_wrlock p k src that)"
    and "thread_closed (inline_mysql_rwlock_tryrdlock p k src that)"
    and "thread_closed (inline_mysql_rwlock_trywrlock p k src that)"
    and "thread_closed (inline_mysql_cond_wait p k src that mutex)"
    and "thread_closed (inline_mysql_cond_timedwait p k src that mutex abstime)"
  unfolding thread_operations p_def
  by (rule thread_closed_wait thread_closed_cond; simp add: thread_starts_def thread_ends_def)+

lemma threads_other_closed:
  fixes reply defines "p \<equiv> recorder reply"
  shows "thread_closed (inline_mysql_mutex_init p k key that attr)"
    and "thread_closed (inline_mysql_mutex_destroy p k that)"
    and "thread_closed (inline_mysql_mutex_unlock p k that)"
    and "thread_closed (inline_mysql_rwlock_init p k key that)"
    and "thread_closed (inline_mysql_prlock_init p k key that)"
    and "thread_closed (inline_mysql_rwlock_destroy p k that)"
    and "thread_closed (inline_mysql_prlock_destroy p k that)"
    and "thread_closed (inline_mysql_rwlock_unlock p k that)"
    and "thread_closed (inline_mysql_prlock_unlock p k that)"
    and "thread_closed (inline_mysql_cond_init p k key that)"
    and "thread_closed (inline_mysql_cond_destroy p k that)"
    and "thread_closed (inline_mysql_cond_signal p k that)"
    and "thread_closed (inline_mysql_cond_broadcast p k that)"
  unfolding thread_operations p_def
  by (intro thread_closed_bind thread_closed_hooks thread_closed_case thread_closed_if thread_closed_return
      thread_closed_sys thread_closed_call; simp add: thread_starts_def thread_ends_def)+

section \<open>Properties\<close>

text \<open>
  C17: every function on instrumented mutexes, read-write locks and condition variables has the
  result and the effect on the system of the plain function, whatever the instrumentation
  answers and whether or not it is compiled in.
\<close>

theorem threads_are_transparent:
  "implements (inline_mysql_mutex_init p k key that attr) (t_mutex_init k that attr)
   \<and> implements (inline_mysql_mutex_destroy p k that) (t_mutex_destroy k that)
   \<and> implements (inline_mysql_mutex_lock p k src that) (t_mutex_lock k that)
   \<and> implements (inline_mysql_mutex_trylock p k src that) (t_mutex_trylock k that)
   \<and> implements (inline_mysql_mutex_unlock p k that) (t_mutex_unlock k that)
   \<and> implements (inline_mysql_rwlock_init p k key that) (t_rw_init k that)
   \<and> implements (inline_mysql_prlock_init p k key that) (t_pr_init k that)
   \<and> implements (inline_mysql_rwlock_destroy p k that) (t_rw_destroy k that)
   \<and> implements (inline_mysql_prlock_destroy p k that) (t_pr_destroy k that)
   \<and> implements (inline_mysql_rwlock_rdlock p k src that) (t_rw_rdlock k that)
   \<and> implements (inline_mysql_prlock_rdlock p k src that) (t_pr_rdlock k that)
   \<and> implements (inline_mysql_rwlock_wrlock p k src that) (t_rw_wrlock k that)
   \<and> implements (inline_mysql_prlock_wrlock p k src that) (t_pr_wrlock k that)
   \<and> implements (inline_mysql_rwlock_tryrdlock p k src that) (t_rw_tryrdlock k that)
   \<and> implements (inline_mysql_rwlock_trywrlock p k src that) (t_rw_trywrlock k that)
   \<and> implements (inline_mysql_rwlock_unlock p k that) (t_rw_unlock k that)
   \<and> implements (inline_mysql_prlock_unlock p k that) (t_pr_unlock k that)
   \<and> implements (inline_mysql_cond_init p k key that) (t_cond_init k that)
   \<and> implements (inline_mysql_cond_destroy p k that) (t_cond_destroy k that)
   \<and> implements (inline_mysql_cond_wait p k src that mutex) (t_cond_wait k that mutex)
   \<and> implements (inline_mysql_cond_timedwait p k src that mutex abstime) (t_cond_timedwait k that mutex abstime)
   \<and> implements (inline_mysql_cond_signal p k that) (t_cond_signal k that)
   \<and> implements (inline_mysql_cond_broadcast p k that) (t_cond_broadcast k that)"
  by (intro conjI threads_implement)

text \<open>
  Every function on instrumented mutexes, read-write locks and condition variables ends each
  wait that the instrumentation granted it, once, before it returns, and never ends another one.
\<close>

theorem thread_waits_are_ended:
  "thread_closed (inline_mysql_mutex_init (recorder reply) k key that attr)
   \<and> thread_closed (inline_mysql_mutex_destroy (recorder reply) k that)
   \<and> thread_closed (inline_mysql_mutex_lock (recorder reply) k src that)
   \<and> thread_closed (inline_mysql_mutex_trylock (recorder reply) k src that)
   \<and> thread_closed (inline_mysql_mutex_unlock (recorder reply) k that)
   \<and> thread_closed (inline_mysql_rwlock_init (recorder reply) k key that)
   \<and> thread_closed (inline_mysql_prlock_init (recorder reply) k key that)
   \<and> thread_closed (inline_mysql_rwlock_destroy (recorder reply) k that)
   \<and> thread_closed (inline_mysql_prlock_destroy (recorder reply) k that)
   \<and> thread_closed (inline_mysql_rwlock_rdlock (recorder reply) k src that)
   \<and> thread_closed (inline_mysql_prlock_rdlock (recorder reply) k src that)
   \<and> thread_closed (inline_mysql_rwlock_wrlock (recorder reply) k src that)
   \<and> thread_closed (inline_mysql_prlock_wrlock (recorder reply) k src that)
   \<and> thread_closed (inline_mysql_rwlock_tryrdlock (recorder reply) k src that)
   \<and> thread_closed (inline_mysql_rwlock_trywrlock (recorder reply) k src that)
   \<and> thread_closed (inline_mysql_rwlock_unlock (recorder reply) k that)
   \<and> thread_closed (inline_mysql_prlock_unlock (recorder reply) k that)
   \<and> thread_closed (inline_mysql_cond_init (recorder reply) k key that)
   \<and> thread_closed (inline_mysql_cond_destroy (recorder reply) k that)
   \<and> thread_closed (inline_mysql_cond_wait (recorder reply) k src that mutex)
   \<and> thread_closed (inline_mysql_cond_timedwait (recorder reply) k src that mutex abstime)
   \<and> thread_closed (inline_mysql_cond_signal (recorder reply) k that)
   \<and> thread_closed (inline_mysql_cond_broadcast (recorder reply) k that)"
  by (intro conjI threads_wait_closed threads_other_closed)


text \<open>A system on which every operation succeeds.\<close>

definition idle_threads :: "unit thread_api" where
  "idle_threads =
     \<lparr>t_mutex_init = (\<lambda>_ _ w. (0, w)), t_mutex_destroy = (\<lambda>_ w. (0, w)), t_mutex_lock = (\<lambda>_ w. (0, w)),
      t_mutex_trylock = (\<lambda>_ w. (0, w)), t_mutex_unlock = (\<lambda>_ w. (0, w)), t_rw_init = (\<lambda>_ w. (0, w)),
      t_rw_destroy = (\<lambda>_ w. (0, w)), t_rw_rdlock = (\<lambda>_ w. (0, w)), t_rw_wrlock = (\<lambda>_ w. (0, w)),
      t_rw_tryrdlock = (\<lambda>_ w. (0, w)), t_rw_trywrlock = (\<lambda>_ w. (0, w)), t_rw_unlock = (\<lambda>_ w. (0, w)),
      t_pr_init = (\<lambda>_ w. (0, w)), t_pr_destroy = (\<lambda>_ w. (0, w)), t_pr_rdlock = (\<lambda>_ w. (0, w)),
      t_pr_wrlock = (\<lambda>_ w. (0, w)), t_pr_unlock = (\<lambda>_ w. (0, w)), t_cond_init = (\<lambda>_ w. (0, w)),
      t_cond_destroy = (\<lambda>_ w. (0, w)), t_cond_wait = (\<lambda>_ _ w. (0, w)), t_cond_timedwait = (\<lambda>_ _ _ w. (0, w)),
      t_cond_signal = (\<lambda>_ w. (0, w)), t_cond_broadcast = (\<lambda>_ w. (0, w)), t_spawn_thread = (\<lambda>_ _ _ _ _ w. (0, w))\<rparr>"


end
