(* ===== verification/PsiThreadMacros.thy ===== *)
theory PsiThreadMacros
  imports PsiThread
begin

text \<open>
  The public names of \<open>mysql/psi/mysql_thread.h\<close>: the macros over the inline functions, without
  \<open>SAFE_MUTEX\<close>.
\<close>

definition mysql_mutex_register ::
  "(thread_event, 'p) interface \<Rightarrow> string \<Rightarrow> nat \<Rightarrow> int \<Rightarrow> ('w, 'p, unit) program" where
  "mysql_mutex_register p category info count = inline_mysql_mutex_register p category info count"

definition mysql_mutex_init ::
  "(thread_event, 'p) interface \<Rightarrow> 'w thread_api \<Rightarrow> nat \<Rightarrow> nat \<Rightarrow> nat \<Rightarrow> ('w, 'p, int) program" where
  "mysql_mutex_init p k key that attr = inline_mysql_mutex_init p k key that attr"

definition mysql_mutex_destroy ::
  "(thread_event, 'p) interface \<Rightarrow> 'w thread_api \<Rightarrow> nat \<Rightarrow> ('w, 'p, int) program" where
  "mysql_mutex_destroy p k that = inline_mysql_mutex_destroy p k that"

definition mysql_mutex_lock ::
  "(thread_event, 'p) interface \<Rightarrow> 'w thread_api \<Rightarrow> place \<Rightarrow> nat \<Rightarrow> ('w, 'p, int) program" where
  "mysql_mutex_lock p k src that = inline_mysql_mutex_lock p k src that"

definition mysql_mutex_trylock ::
  "(thread_event, 'p) interface \<Rightarrow> 'w thread_api \<Rightarrow> place \<Rightarrow> nat \<Rightarrow> ('w, 'p, int) program" where
  "mysql_mutex_trylock p k src that = inline_mysql_mutex_trylock p k src that"

definition mysql_mutex_unlock ::
  "(thread_event, 'p) interface \<Rightarrow> 'w thread_api \<Rightarrow> nat \<Rightarrow> ('w, 'p, int) program" where
  "mysql_mutex_unlock p k that = inline_mysql_mutex_unlock p k that"

definition mysql_rwlock_register ::
  "(thread_event, 'p) interface \<Rightarrow> string \<Rightarrow> nat \<Rightarrow> int \<Rightarrow> ('w, 'p, unit) program" where
  "mysql_rwlock_register p category info count = inline_mysql_rwlock_register p category info count"

definition mysql_rwlock_init ::
  "(thread_event, 'p) interface \<Rightarrow> 'w thread_api \<Rightarrow> nat \<Rightarrow> nat \<Rightarrow> ('w, 'p, int) program" where
  "mysql_rwlock_init p k key that = inline_mysql_rwlock_init p k key that"

definition mysql_prlock_init ::
  "(thread_event, 'p) interface \<Rightarrow> 'w thread_api \<Rightarrow> nat \<Rightarrow> nat \<Rightarrow> ('w, 'p, int) program" where
  "mysql_prlock_init p k key that = inline_mysql_prlock_init p k key that"

definition mysql_rwlock_destroy ::
  "(thread_event, 'p) interface \<Rightarrow> 'w thread_api \<Rightarrow> nat \<Rightarrow> ('w, 'p, int) program" where
  "mysql_rwlock_destroy p k that = inline_mysql_rwlock_destroy p k that"

definition mysql_prlock_destroy ::
  "(thread_event, 'p) interface \<Rightarrow> 'w thread_api \<Rightarrow> nat \<Rightarrow> ('w, 'p, int) program" where
  "mysql_prlock_destroy p k that = inline_mysql_prlock_destroy p k that"

definition mysql_rwlock_rdlock ::
  "(thread_event, 'p) interface \<Rightarrow> 'w thread_api \<Rightarrow> place \<Rightarrow> nat \<Rightarrow> ('w, 'p, int) program" where
  "mysql_rwlock_rdlock p k src that = inline_mysql_rwlock_rdlock p k src that"

definition mysql_prlock_rdlock ::
  "(thread_event, 'p) interface \<Rightarrow> 'w thread_api \<Rightarrow> place \<Rightarrow> nat \<Rightarrow> ('w, 'p, int) program" where
  "mysql_prlock_rdlock p k src that = inline_mysql_prlock_rdlock p k src that"

definition mysql_rwlock_wrlock ::
  "(thread_event, 'p) interface \<Rightarrow> 'w thread_api \<Rightarrow> place \<Rightarrow> nat \<Rightarrow> ('w, 'p, int) program" where
  "mysql_rwlock_wrlock p k src that = inline_mysql_rwlock_wrlock p k src that"

definition mysql_prlock_wrlock ::
  "(thread_event, 'p) interface \<Rightarrow> 'w thread_api \<Rightarrow> place \<Rightarrow> nat \<Rightarrow> ('w, 'p, int) program" where
  "mysql_prlock_wrlock p k src that = inline_mysql_prlock_wrlock p k src that"

definition mysql_rwlock_tryrdlock ::
  "(thread_event, 'p) interface \<Rightarrow> 'w thread_api \<Rightarrow> place \<Rightarrow> nat \<Rightarrow> ('w, 'p, int) program" where
  "mysql_rwlock_tryrdlock p k src that = inline_mysql_rwlock_tryrdlock p k src that"

definition mysql_rwlock_trywrlock ::
  "(thread_event, 'p) interface \<Rightarrow> 'w thread_api \<Rightarrow> place \<Rightarrow> nat \<Rightarrow> ('w, 'p, int) program" where
  "mysql_rwlock_trywrlock p k src that = inline_mysql_rwlock_trywrlock p k src that"

definition mysql_rwlock_unlock ::
  "(thread_event, 'p) interface \<Rightarrow> 'w thread_api \<Rightarrow> nat \<Rightarrow> ('w, 'p, int) program" where
  "mysql_rwlock_unlock p k that = inline_mysql_rwlock_unlock p k that"

definition mysql_prlock_unlock ::
  "(thread_event, 'p) interface \<Rightarrow> 'w thread_api \<Rightarrow> nat \<Rightarrow> ('w, 'p, int) program" where
  "mysql_prlock_unlock p k that = inline_mysql_prlock_unlock p k that"

definition mysql_cond_register ::
  "(thread_event, 'p) interface \<Rightarrow> string \<Rightarrow> nat \<Rightarrow> int \<Rightarrow> ('w, 'p, unit) program" where
  "mysql_cond_register p category info count = inline_mysql_cond_register p category info count"

definition mysql_cond_init ::
  "(thread_event, 'p) interface \<Rightarrow> 'w thread_api \<Rightarrow> nat \<Rightarrow> nat \<Rightarrow> ('w, 'p, int) program" where
  "mysql_cond_init p k key that = inline_mysql_cond_init p k key that"

definition mysql_cond_destroy ::
  "(thread_event, 'p) interface \<Rightarrow> 'w thread_api \<Rightarrow> nat \<Rightarrow> ('w, 'p, int) program" where
  "mysql_cond_destroy p k that = inline_mysql_cond_destroy p k that"

definition mysql_cond_wait ::
  "(thread_event, 'p) interface \<Rightarrow> 'w thread_api \<Rightarrow> place \<Rightarrow> nat \<Rightarrow> nat \<Rightarrow> ('w, 'p, int) program" where
  "mysql_cond_wait p k src that mutex = inline_mysql_cond_wait p k src that mutex"

definition mysql_cond_timedwait ::
  "(thread_event, 'p) interface \<Rightarrow> 'w thread_api \<Rightarrow> place \<Rightarrow> nat \<Rightarrow> nat \<Rightarrow> nat \<Rightarrow> ('w, 'p, int) program" where
  "mysql_cond_timedwait p k src that mutex abstime = inline_mysql_cond_timedwait p k src that mutex abstime"

definition mysql_cond_signal ::
  "(thread_event, 'p) interface \<Rightarrow> 'w thread_api \<Rightarrow> nat \<Rightarrow> ('w, 'p, int) program" where
  "mysql_cond_signal p k that = inline_mysql_cond_signal p k that"

definition mysql_cond_broadcast ::
  "(thread_event, 'p) interface \<Rightarrow> 'w thread_api \<Rightarrow> nat \<Rightarrow> ('w, 'p, int) program" where
  "mysql_cond_broadcast p k that = inline_mysql_cond_broadcast p k that"

definition mysql_thread_register ::
  "(thread_event, 'p) interface \<Rightarrow> string \<Rightarrow> nat \<Rightarrow> int \<Rightarrow> ('w, 'p, unit) program" where
  "mysql_thread_register p category info count = inline_mysql_thread_register p category info count"

text \<open>
  Creating a thread: without the instrumentation it is \<open>pthread_create\<close> itself, which is a parameter.
\<close>

definition mysql_thread_create ::
  "(thread_event, 'p) interface \<Rightarrow> 'w thread_api \<Rightarrow> (nat \<Rightarrow> nat \<Rightarrow> nat \<Rightarrow> nat \<Rightarrow> 'w \<Rightarrow> int \<times> 'w) \<Rightarrow> nat \<Rightarrow> nat \<Rightarrow> nat
    \<Rightarrow> nat \<Rightarrow> nat \<Rightarrow> ('w, 'p, int) program" where
  "mysql_thread_create p k pthread_create key thread attr start_routine arg = (if have_psi p then
     inline_mysql_thread_create k key thread attr start_routine arg else sys_call (pthread_create thread
     attr start_routine arg))"

definition mysql_thread_set_psi_id ::
  "(thread_event, 'p) interface \<Rightarrow> nat \<Rightarrow> ('w, 'p, unit) program" where
  "mysql_thread_set_psi_id p ident = (if have_psi p then inline_mysql_thread_set_psi_id p ident else
     State_Monad.return ())"

definition mysql_thread_set_psi_THD ::
  "(thread_event, 'p) interface \<Rightarrow> nat \<Rightarrow> ('w, 'p, unit) program" where
  "mysql_thread_set_psi_THD p thd = (if have_psi p then inline_mysql_thread_set_psi_THD p thd else
     State_Monad.return ())"

section \<open>The macros do what the plain functions do\<close>

lemmas thread_macros = mysql_mutex_register_def mysql_mutex_init_def mysql_mutex_destroy_def mysql_mutex_lock_def
  mysql_mutex_trylock_def mysql_mutex_unlock_def mysql_rwlock_register_def mysql_rwlock_init_def
  mysql_prlock_init_def mysql_rwlock_destroy_def mysql_prlock_destroy_def mysql_rwlock_rdlock_def
  mysql_prlock_rdlock_def mysql_rwlock_wrlock_def mysql_prlock_wrlock_def mysql_rwlock_tryrdlock_def
  mysql_rwlock_trywrlock_def mysql_rwlock_unlock_def mysql_prlock_unlock_def mysql_cond_register_def
  mysql_cond_init_def mysql_cond_destroy_def mysql_cond_wait_def mysql_cond_timedwait_def
  mysql_cond_signal_def mysql_cond_broadcast_def mysql_thread_register_def mysql_thread_create_def
  mysql_thread_set_psi_id_def mysql_thread_set_psi_THD_def

lemma thread_macros_transparent:
  "implements (mysql_mutex_init p k key that attr) (t_mutex_init k that attr)
   \<and> implements (mysql_mutex_destroy p k that) (t_mutex_destroy k that)
   \<and> implements (mysql_mutex_lock p k src that) (t_mutex_lock k that)
   \<and> implements (mysql_mutex_trylock p k src that) (t_mutex_trylock k that)
   \<and> implements (mysql_mutex_unlock p k that) (t_mutex_unlock k that)
   \<and> implements (mysql_rwlock_init p k key that) (t_rw_init k that)
   \<and> implements (mysql_prlock_init p k key that) (t_pr_init k that)
   \<and> implements (mysql_rwlock_destroy p k that) (t_rw_destroy k that)
   \<and> implements (mysql_prlock_destroy p k that) (t_pr_destroy k that)
   \<and> implements (mysql_rwlock_rdlock p k src that) (t_rw_rdlock k that)
   \<and> implements (mysql_prlock_rdlock p k src that) (t_pr_rdlock k that)
   \<and> implements (mysql_rwlock_wrlock p k src that) (t_rw_wrlock k that)
   \<and> implements (mysql_prlock_wrlock p k src that) (t_pr_wrlock k that)
   \<and> implements (mysql_rwlock_tryrdlock p k src that) (t_rw_tryrdlock k that)
   \<and> implements (mysql_rwlock_trywrlock p k src that) (t_rw_trywrlock k that)
   \<and> implements (mysql_rwlock_unlock p k that) (t_rw_unlock k that)
   \<and> implements (mysql_prlock_unlock p k that) (t_pr_unlock k that)
   \<and> implements (mysql_cond_init p k key that) (t_cond_init k that)
   \<and> implements (mysql_cond_destroy p k that) (t_cond_destroy k that)
   \<and> implements (mysql_cond_wait p k src that mutex) (t_cond_wait k that mutex)
   \<and> implements (mysql_cond_timedwait p k src that mutex abstime) (t_cond_timedwait k that mutex abstime)
   \<and> implements (mysql_cond_signal p k that) (t_cond_signal k that)
   \<and> implements (mysql_cond_broadcast p k that) (t_cond_broadcast k that)"
  unfolding thread_macros by (intro conjI threads_implement)

lemma thread_macros_end_waits:
  "thread_closed (mysql_mutex_init (recorder reply) k key that attr)
   \<and> thread_closed (mysql_mutex_destroy (recorder reply) k that)
   \<and> thread_closed (mysql_mutex_lock (recorder reply) k src that)
   \<and> thread_closed (mysql_mutex_trylock (recorder reply) k src that)
   \<and> thread_closed (mysql_mutex_unlock (recorder reply) k that)
   \<and> thread_closed (mysql_rwlock_init (recorder reply) k key that)
   \<and> thread_closed (mysql_prlock_init (recorder reply) k key that)
   \<and> thread_closed (mysql_rwlock_destroy (recorder reply) k that)
   \<and> thread_closed (mysql_prlock_destroy (recorder reply) k that)
   \<and> thread_closed (mysql_rwlock_rdlock (recorder reply) k src that)
   \<and> thread_closed (mysql_prlock_rdlock (recorder reply) k src that)
   \<and> thread_closed (mysql_rwlock_wrlock (recorder reply) k src that)
   \<and> thread_closed (mysql_prlock_wrlock (recorder reply) k src that)
   \<and> thread_closed (mysql_rwlock_tryrdlock (recorder reply) k src that)
   \<and> thread_closed (mysql_rwlock_trywrlock (recorder reply) k src that)
   \<and> thread_closed (mysql_rwlock_unlock (recorder reply) k that)
   \<and> thread_closed (mysql_prlock_unlock (recorder reply) k that)
   \<and> thread_closed (mysql_cond_init (recorder reply) k key that)
   \<and> thread_closed (mysql_cond_destroy (recorder reply) k that)
   \<and> thread_closed (mysql_cond_wait (recorder reply) k src that mutex)
   \<and> thread_closed (mysql_cond_timedwait (recorder reply) k src that mutex abstime)
   \<and> thread_closed (mysql_cond_signal (recorder reply) k that)
   \<and> thread_closed (mysql_cond_broadcast (recorder reply) k that)"
  unfolding thread_macros by (intro conjI threads_wait_closed threads_other_closed)

end
