(* ===== verification/PsiEvents.thy ===== *)
theory PsiEvents
  imports PsiBase
begin

text \<open>
  The instrumentation of statements, stages, transactions, prepared statements, stored programs, table
  and metadata locks and idle waits: the inline functions of \<open>mysql_statement.h\<close>, \<open>mysql_stage.h\<close>,
  \<open>mysql_transaction.h\<close>, \<open>mysql_ps.h\<close>, \<open>mysql_sp.h\<close>, \<open>mysql_table.h\<close>, \<open>mysql_mdl.h\<close>, \<open>mysql_idle.h\<close> and
  \<open>mysql_memory.h\<close>, with the instrumentation compiled in. They do nothing for a null pointer.
\<close>

section \<open>Statements and stages\<close>

datatype statement_event =
    register_statement string nat int
  | digest_start nat
  | digest_end nat nat
  | get_thread_statement_locker nat nat handle
  | start_statement nat string place
  | refine_statement nat nat
  | set_statement_text nat string
  | set_statement_lock_time nat "64 word"
  | set_statement_rows_sent nat "64 word"
  | set_statement_rows_examined nat "64 word"
  | end_statement nat nat
  | register_stage string nat int
  | start_stage nat place
  | end_stage
  | create_prepared_stmt nat nat nat string string
  | destroy_prepared_stmt nat
  | reprepare_prepared_stmt nat
  | execute_prepared_stmt nat nat
  | start_sp handle
  | end_sp nat
  | drop_sp nat string string
  | get_sp_share nat string string
  | register_memory string nat int
  | start_idle_wait place
  | end_idle_wait nat

definition inline_mysql_statement_register ::
  "(statement_event, 'p) interface \<Rightarrow> string \<Rightarrow> nat \<Rightarrow> int \<Rightarrow> ('w, 'p, unit) program" where
  "inline_mysql_statement_register p category info count =
     psi_do p (register_statement category info count)"

definition inline_mysql_digest_start ::
  "(statement_event, 'p) interface \<Rightarrow> handle \<Rightarrow> ('w, 'p, handle) program" where
  "inline_mysql_digest_start p locker =
     (case locker of Some l \<Rightarrow> psi_call p (digest_start l) | None \<Rightarrow> State_Monad.return None)"

definition inline_mysql_digest_end ::
  "(statement_event, 'p) interface \<Rightarrow> handle \<Rightarrow> nat \<Rightarrow> ('w, 'p, unit) program" where
  "inline_mysql_digest_end p locker digest =
     psi_on p locker (\<lambda>l. digest_end l digest)"

definition inline_mysql_start_statement ::
  "(statement_event, 'p) interface \<Rightarrow> nat \<Rightarrow> string \<Rightarrow> nat \<Rightarrow> handle \<Rightarrow> place \<Rightarrow> ('w, 'p, handle) program" where
  "inline_mysql_start_statement p key db charset sp_share src =
     do {
       locker \<leftarrow> psi_call p (get_thread_statement_locker key charset sp_share);
       psi_on p locker (\<lambda>l. start_statement l db src);
       State_Monad.return locker
     }"

definition inline_mysql_refine_statement ::
  "(statement_event, 'p) interface \<Rightarrow> handle \<Rightarrow> nat \<Rightarrow> ('w, 'p, handle) program" where
  "inline_mysql_refine_statement p locker key =
     (case locker of Some l \<Rightarrow> psi_call p (refine_statement l key) | None \<Rightarrow> State_Monad.return None)"

definition inline_mysql_set_statement_text ::
  "(statement_event, 'p) interface \<Rightarrow> handle \<Rightarrow> string \<Rightarrow> ('w, 'p, unit) program" where
  "inline_mysql_set_statement_text p locker t =
     psi_on p locker (\<lambda>l. set_statement_text l t)"

definition inline_mysql_set_statement_lock_time ::
  "(statement_event, 'p) interface \<Rightarrow> handle \<Rightarrow> 64 word \<Rightarrow> ('w, 'p, unit) program" where
  "inline_mysql_set_statement_lock_time p locker count =
     psi_on p locker (\<lambda>l. set_statement_lock_time l count)"

definition inline_mysql_set_statement_rows_sent ::
  "(statement_event, 'p) interface \<Rightarrow> handle \<Rightarrow> 64 word \<Rightarrow> ('w, 'p, unit) program" where
  "inline_mysql_set_statement_rows_sent p locker count =
     psi_on p locker (\<lambda>l. set_statement_rows_sent l count)"

definition inline_mysql_set_statement_rows_examined ::
  "(statement_event, 'p) interface \<Rightarrow> handle \<Rightarrow> 64 word \<Rightarrow> ('w, 'p, unit) program" where
  "inline_mysql_set_statement_rows_examined p locker count =
     psi_on p locker (\<lambda>l. set_statement_rows_examined l count)"

definition inline_mysql_end_statement ::
  "(statement_event, 'p) interface \<Rightarrow> handle \<Rightarrow> nat \<Rightarrow> ('w, 'p, unit) program" where
  "inline_mysql_end_statement p locker stmt_da =
     do {
       psi_do p end_stage;
       psi_on p locker (\<lambda>l. end_statement l stmt_da)
     }"

definition inline_mysql_stage_register ::
  "(statement_event, 'p) interface \<Rightarrow> string \<Rightarrow> nat \<Rightarrow> int \<Rightarrow> ('w, 'p, unit) program" where
  "inline_mysql_stage_register p category info count =
     psi_do p (register_stage category info count)"

definition inline_mysql_set_stage ::
  "(statement_event, 'p) interface \<Rightarrow> nat \<Rightarrow> place \<Rightarrow> ('w, 'p, handle) program" where
  "inline_mysql_set_stage p key src =
     psi_call p (start_stage key src)"

text \<open>The progress of a stage, given by the object that the pointer points to.\<close>

record stage_progress =
  m_work_completed :: "64 word"
  m_work_estimated :: "64 word"

definition inline_mysql_stage_set_work_completed ::
  "stage_progress option \<Rightarrow> 64 word \<Rightarrow> stage_progress option" where
  "inline_mysql_stage_set_work_completed progress val = map_option (m_work_completed_update (\<lambda>_. val)) progress"

definition inline_mysql_stage_inc_work_completed ::
  "stage_progress option \<Rightarrow> 64 word \<Rightarrow> stage_progress option" where
  "inline_mysql_stage_inc_work_completed progress val = map_option (m_work_completed_update (\<lambda>n. n + val)) progress"

definition inline_mysql_stage_set_work_estimated ::
  "stage_progress option \<Rightarrow> 64 word \<Rightarrow> stage_progress option" where
  "inline_mysql_stage_set_work_estimated progress val = map_option (m_work_estimated_update (\<lambda>_. val)) progress"

section \<open>Prepared statements, stored programs, memory, idle waits\<close>

definition inline_mysql_create_prepared_stmt ::
  "(statement_event, 'p) interface \<Rightarrow> nat \<Rightarrow> nat \<Rightarrow> handle \<Rightarrow> string \<Rightarrow> string \<Rightarrow> ('w, 'p, handle) program" where
  "inline_mysql_create_prepared_stmt p identity stmt_id locker stmt_name sqltext =
     (case locker of
        None \<Rightarrow> State_Monad.return None
      | Some l \<Rightarrow> psi_call p (create_prepared_stmt identity stmt_id l stmt_name sqltext))"

definition inline_mysql_execute_prepared_stmt ::
  "(statement_event, 'p) interface \<Rightarrow> handle \<Rightarrow> handle \<Rightarrow> ('w, 'p, unit) program" where
  "inline_mysql_execute_prepared_stmt p locker prepared_stmt =
     (case (prepared_stmt, locker) of
        (Some s, Some l) \<Rightarrow> psi_do p (execute_prepared_stmt l s)
      | _ \<Rightarrow> State_Monad.return ())"

definition inline_mysql_destroy_prepared_stmt ::
  "(statement_event, 'p) interface \<Rightarrow> handle \<Rightarrow> ('w, 'p, unit) program" where
  "inline_mysql_destroy_prepared_stmt p prepared_stmt =
     psi_on p prepared_stmt destroy_prepared_stmt"

definition inline_mysql_reprepare_prepared_stmt ::
  "(statement_event, 'p) interface \<Rightarrow> handle \<Rightarrow> ('w, 'p, unit) program" where
  "inline_mysql_reprepare_prepared_stmt p prepared_stmt =
     psi_on p prepared_stmt reprepare_prepared_stmt"

definition inline_mysql_start_sp ::
  "(statement_event, 'p) interface \<Rightarrow> handle \<Rightarrow> ('w, 'p, handle) program" where
  "inline_mysql_start_sp p sp_share =
     psi_call p (start_sp sp_share)"

definition inline_mysql_end_sp ::
  "(statement_event, 'p) interface \<Rightarrow> handle \<Rightarrow> ('w, 'p, unit) program" where
  "inline_mysql_end_sp p locker =
     psi_on p locker end_sp"

definition inline_mysql_drop_sp ::
  "(statement_event, 'p) interface \<Rightarrow> nat \<Rightarrow> string \<Rightarrow> string \<Rightarrow> ('w, 'p, unit) program" where
  "inline_mysql_drop_sp p sp_type schema_name object_name =
     psi_do p (drop_sp sp_type schema_name object_name)"

definition inline_mysql_get_sp_share ::
  "(statement_event, 'p) interface \<Rightarrow> nat \<Rightarrow> string \<Rightarrow> string \<Rightarrow> ('w, 'p, handle) program" where
  "inline_mysql_get_sp_share p sp_type schema_name object_name =
     psi_call p (get_sp_share sp_type schema_name object_name)"

definition inline_mysql_memory_register ::
  "(statement_event, 'p) interface \<Rightarrow> string \<Rightarrow> nat \<Rightarrow> int \<Rightarrow> ('w, 'p, unit) program" where
  "inline_mysql_memory_register p category info count =
     (if have_psi p then psi_do p (register_memory category info count) else State_Monad.return ())"

definition inline_mysql_start_idle_wait ::
  "(statement_event, 'p) interface \<Rightarrow> place \<Rightarrow> ('w, 'p, handle) program" where
  "inline_mysql_start_idle_wait p src =
     psi_call p (start_idle_wait src)"

definition inline_mysql_end_idle_wait ::
  "(statement_event, 'p) interface \<Rightarrow> handle \<Rightarrow> ('w, 'p, unit) program" where
  "inline_mysql_end_idle_wait p locker =
     psi_on p locker end_idle_wait"

section \<open>Transactions, table locks, metadata locks\<close>

datatype transaction_event =
    get_thread_transaction_locker nat nat int bool bool
  | start_transaction nat place
  | set_transaction_gtid nat nat nat
  | set_transaction_xid nat nat int
  | set_transaction_xa_state nat int
  | set_transaction_trxid nat nat
  | inc_transaction_savepoints nat "64 word"
  | inc_transaction_rollback_to_savepoint nat "64 word"
  | inc_transaction_release_savepoint nat "64 word"
  | end_transaction nat bool
  | start_table_lock_wait nat PSI_table_lock_operation "64 word" place
  | end_table_lock_wait nat
  | unlock_table nat
  | create_metadata_lock nat nat int int int place
  | set_metadata_lock_status nat int
  | destroy_metadata_lock nat

definition inline_mysql_start_transaction ::
  "(transaction_event, 'p) interface \<Rightarrow> nat \<Rightarrow> nat \<Rightarrow> int \<Rightarrow> bool \<Rightarrow> bool \<Rightarrow> place \<Rightarrow> ('w, 'p, handle) program" where
  "inline_mysql_start_transaction p xid trxid isolation_level read_only autocommit src =
     do {
       locker \<leftarrow> psi_call p (get_thread_transaction_locker xid trxid isolation_level read_only autocommit);
       psi_on p locker (\<lambda>l. start_transaction l src);
       State_Monad.return locker
     }"

definition inline_mysql_set_transaction_gtid ::
  "(transaction_event, 'p) interface \<Rightarrow> handle \<Rightarrow> nat \<Rightarrow> nat \<Rightarrow> ('w, 'p, unit) program" where
  "inline_mysql_set_transaction_gtid p locker sid gtid_spec =
     psi_on p locker (\<lambda>l. set_transaction_gtid l sid gtid_spec)"

definition inline_mysql_set_transaction_xid ::
  "(transaction_event, 'p) interface \<Rightarrow> handle \<Rightarrow> nat \<Rightarrow> int \<Rightarrow> ('w, 'p, unit) program" where
  "inline_mysql_set_transaction_xid p locker xid xa_state =
     psi_on p locker (\<lambda>l. set_transaction_xid l xid xa_state)"

definition inline_mysql_set_transaction_xa_state ::
  "(transaction_event, 'p) interface \<Rightarrow> handle \<Rightarrow> int \<Rightarrow> ('w, 'p, unit) program" where
  "inline_mysql_set_transaction_xa_state p locker xa_state =
     psi_on p locker (\<lambda>l. set_transaction_xa_state l xa_state)"

definition inline_mysql_set_transaction_trxid ::
  "(transaction_event, 'p) interface \<Rightarrow> handle \<Rightarrow> nat \<Rightarrow> ('w, 'p, unit) program" where
  "inline_mysql_set_transaction_trxid p locker trxid =
     psi_on p locker (\<lambda>l. set_transaction_trxid l trxid)"

definition inline_mysql_inc_transaction_savepoints ::
  "(transaction_event, 'p) interface \<Rightarrow> handle \<Rightarrow> 64 word \<Rightarrow> ('w, 'p, unit) program" where
  "inline_mysql_inc_transaction_savepoints p locker count =
     psi_on p locker (\<lambda>l. inc_transaction_savepoints l count)"

definition inline_mysql_inc_transaction_rollback_to_savepoint ::
  "(transaction_event, 'p) interface \<Rightarrow> handle \<Rightarrow> 64 word \<Rightarrow> ('w, 'p, unit) program" where
  "inline_mysql_inc_transaction_rollback_to_savepoint p locker count =
     psi_on p locker (\<lambda>l. inc_transaction_rollback_to_savepoint l count)"

definition inline_mysql_inc_transaction_release_savepoint ::
  "(transaction_event, 'p) interface \<Rightarrow> handle \<Rightarrow> 64 word \<Rightarrow> ('w, 'p, unit) program" where
  "inline_mysql_inc_transaction_release_savepoint p locker count =
     psi_on p locker (\<lambda>l. inc_transaction_release_savepoint l count)"

definition inline_mysql_rollback_transaction ::
  "(transaction_event, 'p) interface \<Rightarrow> handle \<Rightarrow> ('w, 'p, unit) program" where
  "inline_mysql_rollback_transaction p locker =
     psi_on p locker (\<lambda>l. end_transaction l False)"

definition inline_mysql_commit_transaction ::
  "(transaction_event, 'p) interface \<Rightarrow> handle \<Rightarrow> ('w, 'p, unit) program" where
  "inline_mysql_commit_transaction p locker =
     psi_on p locker (\<lambda>l. end_transaction l True)"

definition inline_mysql_start_table_lock_wait ::
  "(transaction_event, 'p) interface \<Rightarrow> handle \<Rightarrow> PSI_table_lock_operation \<Rightarrow> 64 word \<Rightarrow> place \<Rightarrow> ('w, 'p, handle) program" where
  "inline_mysql_start_table_lock_wait p h opr flags src =
     (case h of Some x \<Rightarrow> psi_call p (start_table_lock_wait x opr flags src) | None \<Rightarrow> State_Monad.return None)"

definition inline_mysql_end_table_lock_wait ::
  "(transaction_event, 'p) interface \<Rightarrow> handle \<Rightarrow> ('w, 'p, unit) program" where
  "inline_mysql_end_table_lock_wait p locker =
     psi_on p locker end_table_lock_wait"

definition inline_mysql_unlock_table ::
  "(transaction_event, 'p) interface \<Rightarrow> handle \<Rightarrow> ('w, 'p, unit) program" where
  "inline_mysql_unlock_table p h =
     psi_on p h unlock_table"

definition inline_mysql_mdl_create ::
  "(transaction_event, 'p) interface \<Rightarrow> nat \<Rightarrow> nat \<Rightarrow> int \<Rightarrow> int \<Rightarrow> int \<Rightarrow> place \<Rightarrow> ('w, 'p, handle) program" where
  "inline_mysql_mdl_create p identity mdl_key mdl_type mdl_duration mdl_status src =
     psi_call p (create_metadata_lock identity mdl_key mdl_type mdl_duration mdl_status src)"

definition inline_mysql_mdl_set_status ::
  "(transaction_event, 'p) interface \<Rightarrow> handle \<Rightarrow> int \<Rightarrow> ('w, 'p, unit) program" where
  "inline_mysql_mdl_set_status p h mdl_status =
     psi_on p h (\<lambda>x. set_metadata_lock_status x mdl_status)"

definition inline_mysql_mdl_destroy ::
  "(transaction_event, 'p) interface \<Rightarrow> handle \<Rightarrow> place \<Rightarrow> ('w, 'p, unit) program" where
  "inline_mysql_mdl_destroy p h src =
     psi_on p h destroy_metadata_lock"

section \<open>Properties\<close>

text \<open>
  A statement for which the instrumentation gives no locker is not instrumented any further:
  whatever is done with it, only the end of the stage is reported.
\<close>

theorem uninstrumented_statement:
  assumes "reply (psi s) (get_thread_statement_locker key charset sp_share) = None"
    and "p = recorder reply"
  shows "\<exists>r. psi (snd (run_state (do {
      l \<leftarrow> inline_mysql_start_statement p key db charset sp_share src;
      d \<leftarrow> inline_mysql_digest_start p l;
      inline_mysql_digest_end p d digest;
      l \<leftarrow> inline_mysql_refine_statement p l key2;
      inline_mysql_set_statement_text p l t;
      inline_mysql_set_statement_lock_time p l n1;
      inline_mysql_set_statement_rows_sent p l n2;
      inline_mysql_set_statement_rows_examined p l n3;
      q \<leftarrow> inline_mysql_create_prepared_stmt p identity stmt_id l nm sqltext;
      inline_mysql_execute_prepared_stmt p l q;
      inline_mysql_destroy_prepared_stmt p q;
      inline_mysql_end_statement p l da }) s))
    = psi s @ [(get_thread_statement_locker key charset sp_share, None), (end_stage, r)]"
  using assms
  by (simp add: inline_mysql_start_statement_def inline_mysql_digest_start_def inline_mysql_digest_end_def
      inline_mysql_refine_statement_def inline_mysql_set_statement_text_def
      inline_mysql_set_statement_lock_time_def inline_mysql_set_statement_rows_sent_def
      inline_mysql_set_statement_rows_examined_def inline_mysql_create_prepared_stmt_def
      inline_mysql_execute_prepared_stmt_def inline_mysql_destroy_prepared_stmt_def
      inline_mysql_end_statement_def psi_on_def recorder_def)

theorem uninstrumented_statement_witness:
  "\<exists>r. psi (snd (run_state (do {
      l \<leftarrow> inline_mysql_start_statement (recorder (\<lambda>_ _. None)) 1 ''test'' 33 None (''a.c'', 1);
      d \<leftarrow> inline_mysql_digest_start (recorder (\<lambda>_ _. None)) l;
      inline_mysql_digest_end (recorder (\<lambda>_ _. None)) d 0;
      l \<leftarrow> inline_mysql_refine_statement (recorder (\<lambda>_ _. None)) l 2;
      inline_mysql_set_statement_text (recorder (\<lambda>_ _. None)) l ''select 1'';
      inline_mysql_set_statement_lock_time (recorder (\<lambda>_ _. None)) l 5;
      inline_mysql_set_statement_rows_sent (recorder (\<lambda>_ _. None)) l 1;
      inline_mysql_set_statement_rows_examined (recorder (\<lambda>_ _. None)) l 1;
      q \<leftarrow> inline_mysql_create_prepared_stmt (recorder (\<lambda>_ _. None)) 9 1 l ''q'' ''select 1'';
      inline_mysql_execute_prepared_stmt (recorder (\<lambda>_ _. None)) l q;
      inline_mysql_destroy_prepared_stmt (recorder (\<lambda>_ _. None)) q;
      inline_mysql_end_statement (recorder (\<lambda>_ _. None)) l 0 }) \<lparr>os = (), psi = [], hooks = \<lambda>_. None\<rparr>))
    = [(get_thread_statement_locker 1 33 None, None), (end_stage, r)]"
  using uninstrumented_statement [of "\<lambda>_ _. None" "\<lparr>os = (), psi = [], hooks = \<lambda>_. None\<rparr>" 1 33 None
      "recorder (\<lambda>_ _. None)" "''test''" "(''a.c'', 1)" 0 2 "''select 1''" 5 1 1 9 1 "''q''" "''select 1''" 0]
  by simp

text \<open>
  A transaction for which the instrumentation gives a locker is reported from its start to its
  end with this locker, and a commit and a rollback differ only in the flag of the last call.
\<close>

theorem transaction_is_reported:
  assumes "reply (psi s) (get_thread_transaction_locker xid trxid isolation read_only autocommit) = Some l"
    and "p = recorder reply"
    and "finish = (if commit then inline_mysql_commit_transaction p else inline_mysql_rollback_transaction p)"
  shows "map fst (psi (snd (run_state (do {
      k \<leftarrow> inline_mysql_start_transaction p xid trxid isolation read_only autocommit src;
      inline_mysql_set_transaction_xid p k xid xa_state;
      inline_mysql_inc_transaction_savepoints p k n;
      inline_mysql_inc_transaction_release_savepoint p k n;
      finish k }) s)))
    = map fst (psi s) @ [get_thread_transaction_locker xid trxid isolation read_only autocommit,
        start_transaction l src, set_transaction_xid l xid xa_state, inc_transaction_savepoints l n,
        inc_transaction_release_savepoint l n, end_transaction l commit]"
  using assms
  by (simp add: inline_mysql_start_transaction_def inline_mysql_set_transaction_xid_def
      inline_mysql_inc_transaction_savepoints_def inline_mysql_inc_transaction_release_savepoint_def
      inline_mysql_commit_transaction_def inline_mysql_rollback_transaction_def psi_on_def recorder_def)

end
