(* ===== verification/PsiEventMacros.thy ===== *)
theory PsiEventMacros
  imports PsiEvents
begin

text \<open>
  The public names of the headers for statements, stages, transactions, prepared statements, stored
  programs, table and metadata locks and idle waits: the macros over the inline functions, which are
  empty or a null pointer where the instrumentation is not compiled in.
\<close>

definition mysql_statement_register ::
  "(statement_event, 'p) interface \<Rightarrow> string \<Rightarrow> nat \<Rightarrow> int \<Rightarrow> ('w, 'p, unit) program" where
  "mysql_statement_register p category info count = (if have_psi p then inline_mysql_statement_register p
     category info count else State_Monad.return ())"

definition MYSQL_DIGEST_START ::
  "(statement_event, 'p) interface \<Rightarrow> handle \<Rightarrow> ('w, 'p, handle) program" where
  "MYSQL_DIGEST_START p locker = (if have_psi p then inline_mysql_digest_start p locker else
     State_Monad.return None)"

definition MYSQL_DIGEST_END ::
  "(statement_event, 'p) interface \<Rightarrow> handle \<Rightarrow> nat \<Rightarrow> ('w, 'p, unit) program" where
  "MYSQL_DIGEST_END p locker digest = (if have_psi p then inline_mysql_digest_end p locker digest else
     State_Monad.return ())"

definition MYSQL_START_STATEMENT ::
  "(statement_event, 'p) interface \<Rightarrow> nat \<Rightarrow> string \<Rightarrow> nat \<Rightarrow> handle \<Rightarrow> place \<Rightarrow> ('w, 'p, handle) program" where
  "MYSQL_START_STATEMENT p key db charset sp_share src = (if have_psi p then inline_mysql_start_statement p
     key db charset sp_share src else State_Monad.return None)"

definition MYSQL_REFINE_STATEMENT ::
  "(statement_event, 'p) interface \<Rightarrow> handle \<Rightarrow> nat \<Rightarrow> ('w, 'p, handle) program" where
  "MYSQL_REFINE_STATEMENT p locker key = (if have_psi p then inline_mysql_refine_statement p locker key else
     State_Monad.return None)"

definition MYSQL_SET_STATEMENT_TEXT ::
  "(statement_event, 'p) interface \<Rightarrow> handle \<Rightarrow> string \<Rightarrow> ('w, 'p, unit) program" where
  "MYSQL_SET_STATEMENT_TEXT p locker t = (if have_psi p then inline_mysql_set_statement_text p locker t else
     State_Monad.return ())"

definition MYSQL_SET_STATEMENT_LOCK_TIME ::
  "(statement_event, 'p) interface \<Rightarrow> handle \<Rightarrow> 64 word \<Rightarrow> ('w, 'p, unit) program" where
  "MYSQL_SET_STATEMENT_LOCK_TIME p locker count = (if have_psi p then inline_mysql_set_statement_lock_time p
     locker count else State_Monad.return ())"

definition MYSQL_SET_STATEMENT_ROWS_SENT ::
  "(statement_event, 'p) interface \<Rightarrow> handle \<Rightarrow> 64 word \<Rightarrow> ('w, 'p, unit) program" where
  "MYSQL_SET_STATEMENT_ROWS_SENT p locker count = (if have_psi p then inline_mysql_set_statement_rows_sent p
     locker count else State_Monad.return ())"

definition MYSQL_SET_STATEMENT_ROWS_EXAMINED ::
  "(statement_event, 'p) interface \<Rightarrow> handle \<Rightarrow> 64 word \<Rightarrow> ('w, 'p, unit) program" where
  "MYSQL_SET_STATEMENT_ROWS_EXAMINED p locker count = (if have_psi p then
     inline_mysql_set_statement_rows_examined p locker count else State_Monad.return ())"

definition MYSQL_END_STATEMENT ::
  "(statement_event, 'p) interface \<Rightarrow> handle \<Rightarrow> nat \<Rightarrow> ('w, 'p, unit) program" where
  "MYSQL_END_STATEMENT p locker stmt_da = (if have_psi p then inline_mysql_end_statement p locker stmt_da
     else State_Monad.return ())"

definition mysql_stage_register ::
  "(statement_event, 'p) interface \<Rightarrow> string \<Rightarrow> nat \<Rightarrow> int \<Rightarrow> ('w, 'p, unit) program" where
  "mysql_stage_register p category info count = (if have_psi p then inline_mysql_stage_register p category
     info count else State_Monad.return ())"

definition MYSQL_SET_STAGE ::
  "(statement_event, 'p) interface \<Rightarrow> nat \<Rightarrow> place \<Rightarrow> ('w, 'p, handle) program" where
  "MYSQL_SET_STAGE p key src = (if have_psi p then inline_mysql_set_stage p key src else State_Monad.return
     None)"

definition mysql_stage_set_work_completed ::
  "bool \<Rightarrow> stage_progress option \<Rightarrow> 64 word \<Rightarrow> stage_progress option" where
  "mysql_stage_set_work_completed psi_stage progress val = (if psi_stage then
     inline_mysql_stage_set_work_completed progress val else progress)"

definition mysql_stage_inc_work_completed ::
  "bool \<Rightarrow> stage_progress option \<Rightarrow> 64 word \<Rightarrow> stage_progress option" where
  "mysql_stage_inc_work_completed psi_stage progress val = (if psi_stage then
     inline_mysql_stage_inc_work_completed progress val else progress)"

definition mysql_stage_set_work_estimated ::
  "bool \<Rightarrow> stage_progress option \<Rightarrow> 64 word \<Rightarrow> stage_progress option" where
  "mysql_stage_set_work_estimated psi_stage progress val = (if psi_stage then
     inline_mysql_stage_set_work_estimated progress val else progress)"

text \<open>
  Without the instrumentation this one is an empty statement, which cannot be assigned to a locker: \<open>None\<close>
  is a program that does not compile.
\<close>

definition MYSQL_START_TRANSACTION ::
  "(transaction_event, 'p) interface \<Rightarrow> nat \<Rightarrow> nat \<Rightarrow> int \<Rightarrow> bool \<Rightarrow> bool \<Rightarrow> place \<Rightarrow> ('w, 'p, handle) program
    option" where
  "MYSQL_START_TRANSACTION p xid trxid isolation_level read_only autocommit src = (if have_psi p then Some
     (inline_mysql_start_transaction p xid trxid isolation_level read_only autocommit src) else None)"

definition MYSQL_SET_TRANSACTION_GTID ::
  "(transaction_event, 'p) interface \<Rightarrow> handle \<Rightarrow> nat \<Rightarrow> nat \<Rightarrow> ('w, 'p, unit) program" where
  "MYSQL_SET_TRANSACTION_GTID p locker sid gtid_spec = (if have_psi p then inline_mysql_set_transaction_gtid
     p locker sid gtid_spec else State_Monad.return ())"

definition MYSQL_SET_TRANSACTION_XID ::
  "(transaction_event, 'p) interface \<Rightarrow> handle \<Rightarrow> nat \<Rightarrow> int \<Rightarrow> ('w, 'p, unit) program" where
  "MYSQL_SET_TRANSACTION_XID p locker xid xa_state = (if have_psi p then inline_mysql_set_transaction_xid p
     locker xid xa_state else State_Monad.return ())"

definition MYSQL_SET_TRANSACTION_XA_STATE ::
  "(transaction_event, 'p) interface \<Rightarrow> handle \<Rightarrow> int \<Rightarrow> ('w, 'p, unit) program" where
  "MYSQL_SET_TRANSACTION_XA_STATE p locker xa_state = (if have_psi p then
     inline_mysql_set_transaction_xa_state p locker xa_state else State_Monad.return ())"

definition MYSQL_SET_TRANSACTION_TRXID ::
  "(transaction_event, 'p) interface \<Rightarrow> handle \<Rightarrow> nat \<Rightarrow> ('w, 'p, unit) program" where
  "MYSQL_SET_TRANSACTION_TRXID p locker trxid = (if have_psi p then inline_mysql_set_transaction_trxid p
     locker trxid else State_Monad.return ())"

definition MYSQL_INC_TRANSACTION_SAVEPOINTS ::
  "(transaction_event, 'p) interface \<Rightarrow> handle \<Rightarrow> 64 word \<Rightarrow> ('w, 'p, unit) program" where
  "MYSQL_INC_TRANSACTION_SAVEPOINTS p locker count = (if have_psi p then
     inline_mysql_inc_transaction_savepoints p locker count else State_Monad.return ())"

definition MYSQL_INC_TRANSACTION_ROLLBACK_TO_SAVEPOINT ::
  "(transaction_event, 'p) interface \<Rightarrow> handle \<Rightarrow> 64 word \<Rightarrow> ('w, 'p, unit) program" where
  "MYSQL_INC_TRANSACTION_ROLLBACK_TO_SAVEPOINT p locker count = (if have_psi p then
     inline_mysql_inc_transaction_rollback_to_savepoint p locker count else State_Monad.return ())"

definition MYSQL_INC_TRANSACTION_RELEASE_SAVEPOINT ::
  "(transaction_event, 'p) interface \<Rightarrow> handle \<Rightarrow> 64 word \<Rightarrow> ('w, 'p, unit) program" where
  "MYSQL_INC_TRANSACTION_RELEASE_SAVEPOINT p locker count = (if have_psi p then
     inline_mysql_inc_transaction_release_savepoint p locker count else State_Monad.return ())"

definition MYSQL_ROLLBACK_TRANSACTION ::
  "(transaction_event, 'p) interface \<Rightarrow> handle \<Rightarrow> ('w, 'p, unit) program" where
  "MYSQL_ROLLBACK_TRANSACTION p locker = (if have_psi p then inline_mysql_rollback_transaction p locker else
     State_Monad.return ())"

definition MYSQL_COMMIT_TRANSACTION ::
  "(transaction_event, 'p) interface \<Rightarrow> handle \<Rightarrow> ('w, 'p, unit) program" where
  "MYSQL_COMMIT_TRANSACTION p locker = (if have_psi p then inline_mysql_commit_transaction p locker else
     State_Monad.return ())"

definition MYSQL_CREATE_PS ::
  "(statement_event, 'p) interface \<Rightarrow> nat \<Rightarrow> nat \<Rightarrow> handle \<Rightarrow> string \<Rightarrow> string \<Rightarrow> ('w, 'p, handle) program" where
  "MYSQL_CREATE_PS p identity stmt_id locker stmt_name sqltext = (if have_psi p then
     inline_mysql_create_prepared_stmt p identity stmt_id locker stmt_name sqltext else State_Monad.return
     None)"

definition MYSQL_EXECUTE_PS ::
  "(statement_event, 'p) interface \<Rightarrow> handle \<Rightarrow> handle \<Rightarrow> ('w, 'p, unit) program" where
  "MYSQL_EXECUTE_PS p locker prepared_stmt = (if have_psi p then inline_mysql_execute_prepared_stmt p locker
     prepared_stmt else State_Monad.return ())"

definition MYSQL_DESTROY_PS ::
  "(statement_event, 'p) interface \<Rightarrow> handle \<Rightarrow> ('w, 'p, unit) program" where
  "MYSQL_DESTROY_PS p prepared_stmt = (if have_psi p then inline_mysql_destroy_prepared_stmt p prepared_stmt
     else State_Monad.return ())"

definition MYSQL_REPREPARE_PS ::
  "(statement_event, 'p) interface \<Rightarrow> handle \<Rightarrow> ('w, 'p, unit) program" where
  "MYSQL_REPREPARE_PS p prepared_stmt = (if have_psi p then inline_mysql_reprepare_prepared_stmt p
     prepared_stmt else State_Monad.return ())"

definition MYSQL_START_SP ::
  "(statement_event, 'p) interface \<Rightarrow> handle \<Rightarrow> ('w, 'p, handle) program" where
  "MYSQL_START_SP p sp_share = (if have_psi p then inline_mysql_start_sp p sp_share else State_Monad.return
     None)"

definition MYSQL_END_SP ::
  "(statement_event, 'p) interface \<Rightarrow> handle \<Rightarrow> ('w, 'p, unit) program" where
  "MYSQL_END_SP p locker = (if have_psi p then inline_mysql_end_sp p locker else State_Monad.return ())"

definition MYSQL_DROP_SP ::
  "(statement_event, 'p) interface \<Rightarrow> nat \<Rightarrow> string \<Rightarrow> string \<Rightarrow> ('w, 'p, unit) program" where
  "MYSQL_DROP_SP p sp_type schema_name object_name = (if have_psi p then inline_mysql_drop_sp p sp_type
     schema_name object_name else State_Monad.return ())"

definition MYSQL_GET_SP_SHARE ::
  "(statement_event, 'p) interface \<Rightarrow> nat \<Rightarrow> string \<Rightarrow> string \<Rightarrow> ('w, 'p, handle) program" where
  "MYSQL_GET_SP_SHARE p sp_type schema_name object_name = (if have_psi p then inline_mysql_get_sp_share p
     sp_type schema_name object_name else State_Monad.return None)"

definition MYSQL_START_TABLE_LOCK_WAIT ::
  "(transaction_event, 'p) interface \<Rightarrow> handle \<Rightarrow> handle \<Rightarrow> PSI_table_lock_operation \<Rightarrow> 64 word \<Rightarrow> place \<Rightarrow> ('w,
    'p, handle) program" where
  "MYSQL_START_TABLE_LOCK_WAIT p locker h opr flags src = (if have_psi p then
     inline_mysql_start_table_lock_wait p h opr flags src else State_Monad.return locker)"

definition MYSQL_END_TABLE_LOCK_WAIT ::
  "(transaction_event, 'p) interface \<Rightarrow> handle \<Rightarrow> ('w, 'p, unit) program" where
  "MYSQL_END_TABLE_LOCK_WAIT p locker = (if have_psi p then inline_mysql_end_table_lock_wait p locker else
     State_Monad.return ())"

definition MYSQL_UNLOCK_TABLE ::
  "(transaction_event, 'p) interface \<Rightarrow> handle \<Rightarrow> ('w, 'p, unit) program" where
  "MYSQL_UNLOCK_TABLE p h = (if have_psi p then inline_mysql_unlock_table p h else State_Monad.return ())"

definition mysql_mdl_create ::
  "(transaction_event, 'p) interface \<Rightarrow> nat \<Rightarrow> nat \<Rightarrow> int \<Rightarrow> int \<Rightarrow> int \<Rightarrow> place \<Rightarrow> ('w, 'p, handle) program" where
  "mysql_mdl_create p identity mdl_key mdl_type mdl_duration mdl_status src = (if have_psi p then
     inline_mysql_mdl_create p identity mdl_key mdl_type mdl_duration mdl_status src else State_Monad.return
     None)"

definition mysql_mdl_set_status ::
  "(transaction_event, 'p) interface \<Rightarrow> handle \<Rightarrow> int \<Rightarrow> ('w, 'p, unit) program" where
  "mysql_mdl_set_status p h mdl_status = (if have_psi p then inline_mysql_mdl_set_status p h mdl_status else
     State_Monad.return ())"

definition mysql_mdl_destroy ::
  "(transaction_event, 'p) interface \<Rightarrow> handle \<Rightarrow> place \<Rightarrow> ('w, 'p, unit) program" where
  "mysql_mdl_destroy p h src = (if have_psi p then inline_mysql_mdl_destroy p h src else State_Monad.return
     ())"

definition MYSQL_START_IDLE_WAIT ::
  "(statement_event, 'p) interface \<Rightarrow> handle \<Rightarrow> place \<Rightarrow> ('w, 'p, handle) program" where
  "MYSQL_START_IDLE_WAIT p locker src = (if have_psi p then inline_mysql_start_idle_wait p src else
     State_Monad.return locker)"

definition MYSQL_END_IDLE_WAIT ::
  "(statement_event, 'p) interface \<Rightarrow> handle \<Rightarrow> ('w, 'p, unit) program" where
  "MYSQL_END_IDLE_WAIT p locker = (if have_psi p then inline_mysql_end_idle_wait p locker else
     State_Monad.return ())"

definition mysql_memory_register ::
  "(statement_event, 'p) interface \<Rightarrow> string \<Rightarrow> nat \<Rightarrow> int \<Rightarrow> ('w, 'p, unit) program" where
  "mysql_memory_register p category info count = inline_mysql_memory_register p category info count"

section \<open>The macros leave the program alone\<close>

lemmas event_macros = mysql_statement_register_def MYSQL_DIGEST_START_def MYSQL_DIGEST_END_def MYSQL_START_STATEMENT_def
  MYSQL_REFINE_STATEMENT_def MYSQL_SET_STATEMENT_TEXT_def MYSQL_SET_STATEMENT_LOCK_TIME_def
  MYSQL_SET_STATEMENT_ROWS_SENT_def MYSQL_SET_STATEMENT_ROWS_EXAMINED_def MYSQL_END_STATEMENT_def
  mysql_stage_register_def MYSQL_SET_STAGE_def mysql_stage_set_work_completed_def
  mysql_stage_inc_work_completed_def mysql_stage_set_work_estimated_def MYSQL_START_TRANSACTION_def
  MYSQL_SET_TRANSACTION_GTID_def MYSQL_SET_TRANSACTION_XID_def MYSQL_SET_TRANSACTION_XA_STATE_def
  MYSQL_SET_TRANSACTION_TRXID_def MYSQL_INC_TRANSACTION_SAVEPOINTS_def
  MYSQL_INC_TRANSACTION_ROLLBACK_TO_SAVEPOINT_def MYSQL_INC_TRANSACTION_RELEASE_SAVEPOINT_def
  MYSQL_ROLLBACK_TRANSACTION_def MYSQL_COMMIT_TRANSACTION_def MYSQL_CREATE_PS_def MYSQL_EXECUTE_PS_def
  MYSQL_DESTROY_PS_def MYSQL_REPREPARE_PS_def MYSQL_START_SP_def MYSQL_END_SP_def MYSQL_DROP_SP_def
  MYSQL_GET_SP_SHARE_def MYSQL_START_TABLE_LOCK_WAIT_def MYSQL_END_TABLE_LOCK_WAIT_def
  MYSQL_UNLOCK_TABLE_def mysql_mdl_create_def mysql_mdl_set_status_def mysql_mdl_destroy_def
  MYSQL_START_IDLE_WAIT_def MYSQL_END_IDLE_WAIT_def mysql_memory_register_def

lemmas event_inlines = inline_mysql_statement_register_def inline_mysql_digest_start_def inline_mysql_digest_end_def
  inline_mysql_start_statement_def inline_mysql_refine_statement_def inline_mysql_set_statement_text_def
  inline_mysql_set_statement_lock_time_def inline_mysql_set_statement_rows_sent_def
  inline_mysql_set_statement_rows_examined_def inline_mysql_end_statement_def
  inline_mysql_stage_register_def inline_mysql_set_stage_def inline_mysql_stage_set_work_completed_def
  inline_mysql_stage_inc_work_completed_def inline_mysql_stage_set_work_estimated_def
  inline_mysql_create_prepared_stmt_def inline_mysql_execute_prepared_stmt_def
  inline_mysql_destroy_prepared_stmt_def inline_mysql_reprepare_prepared_stmt_def inline_mysql_start_sp_def
  inline_mysql_end_sp_def inline_mysql_drop_sp_def inline_mysql_get_sp_share_def
  inline_mysql_memory_register_def inline_mysql_start_idle_wait_def inline_mysql_end_idle_wait_def
  inline_mysql_start_transaction_def inline_mysql_set_transaction_gtid_def
  inline_mysql_set_transaction_xid_def inline_mysql_set_transaction_xa_state_def
  inline_mysql_set_transaction_trxid_def inline_mysql_inc_transaction_savepoints_def
  inline_mysql_inc_transaction_rollback_to_savepoint_def inline_mysql_inc_transaction_release_savepoint_def
  inline_mysql_rollback_transaction_def inline_mysql_commit_transaction_def
  inline_mysql_start_table_lock_wait_def inline_mysql_end_table_lock_wait_def inline_mysql_unlock_table_def
  inline_mysql_mdl_create_def inline_mysql_mdl_set_status_def inline_mysql_mdl_destroy_def

text \<open>A program that changes nothing, neither the system nor the instrumentation.\<close>

definition inert :: "('w, 'p, 'a) program \<Rightarrow> bool" where
  "inert m \<longleftrightarrow> (\<forall>s. snd (run_state m s) = s)"

lemma inert_return: "inert (State_Monad.return a)"
  by (simp add: inert_def)

text \<open>Without the instrumentation the macros do nothing at all; with it, nothing to the system.\<close>

lemma statement_macros_inert:
  assumes "\<not> have_psi p"
  shows "inert (MYSQL_DIGEST_START p locker)
   \<and> inert (MYSQL_START_STATEMENT p key db charset sp_share src)
   \<and> inert (MYSQL_REFINE_STATEMENT p locker key)
   \<and> inert (MYSQL_SET_STAGE p key src)
   \<and> inert (MYSQL_CREATE_PS p identity stmt_id locker stmt_name sqltext)
   \<and> inert (MYSQL_START_SP p sp_share)
   \<and> inert (MYSQL_GET_SP_SHARE p sp_type schema_name object_name)
   \<and> inert (MYSQL_START_IDLE_WAIT p locker src)
   \<and> inert (mysql_statement_register p category info count)
   \<and> inert (MYSQL_DIGEST_END p locker digest)
   \<and> inert (MYSQL_SET_STATEMENT_TEXT p locker t)
   \<and> inert (MYSQL_SET_STATEMENT_LOCK_TIME p locker count')
   \<and> inert (MYSQL_SET_STATEMENT_ROWS_SENT p locker count')
   \<and> inert (MYSQL_SET_STATEMENT_ROWS_EXAMINED p locker count')
   \<and> inert (MYSQL_END_STATEMENT p locker stmt_da)
   \<and> inert (mysql_stage_register p category info count)
   \<and> inert (MYSQL_EXECUTE_PS p locker prepared_stmt)
   \<and> inert (MYSQL_DESTROY_PS p prepared_stmt)
   \<and> inert (MYSQL_REPREPARE_PS p prepared_stmt)
   \<and> inert (MYSQL_END_SP p locker)
   \<and> inert (MYSQL_DROP_SP p sp_type schema_name object_name)
   \<and> inert (MYSQL_END_IDLE_WAIT p locker)"
  using assms unfolding event_macros by (simp add: inert_return)

lemma transaction_macros_inert:
  assumes "\<not> have_psi p"
  shows "inert (MYSQL_START_TABLE_LOCK_WAIT p locker h opr flags src)
   \<and> inert (mysql_mdl_create p identity mdl_key mdl_type mdl_duration mdl_status src)
   \<and> inert (MYSQL_SET_TRANSACTION_GTID p locker sid gtid_spec)
   \<and> inert (MYSQL_SET_TRANSACTION_XID p locker xid xa_state)
   \<and> inert (MYSQL_SET_TRANSACTION_XA_STATE p locker xa_state)
   \<and> inert (MYSQL_SET_TRANSACTION_TRXID p locker trxid)
   \<and> inert (MYSQL_INC_TRANSACTION_SAVEPOINTS p locker count)
   \<and> inert (MYSQL_INC_TRANSACTION_ROLLBACK_TO_SAVEPOINT p locker count)
   \<and> inert (MYSQL_INC_TRANSACTION_RELEASE_SAVEPOINT p locker count)
   \<and> inert (MYSQL_ROLLBACK_TRANSACTION p locker)
   \<and> inert (MYSQL_COMMIT_TRANSACTION p locker)
   \<and> inert (MYSQL_END_TABLE_LOCK_WAIT p locker)
   \<and> inert (MYSQL_UNLOCK_TABLE p h)
   \<and> inert (mysql_mdl_set_status p h mdl_status)
   \<and> inert (mysql_mdl_destroy p h src)"
  using assms unfolding event_macros by (simp add: inert_return)

lemma silent_option [psi_os]:
  "silent m \<Longrightarrow> (\<And>x. silent (f x)) \<Longrightarrow> silent (case h of None \<Rightarrow> m | Some x \<Rightarrow> f x)"
  by (cases h) simp_all

lemma statement_macros_silent:
  "silent (MYSQL_DIGEST_START p locker)
   \<and> silent (MYSQL_START_STATEMENT p key db charset sp_share src)
   \<and> silent (MYSQL_REFINE_STATEMENT p locker key)
   \<and> silent (MYSQL_SET_STAGE p key src)
   \<and> silent (MYSQL_CREATE_PS p identity stmt_id locker stmt_name sqltext)
   \<and> silent (MYSQL_START_SP p sp_share)
   \<and> silent (MYSQL_GET_SP_SHARE p sp_type schema_name object_name)
   \<and> silent (MYSQL_START_IDLE_WAIT p locker src)
   \<and> silent (mysql_statement_register p category info count)
   \<and> silent (MYSQL_DIGEST_END p locker digest)
   \<and> silent (MYSQL_SET_STATEMENT_TEXT p locker t)
   \<and> silent (MYSQL_SET_STATEMENT_LOCK_TIME p locker count')
   \<and> silent (MYSQL_SET_STATEMENT_ROWS_SENT p locker count')
   \<and> silent (MYSQL_SET_STATEMENT_ROWS_EXAMINED p locker count')
   \<and> silent (MYSQL_END_STATEMENT p locker stmt_da)
   \<and> silent (mysql_stage_register p category info count)
   \<and> silent (MYSQL_EXECUTE_PS p locker prepared_stmt)
   \<and> silent (MYSQL_DESTROY_PS p prepared_stmt)
   \<and> silent (MYSQL_REPREPARE_PS p prepared_stmt)
   \<and> silent (MYSQL_END_SP p locker)
   \<and> silent (MYSQL_DROP_SP p sp_type schema_name object_name)
   \<and> silent (MYSQL_END_IDLE_WAIT p locker)"
  unfolding event_macros event_inlines prod.case by (intro conjI psi_os)

lemma transaction_macros_silent:
  "silent (MYSQL_START_TABLE_LOCK_WAIT p locker h opr flags src)
   \<and> silent (mysql_mdl_create p identity mdl_key mdl_type mdl_duration mdl_status src)
   \<and> silent (MYSQL_SET_TRANSACTION_GTID p locker sid gtid_spec)
   \<and> silent (MYSQL_SET_TRANSACTION_XID p locker xid xa_state)
   \<and> silent (MYSQL_SET_TRANSACTION_XA_STATE p locker xa_state)
   \<and> silent (MYSQL_SET_TRANSACTION_TRXID p locker trxid)
   \<and> silent (MYSQL_INC_TRANSACTION_SAVEPOINTS p locker count)
   \<and> silent (MYSQL_INC_TRANSACTION_ROLLBACK_TO_SAVEPOINT p locker count)
   \<and> silent (MYSQL_INC_TRANSACTION_RELEASE_SAVEPOINT p locker count)
   \<and> silent (MYSQL_ROLLBACK_TRANSACTION p locker)
   \<and> silent (MYSQL_COMMIT_TRANSACTION p locker)
   \<and> silent (MYSQL_END_TABLE_LOCK_WAIT p locker)
   \<and> silent (MYSQL_UNLOCK_TABLE p h)
   \<and> silent (mysql_mdl_set_status p h mdl_status)
   \<and> silent (mysql_mdl_destroy p h src)"
  unfolding event_macros event_inlines by (intro conjI psi_os)

lemma start_transaction_needs_psi:
  "MYSQL_START_TRANSACTION p xid trxid isolation_level read_only autocommit src = None \<longleftrightarrow> \<not> have_psi p"
  by (simp add: MYSQL_START_TRANSACTION_def)

end
