(* ===== verification/MysqlClient.thy ===== *)
theory MysqlClient
  imports MysqlMessages
begin

text \<open>
  The errors of the MySQL client library, \<open>errmsg.h\<close>: their numbers, and the macro \<open>ER\<close> that looks
  up a message. The array \<open>client_errors\<close> is defined in the library and is a parameter.
\<close>

definition CR_MIN_ERROR :: nat where
  "CR_MIN_ERROR = 2000"

definition CR_MAX_ERROR :: nat where
  "CR_MAX_ERROR = 2999"

definition CR_ERROR_FIRST :: nat where
  "CR_ERROR_FIRST = 2000"

definition CR_ERROR_LAST :: nat where
  "CR_ERROR_LAST = 2061"

definition client_codes :: "(string \<times> nat) list" where
  "client_codes = [
    (''CR_UNKNOWN_ERROR'', 2000),
    (''CR_SOCKET_CREATE_ERROR'', 2001),
    (''CR_CONNECTION_ERROR'', 2002),
    (''CR_CONN_HOST_ERROR'', 2003),
    (''CR_IPSOCK_ERROR'', 2004),
    (''CR_UNKNOWN_HOST'', 2005),
    (''CR_SERVER_GONE_ERROR'', 2006),
    (''CR_VERSION_ERROR'', 2007),
    (''CR_OUT_OF_MEMORY'', 2008),
    (''CR_WRONG_HOST_INFO'', 2009),
    (''CR_LOCALHOST_CONNECTION'', 2010),
    (''CR_TCP_CONNECTION'', 2011),
    (''CR_SERVER_HANDSHAKE_ERR'', 2012),
    (''CR_SERVER_LOST'', 2013),
    (''CR_COMMANDS_OUT_OF_SYNC'', 2014),
    (''CR_NAMEDPIPE_CONNECTION'', 2015),
    (''CR_NAMEDPIPEWAIT_ERROR'', 2016),
    (''CR_NAMEDPIPEOPEN_ERROR'', 2017),
    (''CR_NAMEDPIPESETSTATE_ERROR'', 2018),
    (''CR_CANT_READ_CHARSET'', 2019),
    (''CR_NET_PACKET_TOO_LARGE'', 2020),
    (''CR_EMBEDDED_CONNECTION'', 2021),
    (''CR_PROBE_SLAVE_STATUS'', 2022),
    (''CR_PROBE_SLAVE_HOSTS'', 2023),
    (''CR_PROBE_SLAVE_CONNECT'', 2024),
    (''CR_PROBE_MASTER_CONNECT'', 2025),
    (''CR_SSL_CONNECTION_ERROR'', 2026),
    (''CR_MALFORMED_PACKET'', 2027),
    (''CR_WRONG_LICENSE'', 2028),
    (''CR_NULL_POINTER'', 2029),
    (''CR_NO_PREPARE_STMT'', 2030),
    (''CR_PARAMS_NOT_BOUND'', 2031),
    (''CR_DATA_TRUNCATED'', 2032),
    (''CR_NO_PARAMETERS_EXISTS'', 2033),
    (''CR_INVALID_PARAMETER_NO'', 2034),
    (''CR_INVALID_BUFFER_USE'', 2035),
    (''CR_UNSUPPORTED_PARAM_TYPE'', 2036),
    (''CR_SHARED_MEMORY_CONNECTION'', 2037),
    (''CR_SHARED_MEMORY_CONNECT_REQUEST_ERROR'', 2038),
    (''CR_SHARED_MEMORY_CONNECT_ANSWER_ERROR'', 2039),
    (''CR_SHARED_MEMORY_CONNECT_FILE_MAP_ERROR'', 2040),
    (''CR_SHARED_MEMORY_CONNECT_MAP_ERROR'', 2041),
    (''CR_SHARED_MEMORY_FILE_MAP_ERROR'', 2042),
    (''CR_SHARED_MEMORY_MAP_ERROR'', 2043),
    (''CR_SHARED_MEMORY_EVENT_ERROR'', 2044),
    (''CR_SHARED_MEMORY_CONNECT_ABANDONED_ERROR'', 2045),
    (''CR_SHARED_MEMORY_CONNECT_SET_ERROR'', 2046),
    (''CR_CONN_UNKNOW_PROTOCOL'', 2047),
    (''CR_INVALID_CONN_HANDLE'', 2048),
    (''CR_UNUSED_1'', 2049),
    (''CR_FETCH_CANCELED'', 2050),
    (''CR_NO_DATA'', 2051),
    (''CR_NO_STMT_METADATA'', 2052),
    (''CR_NO_RESULT_SET'', 2053),
    (''CR_NOT_IMPLEMENTED'', 2054),
    (''CR_SERVER_LOST_EXTENDED'', 2055),
    (''CR_STMT_CLOSED'', 2056),
    (''CR_NEW_STMT_METADATA'', 2057),
    (''CR_ALREADY_CONNECTED'', 2058),
    (''CR_AUTH_PLUGIN_CANNOT_LOAD'', 2059),
    (''CR_DUPLICATE_CONNECTION_ATTR'', 2060),
    (''CR_AUTH_PLUGIN_ERR'', 2061)]"

definition CR_UNKNOWN_ERROR :: nat where
  "CR_UNKNOWN_ERROR = 2000"

text \<open>An access outside the array has no result.\<close>

definition ER :: "string list \<Rightarrow> int \<Rightarrow> string option" where
  "ER client_errors X =
     (let i = (if int CR_ERROR_FIRST \<le> X \<and> X \<le> int CR_ERROR_LAST
               then nat (X - int CR_ERROR_FIRST) else CR_UNKNOWN_ERROR)
      in if i < length client_errors then Some (client_errors ! i) else None)"

lemmas client_numbers = CR_MIN_ERROR_def CR_MAX_ERROR_def CR_ERROR_FIRST_def CR_ERROR_LAST_def
  CR_UNKNOWN_ERROR_def

section \<open>Numbers\<close>

lemma client_codes_numbers: "map snd client_codes = [CR_ERROR_FIRST..<Suc CR_ERROR_LAST]"
  by (simp add: client_codes_def client_numbers upt_rec)

lemma client_range: "(name, n) \<in> set client_codes \<Longrightarrow> n \<in> {CR_ERROR_FIRST..CR_ERROR_LAST}"
proof -
  assume "(name, n) \<in> set client_codes"
  then have "n \<in> set (map snd client_codes)" by force
  then show ?thesis unfolding client_codes_numbers by auto
qed

lemma server_range: "(name, n) \<in> set error_codes \<Longrightarrow> n \<in> {ER_ERROR_FIRST..ER_ERROR_LAST}"
proof -
  assume "(name, n) \<in> set error_codes"
  then have "n \<in> set (map snd error_codes)" by force
  then show ?thesis unfolding error_codes_numbers by auto
qed

theorem client_and_server_numbers:
  "map snd client_codes = [CR_ERROR_FIRST..<Suc CR_ERROR_LAST]
   \<and> map snd error_codes = [ER_ERROR_FIRST..<Suc ER_ERROR_LAST]
   \<and> set (map snd client_codes) \<subseteq> {CR_MIN_ERROR..CR_MAX_ERROR}
   \<and> set (map snd client_codes) \<inter> set (map snd error_codes) = {}"
proof -
  have "set (map snd client_codes) \<subseteq> {CR_MIN_ERROR..CR_MAX_ERROR}"
    unfolding client_codes_numbers by (auto simp: client_numbers)
  moreover have "set (map snd client_codes) \<inter> set (map snd error_codes) = {}"
    unfolding client_codes_numbers error_codes_numbers
    by (auto simp: client_numbers ER_ERROR_FIRST_def ER_ERROR_LAST_def)
  ultimately show ?thesis using client_codes_numbers error_codes_numbers by blast
qed

section \<open>Messages\<close>

theorem ER_known:
  assumes "length client_errors = Suc CR_ERROR_LAST - CR_ERROR_FIRST"
    and "int CR_ERROR_FIRST \<le> X" and "X \<le> int CR_ERROR_LAST"
  shows "ER client_errors X = Some (client_errors ! nat (X - int CR_ERROR_FIRST))"
  using assms by (simp add: ER_def client_numbers Let_def nat_less_iff)

text \<open>The fallback uses the number of the error and not its place: it is far behind the array.\<close>

text \<open>
  The macro \<open>ER\<close> reads outside the array of client messages for every number that
  is not a client error, because its fallback uses the number of the error as the index.
\<close>

theorem ER_unknown_out_of_bounds:
  assumes "length client_errors = Suc CR_ERROR_LAST - CR_ERROR_FIRST"
    and "X < int CR_ERROR_FIRST \<or> int CR_ERROR_LAST < X"
  shows "ER client_errors X = None"
  using assms by (auto simp: ER_def client_numbers)

theorem ER_unknown_out_of_bounds_witness: "ER (replicate 62 ''message'') 1045 = None"
  by (rule ER_unknown_out_of_bounds) (simp_all add: client_numbers)

end
