(* ===== verification/MysqlBytes.thy ===== *)
theory MysqlBytes
  imports "HOL-Library.Word"
begin

text \<open>
  Numbers in memory: \<open>my_byteorder.h\<close> with \<open>byte_order_generic.h\<close>, \<open>byte_order_generic_x86.h\<close>,
  \<open>little_endian.h\<close> and \<open>big_endian.h\<close>. A \<open>uchar *\<close> is an address in a memory of bytes; a function
  that stores returns the memory it leaves. A \<open>float\<close> or \<open>double\<close> is only moved and is its bit
  pattern; a signed integer is the word of its bits.
\<close>

unbundle bit_operations_syntax

type_synonym mem = "nat \<Rightarrow> 8 word"

section \<open>Objects of the machine\<close>

text \<open>
  A cast pointer that is read or written, and \<open>memcpy\<close> from or to an object, move the object as the
  machine lays it out: the byte of lowest weight first or last.
\<close>

fun load_le :: "nat \<Rightarrow> mem \<Rightarrow> nat \<Rightarrow> 'a::len word" where
  "load_le 0 m p = 0"
| "load_le (Suc n) m p = ucast (m p) OR push_bit 8 (load_le n m (p + 1))"

fun store_le :: "nat \<Rightarrow> mem \<Rightarrow> nat \<Rightarrow> 'a::len word \<Rightarrow> mem" where
  "store_le 0 m p v = m"
| "store_le (Suc n) m p v = store_le n (m(p := ucast v)) (p + 1) (drop_bit 8 v)"

fun load_be :: "nat \<Rightarrow> mem \<Rightarrow> nat \<Rightarrow> 'a::len word" where
  "load_be 0 m p = 0"
| "load_be (Suc n) m p = push_bit 8 (load_be n m p) OR ucast (m (p + n))"

fun store_be :: "nat \<Rightarrow> mem \<Rightarrow> nat \<Rightarrow> 'a::len word \<Rightarrow> mem" where
  "store_be 0 m p v = m"
| "store_be (Suc n) m p v = store_be n (m(p + n := ucast v)) p (drop_bit 8 v)"

section \<open>byte\_order\_generic.h\<close>

definition sint2korr :: "mem \<Rightarrow> nat \<Rightarrow> 16 word" where
  "sint2korr m A = ucast ((ucast (m A) :: 32 word) + push_bit 8 (ucast (m (A + 1))))"

definition sint4korr :: "mem \<Rightarrow> nat \<Rightarrow> 32 word" where
  "sint4korr m A = ucast (m A) + push_bit 8 (ucast (m (A + 1))) + push_bit 16 (ucast (m (A + 2)))
     + push_bit 24 (ucast (m (A + 3)))"

definition uint2korr :: "mem \<Rightarrow> nat \<Rightarrow> 16 word" where
  "uint2korr m A = ucast ((ucast (m A) :: 32 word) + push_bit 8 (ucast (m (A + 1))))"

definition uint4korr :: "mem \<Rightarrow> nat \<Rightarrow> 32 word" where
  "uint4korr m A = ucast (m A) + push_bit 8 (ucast (m (A + 1))) + push_bit 16 (ucast (m (A + 2)))
     + push_bit 24 (ucast (m (A + 3)))"

definition uint8korr :: "mem \<Rightarrow> nat \<Rightarrow> 64 word" where
  "uint8korr m A =
     ucast ((ucast (m A) :: 32 word) + push_bit 8 (ucast (m (A + 1)))
       + push_bit 16 (ucast (m (A + 2))) + push_bit 24 (ucast (m (A + 3))))
     + push_bit 32 (ucast ((ucast (m (A + 4)) :: 32 word) + push_bit 8 (ucast (m (A + 5)))
       + push_bit 16 (ucast (m (A + 6))) + push_bit 24 (ucast (m (A + 7)))))"

definition sint8korr :: "mem \<Rightarrow> nat \<Rightarrow> 64 word" where
  "sint8korr m A = uint8korr m A"

definition int2store :: "mem \<Rightarrow> nat \<Rightarrow> 16 word \<Rightarrow> mem" where
  "int2store m T A =
     (let def_temp = (ucast A :: 32 word)
      in m(T := ucast def_temp, T + 1 := ucast (drop_bit 8 def_temp)))"

definition int4store :: "mem \<Rightarrow> nat \<Rightarrow> 32 word \<Rightarrow> mem" where
  "int4store m T A =
     m(T := ucast A, T + 1 := ucast (drop_bit 8 A), T + 2 := ucast (drop_bit 16 A),
       T + 3 := ucast (drop_bit 24 A))"

definition int8store :: "mem \<Rightarrow> nat \<Rightarrow> 64 word \<Rightarrow> mem" where
  "int8store m T A =
     (let def_temp = ucast A; def_temp2 = ucast (drop_bit 32 A)
      in int4store (int4store m T def_temp) (T + 4) def_temp2)"

section \<open>byte\_order\_generic\_x86.h\<close>

definition sint2korr_x86 :: "mem \<Rightarrow> nat \<Rightarrow> 16 word" where
  "sint2korr_x86 m A = load_le 2 m A"

definition sint4korr_x86 :: "mem \<Rightarrow> nat \<Rightarrow> 32 word" where
  "sint4korr_x86 m A = load_le 4 m A"

definition uint2korr_x86 :: "mem \<Rightarrow> nat \<Rightarrow> 16 word" where
  "uint2korr_x86 m A = load_le 2 m A"

definition uint4korr_x86 :: "mem \<Rightarrow> nat \<Rightarrow> 32 word" where
  "uint4korr_x86 m A = load_le 4 m A"

definition uint8korr_x86 :: "mem \<Rightarrow> nat \<Rightarrow> 64 word" where
  "uint8korr_x86 m A = load_le 8 m A"

definition sint8korr_x86 :: "mem \<Rightarrow> nat \<Rightarrow> 64 word" where
  "sint8korr_x86 m A = load_le 8 m A"

definition int2store_x86 :: "mem \<Rightarrow> nat \<Rightarrow> 16 word \<Rightarrow> mem" where
  "int2store_x86 m T A = store_le 2 m T A"

definition int4store_x86 :: "mem \<Rightarrow> nat \<Rightarrow> 32 word \<Rightarrow> mem" where
  "int4store_x86 m T A = store_le 4 m T A"

definition int8store_x86 :: "mem \<Rightarrow> nat \<Rightarrow> 64 word \<Rightarrow> mem" where
  "int8store_x86 m T A = store_le 8 m T A"

section \<open>my\_byteorder.h\<close>

definition sint3korr :: "mem \<Rightarrow> nat \<Rightarrow> 32 word" where
  "sint3korr m A =
     (if m (A + 2) AND 128 \<noteq> 0
      then push_bit 24 255 OR push_bit 16 (ucast (m (A + 2))) OR push_bit 8 (ucast (m (A + 1)))
             OR ucast (m A)
      else push_bit 16 (ucast (m (A + 2))) OR push_bit 8 (ucast (m (A + 1))) OR ucast (m A))"

definition uint3korr :: "mem \<Rightarrow> nat \<Rightarrow> 32 word" where
  "uint3korr m A = ucast (m A) + push_bit 8 (ucast (m (A + 1))) + push_bit 16 (ucast (m (A + 2)))"

definition uint5korr :: "mem \<Rightarrow> nat \<Rightarrow> 64 word" where
  "uint5korr m A =
     ucast ((ucast (m A) :: 32 word) + push_bit 8 (ucast (m (A + 1)))
       + push_bit 16 (ucast (m (A + 2))) + push_bit 24 (ucast (m (A + 3))))
     + push_bit 32 (ucast (m (A + 4)))"

definition uint6korr :: "mem \<Rightarrow> nat \<Rightarrow> 64 word" where
  "uint6korr m A =
     ucast ((ucast (m A) :: 32 word) + push_bit 8 (ucast (m (A + 1)))
       + push_bit 16 (ucast (m (A + 2))) + push_bit 24 (ucast (m (A + 3))))
     + push_bit 32 (ucast (m (A + 4))) + push_bit 40 (ucast (m (A + 5)))"

definition int3store :: "mem \<Rightarrow> nat \<Rightarrow> 32 word \<Rightarrow> mem" where
  "int3store m T A =
     m(T := ucast A, T + 1 := ucast (drop_bit 8 A), T + 2 := ucast (drop_bit 16 A))"

definition int5store :: "mem \<Rightarrow> nat \<Rightarrow> 64 word \<Rightarrow> mem" where
  "int5store m T A =
     m(T := ucast A, T + 1 := ucast (drop_bit 8 A), T + 2 := ucast (drop_bit 16 A),
       T + 3 := ucast (drop_bit 24 A), T + 4 := ucast (drop_bit 32 A))"

definition int6store :: "mem \<Rightarrow> nat \<Rightarrow> 64 word \<Rightarrow> mem" where
  "int6store m T A =
     m(T := ucast A, T + 1 := ucast (drop_bit 8 A), T + 2 := ucast (drop_bit 16 A),
       T + 3 := ucast (drop_bit 24 A), T + 4 := ucast (drop_bit 32 A), T + 5 := ucast (drop_bit 40 A))"

section \<open>little\_endian.h\<close>

definition float4get_le :: "mem \<Rightarrow> nat \<Rightarrow> 32 word" where
  "float4get_le m M = load_le 4 m M"

definition float4store_le :: "mem \<Rightarrow> nat \<Rightarrow> 32 word \<Rightarrow> mem" where
  "float4store_le m V M = store_le 4 m V M"

definition float8get_le :: "mem \<Rightarrow> nat \<Rightarrow> 64 word" where
  "float8get_le m M = load_le 8 m M"

definition float8store_le :: "mem \<Rightarrow> nat \<Rightarrow> 64 word \<Rightarrow> mem" where
  "float8store_le m V M = store_le 8 m V M"

definition floatget_le :: "mem \<Rightarrow> nat \<Rightarrow> 32 word" where
  "floatget_le m M = float4get_le m M"

definition floatstore_le :: "mem \<Rightarrow> nat \<Rightarrow> 32 word \<Rightarrow> mem" where
  "floatstore_le m V M = float4store_le m V M"

text \<open>
  Bi-endian hardware keeps the high half of a \<open>double\<close> first, each half with its byte of lowest
  weight first: the object at \<open>p\<close>, and the value of such an object.
\<close>

definition object_mixed :: "64 word \<Rightarrow> mem" where
  "object_mixed v = store_le 4 (store_le 4 (\<lambda>_. 0) 0 (drop_bit 32 v)) 4 v"

definition value_mixed :: "mem \<Rightarrow> 64 word" where
  "value_mixed m = push_bit 32 (load_le 4 m 0) OR load_le 4 m 4"

definition doublestore_mixed :: "mem \<Rightarrow> nat \<Rightarrow> 64 word \<Rightarrow> mem" where
  "doublestore_mixed m T V =
     (let V = object_mixed V
      in m(T + 0 := V 4, T + 1 := V 5, T + 2 := V 6, T + 3 := V 7,
           T + 4 := V 0, T + 5 := V 1, T + 6 := V 2, T + 7 := V 3))"

definition doubleget_mixed :: "mem \<Rightarrow> nat \<Rightarrow> 64 word" where
  "doubleget_mixed m M =
     value_mixed ((\<lambda>_. 0)(0 := m (M + 4), 1 := m (M + 5), 2 := m (M + 6), 3 := m (M + 7),
                        4 := m (M + 0), 5 := m (M + 1), 6 := m (M + 2), 7 := m (M + 3)))"

definition doublestore_le :: "mem \<Rightarrow> nat \<Rightarrow> 64 word \<Rightarrow> mem" where
  "doublestore_le m T V = store_le 8 m T V"

definition doubleget_le :: "mem \<Rightarrow> nat \<Rightarrow> 64 word" where
  "doubleget_le m M = load_le 8 m M"

definition ushortget_le :: "mem \<Rightarrow> nat \<Rightarrow> 16 word" where
  "ushortget_le m pM = uint2korr m pM"

definition shortget_le :: "mem \<Rightarrow> nat \<Rightarrow> 16 word" where
  "shortget_le m pM = sint2korr m pM"

definition longget_le :: "mem \<Rightarrow> nat \<Rightarrow> 32 word" where
  "longget_le m pM = sint4korr m pM"

definition ulongget_le :: "mem \<Rightarrow> nat \<Rightarrow> 32 word" where
  "ulongget_le m pM = uint4korr m pM"

definition shortstore_le :: "mem \<Rightarrow> nat \<Rightarrow> 16 word \<Rightarrow> mem" where
  "shortstore_le m T V = int2store m T V"

definition longstore_le :: "mem \<Rightarrow> nat \<Rightarrow> 32 word \<Rightarrow> mem" where
  "longstore_le m T V = int4store m T V"

definition longlongget_le :: "mem \<Rightarrow> nat \<Rightarrow> 64 word" where
  "longlongget_le m M = load_le 8 m M"

definition longlongstore_le :: "mem \<Rightarrow> nat \<Rightarrow> 64 word \<Rightarrow> mem" where
  "longlongstore_le m T V = store_le 8 m T V"

section \<open>big\_endian.h\<close>

definition float4store_be :: "mem \<Rightarrow> nat \<Rightarrow> 32 word \<Rightarrow> mem" where
  "float4store_be m T A =
     (let A = store_be 4 (\<lambda>_. 0) 0 A in m(T := A 3, T + 1 := A 2, T + 2 := A 1, T + 3 := A 0))"

definition float4get_be :: "mem \<Rightarrow> nat \<Rightarrow> 32 word" where
  "float4get_be m M =
     load_be 4 ((\<lambda>_. 0)(0 := m (M + 3), 1 := m (M + 2), 2 := m (M + 1), 3 := m (M + 0))) 0"

definition float8store_be :: "mem \<Rightarrow> nat \<Rightarrow> 64 word \<Rightarrow> mem" where
  "float8store_be m T V =
     (let V = store_be 8 (\<lambda>_. 0) 0 V
      in m(T := V 7, T + 1 := V 6, T + 2 := V 5, T + 3 := V 4,
           T + 4 := V 3, T + 5 := V 2, T + 6 := V 1, T + 7 := V 0))"

definition float8get_be :: "mem \<Rightarrow> nat \<Rightarrow> 64 word" where
  "float8get_be m M =
     load_be 8 ((\<lambda>_. 0)(0 := m (M + 7), 1 := m (M + 6), 2 := m (M + 5), 3 := m (M + 4),
                      4 := m (M + 3), 5 := m (M + 2), 6 := m (M + 1), 7 := m (M + 0))) 0"

definition ushortget_be :: "mem \<Rightarrow> nat \<Rightarrow> 16 word" where
  "ushortget_be m pM = ucast ((ucast (m (pM + 1)) :: 32 word) + push_bit 8 (ucast (m (pM + 0))))"

definition shortget_be :: "mem \<Rightarrow> nat \<Rightarrow> 16 word" where
  "shortget_be m pM = ucast ((ucast (m (pM + 1)) :: 32 word) + push_bit 8 (ucast (m (pM + 0))))"

definition longget_be :: "mem \<Rightarrow> nat \<Rightarrow> 32 word" where
  "longget_be m pM =
     load_be 4 ((\<lambda>_. 0)(0 := m (pM + 0), 1 := m (pM + 1), 2 := m (pM + 2), 3 := m (pM + 3))) 0"

definition ulongget_be :: "mem \<Rightarrow> nat \<Rightarrow> 32 word" where
  "ulongget_be m pM =
     load_be 4 ((\<lambda>_. 0)(0 := m (pM + 0), 1 := m (pM + 1), 2 := m (pM + 2), 3 := m (pM + 3))) 0"

definition shortstore_be :: "mem \<Rightarrow> nat \<Rightarrow> 16 word \<Rightarrow> mem" where
  "shortstore_be m T A =
     (let def_temp = (scast A :: 32 word)
      in m(T + 1 := ucast def_temp, T + 0 := ucast (drop_bit 8 def_temp)))"

definition longstore_be :: "mem \<Rightarrow> nat \<Rightarrow> 32 word \<Rightarrow> mem" where
  "longstore_be m T A =
     m(T + 3 := ucast A, T + 2 := ucast (signed_drop_bit 8 A), T + 1 := ucast (signed_drop_bit 16 A),
       T + 0 := ucast (signed_drop_bit 24 A))"

definition floatget_be :: "mem \<Rightarrow> nat \<Rightarrow> 32 word" where
  "floatget_be m M = load_be 4 m M"

definition floatstore_be :: "mem \<Rightarrow> nat \<Rightarrow> 32 word \<Rightarrow> mem" where
  "floatstore_be m T V = store_be 4 m T V"

definition doubleget_be :: "mem \<Rightarrow> nat \<Rightarrow> 64 word" where
  "doubleget_be m M = load_be 8 m M"

definition doublestore_be :: "mem \<Rightarrow> nat \<Rightarrow> 64 word \<Rightarrow> mem" where
  "doublestore_be m T V = store_be 8 m T V"

definition longlongget_be :: "mem \<Rightarrow> nat \<Rightarrow> 64 word" where
  "longlongget_be m M = load_be 8 m M"

definition longlongstore_be :: "mem \<Rightarrow> nat \<Rightarrow> 64 word \<Rightarrow> mem" where
  "longlongstore_be m T V = store_be 8 m T V"

section \<open>Loading and storing\<close>

text \<open>A part of a number: the bytes that a store of \<open>n\<close> bytes keeps.\<close>

lemma bit_load_le:
  "bit (load_le n m p :: 'a::len word) i
   \<longleftrightarrow> i < LENGTH('a) \<and> i < 8 * n \<and> bit (m (p + i div 8)) (i mod 8)"
proof (induction n arbitrary: p i)
  case (Suc n)
  show ?case
  proof (cases "i < 8")
    case True
    then show ?thesis by (auto simp: bit_simps)
  next
    case False
    then have "i div 8 = Suc ((i - 8) div 8)" "i mod 8 = (i - 8) mod 8"
      by (simp_all add: div_if mod_if)
    then show ?thesis using False Suc [of "p + 1" "i - 8"]
      by (auto simp: bit_simps dest: bit_imp_le_length)
  qed
qed simp

lemma store_le_apply:
  "store_le n m p (v :: 'a::len word) a
   = (if p \<le> a \<and> a < p + n then ucast (drop_bit (8 * (a - p)) v) else m a)"
proof (induction n arbitrary: m p v)
  case (Suc n)
  show ?case
  proof (cases "a = p")
    case False
    then show ?thesis
    proof (cases "p < a")
      case True
      then have "8 * (a - Suc p) + 8 = 8 * (a - p)" by simp
      then show ?thesis using Suc False True by (simp add: add.commute)
    qed (use Suc False in auto)
  qed (use Suc in auto)
qed auto

lemma load_store_le:
  "8 * n \<le> LENGTH('a) \<Longrightarrow> load_le n (store_le n m p v) p = take_bit (8 * n) (v :: 'a::len word)"
  by (rule bit_word_eqI)
    (auto simp: bit_load_le store_le_apply bit_simps dest: bit_imp_le_length)

text \<open>A sum of bytes at their places is a number whose parts do not overlap.\<close>

lemma add_push_bit:
  "(\<And>i. k \<le> i \<Longrightarrow> \<not> bit x i) \<Longrightarrow> x + push_bit k y = x OR push_bit k (y :: 'a::len word)"
  by (rule disjunctive_add_eq_or, rule bit_word_eqI) (auto simp: bit_simps)

lemma byte_small [simp]: "8 \<le> i \<Longrightarrow> \<not> bit (b :: 8 word) i"
  using bit_imp_le_length [of b i] by auto

lemma byte_sum2:
  "ucast (a :: 8 word) + push_bit 8 (ucast (b :: 8 word)) = (ucast a OR push_bit 8 (ucast b) :: 32 word)"
  by (rule add_push_bit) (auto simp: bit_simps)

lemma byte_sum3:
  "ucast (a :: 8 word) + push_bit 8 (ucast (b :: 8 word)) + push_bit 16 (ucast (c :: 8 word))
   = (ucast a OR push_bit 8 (ucast b) OR push_bit 16 (ucast c) :: 32 word)"
  unfolding byte_sum2 or.assoc [symmetric] by (rule add_push_bit) (auto simp: bit_simps)

lemma byte_sum4:
  "ucast (a :: 8 word) + push_bit 8 (ucast (b :: 8 word)) + push_bit 16 (ucast (c :: 8 word))
     + push_bit 24 (ucast (d :: 8 word))
   = (ucast a OR push_bit 8 (ucast b) OR push_bit 16 (ucast c) OR push_bit 24 (ucast d) :: 32 word)"
  unfolding byte_sum3 or.assoc [symmetric] by (rule add_push_bit) (auto simp: bit_simps)

lemma bytes_load2:
  "b = a + 1 \<Longrightarrow> ucast (m a) + push_bit 8 (ucast (m b)) = (load_le 2 m a :: 32 word)"
  unfolding byte_sum2 by (simp add: eval_nat_numeral)

lemma bytes_load3:
  "b = a + 1 \<Longrightarrow> c = a + 2 \<Longrightarrow>
   ucast (m a) + push_bit 8 (ucast (m b)) + push_bit 16 (ucast (m c)) = (load_le 3 m a :: 32 word)"
  unfolding byte_sum3 by (simp add: eval_nat_numeral push_bit_or or.assoc)

lemma bytes_load4:
  "b = a + 1 \<Longrightarrow> c = a + 2 \<Longrightarrow> d = a + 3 \<Longrightarrow>
   ucast (m a) + push_bit 8 (ucast (m b)) + push_bit 16 (ucast (m c)) + push_bit 24 (ucast (m d))
   = (load_le 4 m a :: 32 word)"
  unfolding byte_sum4 by (simp add: eval_nat_numeral push_bit_or or.assoc)

lemmas bytes_load = bytes_load2 [OF refl] bytes_load3 [OF refl refl] bytes_load4 [OF refl refl refl]

lemma ucast_load_le:
  "8 * n \<le> LENGTH('b) \<Longrightarrow> 8 * n \<le> LENGTH('a)
   \<Longrightarrow> ucast (load_le n m p :: 'b::len word) = (load_le n m p :: 'a::len word)"
  by (rule bit_word_eqI) (auto simp: bit_load_le bit_simps)

lemma ucast_load_low:
  "LENGTH('a) \<le> LENGTH('b) \<Longrightarrow> LENGTH('a) \<le> 8 * n
   \<Longrightarrow> ucast (load_le n m p :: 'b::len word) = (load_le n m p :: 'a::len word)"
  by (rule bit_word_eqI) (auto simp: bit_load_le bit_simps)

lemma load_le_add:
  assumes "8 * (k + n) \<le> LENGTH('a)"
  shows "load_le k m p + push_bit (8 * k) (load_le n m (p + k)) = (load_le (k + n) m p :: 'a::len word)"
proof -
  have "load_le k m p + push_bit (8 * k) (load_le n m (p + k))
      = (load_le k m p OR push_bit (8 * k) (load_le n m (p + k)) :: 'a word)"
    by (rule add_push_bit) (simp add: bit_load_le)
  also have "\<dots> = load_le (k + n) m p"
  proof (rule bit_word_eqI)
    fix i assume i: "i < LENGTH('a)"
    show "bit (load_le k m p OR push_bit (8 * k) (load_le n m (p + k)) :: 'a word) i
        = bit (load_le (k + n) m p :: 'a word) i"
    proof (cases "i < 8 * k")
      case True
      with i assms show ?thesis by (auto simp: bit_load_le bit_simps)
    next
      case False
      then obtain j where j: "i = 8 * k + j" using le_Suc_ex not_less by blast
      with i assms show ?thesis by (auto simp: bit_load_le bit_simps add.assoc)
    qed
  qed
  finally show ?thesis .
qed

named_theorems portable

lemma uint4korr_portable [portable]: "uint4korr m A = load_le 4 m A"
  unfolding uint4korr_def by (rule bytes_load)

lemma sint4korr_portable [portable]: "sint4korr m A = load_le 4 m A"
  unfolding sint4korr_def by (rule bytes_load)

lemma uint2korr_portable [portable]: "uint2korr m A = load_le 2 m A"
  unfolding uint2korr_def bytes_load by (rule ucast_load_le) simp_all

lemma sint2korr_portable [portable]: "sint2korr m A = load_le 2 m A"
  unfolding sint2korr_def bytes_load by (rule ucast_load_le) simp_all

lemma uint3korr_portable [portable]: "uint3korr m A = load_le 3 m A"
  unfolding uint3korr_def by (rule bytes_load)

lemma low_word: "ucast (load_le 4 m A :: 32 word) = (load_le 4 m A :: 64 word)"
  by (rule ucast_load_le) simp_all

lemma uint5korr_portable [portable]: "uint5korr m A = load_le 5 m A"
  using load_le_add [of 4 1 m A, where 'a = 64]
  unfolding uint5korr_def bytes_load4 [OF refl refl refl] low_word by simp

lemma uint6korr_portable [portable]: "uint6korr m A = load_le 6 m A"
  using load_le_add [of 5 1 m A, where 'a = 64] uint5korr_portable [of m A]
  unfolding uint6korr_def uint5korr_def by simp

lemma uint8korr_portable [portable]: "uint8korr m A = load_le 8 m A"
proof -
  have h: "ucast (m (A + 4)) + push_bit 8 (ucast (m (A + 5))) + push_bit 16 (ucast (m (A + 6)))
      + push_bit 24 (ucast (m (A + 7))) = (load_le 4 m (A + 4) :: 32 word)"
    by (rule bytes_load4) simp_all
  show ?thesis
    using load_le_add [of 4 4 m A, where 'a = 64]
    unfolding uint8korr_def h bytes_load4 [OF refl refl refl] low_word by simp
qed

lemma sint8korr_portable [portable]: "sint8korr m A = load_le 8 m A"
  unfolding sint8korr_def by (rule uint8korr_portable)

text \<open>What the stores write, byte by byte.\<close>

lemma int2store_portable [portable]: "int2store m T A = store_le 2 m T A"
  by (rule ext) (auto simp: int2store_def store_le_apply Let_def less_Suc_eq eval_nat_numeral
      intro!: bit_word_eqI simp: bit_simps)

lemma int3store_portable [portable]: "int3store m T A = store_le 3 m T A"
  by (simp add: int3store_def eval_nat_numeral)

lemma int4store_portable [portable]: "int4store m T A = store_le 4 m T A"
  by (simp add: int4store_def eval_nat_numeral)

lemma int5store_portable [portable]: "int5store m T A = store_le 5 m T A"
  by (simp add: int5store_def eval_nat_numeral)

lemma int6store_portable [portable]: "int6store m T A = store_le 6 m T A"
  by (simp add: int6store_def eval_nat_numeral)

lemma int8store_portable [portable]: "int8store m T A = store_le 8 m T A"
proof
  fix a
  show "int8store m T A a = store_le 8 m T A a"
  proof (cases "T + 4 \<le> a")
    case True
    then obtain j where a: "a = T + 4 + j" using le_Suc_ex by blast
    show ?thesis
      unfolding int8store_def Let_def int4store_portable store_le_apply a
      by (auto intro!: bit_word_eqI simp: bit_simps algebra_simps)
  next
    case False
    then show ?thesis
      unfolding int8store_def Let_def int4store_portable store_le_apply
      by (auto intro!: bit_word_eqI simp: bit_simps)
  qed
qed

section \<open>The two variants\<close>

text \<open>
  C29: the functions for x86, which access memory through cast pointers, read and write the same
  numbers as the portable ones, which go byte by byte.
\<close>

theorem x86_variant_agrees:
  "sint2korr_x86 = sint2korr \<and> uint2korr_x86 = uint2korr \<and> sint4korr_x86 = sint4korr
   \<and> uint4korr_x86 = uint4korr \<and> uint8korr_x86 = uint8korr \<and> sint8korr_x86 = sint8korr
   \<and> int2store_x86 = int2store \<and> int4store_x86 = int4store \<and> int8store_x86 = int8store"
  by (intro conjI ext)
    (simp_all only: portable sint2korr_x86_def uint2korr_x86_def sint4korr_x86_def uint4korr_x86_def
      uint8korr_x86_def sint8korr_x86_def int2store_x86_def int4store_x86_def int8store_x86_def)

section \<open>Round trips\<close>

text \<open>
  C28: a number that is stored and read back is unchanged, up to the bytes that are stored of
  it, for every width.
\<close>

theorem stored_numbers_are_read_back:
  "uint2korr (int2store m p v2) p = v2 \<and> uint4korr (int4store m p v4) p = v4
   \<and> uint8korr (int8store m p v8) p = v8
   \<and> sint2korr (int2store m p v2) p = v2 \<and> sint4korr (int4store m p v4) p = v4
   \<and> sint8korr (int8store m p v8) p = v8
   \<and> uint3korr (int3store m p v4) p = take_bit 24 v4
   \<and> uint5korr (int5store m p v8) p = take_bit 40 v8
   \<and> uint6korr (int6store m p v8) p = take_bit 48 v8"
  by (simp add: portable load_store_le take_bit_word_eq_self del: load_le.simps store_le.simps)

lemma sint3korr_load:
  "sint3korr m A = (if bit (m (A + 2)) 7 then push_bit 24 (mask 8) OR load_le 3 m A else load_le 3 m A)"
proof -
  have "m (A + 2) AND 128 \<noteq> 0 \<longleftrightarrow> bit (m (A + 2)) 7"
    using and_exp_eq_0_iff_not_bit [of "m (A + 2)" 7] by simp
  moreover have "load_le 3 m A = (push_bit 16 (ucast (m (A + 2))) OR push_bit 8 (ucast (m (A + 1)))
      OR ucast (m A) :: 32 word)"
    by (simp add: eval_nat_numeral push_bit_or or.assoc or.commute or.left_commute)
  moreover have "(255 :: 32 word) = mask 8" by (simp add: mask_eq_exp_minus_1)
  ultimately show ?thesis unfolding sint3korr_def by (simp only: if_True if_False or.assoc)
qed

text \<open>The three bytes are read as a signed number: bit 23 is the sign.\<close>

lemma sint3korr_signed: "sint3korr m A = signed_take_bit 23 (load_le 3 m A)"
proof (rule bit_word_eqI)
  fix i assume i: "i < LENGTH(32)"
  have b: "bit (load_le 3 m A :: 32 word) 23 \<longleftrightarrow> bit (m (A + 2)) 7"
    by (simp add: bit_load_le)
  show "bit (sint3korr m A) i = bit (signed_take_bit 23 (load_le 3 m A) :: 32 word) i"
  proof (cases "i < 24")
    case True
    with b show ?thesis by (cases "i = 23") (auto simp: sint3korr_load bit_simps min_def)
  next
    case False
    then have "\<not> bit (load_le 3 m A :: 32 word) i" by (simp add: bit_load_le)
    with b i False show ?thesis by (auto simp: sint3korr_load bit_simps min_def)
  qed
qed

theorem signed_three_bytes:
  assumes "- (2 ^ 23) \<le> sint v" and "sint v < 2 ^ 23"
  shows "sint3korr (int3store m p v) p = v"
proof -
  have "sint3korr (int3store m p v) p = signed_take_bit 23 (take_bit 24 v)"
    by (simp add: sint3korr_signed portable load_store_le del: load_le.simps store_le.simps)
  also have "\<dots> = signed_take_bit 23 v"
    by (rule bit_word_eqI) (simp add: bit_simps min_def)
  also have "\<dots> = v"
  proof (rule bit_word_eqI)
    fix i assume i: "i < LENGTH(32)"
    have "signed_take_bit 23 (sint v) = sint v"
      using assms by (rule signed_take_bit_int_eq_self)
    then have 1: "bit (sint v) i = bit (sint v) (min i 23)"
      using bit_signed_take_bit_iff [of 23 "sint v" i] by (simp add: min.commute)
    have 2: "bit (sint v) i = bit v i" "bit (sint v) (min i 23) = bit v (min i 23)"
      using i by (simp_all add: bit_sint_iff)
    have "bit (signed_take_bit 23 v) i = bit v (min i 23)"
      using i by (simp add: bit_signed_take_bit_iff min.commute)
    also have "\<dots> = bit v i" using 1 unfolding 2 by (rule sym)
    finally show "bit (signed_take_bit 23 v) i = bit v i" .
  qed
  finally show ?thesis .
qed

section \<open>Bounds\<close>

text \<open>A store changes no byte outside its number.\<close>

theorem stores_stay_in_bounds:
  "a < p \<or> p + 8 \<le> a \<Longrightarrow>
     int2store m p v2 a = m a \<and> int3store m p v4 a = m a \<and> int4store m p v4 a = m a
     \<and> int5store m p v8 a = m a \<and> int6store m p v8 a = m a \<and> int8store m p v8 a = m a"
  by (auto simp: portable store_le_apply simp del: store_le.simps)

lemma load_le_agree:
  "(\<And>a. p \<le> a \<Longrightarrow> a < p + n \<Longrightarrow> m a = m' a) \<Longrightarrow> load_le n m p = load_le n m' p"
  by (induction n arbitrary: p) simp_all

section \<open>Floating point and the order of the machine\<close>

lemma store_be_apply:
  "store_be n m p (v :: 'a::len word) a
   = (if p \<le> a \<and> a < p + n then ucast (drop_bit (8 * (p + n - 1 - a)) v) else m a)"
proof (induction n arbitrary: m v)
  case (Suc n)
  show ?case
  proof (cases "p \<le> a \<and> a < p + n")
    case True
    then have "8 * (p + n - Suc a) + 8 = 8 * (p + n - a)" by arith
    then show ?thesis using Suc True by (simp add: add.commute)
  qed (use Suc in auto)
qed auto

lemma load_le_shift:
  "(\<And>j. j < n \<Longrightarrow> m (p + j) = m' (p' + j)) \<Longrightarrow> load_le n m p = load_le n m' p'"
  by (rule bit_word_eqI) (auto simp: bit_load_le)

lemma load_be_mirror: "(load_be n m p :: 'a::len word) = load_le n (\<lambda>a. m (p + n - 1 - a)) 0"
proof (induction n arbitrary: p)
  case (Suc n)
  have "(load_le n (\<lambda>a. m (p + n - Suc a)) 0 :: 'a word) = load_le n (\<lambda>a. m (p + n - a)) (Suc 0)"
    by (rule load_le_shift) simp
  then show ?case using Suc by (simp add: or.commute)
qed simp

lemma below_4: "(j :: nat) < 4 \<longleftrightarrow> j = 0 \<or> j = 1 \<or> j = 2 \<or> j = 3"
  by auto

lemma below_8: "(j :: nat) < 8 \<longleftrightarrow> j = 0 \<or> j = 1 \<or> j = 2 \<or> j = 3 \<or> j = 4 \<or> j = 5 \<or> j = 6 \<or> j = 7"
  by auto

lemma store_le_cases:
  assumes "\<And>a. a < T \<or> T + n \<le> a \<Longrightarrow> m' a = m a"
    and "\<And>j. j < n \<Longrightarrow> m' (T + j) = ucast (drop_bit (8 * j) v)"
  shows "m' = store_le n m T v"
proof
  fix a
  show "m' a = store_le n m T v a"
  proof (cases "T \<le> a \<and> a < T + n")
    case True
    then obtain j where "a = T + j" "j < n" using le_Suc_ex by fastforce
    with assms(2) show ?thesis by (simp add: store_le_apply)
  qed (use assms(1) in \<open>auto simp: store_le_apply\<close>)
qed

named_theorems low_byte_first

lemma float4store_be_le [low_byte_first]: "float4store_be m T A = store_le 4 m T A"
  by (rule store_le_cases)
    (auto simp: float4store_be_def Let_def store_be_apply below_4)

lemma float8store_be_le [low_byte_first]: "float8store_be m T V = store_le 8 m T V"
  by (rule store_le_cases)
    (auto simp: float8store_be_def Let_def store_be_apply below_8)

lemma doublestore_mixed_le [low_byte_first]: "doublestore_mixed m T V = store_le 8 m T V"
  by (rule store_le_cases)
    (auto simp: doublestore_mixed_def object_mixed_def Let_def store_le_apply below_8
      simp del: store_le.simps)

lemma float4get_be_le [low_byte_first]: "float4get_be m M = load_le 4 m M"
  unfolding float4get_be_def load_be_mirror by (rule load_le_shift) (auto simp: below_4)

lemma float8get_be_le [low_byte_first]: "float8get_be m M = load_le 8 m M"
  unfolding float8get_be_def load_be_mirror by (rule load_le_shift) (auto simp: below_8)

lemma value_mixed_le: "value_mixed m = load_le 8 (\<lambda>a. if a < 4 then m (a + 4) else m (a - 4)) 0"
proof -
  let ?m = "\<lambda>a. if a < 4 then m (a + 4) else m (a - 4)"
  have 1: "(load_le 4 m 4 :: 64 word) = load_le 4 ?m 0"
    by (rule load_le_shift) (simp add: add.commute)
  have 2: "(load_le 4 m 0 :: 64 word) = load_le 4 ?m (0 + 4)"
    by (rule load_le_shift) simp
  have 3: "push_bit 32 y OR load_le 4 m' p = (load_le 4 m' p + push_bit 32 y :: 64 word)" for y m' p
    by (subst add_push_bit) (auto simp: bit_load_le or.commute)
  show ?thesis
    using load_le_add [of 4 4 ?m 0, where 'a = 64]
    unfolding value_mixed_def 1 2 3 by simp
qed

lemma doubleget_mixed_le [low_byte_first]: "doubleget_mixed m M = load_le 8 m M"
  unfolding doubleget_mixed_def value_mixed_le by (rule load_le_shift) (auto simp: below_8)

theorem floats_low_byte_first:
  "float4store_be = float4store_le \<and> float8store_be = float8store_le
   \<and> float4get_be = float4get_le \<and> float8get_be = float8get_le
   \<and> doublestore_mixed = doublestore_le \<and> doubleget_mixed = doubleget_le"
  by (intro conjI ext) (simp_all only: low_byte_first float4store_le_def float8store_le_def
      float4get_le_def float8get_le_def doublestore_le_def doubleget_le_def)

theorem floats_are_read_back:
  "float4get_le (float4store_le m p f) p = f \<and> float8get_le (float8store_le m p d) p = d
   \<and> float4get_be (float4store_be m p f) p = f \<and> float8get_be (float8store_be m p d) p = d
   \<and> doubleget_mixed (doublestore_mixed m p d) p = d"
  by (simp add: low_byte_first float4store_le_def float8store_le_def float4get_le_def
      float8get_le_def load_store_le take_bit_word_eq_self del: load_le.simps store_le.simps)

lemma load_store_be:
  assumes "8 * n = LENGTH('a)"
  shows "load_be n (store_be n m p v) p = (v :: 'a::len word)"
proof -
  have "load_be n (store_be n m p v) p = (load_le n (store_le n m 0 v) 0 :: 'a word)"
    unfolding load_be_mirror by (rule load_le_shift) (auto simp: store_be_apply store_le_apply)
  then show ?thesis
    using assms load_store_le [of n m 0 v] by (simp add: take_bit_word_eq_self)
qed

lemma longget_be_load: "longget_be m p = load_be 4 m p"
  unfolding longget_be_def load_be_mirror by (rule load_le_shift) (auto simp: below_4 add.commute)

lemma longstore_be_store: "longstore_be m T A = store_be 4 m T A"
proof
  fix a
  consider "a < T \<or> T + 4 \<le> a" | j where "j < 4" "a = T + j"
    by (metis le_Suc_ex nat_add_left_cancel_less not_less)
  then show "longstore_be m T A a = store_be 4 m T A a"
  proof cases
    case 2
    then show ?thesis
      by (auto simp: longstore_be_def store_be_apply below_4 intro!: bit_word_eqI)
        (auto simp: bit_simps)
  qed (auto simp: longstore_be_def store_be_apply)
qed

theorem machine_order_round_trip:
  "shortget_be (shortstore_be m p v2) p = v2 \<and> ushortget_be (shortstore_be m p v2) p = v2
   \<and> longget_be (longstore_be m p v4) p = v4 \<and> ulongget_be (longstore_be m p v4) p = v4
   \<and> shortget_le (shortstore_le m p v2) p = v2 \<and> ushortget_le (shortstore_le m p v2) p = v2
   \<and> longget_le (longstore_le m p v4) p = v4 \<and> ulongget_le (longstore_le m p v4) p = v4
   \<and> longlongget_be (longlongstore_be m p v8) p = v8
   \<and> longlongget_le (longlongstore_le m p v8) p = v8"
proof -
  have u: "ushortget_be = shortget_be" "ulongget_be = longget_be"
    by (simp_all add: fun_eq_iff ushortget_be_def shortget_be_def ulongget_be_def longget_be_def)
  have s: "shortget_be (shortstore_be m p v2) p = v2"
    unfolding shortget_be_def byte_sum2
    by (rule bit_word_eqI) (auto simp: shortstore_be_def Let_def bit_simps not_less)
  show ?thesis
    using s stored_numbers_are_read_back [of m p v2 v4 v8]
    by (simp add: u longget_be_load longstore_be_store load_store_be longlongget_be_def
        longlongstore_be_def longlongget_le_def longlongstore_le_def load_store_le
        take_bit_word_eq_self shortget_le_def shortstore_le_def ushortget_le_def longget_le_def
        longstore_le_def ulongget_le_def
        del: load_le.simps store_le.simps load_be.simps store_be.simps)
qed

end
