(* ===== verification/MysqlStrings.thy ===== *)
theory MysqlStrings
  imports MysqlBytes
begin

text \<open>
  \<open>skip_trailing_space\<close> of \<open>m_string.h\<close> in its two variants: the one that reads eight bytes at a time
  with \<open>uint8korr\<close>, and the one for sparc, which reads aligned words. Both find the end that the
  loop over single bytes finds.
\<close>

section \<open>The loops\<close>

text \<open>The last loop of both variants, which is the naive method.\<close>

function skip_spaces :: "mem \<Rightarrow> nat \<Rightarrow> nat \<Rightarrow> nat" where
  "skip_spaces m ptr end =
     (if ptr < end \<and> m (end - 1) = 0x20 then skip_spaces m ptr (end - 1) else end)"
  by pat_completeness auto
termination
  by (relation "measure (\<lambda>(m, ptr, end). end - ptr)") auto

function skip_eights :: "mem \<Rightarrow> nat \<Rightarrow> nat \<Rightarrow> nat" where
  "skip_eights m ptr end =
     (if ptr + 8 \<le> end then
        (if uint8korr m (end - 8) \<noteq> 0x2020202020202020 then end
         else skip_eights m ptr (end - 8))
      else end)"
  by pat_completeness auto
termination
  by (relation "measure (\<lambda>(m, ptr, end). end - ptr)") auto

definition skip_trailing_space :: "mem \<Rightarrow> nat \<Rightarrow> nat \<Rightarrow> nat" where
  "skip_trailing_space m ptr len = skip_spaces m ptr (skip_eights m ptr (ptr + len))"

function skip_ints :: "mem \<Rightarrow> nat \<Rightarrow> nat \<Rightarrow> nat" where
  "skip_ints m start_words end =
     (if start_words < end \<and> (load_be 4 m (end - 4) :: 32 word) = 0x20202020
      then skip_ints m start_words (end - 4) else end)"
  by pat_completeness auto
termination
  by (relation "measure (\<lambda>(m, s, end). end - s)") auto

declare skip_spaces.simps [simp del] skip_eights.simps [simp del] skip_ints.simps [simp del]

text \<open>
  The words before and after the string begin at multiples of \<open>SIZEOF_INT = 4\<close>. The conditions of
  the loops hold the bounds, so that subtraction on addresses never goes below zero.
\<close>

definition skip_trailing_space_sparc :: "mem \<Rightarrow> nat \<Rightarrow> nat \<Rightarrow> nat" where
  "skip_trailing_space_sparc m ptr len =
     (let end = ptr + len;
          end = (if 20 < len then
                   let end_words = end div 4 * 4;
                       start_words = (ptr + 4 - 1) div 4 * 4;
                       end = skip_spaces m end_words end
                   in if m (end - 1) = 0x20 \<and> start_words < end_words
                      then skip_ints m start_words end else end
                 else end)
      in skip_spaces m ptr end)"

section \<open>Spaces\<close>

definition spaces :: "mem \<Rightarrow> nat \<Rightarrow> nat \<Rightarrow> bool" where
  "spaces m a b \<longleftrightarrow> a \<le> b \<and> (\<forall>i. a \<le> i \<and> i < b \<longrightarrow> m i = 0x20)"

lemma spaces_refl [simp]: "spaces m a a"
  by (auto simp: spaces_def)

lemma spaces_trans: "spaces m a b \<Longrightarrow> spaces m b c \<Longrightarrow> spaces m a c"
  unfolding spaces_def by (meson le_trans not_less)

lemma skip_spaces_found:
  "ptr \<le> end \<Longrightarrow> ptr \<le> skip_spaces m ptr end \<and> spaces m (skip_spaces m ptr end) end
    \<and> (skip_spaces m ptr end = ptr \<or> m (skip_spaces m ptr end - 1) \<noteq> 0x20)"
proof (induction m ptr "end" rule: skip_spaces.induct)
  case (1 m ptr e)
  show ?case
  proof (cases "ptr < e \<and> m (e - 1) = 0x20")
    case True
    then have st: "spaces m (e - 1) e"
      unfolding spaces_def by (metis Suc_diff_1 diff_le_self le_less_Suc_eq less_nat_zero_code not_gr_zero)
    have s: "skip_spaces m ptr e = skip_spaces m ptr (e - 1)"
      using True by (subst skip_spaces.simps) simp
    have "ptr \<le> e - 1" using True by linarith
    with 1(1) [OF True] show ?thesis unfolding s using spaces_trans [OF _ st] by blast
  next
    case False
    then show ?thesis using 1(2) by (subst (1 2 3 4) skip_spaces.simps) auto
  qed
qed

lemma skip_spaces_through: "spaces m e' e \<Longrightarrow> ptr \<le> e' \<Longrightarrow> skip_spaces m ptr e = skip_spaces m ptr e'"
proof (induction "e - e'" arbitrary: e)
  case 0
  then show ?case by (simp add: spaces_def)
next
  case (Suc k)
  then have "m (e - 1) = 0x20" "ptr < e" "spaces m e' (e - 1)" by (auto simp: spaces_def)
  with Suc show ?case by (subst skip_spaces.simps) simp
qed

section \<open>A word of spaces\<close>

lemma byte_of_load:
  "j < n \<Longrightarrow> 8 * n \<le> LENGTH('a) \<Longrightarrow> ucast (drop_bit (8 * j) (load_le n m p :: 'a::len word)) = m (p + j)"
  by (rule bit_word_eqI) (auto simp: bit_load_le bit_simps)

lemma spaces_eight:
  assumes "uint8korr m p = 0x2020202020202020"
  shows "spaces m p (p + 8)"
proof -
  have "m (p + j) = 0x20" if "j < 8" for j
    using byte_of_load [of j 8 m p, where 'a = 64] that assms
    by (auto simp: uint8korr_portable below_8 simp del: load_le.simps)
  then show ?thesis
    unfolding spaces_def by (metis le_Suc_ex nat_add_left_cancel_less le_add1)
qed

lemma spaces_four:
  assumes "(load_be 4 m p :: 32 word) = 0x20202020"
  shows "spaces m p (p + 4)"
proof -
  have b: "ucast (drop_bit (8 * j) (load_be 4 m p :: 32 word)) = m (p + 3 - j)" if "j < 4" for j
    using byte_of_load [of j 4 "\<lambda>a. m (p + 4 - 1 - a)" 0, where 'a = 32] that
    unfolding load_be_mirror by (simp add: add.commute)
  have "m (p + 3) = 0x20" "m (p + 2) = 0x20" "m (p + 1) = 0x20" "m p = 0x20"
    using b [of 0] b [of 1] b [of 2] b [of 3] unfolding assms by simp_all
  then show ?thesis
    unfolding spaces_def by (auto simp: less_Suc_eq eval_nat_numeral)
qed

lemma skip_eights_spaces:
  "ptr \<le> end \<Longrightarrow> ptr \<le> skip_eights m ptr end \<and> spaces m (skip_eights m ptr end) end"
proof (induction m ptr "end" rule: skip_eights.induct)
  case (1 m ptr e)
  show ?case
  proof (cases "ptr + 8 \<le> e \<and> uint8korr m (e - 8) = 0x2020202020202020")
    case True
    then have st: "spaces m (e - 8) e" and p: "ptr \<le> e - 8"
      using spaces_eight [of m "e - 8"] by auto
    have s: "skip_eights m ptr e = skip_eights m ptr (e - 8)"
      using True by (subst skip_eights.simps) simp
    from 1(1) p True show ?thesis unfolding s using spaces_trans [OF _ st] by blast
  next
    case False
    with 1(2) show ?thesis by (subst (1 2) skip_eights.simps) auto
  qed
qed

lemma skip_ints_spaces:
  "start \<le> end \<Longrightarrow> 4 dvd start \<Longrightarrow> 4 dvd end
   \<Longrightarrow> start \<le> skip_ints m start end \<and> spaces m (skip_ints m start end) end"
proof (induction m start "end" rule: skip_ints.induct)
  case (1 m s e)
  show ?case
  proof (cases "s < e \<and> (load_be 4 m (e - 4) :: 32 word) = 0x20202020")
    case True
    with 1(2-4) have "s + 4 \<le> e" by (metis dvd_add_right_iff dvd_diff_nat dvd_imp_le le_add_diff_inverse less_imp_le_nat nat_add_left_cancel_le zero_less_diff)
    then have st: "spaces m (e - 4) e" and p: "s \<le> e - 4"
      using True spaces_four [of m "e - 4"] by simp_all
    have s: "skip_ints m s e = skip_ints m s (e - 4)"
      using True by (subst skip_ints.simps) (simp del: load_be.simps)
    have "4 dvd e - 4" using 1(4) by (rule dvd_diff_nat) simp
    with 1(1,3) p True show ?thesis unfolding s using spaces_trans [OF _ st] by blast
  next
    case False
    with 1(2) show ?thesis by (subst (1 2) skip_ints.simps) (auto simp del: load_be.simps)
  qed
qed

section \<open>Both variants find the end of the text\<close>

lemma skip_trailing_space_naive: "skip_trailing_space m ptr len = skip_spaces m ptr (ptr + len)"
  using skip_eights_spaces [of ptr "ptr + len" m]
  unfolding skip_trailing_space_def by (intro skip_spaces_through [symmetric]) simp_all

lemma skip_trailing_space_sparc_naive:
  "skip_trailing_space_sparc m ptr len = skip_spaces m ptr (ptr + len)"
proof (cases "20 < len")
  case False
  then show ?thesis by (simp add: skip_trailing_space_sparc_def)
next
  case True
  define ew where "ew = (ptr + len) div 4 * 4"
  define sw where "sw = (ptr + 4 - 1) div 4 * 4"
  define e where "e = skip_spaces m ew (ptr + len)"
  have ew: "ew \<le> ptr + len" "ptr < ew" "4 dvd ew" and sw: "ptr \<le> sw" "4 dvd sw"
    using True by (auto simp: ew_def sw_def)
  have e: "ew \<le> e" "spaces m e (ptr + len)" "e = ew \<or> m (e - 1) \<noteq> 0x20"
    using skip_spaces_found [OF ew(1), of m] by (simp_all add: e_def)
  let ?e = "if m (e - 1) = 0x20 \<and> sw < ew then skip_ints m sw e else e"
  have "ptr \<le> ?e \<and> spaces m ?e (ptr + len)"
  proof (cases "m (e - 1) = 0x20 \<and> sw < ew")
    case True
    with e(3) have "e = ew" by blast
    with True skip_ints_spaces [of sw ew m] ew sw e(2) show ?thesis
      by (auto dest: spaces_trans)
  next
    case False
    with e(1,2) ew(2) show ?thesis by auto
  qed
  then have "skip_spaces m ptr (ptr + len) = skip_spaces m ptr ?e"
    by (intro skip_spaces_through) simp_all
  then show ?thesis
    using True by (simp add: skip_trailing_space_sparc_def Let_def ew_def sw_def e_def)
qed

lemma skip_spaces_spec:
  "ptr \<le> end \<Longrightarrow>
   skip_spaces m ptr end = ptr + length (dropWhile (\<lambda>c. c = 0x20) (rev (map m [ptr..<end])))"
proof (induction m ptr "end" rule: skip_spaces.induct)
  case (1 m ptr e)
  show ?case
  proof (cases "ptr < e")
    case True
    then obtain d where d: "e = Suc d" "ptr \<le> d" by (cases e) auto
    with 1 show ?thesis by (subst skip_spaces.simps) simp
  next
    case False
    with 1(2) show ?thesis by (subst skip_spaces.simps) simp
  qed
qed


end
