(* ===== verification/MysqlTime.thy ===== *)
theory MysqlTime
  imports "HOL-Library.Word"
begin

text \<open>
  The points in time of \<open>my_global.h\<close>, in the variant that is not for Windows. \<open>my_getsystime\<close> returns
  the time in units of 100 nanoseconds and is a parameter. The members of \<open>struct timespec\<close> are signed.
\<close>

datatype timespec = Timespec (tv_sec: "64 word") (tv_nsec: "64 word")

definition set_timespec_nsec :: "64 word \<Rightarrow> 64 word \<Rightarrow> timespec" where
  "set_timespec_nsec my_getsystime nsec =
     (let now = my_getsystime + nsec div 100
      in Timespec (now div 10000000) ((now mod 10000000) * 100 + nsec mod 100))"

definition set_timespec :: "64 word \<Rightarrow> 64 word \<Rightarrow> timespec" where
  "set_timespec my_getsystime sec = set_timespec_nsec my_getsystime (sec * 1000000000)"

definition cmp_timespec :: "timespec \<Rightarrow> timespec \<Rightarrow> int" where
  "cmp_timespec ts1 ts2 =
     (if tv_sec ts2 <s tv_sec ts1 \<or> tv_sec ts1 = tv_sec ts2 \<and> tv_nsec ts2 <s tv_nsec ts1 then 1
      else if tv_sec ts1 <s tv_sec ts2 \<or> tv_sec ts1 = tv_sec ts2 \<and> tv_nsec ts1 <s tv_nsec ts2 then - 1
      else 0)"

definition diff_timespec :: "timespec \<Rightarrow> timespec \<Rightarrow> 64 word" where
  "diff_timespec ts1 ts2 =
     (tv_sec ts1 - tv_sec ts2) * 1000000000 + tv_nsec ts1 - tv_nsec ts2"

section \<open>The order of points in time\<close>

definition time_key :: "timespec \<Rightarrow> int \<times> int" where
  "time_key ts = (sint (tv_sec ts), sint (tv_nsec ts))"

lemma sint_eq: "sint a = sint b \<longleftrightarrow> a = (b :: 64 word)"
  by (auto intro: signed_word_eqI)

lemma time_key_eq [simp]: "time_key ts1 = time_key ts2 \<longleftrightarrow> ts1 = ts2"
  by (cases ts1; cases ts2) (simp add: time_key_def sint_eq)

instantiation timespec :: linorder
begin

definition less_eq_timespec :: "timespec \<Rightarrow> timespec \<Rightarrow> bool" where
  "less_eq_timespec ts1 ts2 \<longleftrightarrow>
     fst (time_key ts1) < fst (time_key ts2)
     \<or> fst (time_key ts1) = fst (time_key ts2) \<and> snd (time_key ts1) \<le> snd (time_key ts2)"

definition less_timespec :: "timespec \<Rightarrow> timespec \<Rightarrow> bool" where
  "less_timespec ts1 ts2 \<longleftrightarrow>
     fst (time_key ts1) < fst (time_key ts2)
     \<or> fst (time_key ts1) = fst (time_key ts2) \<and> snd (time_key ts1) < snd (time_key ts2)"

instance
proof
  fix x y z :: timespec
  show "x < y \<longleftrightarrow> x \<le> y \<and> \<not> y \<le> x"
    by (auto simp: less_eq_timespec_def less_timespec_def)
  show "x \<le> x" by (simp add: less_eq_timespec_def)
  show "x \<le> y \<Longrightarrow> y \<le> z \<Longrightarrow> x \<le> z" by (auto simp: less_eq_timespec_def)
  show "x \<le> y \<or> y \<le> x" by (auto simp: less_eq_timespec_def)
  assume "x \<le> y" "y \<le> x"
  then have "time_key x = time_key y" by (auto simp: less_eq_timespec_def prod_eq_iff)
  then show "x = y" by simp
qed

end

theorem cmp_timespec_order:
  "cmp_timespec ts1 ts2 = (if ts2 < ts1 then 1 else if ts1 < ts2 then - 1 else 0)"
  by (auto simp: cmp_timespec_def less_timespec_def time_key_def word_sless_alt sint_eq)

section \<open>Timeouts\<close>

lemma unat_nsec:
  "unat ((a mod 10000000) * 100 + b mod 100 :: 64 word) = unat a mod 10000000 * 100 + unat b mod 100"
proof -
  have "unat a mod 10000000 * 100 + unat b mod 100 < 2 ^ 64"
    using mod_less_divisor [of 10000000 "unat a"] mod_less_divisor [of 100 "unat b"] by simp
  moreover from this have "unat ((a mod 10000000) * 100) = unat a mod 10000000 * 100"
    by (subst unat_mult_lem [THEN iffD1]) (simp_all add: unat_mod)
  ultimately show ?thesis by (simp add: unat_plus_if' unat_mod)
qed

theorem timeout_nanoseconds: "unat (tv_nsec (set_timespec_nsec t nsec)) < 1000000000"
proof -
  have "a mod 10000000 * 100 + b mod 100 < (1000000000 :: nat)" for a b
    using mod_less_divisor [of 10000000 a] mod_less_divisor [of 100 b] by simp
  then show ?thesis by (simp add: set_timespec_nsec_def Let_def unat_nsec)
qed

text \<open>
  The time \<open>set_timespec_nsec\<close> sets for a number of nanoseconds is, by
  \<open>diff_timespec\<close>, exactly that number of nanoseconds after the time it sets for
  zero, whatever the time is.
\<close>

theorem timeout_distance:
  "diff_timespec (set_timespec_nsec t nsec) (set_timespec_nsec t 0) = nsec"
proof -
  have parts: "(a div 10000000) * 1000000000 + (a mod 10000000) * 100 = a * (100 :: 64 word)" for a
  proof -
    have "(a div 10000000 * 10000000 + a mod 10000000) * 100 = a * 100"
      by (simp only: div_mult_mod_eq)
    then show ?thesis by (simp add: algebra_simps)
  qed
  let ?now = "t + nsec div 100"
  have "diff_timespec (set_timespec_nsec t nsec) (set_timespec_nsec t 0)
      = (?now div 10000000 * 1000000000 + ?now mod 10000000 * 100) + nsec mod 100
        - (t div 10000000 * 1000000000 + t mod 10000000 * 100)"
    by (simp add: diff_timespec_def set_timespec_nsec_def Let_def algebra_simps)
  also have "\<dots> = nsec div 100 * 100 + nsec mod 100"
    unfolding parts by (simp add: algebra_simps)
  also have "\<dots> = nsec" by (rule div_mult_mod_eq)
  finally show ?thesis .
qed

theorem timeout_is_not_earlier:
  assumes "unat t + unat nsec div 100 < 2 ^ 64"
  shows "set_timespec_nsec t 0 \<le> set_timespec_nsec t nsec"
proof -
  have small: "sint x = int (unat x)" if "unat x < 2 ^ 63" for x :: "64 word"
  proof -
    have "uint x < 2 ^ 63"
      using that of_nat_less_iff [of "unat x" "2 ^ 63", where 'a = int] by simp
    moreover have "- (2 ^ 63) \<le> uint x"
      by (rule order_trans [of _ 0]) simp_all
    ultimately show ?thesis
      using signed_take_bit_int_eq_self [of 63 "uint x"] by (simp add: sint_uint)
  qed
  let ?now = "t + nsec div 100"
  have now: "unat ?now = unat t + unat nsec div 100"
    using assms by (simp add: unat_plus_if' unat_div)
  have sec: "sint (x div 10000000 :: 64 word) = int (unat x div 10000000)" for x
  proof -
    have "unat x div 10000000 < 2 ^ 63"
      using unsigned_less [of x, where 'a = nat] by (intro less_mult_imp_div_less) simp
    then show ?thesis by (simp add: small unat_div)
  qed
  have ns: "unat a mod 10000000 * 100 + unat b mod 100 < 2 ^ 63" for a b :: "64 word"
    using mod_less_divisor [of 10000000 "unat a"] mod_less_divisor [of 100 "unat b"] by simp
  have nsec: "sint (a mod 10000000 * 100 + b mod 100 :: 64 word)
      = int (unat a mod 10000000 * 100 + unat b mod 100)" for a b
    using ns [of a b] unat_nsec [of a b] small by metis
  have key: "time_key (set_timespec_nsec t n)
      = (int (unat (t + n div 100) div 10000000),
         int (unat (t + n div 100) mod 10000000 * 100 + unat n mod 100))" for n
    by (simp add: time_key_def set_timespec_nsec_def Let_def sec nsec)
  have d: "unat t div 10000000 \<le> unat ?now div 10000000"
    unfolding now by (rule div_le_mono) simp
  have m: "unat t mod 10000000 \<le> unat ?now mod 10000000"
    if "unat t div 10000000 = unat ?now div 10000000"
    using that div_mult_mod_eq [of "unat t" 10000000] div_mult_mod_eq [of "unat ?now" 10000000]
    unfolding now by linarith
  show ?thesis
    using d m unfolding less_eq_timespec_def key by (auto simp: le_less)
qed

end
