(* ===== verification/MysqlCache.thy ===== *)
theory MysqlCache
  imports MysqlBytes
begin

text \<open>
  The file cache of \<open>my_sys.h\<close>: the structure \<open>IO_CACHE\<close> and the macros that read and write through
  it. What is in the buffer is moved by the macro; otherwise it calls the function the cache
  names, which is not in this repository and a parameter. Over functions that keep their contract,
  the macros read a stream of bytes, and append to one, whatever the size of the buffer.
\<close>

section \<open>The structure\<close>

datatype cache_type = TYPE_NOT_SET | READ_CACHE | WRITE_CACHE | SEQ_READ_APPEND | READ_FIFO | READ_NET
  | WRITE_NET

text \<open>\<open>current_pos\<close> and \<open>current_end\<close> point to the fields for reading or to those for writing.\<close>

datatype current = Read_fields | Write_fields

text \<open>
  A pointer is an address in the memory, and a size is a number. The lock, the share with other
  threads, the callbacks and the names of the file are left out: the macros do not use them.
\<close>

record io_cache =
  pos_in_file :: "64 word"
  end_of_file :: "64 word"
  read_pos :: nat
  read_end :: nat
  buffer :: nat
  request_pos :: nat
  write_buffer :: nat
  append_read_pos :: nat
  write_pos :: nat
  write_end :: nat
  current_pos :: current
  current_end :: current
  cache_kind :: cache_type
  disk_writes :: "64 word"
  seek_not_done :: "32 word"
  cache_error :: "32 word"
  buffer_length :: nat
  read_length :: nat

text \<open>What the macros work on: the memory, the cache, and the rest of the world (the file).\<close>

record 'w cached =
  memory :: mem
  info :: io_cache
  world :: 'w

section \<open>memcpy\<close>

definition bytes_at :: "mem \<Rightarrow> nat \<Rightarrow> nat \<Rightarrow> 8 word list" where
  "bytes_at m p n = map (\<lambda>i. m (p + i)) [0..<n]"

definition put_bytes :: "mem \<Rightarrow> nat \<Rightarrow> 8 word list \<Rightarrow> mem" where
  "put_bytes m p bs = (\<lambda>a. if p \<le> a \<and> a < p + length bs then bs ! (a - p) else m a)"

definition memcpy :: "mem \<Rightarrow> nat \<Rightarrow> nat \<Rightarrow> nat \<Rightarrow> mem" where
  "memcpy m dst src n = put_bytes m dst (bytes_at m src n)"

section \<open>The macros\<close>

type_synonym 'w transfer = "'w cached \<Rightarrow> nat \<Rightarrow> nat \<Rightarrow> 'w cached \<times> int"

definition my_b_clear :: "io_cache \<Rightarrow> io_cache" where
  "my_b_clear c = c\<lparr>buffer := 0\<rparr>"

definition my_b_inited :: "io_cache \<Rightarrow> bool" where
  "my_b_inited c \<longleftrightarrow> buffer c \<noteq> 0"

definition my_b_EOF :: int where
  "my_b_EOF = - 2147483648"

definition my_b_read :: "'w transfer \<Rightarrow> 'w transfer" where
  "my_b_read read_function s Buffer Count =
     (if read_pos (info s) + Count \<le> read_end (info s)
      then (s\<lparr>memory := memcpy (memory s) Buffer (read_pos (info s)) Count,
              info := (info s)\<lparr>read_pos := read_pos (info s) + Count\<rparr>\<rparr>, 0)
      else read_function s Buffer Count)"

definition my_b_write :: "'w transfer \<Rightarrow> 'w transfer" where
  "my_b_write write_function s Buffer Count =
     (if write_pos (info s) + Count \<le> write_end (info s)
      then (s\<lparr>memory := memcpy (memory s) (write_pos (info s)) Buffer Count,
              info := (info s)\<lparr>write_pos := write_pos (info s) + Count\<rparr>\<rparr>, 0)
      else write_function s Buffer Count)"

definition my_b_get :: "('w cached \<Rightarrow> 'w cached \<times> int) \<Rightarrow> 'w cached \<Rightarrow> 'w cached \<times> int" where
  "my_b_get get_function s =
     (if read_pos (info s) \<noteq> read_end (info s)
      then let s1 = s\<lparr>info := (info s)\<lparr>read_pos := read_pos (info s) + 1\<rparr>\<rparr>
           in (s1, uint (memory s1 (read_pos (info s1) - 1)))
      else get_function s)"

fun current_pos_of :: "io_cache \<Rightarrow> nat" where
  "current_pos_of c = (case current_pos c of Read_fields \<Rightarrow> read_pos c | Write_fields \<Rightarrow> write_pos c)"

fun current_end_of :: "io_cache \<Rightarrow> nat" where
  "current_end_of c = (case current_end c of Read_fields \<Rightarrow> read_end c | Write_fields \<Rightarrow> write_end c)"

definition my_b_tell :: "io_cache \<Rightarrow> 64 word" where
  "my_b_tell c = pos_in_file c + (of_nat (current_pos_of c) - of_nat (request_pos c))"

definition my_b_get_buffer_start :: "io_cache \<Rightarrow> nat" where
  "my_b_get_buffer_start c = request_pos c"

definition my_b_get_bytes_in_buffer :: "io_cache \<Rightarrow> int" where
  "my_b_get_bytes_in_buffer c = int (read_end c) - int (my_b_get_buffer_start c)"

definition my_b_get_pos_in_file :: "io_cache \<Rightarrow> 64 word" where
  "my_b_get_pos_in_file c = pos_in_file c"

definition my_b_bytes_in_cache :: "io_cache \<Rightarrow> 64 word" where
  "my_b_bytes_in_cache c = of_nat (current_end_of c) - of_nat (current_pos_of c)"

section \<open>Memory\<close>

lemma length_bytes_at [simp]: "length (bytes_at m p n) = n"
  by (simp add: bytes_at_def)

lemma bytes_at_0 [simp]: "bytes_at m p 0 = []"
  by (simp add: bytes_at_def)

lemma bytes_at_eqI: "(\<And>a. p \<le> a \<Longrightarrow> a < p + n \<Longrightarrow> m a = m' a) \<Longrightarrow> bytes_at m p n = bytes_at m' p n"
  by (simp add: bytes_at_def)

lemma bytes_at_eq_Nil [simp]: "bytes_at m p n = [] \<longleftrightarrow> n = 0"
  by (simp add: bytes_at_def)

lemma nth_bytes_at [simp]: "i < n \<Longrightarrow> bytes_at m p n ! i = m (p + i)"
  by (simp add: bytes_at_def)

lemma bytes_at_add: "bytes_at m p (k + n) = bytes_at m p k @ bytes_at m (p + k) n"
  by (rule nth_equalityI) (simp_all add: nth_append)

lemma bytes_at_Suc: "bytes_at m p (Suc n) = m p # bytes_at m (Suc p) n"
  by (rule nth_equalityI) (simp_all add: nth_Cons split: nat.split)

lemma bytes_at_put [simp]: "bytes_at (put_bytes m p bs) p (length bs) = bs"
  by (rule nth_equalityI) (simp_all add: put_bytes_def)

lemma put_bytes_other [simp]: "a < p \<or> p + length bs \<le> a \<Longrightarrow> put_bytes m p bs a = m a"
  by (auto simp: put_bytes_def)

definition separate :: "nat \<Rightarrow> nat \<Rightarrow> nat \<Rightarrow> nat \<Rightarrow> bool" where
  "separate p k q n \<longleftrightarrow> p + k \<le> q \<or> q + n \<le> p"

lemma bytes_at_put_separate: "separate p k q (length bs) \<Longrightarrow> bytes_at (put_bytes m q bs) p k = bytes_at m p k"
  by (rule bytes_at_eqI) (auto simp: separate_def)

section \<open>Reading: a cache as a stream\<close>

text \<open>
  \<open>rest\<close> tells the bytes of the file that are not in the buffer yet. A cache that is set up for
  reading stands for the stream of the bytes that are still to be read.
\<close>

definition reading :: "'w cached \<Rightarrow> bool" where
  "reading s \<longleftrightarrow> request_pos (info s) = buffer (info s) \<and> buffer (info s) \<le> read_pos (info s)
     \<and> read_pos (info s) \<le> read_end (info s)
     \<and> read_end (info s) \<le> buffer (info s) + buffer_length (info s)
     \<and> current_pos (info s) = Read_fields"

definition unread :: "('w \<Rightarrow> 8 word list) \<Rightarrow> 'w cached \<Rightarrow> 8 word list" where
  "unread rest s = bytes_at (memory s) (read_pos (info s)) (read_end (info s) - read_pos (info s))
     @ rest (world s)"

text \<open>The cache has gone on by \<open>n\<close> bytes, with its buffer where it was.\<close>

definition advanced :: "('w \<Rightarrow> 8 word list) \<Rightarrow> 'w cached \<Rightarrow> nat \<Rightarrow> 'w cached \<Rightarrow> bool" where
  "advanced rest s n s' \<longleftrightarrow> reading s' \<and> buffer (info s') = buffer (info s)
     \<and> buffer_length (info s') = buffer_length (info s) \<and> unread rest s' = drop n (unread rest s)
     \<and> my_b_tell (info s') = my_b_tell (info s) + of_nat n"

text \<open>No byte has changed but in the buffer and in the \<open>n\<close> bytes from \<open>p\<close> on.\<close>

definition kept :: "'w cached \<Rightarrow> nat \<Rightarrow> nat \<Rightarrow> 'w cached \<Rightarrow> bool" where
  "kept s p n s' \<longleftrightarrow> (\<forall>q k. separate q k p n \<and> separate q k (buffer (info s)) (buffer_length (info s))
     \<longrightarrow> bytes_at (memory s') q k = bytes_at (memory s) q k)"

definition outside_buffer :: "'w cached \<Rightarrow> nat \<Rightarrow> nat \<Rightarrow> bool" where
  "outside_buffer s p n \<longleftrightarrow> separate p n (buffer (info s)) (buffer_length (info s))"

text \<open>
  The contracts of the two functions that are called when the buffer does not hold what is asked
  for: \<open>read_function\<close> delivers the bytes or reports an error, \<open>_my_b_get\<close> the next byte or
  \<open>my_b_EOF\<close>.
\<close>

definition fetches :: "('w \<Rightarrow> 8 word list) \<Rightarrow> 'w transfer \<Rightarrow> bool" where
  "fetches rest f \<longleftrightarrow> (\<forall>s p n. reading s \<and> outside_buffer s p n \<and> read_end (info s) < read_pos (info s) + n \<longrightarrow>
     (if n \<le> length (unread rest s)
      then snd (f s p n) = 0 \<and> advanced rest s n (fst (f s p n)) \<and> kept s p n (fst (f s p n))
        \<and> bytes_at (memory (fst (f s p n))) p n = take n (unread rest s)
      else snd (f s p n) \<noteq> 0))"

definition fetches_byte :: "('w \<Rightarrow> 8 word list) \<Rightarrow> ('w cached \<Rightarrow> 'w cached \<times> int) \<Rightarrow> bool" where
  "fetches_byte rest g \<longleftrightarrow> (\<forall>s. reading s \<and> read_pos (info s) = read_end (info s) \<longrightarrow>
     (if rest (world s) \<noteq> []
      then snd (g s) = uint (hd (rest (world s))) \<and> advanced rest s 1 (fst (g s)) \<and> kept s 0 0 (fst (g s))
      else snd (g s) = my_b_EOF))"

lemma my_b_read_stream:
  assumes f: "fetches rest f" and s: "reading s" and p: "outside_buffer s p n"
    and n: "n \<le> length (unread rest s)"
  shows "snd (my_b_read f s p n) = 0 \<and> advanced rest s n (fst (my_b_read f s p n))
    \<and> kept s p n (fst (my_b_read f s p n))
    \<and> bytes_at (memory (fst (my_b_read f s p n))) p n = take n (unread rest s)"
proof (cases "read_pos (info s) + n \<le> read_end (info s)")
  case True
  let ?m = "memcpy (memory s) p (read_pos (info s)) n"
  have split: "bytes_at (memory s) (read_pos (info s)) (read_end (info s) - read_pos (info s))
      = bytes_at (memory s) (read_pos (info s)) n
        @ bytes_at (memory s) (read_pos (info s) + n) (read_end (info s) - (read_pos (info s) + n))"
    using True bytes_at_add [of "memory s" "read_pos (info s)" n "read_end (info s) - (read_pos (info s) + n)"]
    by simp
  have buf: "bytes_at ?m (read_pos (info s) + n) (read_end (info s) - (read_pos (info s) + n))
      = bytes_at (memory s) (read_pos (info s) + n) (read_end (info s) - (read_pos (info s) + n))"
    using s p True unfolding memcpy_def
    by (intro bytes_at_put_separate) (auto simp: separate_def reading_def outside_buffer_def)
  have m: "bytes_at ?m p n = bytes_at (memory s) (read_pos (info s)) n"
    using bytes_at_put [of "memory s" p "bytes_at (memory s) (read_pos (info s)) n"]
    by (simp add: memcpy_def)
  have k: "kept s p n (fst (my_b_read f s p n))"
    using True by (simp add: my_b_read_def kept_def memcpy_def bytes_at_put_separate)
  show ?thesis
    using True s k by (simp add: my_b_read_def advanced_def unread_def split buf m reading_def my_b_tell_def)
next
  case False
  then show ?thesis
    using f s p n by (simp add: my_b_read_def fetches_def)
qed

lemma my_b_read_short:
  assumes "fetches rest f" and "reading s" and "outside_buffer s p n" and "length (unread rest s) < n"
  shows "snd (my_b_read f s p n) \<noteq> 0"
  using assms by (simp add: my_b_read_def fetches_def unread_def)

lemma my_b_get_stream:
  assumes g: "fetches_byte rest g" and s: "reading s" and n: "unread rest s \<noteq> []"
  shows "snd (my_b_get g s) = uint (hd (unread rest s)) \<and> advanced rest s 1 (fst (my_b_get g s))
    \<and> kept s 0 0 (fst (my_b_get g s))"
proof (cases "read_pos (info s) = read_end (info s)")
  case True
  then show ?thesis
    using g s n by (simp add: my_b_get_def fetches_byte_def unread_def del: One_nat_def)
next
  case False
  then have lt: "read_pos (info s) < read_end (info s)"
    using s by (simp add: reading_def)
  have split: "bytes_at (memory s) (read_pos (info s)) (read_end (info s) - read_pos (info s))
      = memory s (read_pos (info s))
        # bytes_at (memory s) (Suc (read_pos (info s))) (read_end (info s) - Suc (read_pos (info s)))"
    using lt by (simp flip: bytes_at_Suc add: Suc_diff_Suc)
  show ?thesis
    using False lt s
    by (simp add: my_b_get_def advanced_def kept_def unread_def split reading_def my_b_tell_def)
qed

lemma my_b_get_EOF:
  assumes "fetches_byte rest g" and "reading s" and "unread rest s = []"
  shows "snd (my_b_get g s) = my_b_EOF"
proof -
  have "read_pos (info s) = read_end (info s)"
    using assms(2,3) by (simp add: unread_def reading_def)
  then show ?thesis
    using assms by (simp add: my_b_get_def fetches_byte_def unread_def)
qed

section \<open>Sequences of reads\<close>

datatype request = Read nat nat | Get

fun run_requests :: "'w transfer \<Rightarrow> ('w cached \<Rightarrow> 'w cached \<times> int) \<Rightarrow> 'w cached \<Rightarrow> request list
    \<Rightarrow> 'w cached \<times> int list" where
  "run_requests f g s [] = (s, [])"
| "run_requests f g s (Read p n # rs) =
     (case my_b_read f s p n of (s', r) \<Rightarrow> case run_requests f g s' rs of (t, out) \<Rightarrow> (t, r # out))"
| "run_requests f g s (Get # rs) =
     (case my_b_get g s of (s', r) \<Rightarrow> case run_requests f g s' rs of (t, out) \<Rightarrow> (t, r # out))"

text \<open>The same requests to a stream of bytes: the values returned, and what is put where.\<close>

fun stream_results :: "request list \<Rightarrow> 8 word list \<Rightarrow> int list" where
  "stream_results [] bs = []"
| "stream_results (Read p n # rs) bs = 0 # stream_results rs (drop n bs)"
| "stream_results (Get # rs) bs = uint (hd bs) # stream_results rs (drop 1 bs)"

fun stream_pieces :: "request list \<Rightarrow> 8 word list \<Rightarrow> (nat \<times> 8 word list) list" where
  "stream_pieces [] bs = []"
| "stream_pieces (Read p n # rs) bs = (p, take n bs) # stream_pieces rs (drop n bs)"
| "stream_pieces (Get # rs) bs = stream_pieces rs (drop 1 bs)"

fun requested :: "request list \<Rightarrow> nat" where
  "requested [] = 0"
| "requested (Read p n # rs) = n + requested rs"
| "requested (Get # rs) = 1 + requested rs"

text \<open>The bytes from \<open>p\<close> on are not the destination of a read.\<close>

fun untouched :: "nat \<Rightarrow> nat \<Rightarrow> request list \<Rightarrow> bool" where
  "untouched p n [] = True"
| "untouched p n (Read q k # rs) = (separate p n q k \<and> untouched p n rs)"
| "untouched p n (Get # rs) = untouched p n rs"

fun destinations :: "nat \<Rightarrow> nat \<Rightarrow> request list \<Rightarrow> bool" where
  "destinations b l [] = True"
| "destinations b l (Read p n # rs) = (separate p n b l \<and> untouched p n rs \<and> destinations b l rs)"
| "destinations b l (Get # rs) = destinations b l rs"

lemma separate_0 [simp]: "separate p n 0 0"
  by (simp add: separate_def)

lemma advancedD:
  assumes "advanced rest s n s'"
  shows "reading s'" "buffer (info s') = buffer (info s)" "buffer_length (info s') = buffer_length (info s)"
    "unread rest s' = drop n (unread rest s)" "my_b_tell (info s') = my_b_tell (info s) + of_nat n"
  using assms by (simp_all add: advanced_def)

lemma advanced_trans:
  "advanced rest s n t \<Longrightarrow> advanced rest t k u \<Longrightarrow> advanced rest s (n + k) u"
  by (simp add: advanced_def ac_simps)

lemma stream_pieces_length:
  "requested rs \<le> length bs \<Longrightarrow> (p, ps) \<in> set (stream_pieces rs bs) \<Longrightarrow>
   untouched q n rs \<Longrightarrow> separate q n p (length ps)"
  by (induction rs bs rule: stream_pieces.induct) (auto simp: separate_def)

lemma run_requests_stream:
  assumes "fetches rest f" and "fetches_byte rest g" and "reading s"
    and "destinations (buffer (info s)) (buffer_length (info s)) rs"
    and "requested rs \<le> length (unread rest s)"
  shows "snd (run_requests f g s rs) = stream_results rs (unread rest s)
    \<and> advanced rest s (requested rs) (fst (run_requests f g s rs))
    \<and> (\<forall>(p, bs) \<in> set (stream_pieces rs (unread rest s)).
         bytes_at (memory (fst (run_requests f g s rs))) p (length bs) = bs)
    \<and> (\<forall>p n. outside_buffer s p n \<and> untouched p n rs \<longrightarrow>
         bytes_at (memory (fst (run_requests f g s rs))) p n = bytes_at (memory s) p n)"
  using assms(3-5)
proof (induction rs arbitrary: s)
  case Nil
  then show ?case by (simp add: advanced_def)
next
  case (Cons r rs)
  show ?case
  proof (cases r)
    case (Read p n)
    obtain t v where t: "my_b_read f s p n = (t, v)" by fastforce
    have n: "outside_buffer s p n" "n \<le> length (unread rest s)"
      using Cons.prems Read by (simp_all add: outside_buffer_def)
    have step: "v = 0" "advanced rest s n t" "kept s p n t"
        "bytes_at (memory t) p n = take n (unread rest s)"
      using my_b_read_stream [OF assms(1) Cons.prems(1) n] by (simp_all add: t)
    note at = advancedD [OF step(2)]
    have IH: "reading t" "destinations (buffer (info t)) (buffer_length (info t)) rs"
        "requested rs \<le> length (unread rest t)"
      using at Cons.prems Read by auto
    note IH = Cons.IH [OF IH]
    have "outside_buffer t p n" "untouched p n rs"
      using n(1) at Cons.prems(2) Read by (simp_all add: outside_buffer_def)
    then show ?thesis
      using IH step n at(2-4) advanced_trans [OF step(2), of "requested rs"]
      by (auto simp: Read t case_prod_beta kept_def outside_buffer_def)
  next
    case Get
    obtain t v where t: "my_b_get g s = (t, v)" by fastforce
    have n: "unread rest s \<noteq> []"
      using Cons.prems Get by auto
    have step: "v = uint (hd (unread rest s))" "advanced rest s 1 t" "kept s 0 0 t"
      using my_b_get_stream [OF assms(2) Cons.prems(1) n] by (simp_all add: t)
    note at = advancedD [OF step(2)]
    have IH: "reading t" "destinations (buffer (info t)) (buffer_length (info t)) rs"
        "requested rs \<le> length (unread rest t)"
      using at Cons.prems Get by auto
    note IH = Cons.IH [OF IH]
    show ?thesis
      using IH step at(2-4) advanced_trans [OF step(2), of "requested rs"]
      by (auto simp: Get t case_prod_beta kept_def outside_buffer_def)
  qed
qed

section \<open>Writing\<close>

text \<open>\<open>flushed\<close> tells what has been written to the file; the rest of what was written is in the buffer.\<close>

definition writing :: "'w cached \<Rightarrow> bool" where
  "writing s \<longleftrightarrow> request_pos (info s) = write_buffer (info s) \<and> write_buffer (info s) \<le> write_pos (info s)
     \<and> write_pos (info s) \<le> write_end (info s)
     \<and> write_end (info s) \<le> write_buffer (info s) + buffer_length (info s)
     \<and> current_pos (info s) = Write_fields"

definition written :: "('w \<Rightarrow> 8 word list) \<Rightarrow> 'w cached \<Rightarrow> 8 word list" where
  "written flushed s = flushed (world s)
     @ bytes_at (memory s) (write_buffer (info s)) (write_pos (info s) - write_buffer (info s))"

definition outside_write_buffer :: "'w cached \<Rightarrow> nat \<Rightarrow> nat \<Rightarrow> bool" where
  "outside_write_buffer s p n \<longleftrightarrow> separate p n (write_buffer (info s)) (buffer_length (info s))"

definition appended :: "('w \<Rightarrow> 8 word list) \<Rightarrow> 'w cached \<Rightarrow> 8 word list \<Rightarrow> 'w cached \<Rightarrow> bool" where
  "appended flushed s bs s' \<longleftrightarrow> writing s' \<and> write_buffer (info s') = write_buffer (info s)
     \<and> buffer_length (info s') = buffer_length (info s) \<and> written flushed s' = written flushed s @ bs
     \<and> my_b_tell (info s') = my_b_tell (info s) + of_nat (length bs)
     \<and> (\<forall>q k. outside_write_buffer s q k \<longrightarrow> bytes_at (memory s') q k = bytes_at (memory s) q k)"

text \<open>The contract of \<open>write_function\<close>: it appends the bytes, or reports an error.\<close>

definition appends :: "('w \<Rightarrow> 8 word list) \<Rightarrow> 'w transfer \<Rightarrow> bool" where
  "appends flushed f \<longleftrightarrow> (\<forall>s p n. writing s \<and> outside_write_buffer s p n
     \<and> write_end (info s) < write_pos (info s) + n \<and> snd (f s p n) = 0
     \<longrightarrow> appended flushed s (bytes_at (memory s) p n) (fst (f s p n)))"

lemma my_b_write_stream:
  assumes f: "appends flushed f" and s: "writing s" and p: "outside_write_buffer s p n"
    and r: "snd (my_b_write f s p n) = 0"
  shows "appended flushed s (bytes_at (memory s) p n) (fst (my_b_write f s p n))"
proof (cases "write_pos (info s) + n \<le> write_end (info s)")
  case True
  let ?b = "write_buffer (info s)" and ?q = "write_pos (info s)"
  let ?m = "memcpy (memory s) ?q p n"
  have split: "bytes_at ?m ?b (?q + n - ?b) = bytes_at (memory s) ?b (?q - ?b) @ bytes_at (memory s) p n"
  proof -
    have "bytes_at ?m ?b (?q + n - ?b) = bytes_at ?m ?b (?q - ?b) @ bytes_at ?m ?q n"
      using s bytes_at_add [of ?m ?b "?q - ?b" n] by (simp add: writing_def)
    moreover have "bytes_at ?m ?b (?q - ?b) = bytes_at (memory s) ?b (?q - ?b)"
      using s unfolding memcpy_def by (intro bytes_at_put_separate) (simp add: separate_def writing_def)
    moreover have "bytes_at ?m ?q n = bytes_at (memory s) p n"
      using bytes_at_put [of "memory s" ?q "bytes_at (memory s) p n"] by (simp add: memcpy_def)
    ultimately show ?thesis by simp
  qed
  have "bytes_at ?m q k = bytes_at (memory s) q k" if "outside_write_buffer s q k" for q k
    using that s True unfolding memcpy_def
    by (intro bytes_at_put_separate) (auto simp: separate_def writing_def outside_write_buffer_def)
  then show ?thesis
    using True s
    by (simp add: my_b_write_def appended_def written_def split writing_def my_b_tell_def)
next
  case False
  then show ?thesis
    using f s p r by (simp add: my_b_write_def appends_def)
qed

text \<open>A run of writes, up to the first that reports an error.\<close>

fun run_writes :: "'w transfer \<Rightarrow> 'w cached \<Rightarrow> (nat \<times> nat) list \<Rightarrow> 'w cached \<times> int" where
  "run_writes f s [] = (s, 0)"
| "run_writes f s ((p, n) # ws) =
     (case my_b_write f s p n of (s', r) \<Rightarrow> if r \<noteq> 0 then (s', r) else run_writes f s' ws)"

lemma run_writes_stream:
  assumes "appends flushed f" and "writing s"
    and "\<forall>(p, n) \<in> set ws. outside_write_buffer s p n" and "snd (run_writes f s ws) = 0"
  shows "appended flushed s (concat (map (\<lambda>(p, n). bytes_at (memory s) p n) ws)) (fst (run_writes f s ws))"
  using assms(2-4)
proof (induction ws arbitrary: s)
  case Nil
  then show ?case by (simp add: appended_def)
next
  case (Cons a ws)
  obtain p n where a: "a = (p, n)" by fastforce
  obtain t v where t: "my_b_write f s p n = (t, v)" by fastforce
  have v: "v = 0" and rest: "snd (run_writes f t ws) = 0"
    using Cons.prems(3) by (simp_all add: a t split: if_splits)
  have st: "appended flushed s (bytes_at (memory s) p n) t"
    using my_b_write_stream [OF assms(1) Cons.prems(1), of p n] Cons.prems(2) v by (simp add: a t)
  have out: "outside_write_buffer t = outside_write_buffer s"
    using st by (simp add: fun_eq_iff outside_write_buffer_def appended_def)
  have IH: "appended flushed t (concat (map (\<lambda>(p, n). bytes_at (memory t) p n) ws)) (fst (run_writes f t ws))"
    using Cons.IH [OF _ _ rest] Cons.prems(2) st out by (simp add: appended_def)
  have eq: "map (\<lambda>(p, n). bytes_at (memory t) p n) ws = map (\<lambda>(p, n). bytes_at (memory s) p n) ws"
    using Cons.prems(2) st by (auto simp: appended_def a)
  show ?case
    using IH [unfolded eq] st v out by (simp add: appended_def a t ac_simps)
qed

section \<open>Functions that keep the contracts\<close>

text \<open>
  A cache over a file that is a list of bytes: what is missing is taken from the file, and the buffer
  is filled again as far as the file goes; a write that does not fit writes out the buffer first.
\<close>

definition refill :: "8 word list cached \<Rightarrow> 8 word list cached" where
  "refill s =
     (let c = info s; k = min (buffer_length c) (length (world s))
      in s\<lparr>memory := put_bytes (memory s) (buffer c) (take k (world s)), world := drop k (world s),
           info := c\<lparr>pos_in_file := my_b_tell c, read_pos := buffer c, read_end := buffer c + k\<rparr>\<rparr>)"

definition list_read :: "8 word list transfer" where
  "list_read s p n =
     (let c = info s; bs = unread id s
      in if length bs < n then (s, 1)
         else (refill (s\<lparr>memory := put_bytes (memory s) p (take n bs), world := drop n bs,
                         info := c\<lparr>pos_in_file := pos_in_file c + of_nat n, read_end := read_pos c\<rparr>\<rparr>), 0))"

definition list_get :: "8 word list cached \<Rightarrow> 8 word list cached \<times> int" where
  "list_get s =
     (case world s of
        [] \<Rightarrow> (s, my_b_EOF)
      | b # bs \<Rightarrow> (refill (s\<lparr>world := bs, info := (info s)\<lparr>pos_in_file := pos_in_file (info s) + 1\<rparr>\<rparr>), uint b))"

definition list_write :: "8 word list transfer" where
  "list_write s p n =
     (let c = info s
      in (s\<lparr>world := written id s @ bytes_at (memory s) p n,
            info := c\<lparr>pos_in_file := my_b_tell c + of_nat n, write_pos := write_buffer c\<rparr>\<rparr>, 0))"

lemma refill_bytes [simp]:
  "bytes_at (memory (refill s)) (buffer (info s)) (min (buffer_length (info s)) (length (world s)))
     = take (min (buffer_length (info s)) (length (world s))) (world s)"
  using bytes_at_put [of "memory s" "buffer (info s)"
      "take (min (buffer_length (info s)) (length (world s))) (world s)"]
  by (simp add: refill_def Let_def)

lemma refill_fields [simp]:
  "world (refill s) = drop (min (buffer_length (info s)) (length (world s))) (world s)"
  "buffer (info (refill s)) = buffer (info s)" "buffer_length (info (refill s)) = buffer_length (info s)"
  "request_pos (info (refill s)) = request_pos (info s)" "current_pos (info (refill s)) = current_pos (info s)"
  "read_pos (info (refill s)) = buffer (info s)"
  "read_end (info (refill s)) = buffer (info s) + min (buffer_length (info s)) (length (world s))"
  "pos_in_file (info (refill s)) = my_b_tell (info s)"
  by (simp_all add: refill_def Let_def)

lemma refill_unread [simp]: "unread id (refill s) = world s"
  by (simp add: unread_def)

lemma refill_kept:
  assumes "separate q k (buffer (info s)) (buffer_length (info s))"
  shows "bytes_at (memory (refill s)) q k = bytes_at (memory s) q k"
  using assms unfolding refill_def Let_def
  by (auto intro!: bytes_at_put_separate simp: separate_def)

lemma list_read_fetches: "fetches id list_read"
  unfolding fetches_def
proof (intro allI impI, elim conjE)
  fix s :: "8 word list cached" and p n
  assume s: "reading s" and p: "outside_buffer s p n"
  show "if n \<le> length (unread id s)
      then snd (list_read s p n) = 0 \<and> advanced id s n (fst (list_read s p n)) \<and> kept s p n (fst (list_read s p n))
        \<and> bytes_at (memory (fst (list_read s p n))) p n = take n (unread id s)
      else snd (list_read s p n) \<noteq> 0"
    using s p bytes_at_put [of "memory s" p "take n (unread id s)"]
    by (auto simp: list_read_def Let_def advanced_def reading_def my_b_tell_def kept_def outside_buffer_def
        refill_kept bytes_at_put_separate)
qed

lemma list_get_fetches: "fetches_byte id list_get"
  unfolding fetches_byte_def
proof (intro allI impI, elim conjE)
  fix s :: "8 word list cached"
  assume "reading s" and "read_pos (info s) = read_end (info s)"
  then show "if id (world s) \<noteq> []
      then snd (list_get s) = uint (hd (id (world s))) \<and> advanced id s 1 (fst (list_get s)) \<and> kept s 0 0 (fst (list_get s))
      else snd (list_get s) = my_b_EOF"
    by (cases "world s")
      (auto simp: list_get_def advanced_def reading_def my_b_tell_def kept_def refill_kept unread_def [of id s])
qed

lemma list_write_appends: "appends id list_write"
  by (auto simp: appends_def appended_def list_write_def Let_def writing_def written_def my_b_tell_def)

section \<open>The properties\<close>

text \<open>
  C19: over functions that keep their contracts, any sequence of \<open>my_b_read\<close> and
  \<open>my_b_get\<close> on a cache returns and delivers exactly the bytes of the stream behind
  it, in order and whatever the size of its buffer, and \<open>my_b_tell\<close> counts them.
\<close>

theorem cache_reads_the_stream:
  assumes "fetches rest f" and "fetches_byte rest g" and "reading s"
    and "destinations (buffer (info s)) (buffer_length (info s)) rs"
    and "requested rs \<le> length (unread rest s)"
    and "run_requests f g s rs = (s', out)"
  shows "out = stream_results rs (unread rest s)
    \<and> (\<forall>(p, bs) \<in> set (stream_pieces rs (unread rest s)). bytes_at (memory s') p (length bs) = bs)
    \<and> unread rest s' = drop (requested rs) (unread rest s)
    \<and> my_b_tell (info s') = my_b_tell (info s) + of_nat (requested rs)"
  using run_requests_stream [OF assms(1-5)] by (simp add: assms(6) advanced_def)

text \<open>A cache of three bytes on a file of six, which has been read up to its second byte.\<close>

definition sample_cache :: io_cache where
  "sample_cache = \<lparr>pos_in_file = 1, end_of_file = 6, read_pos = 100, read_end = 100, buffer = 100,
     request_pos = 100, write_buffer = 0, append_read_pos = 0, write_pos = 0, write_end = 0,
     current_pos = Read_fields, current_end = Read_fields, cache_kind = READ_CACHE, disk_writes = 0,
     seek_not_done = 0, cache_error = 0, buffer_length = 3, read_length = 3\<rparr>"

definition sample_reading :: "8 word list cached" where
  "sample_reading = \<lparr>memory = (\<lambda>a. 0), info = sample_cache, world = [72, 84, 84, 80, 10]\<rparr>"

lemma cache_reads_the_stream_witness:
  "snd (run_requests list_read list_get sample_reading [Get, Read 200 2, Get]) = [72, 0, 80]
   \<and> bytes_at (memory (fst (run_requests list_read list_get sample_reading [Get, Read 200 2, Get]))) 200 2
     = [84, 84]"
proof -
  have eq: "unread id sample_reading = [72, 84, 84, 80, 10]"
    by (simp add: unread_def sample_reading_def sample_cache_def)
  have "reading sample_reading" and "destinations (buffer (info sample_reading))
      (buffer_length (info sample_reading)) [Get, Read 200 2, Get]"
    by (simp_all add: reading_def sample_reading_def sample_cache_def separate_def)
  from cache_reads_the_stream [OF list_read_fetches list_get_fetches this _ surjective_pairing]
  show ?thesis by (simp add: eq flip: numeral_2_eq_2 del: run_requests.simps)
qed

text \<open>
  C20: over a \<open>write_function\<close> that keeps its contract, a sequence of
  \<open>my_b_write\<close> in which none reports an error appends exactly the bytes given, in
  order, to what the file and the buffer hold together; \<open>my_b_tell\<close> counts them,
  and no byte outside the buffer is changed.
\<close>

theorem cache_writes_append:
  assumes "appends flushed f" and "writing s"
    and "\<forall>(p, n) \<in> set ws. outside_write_buffer s p n"
    and "run_writes f s ws = (s', 0)"
  shows "written flushed s' = written flushed s @ concat (map (\<lambda>(p, n). bytes_at (memory s) p n) ws)
    \<and> my_b_tell (info s') = my_b_tell (info s) + of_nat (sum_list (map snd ws))
    \<and> (\<forall>q k. outside_write_buffer s q k \<longrightarrow> bytes_at (memory s') q k = bytes_at (memory s) q k)"
proof -
  have "length (concat (map (\<lambda>(p, n). bytes_at (memory s) p n) ws)) = sum_list (map snd ws)"
    by (induction ws) auto
  then show ?thesis
    using run_writes_stream [OF assms(1-3)] by (simp add: assms(4) appended_def)
qed

definition sample_writing :: "8 word list cached" where
  "sample_writing = \<lparr>memory = (\<lambda>a. 0)(200 := 79, 201 := 75, 300 := 10),
     info = sample_cache\<lparr>request_pos := 50, write_buffer := 50, write_pos := 51, write_end := 53,
       current_pos := Write_fields, current_end := Write_fields\<rparr>, world = [33]\<rparr>"

lemma cache_writes_append_witness:
  "written id (fst (run_writes list_write sample_writing [(200, 2), (300, 1)])) = [33, 0, 79, 75, 10]"
proof -
  have eq: "written id sample_writing = [33, 0]"
    by (simp add: written_def sample_writing_def sample_cache_def bytes_at_Suc)
  have data: "bytes_at (memory sample_writing) 200 2 = [79, 75]" "bytes_at (memory sample_writing) 300 1 = [10]"
    by (simp_all add: sample_writing_def bytes_at_Suc numeral_2_eq_2)
  have w: "writing sample_writing"
    and out: "\<forall>(p, n) \<in> set [(200, 2), (300, 1)]. outside_write_buffer sample_writing p n"
    by (simp_all add: writing_def outside_write_buffer_def separate_def sample_writing_def sample_cache_def)
  have run: "run_writes list_write sample_writing [(200, 2), (300, 1)]
      = (fst (run_writes list_write sample_writing [(200, 2), (300, 1)]), 0)"
    by (simp add: case_prod_beta my_b_write_def list_write_def Let_def sample_writing_def sample_cache_def)
  show ?thesis
    using cache_writes_append [OF list_write_appends w out run] data
    by (simp add: eq del: run_writes.simps)
qed

end
