(* ===== verification/MysqlFlags.thy ===== *)
theory MysqlFlags
  imports MysqlBytes
begin

text \<open>
  Sets of flags: words in which each flag is a bit of its own, and the flags of a list joined. The
  constants of \<open>mysql_com.h\<close> and \<open>m_ctype.h\<close> are such sets.
\<close>

text \<open>No flag of the list has a bit in common with \<open>acc\<close> or with another flag of the list.\<close>

fun disjoint_flags :: "('f \<Rightarrow> 'a::len word) \<Rightarrow> 'a word \<Rightarrow> 'f list \<Rightarrow> bool" where
  "disjoint_flags val acc [] = True"
| "disjoint_flags val acc (f # fs) = (val f \<noteq> 0 \<and> acc AND val f = 0 \<and> disjoint_flags val (acc OR val f) fs)"

lemma and_or_eq_0: "(a OR b) AND c = 0 \<longleftrightarrow> a AND c = 0 \<and> b AND c = (0 :: 'a::len word)"
  by (auto simp: bit_eq_iff bit_simps)

lemma disjoint_flags_acc: "disjoint_flags val acc fs \<Longrightarrow> f \<in> set fs \<Longrightarrow> acc AND val f = 0"
proof (induction fs arbitrary: acc)
  case (Cons a fs)
  show ?case
  proof (cases "f = a")
    case False
    then have "(acc OR val a) AND val f = 0"
      using Cons by (intro Cons.IH) simp_all
    then show ?thesis by (simp only: and_or_eq_0)
  qed (use Cons.prems in simp)
qed simp

lemma disjoint_flags_pairwise:
  assumes "disjoint_flags val acc fs" and "f \<in> set fs" and "g \<in> set fs"
  shows "val f AND val g \<noteq> 0 \<longleftrightarrow> f = g"
  using assms
proof (induction fs arbitrary: acc)
  case (Cons h fs)
  have "val h AND val x = 0" if "x \<in> set fs" for x
    using disjoint_flags_acc [of val "acc OR val h" fs x] Cons.prems(1) that by (simp add: and_or_eq_0)
  moreover have "val f \<noteq> 0"
    using Cons.prems(1,2) by (induction fs arbitrary: acc h) auto
  ultimately show ?case
    using Cons by (auto simp: and.commute)
qed simp

text \<open>The flags of a list, joined.\<close>

definition all_flags :: "('f \<Rightarrow> 'a::len word) \<Rightarrow> 'f list \<Rightarrow> 'a word" where
  "all_flags val fs = foldr (\<lambda>f w. val f OR w) fs 0"

lemma all_flags_simps [simp]:
  "all_flags val [] = 0" "all_flags val (f # fs) = val f OR all_flags val fs"
  by (simp_all add: all_flags_def)

lemma all_flags_contains: "f \<in> set fs \<Longrightarrow> val f AND all_flags val fs = val f"
  by (induction fs) (auto simp: bit_eq_iff bit_simps)

lemma all_flags_excludes:
  "\<forall>g \<in> set fs. val f AND val g = 0 \<Longrightarrow> val f AND all_flags val fs = 0"
  by (induction fs) (auto simp: bit_eq_iff bit_simps)

end
