(* ===== verification/MysqlProtocol.thy ===== *)
theory MysqlProtocol
  imports MysqlFlags
begin

text \<open>
  The constants of the protocol between client and server, \<open>mysql_com.h\<close>, with the macros of \<open>mysql.h\<close>
  that test them: commands, flags of a field, refreshes, capabilities of a client, the status the
  server reports, the types of fields. A set of flags is a word in which no two flags share a bit; the
  one exception is shown.
\<close>

section \<open>mysql\_com.h\<close>

text \<open>The commands, numbered from 0.\<close>

datatype enum_server_command = COM_SLEEP | COM_QUIT | COM_INIT_DB | COM_QUERY | COM_FIELD_LIST
  | COM_CREATE_DB | COM_DROP_DB | COM_REFRESH | COM_SHUTDOWN | COM_STATISTICS | COM_PROCESS_INFO
  | COM_CONNECT | COM_PROCESS_KILL | COM_DEBUG | COM_PING | COM_TIME | COM_DELAYED_INSERT
  | COM_CHANGE_USER | COM_BINLOG_DUMP | COM_TABLE_DUMP | COM_CONNECT_OUT | COM_REGISTER_SLAVE
  | COM_STMT_PREPARE | COM_STMT_EXECUTE | COM_STMT_SEND_LONG_DATA | COM_STMT_CLOSE | COM_STMT_RESET
  | COM_SET_OPTION | COM_STMT_FETCH | COM_DAEMON | COM_BINLOG_DUMP_GTID | COM_RESET_CONNECTION
  | COM_END

fun server_command_number :: "enum_server_command \<Rightarrow> int" where
  "server_command_number COM_SLEEP = 0"
| "server_command_number COM_QUIT = 1"
| "server_command_number COM_INIT_DB = 2"
| "server_command_number COM_QUERY = 3"
| "server_command_number COM_FIELD_LIST = 4"
| "server_command_number COM_CREATE_DB = 5"
| "server_command_number COM_DROP_DB = 6"
| "server_command_number COM_REFRESH = 7"
| "server_command_number COM_SHUTDOWN = 8"
| "server_command_number COM_STATISTICS = 9"
| "server_command_number COM_PROCESS_INFO = 10"
| "server_command_number COM_CONNECT = 11"
| "server_command_number COM_PROCESS_KILL = 12"
| "server_command_number COM_DEBUG = 13"
| "server_command_number COM_PING = 14"
| "server_command_number COM_TIME = 15"
| "server_command_number COM_DELAYED_INSERT = 16"
| "server_command_number COM_CHANGE_USER = 17"
| "server_command_number COM_BINLOG_DUMP = 18"
| "server_command_number COM_TABLE_DUMP = 19"
| "server_command_number COM_CONNECT_OUT = 20"
| "server_command_number COM_REGISTER_SLAVE = 21"
| "server_command_number COM_STMT_PREPARE = 22"
| "server_command_number COM_STMT_EXECUTE = 23"
| "server_command_number COM_STMT_SEND_LONG_DATA = 24"
| "server_command_number COM_STMT_CLOSE = 25"
| "server_command_number COM_STMT_RESET = 26"
| "server_command_number COM_SET_OPTION = 27"
| "server_command_number COM_STMT_FETCH = 28"
| "server_command_number COM_DAEMON = 29"
| "server_command_number COM_BINLOG_DUMP_GTID = 30"
| "server_command_number COM_RESET_CONNECTION = 31"
| "server_command_number COM_END = 32"

text \<open>The flags of a field.\<close>

datatype field_flag = NOT_NULL_FLAG | PRI_KEY_FLAG | UNIQUE_KEY_FLAG | MULTIPLE_KEY_FLAG | BLOB_FLAG
  | UNSIGNED_FLAG | ZEROFILL_FLAG | BINARY_FLAG | ENUM_FLAG | AUTO_INCREMENT_FLAG | TIMESTAMP_FLAG
  | SET_FLAG | NO_DEFAULT_VALUE_FLAG | ON_UPDATE_NOW_FLAG | NUM_FLAG | PART_KEY_FLAG | GROUP_FLAG
  | UNIQUE_FLAG | BINCMP_FLAG | GET_FIXED_FIELDS_FLAG | FIELD_IN_PART_FUNC_FLAG | FIELD_IN_ADD_INDEX
  | FIELD_IS_RENAMED | FIELD_IS_DROPPED | EXPLICIT_NULL_FLAG

fun field_flag_value :: "field_flag \<Rightarrow> 32 word" where
  "field_flag_value NOT_NULL_FLAG = 1"
| "field_flag_value PRI_KEY_FLAG = 2"
| "field_flag_value UNIQUE_KEY_FLAG = 4"
| "field_flag_value MULTIPLE_KEY_FLAG = 8"
| "field_flag_value BLOB_FLAG = 16"
| "field_flag_value UNSIGNED_FLAG = 32"
| "field_flag_value ZEROFILL_FLAG = 64"
| "field_flag_value BINARY_FLAG = 128"
| "field_flag_value ENUM_FLAG = 256"
| "field_flag_value AUTO_INCREMENT_FLAG = 512"
| "field_flag_value TIMESTAMP_FLAG = 1024"
| "field_flag_value SET_FLAG = 2048"
| "field_flag_value NO_DEFAULT_VALUE_FLAG = 4096"
| "field_flag_value ON_UPDATE_NOW_FLAG = 8192"
| "field_flag_value NUM_FLAG = 32768"
| "field_flag_value PART_KEY_FLAG = 16384"
| "field_flag_value GROUP_FLAG = 32768"
| "field_flag_value UNIQUE_FLAG = 65536"
| "field_flag_value BINCMP_FLAG = 131072"
| "field_flag_value GET_FIXED_FIELDS_FLAG = 2 ^ 18"
| "field_flag_value FIELD_IN_PART_FUNC_FLAG = 2 ^ 19"
| "field_flag_value FIELD_IN_ADD_INDEX = 2 ^ 20"
| "field_flag_value FIELD_IS_RENAMED = 2 ^ 21"
| "field_flag_value FIELD_IS_DROPPED = 2 ^ 26"
| "field_flag_value EXPLICIT_NULL_FLAG = 2 ^ 27"

text \<open>What a refresh renews.\<close>

datatype refresh_flag = REFRESH_GRANT | REFRESH_LOG | REFRESH_TABLES | REFRESH_HOSTS
  | REFRESH_STATUS | REFRESH_THREADS | REFRESH_SLAVE | REFRESH_MASTER | REFRESH_ERROR_LOG
  | REFRESH_ENGINE_LOG | REFRESH_BINARY_LOG | REFRESH_RELAY_LOG | REFRESH_GENERAL_LOG
  | REFRESH_SLOW_LOG | REFRESH_READ_LOCK | REFRESH_FAST | REFRESH_QUERY_CACHE
  | REFRESH_QUERY_CACHE_FREE | REFRESH_DES_KEY_FILE | REFRESH_USER_RESOURCES | REFRESH_FOR_EXPORT
  | REFRESH_OPTIMIZER_COSTS

fun refresh_flag_value :: "refresh_flag \<Rightarrow> 32 word" where
  "refresh_flag_value REFRESH_GRANT = 1"
| "refresh_flag_value REFRESH_LOG = 2"
| "refresh_flag_value REFRESH_TABLES = 4"
| "refresh_flag_value REFRESH_HOSTS = 8"
| "refresh_flag_value REFRESH_STATUS = 16"
| "refresh_flag_value REFRESH_THREADS = 32"
| "refresh_flag_value REFRESH_SLAVE = 64"
| "refresh_flag_value REFRESH_MASTER = 128"
| "refresh_flag_value REFRESH_ERROR_LOG = 256"
| "refresh_flag_value REFRESH_ENGINE_LOG = 512"
| "refresh_flag_value REFRESH_BINARY_LOG = 1024"
| "refresh_flag_value REFRESH_RELAY_LOG = 2048"
| "refresh_flag_value REFRESH_GENERAL_LOG = 4096"
| "refresh_flag_value REFRESH_SLOW_LOG = 8192"
| "refresh_flag_value REFRESH_READ_LOCK = 16384"
| "refresh_flag_value REFRESH_FAST = 32768"
| "refresh_flag_value REFRESH_QUERY_CACHE = 65536"
| "refresh_flag_value REFRESH_QUERY_CACHE_FREE = 0x20000"
| "refresh_flag_value REFRESH_DES_KEY_FILE = 0x40000"
| "refresh_flag_value REFRESH_USER_RESOURCES = 0x80000"
| "refresh_flag_value REFRESH_FOR_EXPORT = 0x100000"
| "refresh_flag_value REFRESH_OPTIMIZER_COSTS = 0x200000"

text \<open>The capabilities of a client.\<close>

datatype client_flag = CLIENT_LONG_PASSWORD | CLIENT_FOUND_ROWS | CLIENT_LONG_FLAG
  | CLIENT_CONNECT_WITH_DB | CLIENT_NO_SCHEMA | CLIENT_COMPRESS | CLIENT_ODBC | CLIENT_LOCAL_FILES
  | CLIENT_IGNORE_SPACE | CLIENT_PROTOCOL_41 | CLIENT_INTERACTIVE | CLIENT_SSL
  | CLIENT_IGNORE_SIGPIPE | CLIENT_TRANSACTIONS | CLIENT_RESERVED | CLIENT_RESERVED2
  | CLIENT_MULTI_STATEMENTS | CLIENT_MULTI_RESULTS | CLIENT_PS_MULTI_RESULTS | CLIENT_PLUGIN_AUTH
  | CLIENT_CONNECT_ATTRS | CLIENT_PLUGIN_AUTH_LENENC_CLIENT_DATA
  | CLIENT_CAN_HANDLE_EXPIRED_PASSWORDS | CLIENT_SESSION_TRACK | CLIENT_DEPRECATE_EOF
  | CLIENT_SSL_VERIFY_SERVER_CERT | CLIENT_REMEMBER_OPTIONS

fun client_flag_value :: "client_flag \<Rightarrow> 64 word" where
  "client_flag_value CLIENT_LONG_PASSWORD = 1"
| "client_flag_value CLIENT_FOUND_ROWS = 2"
| "client_flag_value CLIENT_LONG_FLAG = 4"
| "client_flag_value CLIENT_CONNECT_WITH_DB = 8"
| "client_flag_value CLIENT_NO_SCHEMA = 16"
| "client_flag_value CLIENT_COMPRESS = 32"
| "client_flag_value CLIENT_ODBC = 64"
| "client_flag_value CLIENT_LOCAL_FILES = 128"
| "client_flag_value CLIENT_IGNORE_SPACE = 256"
| "client_flag_value CLIENT_PROTOCOL_41 = 512"
| "client_flag_value CLIENT_INTERACTIVE = 1024"
| "client_flag_value CLIENT_SSL = 2048"
| "client_flag_value CLIENT_IGNORE_SIGPIPE = 4096"
| "client_flag_value CLIENT_TRANSACTIONS = 8192"
| "client_flag_value CLIENT_RESERVED = 16384"
| "client_flag_value CLIENT_RESERVED2 = 32768"
| "client_flag_value CLIENT_MULTI_STATEMENTS = 2 ^ 16"
| "client_flag_value CLIENT_MULTI_RESULTS = 2 ^ 17"
| "client_flag_value CLIENT_PS_MULTI_RESULTS = 2 ^ 18"
| "client_flag_value CLIENT_PLUGIN_AUTH = 2 ^ 19"
| "client_flag_value CLIENT_CONNECT_ATTRS = 2 ^ 20"
| "client_flag_value CLIENT_PLUGIN_AUTH_LENENC_CLIENT_DATA = 2 ^ 21"
| "client_flag_value CLIENT_CAN_HANDLE_EXPIRED_PASSWORDS = 2 ^ 22"
| "client_flag_value CLIENT_SESSION_TRACK = 2 ^ 23"
| "client_flag_value CLIENT_DEPRECATE_EOF = 2 ^ 24"
| "client_flag_value CLIENT_SSL_VERIFY_SERVER_CERT = 2 ^ 30"
| "client_flag_value CLIENT_REMEMBER_OPTIONS = 2 ^ 31"

definition CLIENT_ALL_FLAGS :: "64 word" where
  "CLIENT_ALL_FLAGS = all_flags client_flag_value
    [CLIENT_LONG_PASSWORD, CLIENT_FOUND_ROWS, CLIENT_LONG_FLAG, CLIENT_CONNECT_WITH_DB
     , CLIENT_NO_SCHEMA, CLIENT_COMPRESS, CLIENT_ODBC, CLIENT_LOCAL_FILES, CLIENT_IGNORE_SPACE
     , CLIENT_PROTOCOL_41, CLIENT_INTERACTIVE, CLIENT_SSL, CLIENT_IGNORE_SIGPIPE
     , CLIENT_TRANSACTIONS, CLIENT_RESERVED, CLIENT_RESERVED2, CLIENT_MULTI_STATEMENTS
     , CLIENT_MULTI_RESULTS, CLIENT_PS_MULTI_RESULTS, CLIENT_SSL_VERIFY_SERVER_CERT
     , CLIENT_REMEMBER_OPTIONS, CLIENT_PLUGIN_AUTH, CLIENT_CONNECT_ATTRS
     , CLIENT_PLUGIN_AUTH_LENENC_CLIENT_DATA, CLIENT_CAN_HANDLE_EXPIRED_PASSWORDS
     , CLIENT_SESSION_TRACK, CLIENT_DEPRECATE_EOF]"

definition CLIENT_BASIC_FLAGS :: "64 word" where
  "CLIENT_BASIC_FLAGS = CLIENT_ALL_FLAGS AND NOT (client_flag_value CLIENT_SSL)
     AND NOT (client_flag_value CLIENT_COMPRESS) AND NOT (client_flag_value CLIENT_SSL_VERIFY_SERVER_CERT)"

text \<open>The status that the server reports.\<close>

datatype server_status = SERVER_STATUS_IN_TRANS | SERVER_STATUS_AUTOCOMMIT
  | SERVER_MORE_RESULTS_EXISTS | SERVER_QUERY_NO_GOOD_INDEX_USED | SERVER_QUERY_NO_INDEX_USED
  | SERVER_STATUS_CURSOR_EXISTS | SERVER_STATUS_LAST_ROW_SENT | SERVER_STATUS_DB_DROPPED
  | SERVER_STATUS_NO_BACKSLASH_ESCAPES | SERVER_STATUS_METADATA_CHANGED | SERVER_QUERY_WAS_SLOW
  | SERVER_PS_OUT_PARAMS | SERVER_STATUS_IN_TRANS_READONLY | SERVER_SESSION_STATE_CHANGED

fun server_status_value :: "server_status \<Rightarrow> 32 word" where
  "server_status_value SERVER_STATUS_IN_TRANS = 1"
| "server_status_value SERVER_STATUS_AUTOCOMMIT = 2"
| "server_status_value SERVER_MORE_RESULTS_EXISTS = 8"
| "server_status_value SERVER_QUERY_NO_GOOD_INDEX_USED = 16"
| "server_status_value SERVER_QUERY_NO_INDEX_USED = 32"
| "server_status_value SERVER_STATUS_CURSOR_EXISTS = 64"
| "server_status_value SERVER_STATUS_LAST_ROW_SENT = 128"
| "server_status_value SERVER_STATUS_DB_DROPPED = 256"
| "server_status_value SERVER_STATUS_NO_BACKSLASH_ESCAPES = 512"
| "server_status_value SERVER_STATUS_METADATA_CHANGED = 1024"
| "server_status_value SERVER_QUERY_WAS_SLOW = 2048"
| "server_status_value SERVER_PS_OUT_PARAMS = 4096"
| "server_status_value SERVER_STATUS_IN_TRANS_READONLY = 8192"
| "server_status_value SERVER_SESSION_STATE_CHANGED = 2 ^ 14"

definition SERVER_STATUS_CLEAR_SET :: "32 word" where
  "SERVER_STATUS_CLEAR_SET = all_flags server_status_value
    [SERVER_QUERY_NO_GOOD_INDEX_USED, SERVER_QUERY_NO_INDEX_USED, SERVER_MORE_RESULTS_EXISTS
     , SERVER_STATUS_METADATA_CHANGED, SERVER_QUERY_WAS_SLOW, SERVER_STATUS_DB_DROPPED
     , SERVER_STATUS_CURSOR_EXISTS, SERVER_STATUS_LAST_ROW_SENT, SERVER_SESSION_STATE_CHANGED]"

text \<open>The types of fields.\<close>

datatype enum_field_types = MYSQL_TYPE_DECIMAL | MYSQL_TYPE_TINY | MYSQL_TYPE_SHORT
  | MYSQL_TYPE_LONG | MYSQL_TYPE_FLOAT | MYSQL_TYPE_DOUBLE | MYSQL_TYPE_NULL | MYSQL_TYPE_TIMESTAMP
  | MYSQL_TYPE_LONGLONG | MYSQL_TYPE_INT24 | MYSQL_TYPE_DATE | MYSQL_TYPE_TIME | MYSQL_TYPE_DATETIME
  | MYSQL_TYPE_YEAR | MYSQL_TYPE_NEWDATE | MYSQL_TYPE_VARCHAR | MYSQL_TYPE_BIT
  | MYSQL_TYPE_TIMESTAMP2 | MYSQL_TYPE_DATETIME2 | MYSQL_TYPE_TIME2 | MYSQL_TYPE_NEWDECIMAL
  | MYSQL_TYPE_ENUM | MYSQL_TYPE_SET | MYSQL_TYPE_TINY_BLOB | MYSQL_TYPE_MEDIUM_BLOB
  | MYSQL_TYPE_LONG_BLOB | MYSQL_TYPE_BLOB | MYSQL_TYPE_VAR_STRING | MYSQL_TYPE_STRING
  | MYSQL_TYPE_GEOMETRY

fun field_type_number :: "enum_field_types \<Rightarrow> int" where
  "field_type_number MYSQL_TYPE_DECIMAL = 0"
| "field_type_number MYSQL_TYPE_TINY = 1"
| "field_type_number MYSQL_TYPE_SHORT = 2"
| "field_type_number MYSQL_TYPE_LONG = 3"
| "field_type_number MYSQL_TYPE_FLOAT = 4"
| "field_type_number MYSQL_TYPE_DOUBLE = 5"
| "field_type_number MYSQL_TYPE_NULL = 6"
| "field_type_number MYSQL_TYPE_TIMESTAMP = 7"
| "field_type_number MYSQL_TYPE_LONGLONG = 8"
| "field_type_number MYSQL_TYPE_INT24 = 9"
| "field_type_number MYSQL_TYPE_DATE = 10"
| "field_type_number MYSQL_TYPE_TIME = 11"
| "field_type_number MYSQL_TYPE_DATETIME = 12"
| "field_type_number MYSQL_TYPE_YEAR = 13"
| "field_type_number MYSQL_TYPE_NEWDATE = 14"
| "field_type_number MYSQL_TYPE_VARCHAR = 15"
| "field_type_number MYSQL_TYPE_BIT = 16"
| "field_type_number MYSQL_TYPE_TIMESTAMP2 = 17"
| "field_type_number MYSQL_TYPE_DATETIME2 = 18"
| "field_type_number MYSQL_TYPE_TIME2 = 19"
| "field_type_number MYSQL_TYPE_NEWDECIMAL = 246"
| "field_type_number MYSQL_TYPE_ENUM = 247"
| "field_type_number MYSQL_TYPE_SET = 248"
| "field_type_number MYSQL_TYPE_TINY_BLOB = 249"
| "field_type_number MYSQL_TYPE_MEDIUM_BLOB = 250"
| "field_type_number MYSQL_TYPE_LONG_BLOB = 251"
| "field_type_number MYSQL_TYPE_BLOB = 252"
| "field_type_number MYSQL_TYPE_VAR_STRING = 253"
| "field_type_number MYSQL_TYPE_STRING = 254"
| "field_type_number MYSQL_TYPE_GEOMETRY = 255"

text \<open>The kinds of cursors.\<close>

datatype enum_cursor_type = CURSOR_TYPE_NO_CURSOR | CURSOR_TYPE_READ_ONLY | CURSOR_TYPE_FOR_UPDATE
  | CURSOR_TYPE_SCROLLABLE

fun cursor_type_number :: "enum_cursor_type \<Rightarrow> int" where
  "cursor_type_number CURSOR_TYPE_NO_CURSOR = 0"
| "cursor_type_number CURSOR_TYPE_READ_ONLY = 1"
| "cursor_type_number CURSOR_TYPE_FOR_UPDATE = 2"
| "cursor_type_number CURSOR_TYPE_SCROLLABLE = 4"

text \<open>What a change of the session state is about.\<close>

datatype enum_session_state_type = SESSION_TRACK_SYSTEM_VARIABLES | SESSION_TRACK_SCHEMA
  | SESSION_TRACK_STATE_CHANGE

fun session_state_number :: "enum_session_state_type \<Rightarrow> int" where
  "session_state_number SESSION_TRACK_SYSTEM_VARIABLES = 0"
| "session_state_number SESSION_TRACK_SCHEMA = 1"
| "session_state_number SESSION_TRACK_STATE_CHANGE = 2"

definition FIELD_FLAGS_STORAGE_MEDIA :: nat where
  "FIELD_FLAGS_STORAGE_MEDIA = 22"

definition FIELD_FLAGS_STORAGE_MEDIA_MASK :: "32 word" where
  "FIELD_FLAGS_STORAGE_MEDIA_MASK = push_bit FIELD_FLAGS_STORAGE_MEDIA 3"

definition FIELD_FLAGS_COLUMN_FORMAT :: nat where
  "FIELD_FLAGS_COLUMN_FORMAT = 24"

definition FIELD_FLAGS_COLUMN_FORMAT_MASK :: "32 word" where
  "FIELD_FLAGS_COLUMN_FORMAT_MASK = push_bit FIELD_FLAGS_COLUMN_FORMAT 3"

definition MAX_PACKET_LENGTH :: "64 word" where
  "MAX_PACKET_LENGTH = 256 * 256 * 256 - 1"

definition HOSTNAME_LENGTH :: nat where "HOSTNAME_LENGTH = 60"
definition SYSTEM_CHARSET_MBMAXLEN :: nat where "SYSTEM_CHARSET_MBMAXLEN = 3"
definition USERNAME_CHAR_LENGTH :: nat where "USERNAME_CHAR_LENGTH = 16"

definition USERNAME_LENGTH :: nat where
  "USERNAME_LENGTH = USERNAME_CHAR_LENGTH * SYSTEM_CHARSET_MBMAXLEN"

definition USER_HOST_BUFF_SIZE :: nat where
  "USER_HOST_BUFF_SIZE = HOSTNAME_LENGTH + USERNAME_LENGTH + 2"

text \<open>The widest values without sign, by the type of the column.\<close>

definition MAX_TINYINT_WIDTH :: nat where "MAX_TINYINT_WIDTH = 3"
definition MAX_SMALLINT_WIDTH :: nat where "MAX_SMALLINT_WIDTH = 5"
definition MAX_MEDIUMINT_WIDTH :: nat where "MAX_MEDIUMINT_WIDTH = 8"
definition MAX_INT_WIDTH :: nat where "MAX_INT_WIDTH = 10"
definition MAX_BIGINT_WIDTH :: nat where "MAX_BIGINT_WIDTH = 20"

definition IS_SESSION_STATE_TYPE :: "int \<Rightarrow> bool" where
  "IS_SESSION_STATE_TYPE T \<longleftrightarrow> session_state_number SESSION_TRACK_SYSTEM_VARIABLES \<le> T
     \<and> T \<le> session_state_number SESSION_TRACK_STATE_CHANGE"

section \<open>mysql.h\<close>

definition IS_PRI_KEY :: "32 word \<Rightarrow> bool" where
  "IS_PRI_KEY n \<longleftrightarrow> n AND field_flag_value PRI_KEY_FLAG \<noteq> 0"

definition IS_NOT_NULL :: "32 word \<Rightarrow> bool" where
  "IS_NOT_NULL n \<longleftrightarrow> n AND field_flag_value NOT_NULL_FLAG \<noteq> 0"

definition IS_BLOB :: "32 word \<Rightarrow> bool" where
  "IS_BLOB n \<longleftrightarrow> n AND field_flag_value BLOB_FLAG \<noteq> 0"

definition IS_NUM :: "int \<Rightarrow> bool" where
  "IS_NUM t \<longleftrightarrow> (t \<le> field_type_number MYSQL_TYPE_INT24 \<and> t \<noteq> field_type_number MYSQL_TYPE_TIMESTAMP)
     \<or> t = field_type_number MYSQL_TYPE_YEAR \<or> t = field_type_number MYSQL_TYPE_NEWDECIMAL"

definition IS_LONGDATA :: "int \<Rightarrow> bool" where
  "IS_LONGDATA t \<longleftrightarrow> field_type_number MYSQL_TYPE_TINY_BLOB \<le> t \<and> t \<le> field_type_number MYSQL_TYPE_STRING"

section \<open>The flags of the protocol\<close>

definition client_flags :: "client_flag list" where
  "client_flags = [CLIENT_LONG_PASSWORD, CLIENT_FOUND_ROWS, CLIENT_LONG_FLAG, CLIENT_CONNECT_WITH_DB,
     CLIENT_NO_SCHEMA, CLIENT_COMPRESS, CLIENT_ODBC, CLIENT_LOCAL_FILES, CLIENT_IGNORE_SPACE,
     CLIENT_PROTOCOL_41, CLIENT_INTERACTIVE, CLIENT_SSL, CLIENT_IGNORE_SIGPIPE, CLIENT_TRANSACTIONS,
     CLIENT_RESERVED, CLIENT_RESERVED2, CLIENT_MULTI_STATEMENTS, CLIENT_MULTI_RESULTS,
     CLIENT_PS_MULTI_RESULTS, CLIENT_SSL_VERIFY_SERVER_CERT, CLIENT_REMEMBER_OPTIONS, CLIENT_PLUGIN_AUTH,
     CLIENT_CONNECT_ATTRS, CLIENT_PLUGIN_AUTH_LENENC_CLIENT_DATA, CLIENT_CAN_HANDLE_EXPIRED_PASSWORDS,
     CLIENT_SESSION_TRACK, CLIENT_DEPRECATE_EOF]"

lemma CLIENT_ALL_FLAGS_list: "CLIENT_ALL_FLAGS = all_flags client_flag_value client_flags"
  by (simp add: CLIENT_ALL_FLAGS_def client_flags_def)

lemma client_flags_all: "f \<in> set client_flags"
  by (cases f) (simp_all add: client_flags_def)

lemma client_flags_disjoint: "client_flag_value f AND client_flag_value g \<noteq> 0 \<longleftrightarrow> f = g"
proof -
  have "disjoint_flags client_flag_value 0 client_flags"
    by (simp add: client_flags_def)
  then show ?thesis
    by (rule disjoint_flags_pairwise [OF _ client_flags_all client_flags_all])
qed

lemma without_flag:
  "client_flag_value h AND NOT (client_flag_value g) = (if h = g then 0 else client_flag_value h)"
proof (cases "h = g")
  case False
  have "a AND NOT b = a" if "a AND b = 0" for a b :: "64 word"
    using that by (auto simp: bit_eq_iff bit_simps)
  then show ?thesis
    using False client_flags_disjoint [of h g] by simp
qed simp

definition refresh_flags :: "refresh_flag list" where
  "refresh_flags = [REFRESH_GRANT, REFRESH_LOG, REFRESH_TABLES, REFRESH_HOSTS, REFRESH_STATUS,
     REFRESH_THREADS, REFRESH_SLAVE, REFRESH_MASTER, REFRESH_ERROR_LOG, REFRESH_ENGINE_LOG,
     REFRESH_BINARY_LOG, REFRESH_RELAY_LOG, REFRESH_GENERAL_LOG, REFRESH_SLOW_LOG, REFRESH_READ_LOCK,
     REFRESH_FAST, REFRESH_QUERY_CACHE, REFRESH_QUERY_CACHE_FREE, REFRESH_DES_KEY_FILE,
     REFRESH_USER_RESOURCES, REFRESH_FOR_EXPORT, REFRESH_OPTIMIZER_COSTS]"

lemma refresh_flags_disjoint: "refresh_flag_value f AND refresh_flag_value g \<noteq> 0 \<longleftrightarrow> f = g"
proof -
  have all: "h \<in> set refresh_flags" for h
    by (cases h) (simp_all add: refresh_flags_def)
  have "disjoint_flags refresh_flag_value 0 refresh_flags"
    by (simp add: refresh_flags_def)
  then show ?thesis
    by (rule disjoint_flags_pairwise [OF _ all all])
qed

definition server_states :: "server_status list" where
  "server_states = [SERVER_STATUS_IN_TRANS, SERVER_STATUS_AUTOCOMMIT, SERVER_MORE_RESULTS_EXISTS,
     SERVER_QUERY_NO_GOOD_INDEX_USED, SERVER_QUERY_NO_INDEX_USED, SERVER_STATUS_CURSOR_EXISTS,
     SERVER_STATUS_LAST_ROW_SENT, SERVER_STATUS_DB_DROPPED, SERVER_STATUS_NO_BACKSLASH_ESCAPES,
     SERVER_STATUS_METADATA_CHANGED, SERVER_QUERY_WAS_SLOW, SERVER_PS_OUT_PARAMS,
     SERVER_STATUS_IN_TRANS_READONLY, SERVER_SESSION_STATE_CHANGED]"

lemma server_states_all: "f \<in> set server_states"
  by (cases f) (simp_all add: server_states_def)

lemma server_status_disjoint: "server_status_value f AND server_status_value g \<noteq> 0 \<longleftrightarrow> f = g"
proof -
  have "disjoint_flags server_status_value 0 server_states"
    by (simp add: server_states_def)
  then show ?thesis
    by (rule disjoint_flags_pairwise [OF _ server_states_all server_states_all])
qed

text \<open>The client's word for a field is its set of flags; only two of them are the same bit.\<close>

definition field_flags :: "field_flag list" where
  "field_flags = [NOT_NULL_FLAG, PRI_KEY_FLAG, UNIQUE_KEY_FLAG, MULTIPLE_KEY_FLAG, BLOB_FLAG, UNSIGNED_FLAG,
     ZEROFILL_FLAG, BINARY_FLAG, ENUM_FLAG, AUTO_INCREMENT_FLAG, TIMESTAMP_FLAG, SET_FLAG,
     NO_DEFAULT_VALUE_FLAG, ON_UPDATE_NOW_FLAG, NUM_FLAG, PART_KEY_FLAG, UNIQUE_FLAG, BINCMP_FLAG,
     GET_FIXED_FIELDS_FLAG, FIELD_IN_PART_FUNC_FLAG, FIELD_IN_ADD_INDEX, FIELD_IS_RENAMED,
     FIELD_IS_DROPPED, EXPLICIT_NULL_FLAG]"

lemma field_flags_disjoint:
  "field_flag_value f AND field_flag_value g \<noteq> 0 \<longleftrightarrow>
     f = g \<or> {f, g} = {NUM_FLAG, GROUP_FLAG}"
proof -
  let ?n = "\<lambda>f. if f = GROUP_FLAG then NUM_FLAG else f"
  have all: "?n h \<in> set field_flags" for h
    by (cases h) (simp_all add: field_flags_def)
  have "disjoint_flags field_flag_value
      (FIELD_FLAGS_STORAGE_MEDIA_MASK OR FIELD_FLAGS_COLUMN_FORMAT_MASK) field_flags"
    by (simp add: field_flags_def FIELD_FLAGS_STORAGE_MEDIA_MASK_def FIELD_FLAGS_STORAGE_MEDIA_def
        FIELD_FLAGS_COLUMN_FORMAT_MASK_def FIELD_FLAGS_COLUMN_FORMAT_def)
  from disjoint_flags_pairwise [OF this all all]
  have "field_flag_value (?n f) AND field_flag_value (?n g) \<noteq> 0 \<longleftrightarrow> ?n f = ?n g" .
  moreover have "field_flag_value (?n h) = field_flag_value h" for h
    by (cases h) simp_all
  ultimately show ?thesis by (auto simp: doubleton_eq_iff)
qed

section \<open>The properties\<close>

text \<open>
  C38: no two capabilities of a client, refreshes or status flags share a bit, and of the flags
  of a field only \<open>NUM_FLAG\<close> and \<open>GROUP_FLAG\<close> do;
  \<open>CLIENT_ALL_FLAGS\<close> holds every capability, and \<open>CLIENT_BASIC_FLAGS\<close>
  all but those for compression and SSL.
\<close>

theorem protocol_flags:
  "(client_flag_value c AND client_flag_value c' \<noteq> 0 \<longleftrightarrow> c = c')
   \<and> (refresh_flag_value r AND refresh_flag_value r' \<noteq> 0 \<longleftrightarrow> r = r')
   \<and> (server_status_value s AND server_status_value s' \<noteq> 0 \<longleftrightarrow> s = s')
   \<and> (field_flag_value f AND field_flag_value f' \<noteq> 0 \<longleftrightarrow> f = f' \<or> {f, f'} = {NUM_FLAG, GROUP_FLAG})
   \<and> client_flag_value c AND CLIENT_ALL_FLAGS = client_flag_value c
   \<and> client_flag_value c AND CLIENT_BASIC_FLAGS
       = (if c \<in> {CLIENT_SSL, CLIENT_COMPRESS, CLIENT_SSL_VERIFY_SERVER_CERT} then 0 else client_flag_value c)"
proof -
  have all: "client_flag_value c AND CLIENT_ALL_FLAGS = client_flag_value c"
    unfolding CLIENT_ALL_FLAGS_list by (rule all_flags_contains [OF client_flags_all])
  have "client_flag_value c AND CLIENT_BASIC_FLAGS = ((client_flag_value c AND NOT (client_flag_value CLIENT_SSL))
      AND NOT (client_flag_value CLIENT_COMPRESS)) AND NOT (client_flag_value CLIENT_SSL_VERIFY_SERVER_CERT)"
    by (simp only: CLIENT_BASIC_FLAGS_def and.assoc [symmetric] all)
  then have "client_flag_value c AND CLIENT_BASIC_FLAGS
      = (if c \<in> {CLIENT_SSL, CLIENT_COMPRESS, CLIENT_SSL_VERIFY_SERVER_CERT} then 0 else client_flag_value c)"
    by (cases "c = CLIENT_SSL"; cases "c = CLIENT_COMPRESS"; cases "c = CLIENT_SSL_VERIFY_SERVER_CERT")
      (simp_all only: without_flag if_True if_False and_zero_eq zero_and_eq insert_iff empty_iff simp_thms)
  then show ?thesis
    by (intro conjI all client_flags_disjoint refresh_flags_disjoint server_status_disjoint field_flags_disjoint)
qed

text \<open>
  The status flags that are cleared before a statement: what remains tells of the session, not of
  the statement before.
\<close>

theorem status_between_statements:
  "server_status_value s AND NOT SERVER_STATUS_CLEAR_SET
     = (if s \<in> {SERVER_STATUS_IN_TRANS, SERVER_STATUS_AUTOCOMMIT, SERVER_STATUS_NO_BACKSLASH_ESCAPES,
                SERVER_PS_OUT_PARAMS, SERVER_STATUS_IN_TRANS_READONLY}
        then server_status_value s else 0)"
  by (cases s) (simp_all add: SERVER_STATUS_CLEAR_SET_def)

text \<open>\<open>IS_NUM\<close> also holds of the type of \<open>NULL\<close>.\<close>

theorem IS_NUM_types:
  "IS_NUM (field_type_number t) \<longleftrightarrow> t \<in> {MYSQL_TYPE_DECIMAL, MYSQL_TYPE_TINY, MYSQL_TYPE_SHORT,
     MYSQL_TYPE_LONG, MYSQL_TYPE_FLOAT, MYSQL_TYPE_DOUBLE, MYSQL_TYPE_NULL, MYSQL_TYPE_LONGLONG,
     MYSQL_TYPE_INT24, MYSQL_TYPE_YEAR, MYSQL_TYPE_NEWDECIMAL}"
  by (cases t) (simp_all add: IS_NUM_def)

theorem IS_LONGDATA_types:
  "IS_LONGDATA (field_type_number t) \<longleftrightarrow> t \<in> {MYSQL_TYPE_TINY_BLOB, MYSQL_TYPE_MEDIUM_BLOB,
     MYSQL_TYPE_LONG_BLOB, MYSQL_TYPE_BLOB, MYSQL_TYPE_VAR_STRING, MYSQL_TYPE_STRING}"
  by (cases t) (simp_all add: IS_LONGDATA_def)

theorem field_tests:
  "IS_PRI_KEY (field_flag_value f) \<longleftrightarrow> f = PRI_KEY_FLAG"
  "IS_NOT_NULL (field_flag_value f) \<longleftrightarrow> f = NOT_NULL_FLAG"
  "IS_BLOB (field_flag_value f) \<longleftrightarrow> f = BLOB_FLAG"
  by (auto simp: IS_PRI_KEY_def IS_NOT_NULL_def IS_BLOB_def field_flags_disjoint doubleton_eq_iff
      simp del: field_flag_value.simps)

text \<open>The widths are the numbers of digits of the widest unsigned values.\<close>

theorem integer_widths:
  "\<forall>(w, n) \<in> {(MAX_TINYINT_WIDTH, 8), (MAX_SMALLINT_WIDTH, 16), (MAX_MEDIUMINT_WIDTH, 24),
      (MAX_INT_WIDTH, 32), (MAX_BIGINT_WIDTH, 64)}. (10 :: nat) ^ (w - 1) \<le> 2 ^ n - 1 \<and> 2 ^ n - 1 < (10 :: nat) ^ w"
  by (simp add: MAX_TINYINT_WIDTH_def MAX_SMALLINT_WIDTH_def MAX_MEDIUMINT_WIDTH_def MAX_INT_WIDTH_def
      MAX_BIGINT_WIDTH_def)

text \<open>The buffer holds the user, the sign \<open>@\<close>, the host and the terminating byte, and no more.\<close>

theorem user_host_buffer: "USER_HOST_BUFF_SIZE = USERNAME_LENGTH + 1 + HOSTNAME_LENGTH + 1"
  by (simp add: USER_HOST_BUFF_SIZE_def)

text \<open>The number of a command is one byte, and the length of a packet three.\<close>

theorem protocol_bytes:
  "0 \<le> server_command_number c \<and> server_command_number c < 2 ^ 8"
  "MAX_PACKET_LENGTH = mask 24"
  "IS_SESSION_STATE_TYPE T \<longleftrightarrow> (\<exists>t. T = session_state_number t)"
proof -
  show "0 \<le> server_command_number c \<and> server_command_number c < 2 ^ 8"
    by (cases c) simp_all
  show "MAX_PACKET_LENGTH = mask 24"
    by (simp add: MAX_PACKET_LENGTH_def mask_eq_exp_minus_1)
  show "IS_SESSION_STATE_TYPE T \<longleftrightarrow> (\<exists>t. T = session_state_number t)"
  proof
    assume "IS_SESSION_STATE_TYPE T"
    then have "T = 0 \<or> T = 1 \<or> T = 2"
      by (auto simp: IS_SESSION_STATE_TYPE_def)
    then show "\<exists>t. T = session_state_number t"
      by (metis session_state_number.simps)
  next
    assume "\<exists>t. T = session_state_number t"
    then obtain t where "T = session_state_number t" ..
    then show "IS_SESSION_STATE_TYPE T"
      by (cases t) (simp_all add: IS_SESSION_STATE_TYPE_def)
  qed
qed

end
