(* ===== verification/MysqlCtype.thy ===== *)
theory MysqlCtype
  imports MysqlFlags
begin

text \<open>
  Character sets, \<open>m_ctype.h\<close>: the flags of a character set and of a sort key, the classes of
  characters and the macros that look them up, and the two ways to store a two-byte code.
\<close>

section \<open>Codes of two bytes\<close>

text \<open>
  On i386 a code is stored as one number of 16 bits, after \<open>MB2\<close> has swapped its bytes; elsewhere byte
  after byte.
\<close>

definition MB2_i386 :: "32 word \<Rightarrow> 32 word" where
  "MB2_i386 x = drop_bit 8 x + push_bit 8 (x AND 0xFF)"

definition MY_PUT_MB2_i386 :: "mem \<Rightarrow> nat \<Rightarrow> 32 word \<Rightarrow> mem" where
  "MY_PUT_MB2_i386 m s code = store_le 2 m s (ucast code :: 16 word)"

definition MB2 :: "32 word \<Rightarrow> 32 word" where
  "MB2 x = x"

definition MY_PUT_MB2 :: "mem \<Rightarrow> nat \<Rightarrow> 32 word \<Rightarrow> mem" where
  "MY_PUT_MB2 m s code = m(s := ucast (drop_bit 8 code), s + 1 := ucast (code AND 0xFF))"

section \<open>Flags\<close>

datatype charset_flag = MY_CS_COMPILED | MY_CS_CONFIG | MY_CS_INDEX | MY_CS_LOADED | MY_CS_BINSORT
  | MY_CS_PRIMARY | MY_CS_STRNXFRM | MY_CS_UNICODE | MY_CS_READY | MY_CS_AVAILABLE | MY_CS_CSSORT
  | MY_CS_HIDDEN | MY_CS_PUREASCII | MY_CS_NONASCII | MY_CS_UNICODE_SUPPLEMENT | MY_CS_LOWER_SORT

fun charset_flag_value :: "charset_flag \<Rightarrow> 32 word" where
  "charset_flag_value MY_CS_COMPILED = 1"
| "charset_flag_value MY_CS_CONFIG = 2"
| "charset_flag_value MY_CS_INDEX = 4"
| "charset_flag_value MY_CS_LOADED = 8"
| "charset_flag_value MY_CS_BINSORT = 16"
| "charset_flag_value MY_CS_PRIMARY = 32"
| "charset_flag_value MY_CS_STRNXFRM = 64"
| "charset_flag_value MY_CS_UNICODE = 128"
| "charset_flag_value MY_CS_READY = 256"
| "charset_flag_value MY_CS_AVAILABLE = 512"
| "charset_flag_value MY_CS_CSSORT = 1024"
| "charset_flag_value MY_CS_HIDDEN = 2048"
| "charset_flag_value MY_CS_PUREASCII = 4096"
| "charset_flag_value MY_CS_NONASCII = 8192"
| "charset_flag_value MY_CS_UNICODE_SUPPLEMENT = 16384"
| "charset_flag_value MY_CS_LOWER_SORT = 32768"

datatype repertoire = MY_REPERTOIRE_ASCII | MY_REPERTOIRE_EXTENDED | MY_REPERTOIRE_UNICODE30

fun repertoire_value :: "repertoire \<Rightarrow> 32 word" where
  "repertoire_value MY_REPERTOIRE_ASCII = 1"
| "repertoire_value MY_REPERTOIRE_EXTENDED = 2"
| "repertoire_value MY_REPERTOIRE_UNICODE30 = 3"

text \<open>The flags of a sort key: a level, its descending order, its reverse order.\<close>

datatype strxfrm_level = Level1 | Level2 | Level3 | Level4 | Level5 | Level6

fun MY_STRXFRM_LEVEL :: "strxfrm_level \<Rightarrow> 32 word" where
  "MY_STRXFRM_LEVEL Level1 = 0x00000001"
| "MY_STRXFRM_LEVEL Level2 = 0x00000002"
| "MY_STRXFRM_LEVEL Level3 = 0x00000004"
| "MY_STRXFRM_LEVEL Level4 = 0x00000008"
| "MY_STRXFRM_LEVEL Level5 = 0x00000010"
| "MY_STRXFRM_LEVEL Level6 = 0x00000020"

definition MY_STRXFRM_LEVEL_ALL :: "32 word" where
  "MY_STRXFRM_LEVEL_ALL = 0x0000003F"

definition MY_STRXFRM_NLEVELS :: nat where
  "MY_STRXFRM_NLEVELS = 6"

definition MY_STRXFRM_PAD_WITH_SPACE :: "32 word" where
  "MY_STRXFRM_PAD_WITH_SPACE = 0x00000040"

definition MY_STRXFRM_PAD_TO_MAXLEN :: "32 word" where
  "MY_STRXFRM_PAD_TO_MAXLEN = 0x00000080"

fun MY_STRXFRM_DESC_LEVEL :: "strxfrm_level \<Rightarrow> 32 word" where
  "MY_STRXFRM_DESC_LEVEL Level1 = 0x00000100"
| "MY_STRXFRM_DESC_LEVEL Level2 = 0x00000200"
| "MY_STRXFRM_DESC_LEVEL Level3 = 0x00000300"
| "MY_STRXFRM_DESC_LEVEL Level4 = 0x00000800"
| "MY_STRXFRM_DESC_LEVEL Level5 = 0x00001000"
| "MY_STRXFRM_DESC_LEVEL Level6 = 0x00002000"

definition MY_STRXFRM_DESC_SHIFT :: nat where
  "MY_STRXFRM_DESC_SHIFT = 8"

fun MY_STRXFRM_REVERSE_LEVEL :: "strxfrm_level \<Rightarrow> 32 word" where
  "MY_STRXFRM_REVERSE_LEVEL Level1 = 0x00010000"
| "MY_STRXFRM_REVERSE_LEVEL Level2 = 0x00020000"
| "MY_STRXFRM_REVERSE_LEVEL Level3 = 0x00040000"
| "MY_STRXFRM_REVERSE_LEVEL Level4 = 0x00080000"
| "MY_STRXFRM_REVERSE_LEVEL Level5 = 0x00100000"
| "MY_STRXFRM_REVERSE_LEVEL Level6 = 0x00200000"

definition MY_STRXFRM_REVERSE_SHIFT :: nat where
  "MY_STRXFRM_REVERSE_SHIFT = 16"

section \<open>A character set\<close>

text \<open>
  The fields that the macros below look at, with two of the functions of \<open>cset\<close>; \<open>ismbchar\<close> may be
  \<open>NULL\<close>. What a string pointer is, is left open.
\<close>

record 's charset_info =
  cs_state :: "32 word"
  ctype :: "8 word list"
  cs_to_lower :: "8 word list"
  cs_to_upper :: "8 word list"
  mbmaxlenlen :: "32 word"
  ismbchar :: "('s \<Rightarrow> 's \<Rightarrow> 32 word) option"
  mbcharlen :: "32 word \<Rightarrow> 32 word"

definition MY_CS_CTYPE_TABLE_SIZE :: nat where "MY_CS_CTYPE_TABLE_SIZE = 257"
definition MY_CS_TO_LOWER_TABLE_SIZE :: nat where "MY_CS_TO_LOWER_TABLE_SIZE = 256"
definition MY_CS_TO_UPPER_TABLE_SIZE :: nat where "MY_CS_TO_UPPER_TABLE_SIZE = 256"

section \<open>Classes of characters\<close>

definition MY_U :: "8 word" where "MY_U = 1"
definition MY_L :: "8 word" where "MY_L = 2"
definition MY_NMR :: "8 word" where "MY_NMR = 4"
definition MY_SPC :: "8 word" where "MY_SPC = 8"
definition MY_PNT :: "8 word" where "MY_PNT = 16"
definition MY_CTR :: "8 word" where "MY_CTR = 32"
definition MY_B :: "8 word" where "MY_B = 64"
definition MY_X :: "8 word" where "MY_X = 128"

text \<open>The argument is an \<open>int\<close>; the cast to \<open>uchar\<close> keeps its lowest byte. The table starts at \<open>EOF\<close>.\<close>

definition uchar :: "32 word \<Rightarrow> 8 word" where
  "uchar c = ucast c"

definition class_of :: "'s charset_info \<Rightarrow> 32 word \<Rightarrow> 8 word" where
  "class_of s c = ctype s ! (1 + unat (uchar c))"

definition my_isascii :: "32 word \<Rightarrow> bool" where
  "my_isascii c \<longleftrightarrow> c AND NOT 127 = 0"

definition my_toascii :: "32 word \<Rightarrow> 32 word" where
  "my_toascii c = c AND 127"

definition my_tocntrl :: "32 word \<Rightarrow> 32 word" where
  "my_tocntrl c = c AND 31"

definition my_toprint :: "32 word \<Rightarrow> 32 word" where
  "my_toprint c = c OR 64"

definition my_toupper :: "'s charset_info \<Rightarrow> 32 word \<Rightarrow> 8 word" where
  "my_toupper s c = cs_to_upper s ! unat (uchar c)"

definition my_tolower :: "'s charset_info \<Rightarrow> 32 word \<Rightarrow> 8 word" where
  "my_tolower s c = cs_to_lower s ! unat (uchar c)"

definition my_isalpha :: "'s charset_info \<Rightarrow> 32 word \<Rightarrow> bool" where
  "my_isalpha s c \<longleftrightarrow> class_of s c AND (MY_U OR MY_L) \<noteq> 0"

definition my_isupper :: "'s charset_info \<Rightarrow> 32 word \<Rightarrow> bool" where
  "my_isupper s c \<longleftrightarrow> class_of s c AND MY_U \<noteq> 0"

definition my_islower :: "'s charset_info \<Rightarrow> 32 word \<Rightarrow> bool" where
  "my_islower s c \<longleftrightarrow> class_of s c AND MY_L \<noteq> 0"

definition my_isdigit :: "'s charset_info \<Rightarrow> 32 word \<Rightarrow> bool" where
  "my_isdigit s c \<longleftrightarrow> class_of s c AND MY_NMR \<noteq> 0"

definition my_isxdigit :: "'s charset_info \<Rightarrow> 32 word \<Rightarrow> bool" where
  "my_isxdigit s c \<longleftrightarrow> class_of s c AND MY_X \<noteq> 0"

definition my_isalnum :: "'s charset_info \<Rightarrow> 32 word \<Rightarrow> bool" where
  "my_isalnum s c \<longleftrightarrow> class_of s c AND (MY_U OR MY_L OR MY_NMR) \<noteq> 0"

definition my_isspace :: "'s charset_info \<Rightarrow> 32 word \<Rightarrow> bool" where
  "my_isspace s c \<longleftrightarrow> class_of s c AND MY_SPC \<noteq> 0"

definition my_ispunct :: "'s charset_info \<Rightarrow> 32 word \<Rightarrow> bool" where
  "my_ispunct s c \<longleftrightarrow> class_of s c AND MY_PNT \<noteq> 0"

definition my_isprint :: "'s charset_info \<Rightarrow> 32 word \<Rightarrow> bool" where
  "my_isprint s c \<longleftrightarrow> class_of s c AND (MY_PNT OR MY_U OR MY_L OR MY_NMR OR MY_B) \<noteq> 0"

definition my_isgraph :: "'s charset_info \<Rightarrow> 32 word \<Rightarrow> bool" where
  "my_isgraph s c \<longleftrightarrow> class_of s c AND (MY_PNT OR MY_U OR MY_L OR MY_NMR) \<noteq> 0"

definition my_iscntrl :: "'s charset_info \<Rightarrow> 32 word \<Rightarrow> bool" where
  "my_iscntrl s c \<longleftrightarrow> class_of s c AND MY_CTR \<noteq> 0"

definition my_isvar :: "'s charset_info \<Rightarrow> 32 word \<Rightarrow> bool" where
  "my_isvar s c \<longleftrightarrow> my_isalnum s c \<or> c = 95"

definition my_isvar_start :: "'s charset_info \<Rightarrow> 32 word \<Rightarrow> bool" where
  "my_isvar_start s c \<longleftrightarrow> my_isalpha s c \<or> c = 95"

definition my_binary_compare :: "'s charset_info \<Rightarrow> bool" where
  "my_binary_compare s \<longleftrightarrow> cs_state s AND charset_flag_value MY_CS_BINSORT \<noteq> 0"

definition use_strnxfrm :: "'s charset_info \<Rightarrow> bool" where
  "use_strnxfrm s \<longleftrightarrow> cs_state s AND charset_flag_value MY_CS_STRNXFRM \<noteq> 0"

section \<open>Characters of several bytes\<close>

definition use_mb :: "'s charset_info \<Rightarrow> bool" where
  "use_mb s \<longleftrightarrow> ismbchar s \<noteq> None"

definition my_mbcharlen :: "'s charset_info \<Rightarrow> 32 word \<Rightarrow> 32 word" where
  "my_mbcharlen s a = mbcharlen s a"

definition my_mbcharlen_2 :: "'s charset_info \<Rightarrow> 32 word \<Rightarrow> 32 word \<Rightarrow> 32 word" where
  "my_mbcharlen_2 s a b = mbcharlen s (push_bit 8 (a AND 0xFF) + (b AND 0xFF))"

definition my_mbmaxlenlen :: "'s charset_info \<Rightarrow> 32 word" where
  "my_mbmaxlenlen s = mbmaxlenlen s"

definition my_ismb1st :: "'s charset_info \<Rightarrow> 32 word \<Rightarrow> bool" where
  "my_ismb1st s i \<longleftrightarrow> 1 < my_mbcharlen s i \<or> my_mbmaxlenlen s = 2 \<and> my_mbcharlen s i = 0"

section \<open>The properties\<close>


text \<open>The flag for the third level is never told apart from those for the first two.\<close>

theorem descending_level_3:
  "MY_STRXFRM_DESC_LEVEL Level3 AND push_bit MY_STRXFRM_DESC_SHIFT (MY_STRXFRM_LEVEL Level3) = 0"
  by (simp add: MY_STRXFRM_DESC_SHIFT_def)

definition charset_flags :: "charset_flag list" where
  "charset_flags = [MY_CS_COMPILED, MY_CS_CONFIG, MY_CS_INDEX, MY_CS_LOADED, MY_CS_BINSORT, MY_CS_PRIMARY,
     MY_CS_STRNXFRM, MY_CS_UNICODE, MY_CS_READY, MY_CS_AVAILABLE, MY_CS_CSSORT, MY_CS_HIDDEN,
     MY_CS_PUREASCII, MY_CS_NONASCII, MY_CS_UNICODE_SUPPLEMENT, MY_CS_LOWER_SORT]"

theorem charset_flags_disjoint: "charset_flag_value f AND charset_flag_value g \<noteq> 0 \<longleftrightarrow> f = g"
proof -
  have all: "h \<in> set charset_flags" for h
    by (cases h) (simp_all add: charset_flags_def)
  have "disjoint_flags charset_flag_value 0 charset_flags"
    by (simp add: charset_flags_def)
  then show ?thesis
    by (rule disjoint_flags_pairwise [OF _ all all])
qed

theorem repertoires:
  "repertoire_value MY_REPERTOIRE_UNICODE30
     = repertoire_value MY_REPERTOIRE_ASCII OR repertoire_value MY_REPERTOIRE_EXTENDED"
  by simp

lemma and_or_nonzero: "c AND (a OR b) \<noteq> 0 \<longleftrightarrow> c AND a \<noteq> 0 \<or> c AND b \<noteq> (0 :: 'a::len word)"
  by (auto simp: bit_eq_iff bit_simps)

lemmas class_defs = my_isalpha_def my_isupper_def my_islower_def my_isdigit_def my_isxdigit_def my_isalnum_def
  my_isspace_def my_ispunct_def my_isprint_def my_isgraph_def my_iscntrl_def

text \<open>
  The named classes are unions of the bits, as their names say.
\<close>

theorem character_classes:
  "my_isalpha s c \<longleftrightarrow> my_isupper s c \<or> my_islower s c"
  "my_isalnum s c \<longleftrightarrow> my_isalpha s c \<or> my_isdigit s c"
  "my_isgraph s c \<longleftrightarrow> my_isalnum s c \<or> my_ispunct s c"
  "my_isprint s c \<longleftrightarrow> my_isgraph s c \<or> class_of s c AND MY_B \<noteq> 0"
  by (auto simp: class_defs and_or_nonzero)

text \<open>Whatever the \<open>int\<close>, negative or not, the tables are looked up within their bounds.\<close>

theorem classes_in_bounds:
  "1 + unat (uchar c) < MY_CS_CTYPE_TABLE_SIZE \<and> unat (uchar c) < MY_CS_TO_LOWER_TABLE_SIZE
   \<and> unat (uchar c) < MY_CS_TO_UPPER_TABLE_SIZE"
  using unsigned_less [of "uchar c", where ?'a = nat]
  by (simp add: MY_CS_CTYPE_TABLE_SIZE_def MY_CS_TO_LOWER_TABLE_SIZE_def MY_CS_TO_UPPER_TABLE_SIZE_def)

text \<open>Both ways to store a code of two bytes leave the high byte first.\<close>

theorem MB2_variants_agree:
  "MY_PUT_MB2_i386 m s (MB2_i386 (ucast (c :: 16 word))) = MY_PUT_MB2 m s (MB2 (ucast c))"
proof -
  let ?x = "ucast c :: 32 word"
  have eq: "MB2_i386 ?x = drop_bit 8 ?x OR push_bit 8 (?x AND 0xFF)"
    unfolding MB2_i386_def by (rule add_push_bit) (auto simp: bit_simps dest: bit_imp_le_length)
  have mask: "(0xFF :: 32 word) = mask 8"
    by (simp add: mask_eq_exp_minus_1)
  have "(ucast (ucast (MB2_i386 ?x) :: 16 word) :: 8 word) = ucast (drop_bit 8 ?x)"
    unfolding eq mask by (rule bit_word_eqI) (auto simp: bit_simps dest: bit_imp_le_length)
  moreover have "(ucast (drop_bit 8 (ucast (MB2_i386 ?x) :: 16 word)) :: 8 word) = ucast (?x AND 0xFF)"
    unfolding eq mask by (rule bit_word_eqI) (auto simp: bit_simps dest: bit_imp_le_length)
  ultimately show ?thesis
    by (simp add: MY_PUT_MB2_i386_def MY_PUT_MB2_def MB2_def numeral_2_eq_2)
qed

end
