(* ===== verification/MysqlMacros.thy ===== *)
theory MysqlMacros
  imports MysqlBytes "HOL-Library.Signed_Division"
begin

text \<open>
  Macros and small functions of \<open>my_global.h\<close>, \<open>my_sys.h\<close> and \<open>decimal.h\<close>: sizes that are rounded up to
  an alignment, blocks that come from the stack or from the heap, a pause in microseconds, dynamic
  arrays and decimal numbers.
\<close>

section \<open>my\_global.h\<close>

definition MY_TEST :: "'a::len word \<Rightarrow> int" where
  "MY_TEST a = (if a \<noteq> 0 then 1 else 0)"

definition set_if_bigger :: "int \<Rightarrow> int \<Rightarrow> int" where
  "set_if_bigger a b = (if a < b then b else a)"

definition set_if_smaller :: "int \<Rightarrow> int \<Rightarrow> int" where
  "set_if_smaller a b = (if b < a then b else a)"

definition test_all_bits :: "'a::len word \<Rightarrow> 'a word \<Rightarrow> bool" where
  "test_all_bits a b \<longleftrightarrow> a AND b = b"

definition MY_MAX :: "int \<Rightarrow> int \<Rightarrow> int" where
  "MY_MAX a b = (if a > b then a else b)"

definition MY_MIN :: "int \<Rightarrow> int \<Rightarrow> int" where
  "MY_MIN a b = (if a < b then a else b)"

definition MY_ALIGN :: "64 word \<Rightarrow> 64 word \<Rightarrow> 64 word" where
  "MY_ALIGN A L = (A + L - 1) AND NOT (L - 1)"

text \<open>The size of a \<open>double\<close> is 8.\<close>

definition ALIGN_SIZE :: "64 word \<Rightarrow> 64 word" where
  "ALIGN_SIZE A = MY_ALIGN A 8"

section \<open>my\_sys.h\<close>

text \<open>Blocks above the limit come from \<open>my_malloc\<close>, and are given back; the others are on the stack.\<close>

datatype block_source = From_stack | From_heap

definition my_safe_alloca :: "nat \<Rightarrow> nat \<Rightarrow> block_source" where
  "my_safe_alloca sz max_alloca_sz = (if sz \<le> max_alloca_sz then From_stack else From_heap)"

definition my_safe_afree :: "nat \<Rightarrow> nat \<Rightarrow> bool" where
  "my_safe_afree sz max_alloca_sz \<longleftrightarrow> sz > max_alloca_sz"

record dynamic_array =
  da_buffer :: nat
  elements :: "32 word"
  max_element :: "32 word"
  da_alloc_increment :: "32 word"
  size_of_element :: "32 word"

definition reset_dynamic :: "dynamic_array \<Rightarrow> dynamic_array" where
  "reset_dynamic array = array\<lparr>elements := 0\<rparr>"

text \<open>\<open>type\<close> is a pointer type, and \<open>width\<close> the size of what it points to.\<close>

definition dynamic_element :: "dynamic_array \<Rightarrow> nat \<Rightarrow> nat \<Rightarrow> nat" where
  "dynamic_element array array_index width = da_buffer array + array_index * width"

record mem_root =
  root_free :: nat
  root_used :: nat
  pre_alloc :: nat
  min_malloc :: nat
  block_size :: nat
  block_num :: "32 word"
  first_block_usage :: "32 word"

definition alloc_root_inited :: "mem_root \<Rightarrow> bool" where
  "alloc_root_inited A \<longleftrightarrow> min_malloc A \<noteq> 0"

definition clear_alloc_root :: "mem_root \<Rightarrow> mem_root" where
  "clear_alloc_root A = A\<lparr>root_free := 0, root_used := 0, pre_alloc := 0, min_malloc := 0\<rparr>"

definition safe_strdup_root :: "('r \<Rightarrow> string \<Rightarrow> 'p option) \<Rightarrow> 'r \<Rightarrow> string option \<Rightarrow> 'p option" where
  "safe_strdup_root strdup_root root str =
     (case str of Some t \<Rightarrow> strdup_root root t | None \<Rightarrow> None)"

text \<open>The time that is handed to \<open>select\<close>: seconds and microseconds.\<close>

definition my_sleep :: "int \<Rightarrow> int \<times> int" where
  "my_sleep m_seconds = (m_seconds sdiv 1000000, m_seconds smod 1000000)"

section \<open>decimal.h\<close>

record decimal_t =
  intg :: int
  frac :: int
  dec_len :: int
  dec_sign :: "8 word"
  buf :: "32 word list"

definition decimal_make_zero :: "decimal_t \<Rightarrow> decimal_t" where
  "decimal_make_zero dec = dec\<lparr>buf := (buf dec)[0 := 0], intg := 1, frac := 0, dec_sign := 0\<rparr>"

definition decimal_string_size :: "decimal_t \<Rightarrow> int" where
  "decimal_string_size dec =
     (if intg dec \<noteq> 0 then intg dec else 1) + frac dec + (if frac dec > 0 then 1 else 0) + 2"

definition decimal_neg :: "decimal_t \<Rightarrow> decimal_t" where
  "decimal_neg dec = dec\<lparr>dec_sign := dec_sign dec XOR 1\<rparr>"

section \<open>The properties\<close>

lemma MY_ALIGN_mask: "MY_ALIGN A (2 ^ k) = push_bit k (drop_bit k (A + mask k))"
proof -
  have eq: "A + 2 ^ k - 1 = A + mask k" and m: "2 ^ k - 1 = (mask k :: 64 word)"
    by (simp_all add: mask_eq_exp_minus_1 algebra_simps)
  show ?thesis
    unfolding MY_ALIGN_def eq m
    by (rule bit_word_eqI) (auto simp: bit_simps)
qed

text \<open>
  C40: for an alignment that is a power of two, \<open>MY_ALIGN\<close> gives the least multiple
  of it that is not below the size, as long as the sum does not wrap.
\<close>

theorem MY_ALIGN_rounds_up:
  assumes "k < 64" and "unat A + (2 ^ k - 1) < 2 ^ 64"
  shows "unat (MY_ALIGN A (2 ^ k)) = (unat A + (2 ^ k - 1)) div 2 ^ k * 2 ^ k
    \<and> 2 ^ k dvd unat (MY_ALIGN A (2 ^ k)) \<and> unat A \<le> unat (MY_ALIGN A (2 ^ k))
    \<and> unat (MY_ALIGN A (2 ^ k)) < unat A + 2 ^ k"
proof -
  have m: "unat (mask k :: 64 word) = 2 ^ k - 1"
  proof -
    have "unat (mask k :: 64 word) = mask k"
      using assms(1) by (intro bit_eqI) (auto simp: bit_simps)
    then show ?thesis by (simp add: mask_eq_exp_minus_1)
  qed
  have sum: "unat (A + mask k) = unat A + (2 ^ k - 1)"
    using assms(2) by (simp add: unat_word_ariths m)
  have eq: "unat (MY_ALIGN A (2 ^ k)) = (unat A + (2 ^ k - 1)) div 2 ^ k * 2 ^ k"
  proof -
    have "(unat A + (2 ^ k - 1)) div 2 ^ k * 2 ^ k \<le> unat A + (2 ^ k - 1)"
      by (simp add: div_times_less_eq_dividend)
    then have "take_bit 64 ((unat A + (2 ^ k - 1)) div 2 ^ k * 2 ^ k) = (unat A + (2 ^ k - 1)) div 2 ^ k * 2 ^ k"
      using assms(2) by (intro take_bit_nat_eq_self) (rule le_less_trans)
    moreover have "unat (push_bit k (drop_bit k w)) = take_bit 64 (unat w div 2 ^ k * 2 ^ k)" for w :: "64 word"
      using take_bit_nat_eq_self [of "unat w" 64] unsigned_less [of w, where ?'a = nat]
      by (simp add: unsigned_push_bit_eq unsigned_drop_bit_eq flip: push_bit_eq_mult drop_bit_eq_div)
    ultimately show ?thesis
      by (simp only: MY_ALIGN_mask sum)
  qed
  have "unat A + (2 ^ k - 1) = (unat A + (2 ^ k - 1)) div 2 ^ k * 2 ^ k + (unat A + (2 ^ k - 1)) mod 2 ^ k"
    by (rule div_mult_mod_eq [symmetric])
  moreover have "(unat A + (2 ^ k - 1)) mod 2 ^ k < 2 ^ k"
    by simp
  ultimately show ?thesis
    unfolding eq by (auto simp del: mod_less_divisor)
qed

lemma MY_ALIGN_rounds_up_witness: "MY_ALIGN 13 (2 ^ 3) = 16"
  using MY_ALIGN_rounds_up [of 3 13] by (simp add: word_unat_eq_iff)

text \<open>Above that bound the sum wraps, and the size becomes zero.\<close>

theorem MY_ALIGN_wraps: "ALIGN_SIZE 0xFFFFFFFFFFFFFFFF = 0"
  by (simp add: ALIGN_SIZE_def MY_ALIGN_def)

theorem safe_alloca_pairs: "my_safe_afree n limit \<longleftrightarrow> my_safe_alloca n limit = From_heap"
  by (simp add: my_safe_afree_def my_safe_alloca_def)

theorem sleep_splits:
  assumes "0 \<le> m"
  shows "fst (my_sleep m) * 1000000 + snd (my_sleep m) = m \<and> 0 \<le> snd (my_sleep m) \<and> snd (my_sleep m) < 1000000"
  using assms by (cases "m = 0") (simp_all add: my_sleep_def signed_divide_int_def signed_modulo_int_def)

theorem decimal_neg_twice: "decimal_neg (decimal_neg d) = d"
  by (simp add: decimal_neg_def xor.assoc)

theorem decimal_zero: "decimal_string_size (decimal_make_zero d) = 3"
  by (simp add: decimal_string_size_def decimal_make_zero_def)

end
