(* ===== verification/MysqlTrace.thy ===== *)
theory MysqlTrace
  imports MysqlProtocol "HOL-Library.Transitive_Closure_Table"
begin

text \<open>
  The client's side of a connection: the stages of the protocol and the events that a trace plugin is
  told of, \<open>mysql/plugin_trace.h\<close>, and the macros of \<open>sql_common.h\<close> that send a command or find the
  extension of a connection.
\<close>

section \<open>Stages and events\<close>

datatype protocol_stage = CONNECTING | WAIT_FOR_INIT_PACKET | AUTHENTICATE | SSL_NEGOTIATION
  | READY_FOR_COMMAND | WAIT_FOR_PACKET | WAIT_FOR_RESULT | WAIT_FOR_FIELD_DEF | WAIT_FOR_ROW
  | FILE_REQUEST | WAIT_FOR_PS_DESCRIPTION | WAIT_FOR_PARAM_DEF | DISCONNECTED

datatype trace_event = EV_ERROR | EV_CONNECTING | EV_CONNECTED | EV_DISCONNECTED | EV_SEND_SSL_REQUEST
  | EV_SSL_CONNECT | EV_SSL_CONNECTED | EV_INIT_PACKET_RECEIVED | EV_AUTH_PLUGIN | EV_SEND_AUTH_RESPONSE
  | EV_SEND_AUTH_DATA | EV_AUTHENTICATED | EV_SEND_COMMAND | EV_SEND_FILE | EV_READ_PACKET
  | EV_PACKET_RECEIVED | EV_PACKET_SENT

definition PROTOCOL_STAGE_LIST :: "protocol_stage list" where
  "PROTOCOL_STAGE_LIST = [CONNECTING, WAIT_FOR_INIT_PACKET, AUTHENTICATE, SSL_NEGOTIATION, READY_FOR_COMMAND,
     WAIT_FOR_PACKET, WAIT_FOR_RESULT, WAIT_FOR_FIELD_DEF, WAIT_FOR_ROW, FILE_REQUEST,
     WAIT_FOR_PS_DESCRIPTION, WAIT_FOR_PARAM_DEF, DISCONNECTED]"

definition TRACE_EVENT_LIST :: "trace_event list" where
  "TRACE_EVENT_LIST = [EV_ERROR, EV_CONNECTING, EV_CONNECTED, EV_DISCONNECTED, EV_SEND_SSL_REQUEST,
     EV_SSL_CONNECT, EV_SSL_CONNECTED, EV_INIT_PACKET_RECEIVED, EV_AUTH_PLUGIN, EV_SEND_AUTH_RESPONSE,
     EV_SEND_AUTH_DATA, EV_AUTHENTICATED, EV_SEND_COMMAND, EV_SEND_FILE, EV_READ_PACKET,
     EV_PACKET_RECEIVED, EV_PACKET_SENT]"

text \<open>The transitions of the graph in the header.\<close>

inductive stage_step :: "protocol_stage \<Rightarrow> protocol_stage \<Rightarrow> bool" where
  connected: "stage_step CONNECTING WAIT_FOR_INIT_PACKET"
| failed_connection: "stage_step CONNECTING DISCONNECTED"
| init_packet: "stage_step WAIT_FOR_INIT_PACKET AUTHENTICATE"
| ssl_requested: "stage_step WAIT_FOR_INIT_PACKET SSL_NEGOTIATION"
| ssl_connected: "stage_step SSL_NEGOTIATION AUTHENTICATE"
| accepted: "stage_step AUTHENTICATE READY_FOR_COMMAND"
| rejected: "stage_step AUTHENTICATE DISCONNECTED"
| quit: "stage_step READY_FOR_COMMAND DISCONNECTED"
| change_user: "stage_step READY_FOR_COMMAND AUTHENTICATE"
| single_packet: "stage_step READY_FOR_COMMAND WAIT_FOR_PACKET"
| query: "stage_step READY_FOR_COMMAND WAIT_FOR_RESULT"
| prepare: "stage_step READY_FOR_COMMAND WAIT_FOR_PS_DESCRIPTION"
| packet: "stage_step WAIT_FOR_PACKET READY_FOR_COMMAND"
| simple_reply: "stage_step WAIT_FOR_RESULT READY_FOR_COMMAND"
| fields: "stage_step WAIT_FOR_RESULT WAIT_FOR_FIELD_DEF"
| file_requested: "stage_step WAIT_FOR_RESULT FILE_REQUEST"
| resultset: "stage_step WAIT_FOR_FIELD_DEF WAIT_FOR_ROW"
| described: "stage_step WAIT_FOR_FIELD_DEF READY_FOR_COMMAND"
| last_row: "stage_step WAIT_FOR_ROW READY_FOR_COMMAND"
| multi_resultset: "stage_step WAIT_FOR_ROW WAIT_FOR_RESULT"
| parameters: "stage_step WAIT_FOR_PS_DESCRIPTION WAIT_FOR_PARAM_DEF"
| no_params_no_result: "stage_step WAIT_FOR_PS_DESCRIPTION READY_FOR_COMMAND"
| no_params: "stage_step WAIT_FOR_PS_DESCRIPTION WAIT_FOR_FIELD_DEF"
| param_fields: "stage_step WAIT_FOR_PARAM_DEF WAIT_FOR_FIELD_DEF"
| no_result: "stage_step WAIT_FOR_PARAM_DEF READY_FOR_COMMAND"
| file_sent: "stage_step FILE_REQUEST WAIT_FOR_RESULT"

code_pred stage_step .

inductive_cases stage_stepE: "stage_step a b"

section \<open>Commands\<close>

text \<open>
  What is sent by \<open>simple_command\<close> and \<open>stmt_command\<close>: the methods of the connection, if it has any, are
  called with the command; otherwise the error is stored in the connection. \<open>out_of_sync\<close> is what
  \<open>set_mysql_error\<close> does to the connection for \<open>CR_COMMANDS_OUT_OF_SYNC\<close>.
\<close>

type_synonym ('m, 'st) advanced_command =
  "enum_server_command \<Rightarrow> string \<Rightarrow> nat \<Rightarrow> bool \<Rightarrow> 'st option \<Rightarrow> 'm \<Rightarrow> 'm \<times> int"

definition simple_command :: "('m \<Rightarrow> ('m, 'st) advanced_command option) \<Rightarrow> ('m \<Rightarrow> 'm) \<Rightarrow> 'm
    \<Rightarrow> enum_server_command \<Rightarrow> string \<Rightarrow> nat \<Rightarrow> bool \<Rightarrow> 'm \<times> int" where
  "simple_command advanced_command out_of_sync mysql command arg len skip_check =
     (case advanced_command mysql of
        Some f \<Rightarrow> f command arg len skip_check None mysql
      | None \<Rightarrow> (out_of_sync mysql, 1))"

definition stmt_command :: "('m \<Rightarrow> ('m, 'st) advanced_command option) \<Rightarrow> ('m \<Rightarrow> 'm) \<Rightarrow> 'm
    \<Rightarrow> enum_server_command \<Rightarrow> string \<Rightarrow> nat \<Rightarrow> 'st option \<Rightarrow> 'm \<times> int" where
  "stmt_command advanced_command out_of_sync mysql command arg len stmt =
     (case advanced_command mysql of
        Some f \<Rightarrow> f command arg len True stmt mysql
      | None \<Rightarrow> (out_of_sync mysql, 1))"

record 'e connection =
  extension :: "'e option"
  server_capabilities :: "64 word"

definition MYSQL_EXTENSION_PTR :: "('e connection \<Rightarrow> 'e option) \<Rightarrow> 'e connection \<Rightarrow> 'e connection \<times> 'e option" where
  "MYSQL_EXTENSION_PTR mysql_extension_init H =
     (if extension H \<noteq> None then (H, extension H)
      else let H' = H\<lparr>extension := mysql_extension_init H\<rparr> in (H', extension H'))"

definition protocol_41 :: "'e connection \<Rightarrow> bool" where
  "protocol_41 A \<longleftrightarrow> server_capabilities A AND client_flag_value CLIENT_PROTOCOL_41 \<noteq> 0"

section \<open>The properties\<close>

lemma stage_list_all: "s \<in> set PROTOCOL_STAGE_LIST"
  by (cases s) (simp_all add: PROTOCOL_STAGE_LIST_def)

text \<open>
  A client that has not been authenticated is in one of the first stages; the only way on is to be
  authenticated.
\<close>

definition before_login :: "protocol_stage set" where
  "before_login = {CONNECTING, WAIT_FOR_INIT_PACKET, SSL_NEGOTIATION, AUTHENTICATE, DISCONNECTED}"

lemma leaves_by_login: "stage_step a b \<Longrightarrow> a \<in> before_login \<Longrightarrow> b \<notin> before_login \<Longrightarrow>
   a = AUTHENTICATE \<and> b = READY_FOR_COMMAND"
  by (induction rule: stage_step.induct) (simp_all add: before_login_def)

lemma disconnected_final: "\<not> stage_step DISCONNECTED s"
  by (auto elim: stage_stepE)

fun stage_path :: "protocol_stage list \<Rightarrow> bool" where
  "stage_path (a # b # ss) = (stage_step a b \<and> stage_path (b # ss))"
| "stage_path ss = True"

lemma stage_path_login:
  "stage_path (a # ss) \<Longrightarrow> a \<in> before_login \<Longrightarrow> s \<in> set ss \<Longrightarrow> s \<notin> before_login \<Longrightarrow>
   AUTHENTICATE \<in> set (takeWhile (\<lambda>x. x \<noteq> s) (a # ss))"
proof (induction ss arbitrary: a)
  case (Cons b ss)
  then have step: "stage_step a b" and path: "stage_path (b # ss)"
    by simp_all
  have "a \<noteq> s" using Cons.prems(2,4) by auto
  show ?case
  proof (cases "b \<in> before_login")
    case True
    with Cons path have "AUTHENTICATE \<in> set (takeWhile (\<lambda>x. x \<noteq> s) (b # ss))"
      by (intro Cons.IH) auto
    with \<open>a \<noteq> s\<close> show ?thesis by simp
  next
    case False
    with leaves_by_login [OF step Cons.prems(2)] \<open>a \<noteq> s\<close> show ?thesis by simp
  qed
qed simp

lemma stage_can_end: "stage_step\<^sup>*\<^sup>* s DISCONNECTED"
proof -
  note step = stage_step.intros converse_rtranclp_into_rtranclp [of stage_step]
  have ready: "stage_step\<^sup>*\<^sup>* READY_FOR_COMMAND DISCONNECTED"
    by (rule r_into_rtranclp) (rule quit)
  have auth: "stage_step\<^sup>*\<^sup>* AUTHENTICATE DISCONNECTED"
    by (rule r_into_rtranclp) (rule rejected)
  have res: "stage_step\<^sup>*\<^sup>* WAIT_FOR_RESULT DISCONNECTED"
    using simple_reply ready by (rule converse_rtranclp_into_rtranclp)
  show ?thesis
    by (cases s) (use ready auth res in \<open>blast intro: step\<close>)+
qed

text \<open>Whatever the connection goes through, it has been in \<open>AUTHENTICATE\<close> before a command is possible.\<close>

theorem commands_need_login:
  assumes "stage_path (CONNECTING # ss)" and "s \<in> set ss" and "s \<notin> before_login"
  shows "AUTHENTICATE \<in> set (takeWhile (\<lambda>x. x \<noteq> s) ss)"
  using stage_path_login [OF assms(1) _ assms(2,3)] assms(3)
  by (auto simp: before_login_def split: if_splits)

theorem extension_is_made_once:
  "MYSQL_EXTENSION_PTR init H = (H', Some e) \<Longrightarrow> MYSQL_EXTENSION_PTR init' H' = (H', Some e)"
  by (auto simp: MYSQL_EXTENSION_PTR_def Let_def split: if_splits)

theorem command_out_of_sync:
  "advanced_command m = None \<Longrightarrow> simple_command advanced_command oos m c arg n sk = (oos m, 1)
     \<and> stmt_command advanced_command oos m c arg n st = (oos m, 1)"
  by (simp add: simple_command_def stmt_command_def)

text \<open>Each list names every stage and every event once.\<close>

theorem stages_and_events_listed:
  "distinct PROTOCOL_STAGE_LIST \<and> s \<in> set PROTOCOL_STAGE_LIST \<and> distinct TRACE_EVENT_LIST \<and> e \<in> set TRACE_EVENT_LIST"
proof -
  have "e \<in> set TRACE_EVENT_LIST"
    by (cases e) (simp_all add: TRACE_EVENT_LIST_def)
  then show ?thesis
    by (simp add: stage_list_all) (simp add: PROTOCOL_STAGE_LIST_def TRACE_EVENT_LIST_def)
qed

end
