(* ===== verification/MysqlText.thy ===== *)
theory MysqlText
  imports CMem
begin

text \<open>
  The functions of \<open>m_string.h\<close> on C strings that are wrappers of one function of the C library,
  with the functions that \<open>my_config.h\<close> says the platform has, the counted strings \<open>LEX_STRING\<close>,
  and what a caller gets from them. Strings that overlap are not told apart here: the header
  excludes them, and the rules below have them in different objects.
\<close>

section \<open>Copying\<close>

text \<open>\<open>stpcpy\<close> copies like \<open>strcpy\<close> and returns the address of the terminator it has written.\<close>

definition my_stpcpy :: "ptr \<Rightarrow> ptr \<Rightarrow> (cstate, ptr) c" where
  "my_stpcpy dst src =
     bind (cstr src) (\<lambda>t. bind (store_str dst (t @ [NUL])) (\<lambda>_. return (padd dst (int (length t)))))"

text \<open>
  \<open>stpncpy\<close> copies at most \<open>n\<close> characters and fills the rest of the \<open>n\<close> with zeros; it returns the
  address of the first zero, or of the byte behind the \<open>n\<close> when there is none.
\<close>

fun stpncpy :: "ptr \<Rightarrow> ptr \<Rightarrow> nat \<Rightarrow> (cstate, ptr) c" where
  "stpncpy dst src 0 = return dst"
| "stpncpy dst src (Suc n) =
     bind (load src) (\<lambda>c.
       if c = NUL then bind (store_str dst (replicate (Suc n) NUL)) (\<lambda>_. return dst)
       else bind (store dst c) (\<lambda>_. stpncpy (padd dst 1) (padd src 1) n))"

definition my_stpncpy :: "ptr \<Rightarrow> ptr \<Rightarrow> nat \<Rightarrow> (cstate, ptr) c" where
  "my_stpncpy = stpncpy"

section \<open>Comparing without case\<close>

definition native_strcasecmp :: "ptr \<Rightarrow> ptr \<Rightarrow> (cstate, int) c" where
  "native_strcasecmp s1 s2 =
     bind (cstr s1) (\<lambda>a. bind (cstr s2) (\<lambda>b. return (cmp_str (map to_lower a) (map to_lower b))))"

fun native_strncasecmp :: "ptr \<Rightarrow> ptr \<Rightarrow> nat \<Rightarrow> (cstate, int) c" where
  "native_strncasecmp s1 s2 0 = return 0"
| "native_strncasecmp s1 s2 (Suc n) =
     bind (load s1) (\<lambda>a. bind (load s2) (\<lambda>b.
       if to_lower a \<noteq> to_lower b then return (of_char (to_lower a) - of_char (to_lower b))
       else if a = NUL then return 0
       else native_strncasecmp (padd s1 1) (padd s2 1) n))"

section \<open>Counted strings\<close>

record lex_string =
  str :: ptr
  len :: nat

definition lex_string_set :: "ptr \<Rightarrow> (cstate, lex_string) c" where
  "lex_string_set c_str = bind (strlen c_str) (\<lambda>n. return \<lparr>str = c_str, len = n\<rparr>)"

text \<open>The macro for a literal takes the size of the array, less its terminator.\<close>

definition STRING_WITH_LEN :: "string \<Rightarrow> ptr \<times> nat" where
  "STRING_WITH_LEN X = (Lit X 0, length X + 1 - 1)"

section \<open>What a caller gets\<close>

lemma my_stpcpy_window:
  assumes "cstr src s = ok t s" and "at_block s b (pre @ xs @ post)" and "length xs = Suc (length t)"
  shows "my_stpcpy (Obj b (int (length pre))) src s =
    ok (Obj b (int (length pre + length t))) (set_block b (pre @ map Some t @ Some NUL # post) s)"
  using store_str_window [OF assms(2), of "t @ [NUL]"] assms(1,3)
  by (simp add: my_stpcpy_def bind_def)

text \<open>
  Copying one string behind another, from the address that the first copy returned: the object then
  holds the concatenation, and its length is the sum of the two.
\<close>

lemma my_stpcpy_concat:
  assumes "cstr p s = ok t s" and "cstr q s = ok u s" and "off_block q b"
    and "at_block s b (pre @ xs)" and "length t + length u < length xs"
  shows "\<exists>s'. bind (my_stpcpy (Obj b (int (length pre))) p) (\<lambda>e. my_stpcpy e q) s =
      ok (Obj b (int (length pre + length t + length u))) s'
    \<and> cstr (Obj b (int (length pre))) s' = ok (t @ u) s'
    \<and> lex_string_set (Obj b (int (length pre))) s' =
        ok \<lparr>str = Obj b (int (length pre)), len = length t + length u\<rparr> s'"
proof -
  let ?k = "Suc (length t)"
  let ?s1 = "set_block b (pre @ map Some t @ Some NUL # drop ?k xs) s"
  let ?m = "Suc (length u)"
  let ?bs = "(pre @ map Some t) @ map Some u @ Some NUL # drop ?m (Some NUL # drop ?k xs)"
  let ?s2 = "set_block b ?bs s"
  have "at_block s b (pre @ take ?k xs @ drop ?k xs)" using assms(4) by simp
  then have first: "my_stpcpy (Obj b (int (length pre))) p s = ok (Obj b (int (length pre + length t))) ?s1"
    by (rule my_stpcpy_window [OF assms(1)]) (use assms(5) in simp)
  have q: "cstr q ?s1 = ok u ?s1" by (rule cstr_set_other [OF assms(3,2)])
  have "at_block ?s1 b ((pre @ map Some t) @ take ?m (Some NUL # drop ?k xs) @ drop ?m (Some NUL # drop ?k xs))"
    using assms(4) by (simp only: append_take_drop_id append.assoc at_block_set_same)
  then have "my_stpcpy (Obj b (int (length (pre @ map Some t)))) q ?s1
      = ok (Obj b (int (length (pre @ map Some t) + length u))) (set_block b ?bs ?s1)"
    by (rule my_stpcpy_window [OF q]) (use assms(5) in simp)
  then have second: "my_stpcpy (Obj b (int (length pre + length t))) q ?s1
      = ok (Obj b (int (length pre + length t + length u))) ?s2"
    by (simp only: length_append length_map set_block_set_block)
  have at: "at_block ?s2 b ?bs" using assms(4) by (rule at_block_set_same)
  have "NUL \<notin> set (t @ u)" using cstr_no_nul [OF assms(1)] cstr_no_nul [OF assms(2)] by simp
  with at have c: "cstr (Obj b (int (length pre))) ?s2 = ok (t @ u) ?s2"
    by (auto simp: cstr_obj_iff)
  then have "lex_string_set (Obj b (int (length pre))) ?s2 =
      ok \<lparr>str = Obj b (int (length pre)), len = length t + length u\<rparr> ?s2"
    by (simp add: lex_string_set_def strlen_ok)
  with c first second show ?thesis by (intro exI [of _ ?s2]) (simp add: bind_def)
qed

lemma drop_next:
  assumes "drop (nat i) x = c # y" and "0 \<le> i"
  shows "drop (nat (i + 1)) x = y" and "i + 1 \<le> int (length x)"
proof -
  have "nat (i + 1) = Suc (nat i)" using assms(2) by simp
  moreover have "drop (Suc (nat i)) x = tl (drop (nat i) x)" by (simp add: drop_Suc tl_drop)
  ultimately show "drop (nat (i + 1)) x = y" using assms(1) by simp
  have "nat i < length x" using assms(1) by (rule_tac ccontr) simp
  then show "i + 1 \<le> int (length x)" using assms(2) by linarith
qed

lemma cstr_tail: "cstr p s = ok (c # t) s \<Longrightarrow> cstr (padd p 1) s = ok t s"
proof (cases p)
  case (Lit x i)
  moreover assume "cstr p s = ok (c # t) s"
  ultimately have i: "0 \<le> i" and t: "takeWhile (\<lambda>c. c \<noteq> NUL) (drop (nat i) x) = c # t"
    by (simp_all split: if_splits)
  from t obtain y where y: "drop (nat i) x = c # y" "takeWhile (\<lambda>c. c \<noteq> NUL) y = t"
    by (cases "drop (nat i) x") (simp_all split: if_splits)
  show ?thesis using drop_next [OF y(1) i] i y(2) Lit by simp
next
  case (Obj b i)
  moreover assume "cstr p s = ok (c # t) s"
  ultimately obtain bs rest where o: "at_block s b bs" "0 \<le> i" "NUL \<notin> set (c # t)"
      and d: "drop (nat i) bs = Some c # map Some t @ Some NUL # rest"
    by (auto simp: cstr_obj_iff)
  note n = drop_next [OF d o(2)]
  then have "nat (i + 1) < length bs" by (metis drop_all list.distinct(1) append_is_Nil_conv not_le)
  then show ?thesis using Obj o n(1) by (simp add: cstr_obj_iff) blast
qed simp

lemma to_lower_NUL: "NUL = to_lower c \<Longrightarrow> c = NUL"
proof (rule ccontr)
  assume l: "NUL = to_lower c" and "c \<noteq> NUL"
  then have r: "65 \<le> cint c" "cint c \<le> 90" and n: "cchr (cint c + 32) = NUL"
    by (auto simp: to_lower_def split: if_splits)
  from r have "cint (cchr (cint c + 32)) = cint c + 32" by (intro cint_cchr) auto
  moreover have "cint NUL = 0" by (simp add: cint_def)
  ultimately show False using r unfolding n by linarith
qed

text \<open>
  A string of \<open>n\<close> characters or more is cut and not terminated, and the address that \<open>my_stpncpy\<close>
  returns is not that of a terminator.
\<close>

lemma stpncpy_cut:
  assumes "cstr src s = ok (t @ u) s" and "off_block src b"
    and "at_block s b (pre @ xs @ post)" and "length xs = length t"
  shows "stpncpy (Obj b (int (length pre))) src (length t) s =
    ok (Obj b (int (length pre + length t))) (set_block b (pre @ map Some t @ post) s)"
  using assms
proof (induction t arbitrary: pre xs s src)
  case (Cons c t)
  then obtain x ys where xs: "xs = x # ys" by (cases xs) auto
  let ?s = "set_block b ((pre @ [Some c]) @ ys @ post) s"
  have c: "load src s = ok c s" using load_cstr_nth [OF Cons.prems(1), of 0] by (cases src) simp_all
  have "c \<noteq> NUL" using cstr_no_nul [OF Cons.prems(1)] by auto
  have st: "store (Obj b (int (length pre))) c s = ok () ?s"
    using store_obj [OF Cons.prems(3), of "int (length pre)" c] xs by (simp add: list_update_append)
  have "cstr (padd src 1) s = ok (t @ u) s"
    using Cons.prems(1) cstr_tail [of src s c "t @ u"] by simp
  then have "cstr (padd src 1) ?s = ok (t @ u) ?s" using Cons.prems(2) by (intro cstr_set_other) simp_all
  then have "stpncpy (Obj b (int (length (pre @ [Some c])))) (padd src 1) (length t) ?s
      = ok (Obj b (int (length (pre @ [Some c]) + length t))) (set_block b ((pre @ [Some c]) @ map Some t @ post) ?s)"
    using Cons.prems xs by (intro Cons.IH) auto
  with c st \<open>c \<noteq> NUL\<close> show ?case by (simp add: bind_def add.commute)
qed simp

lemma my_stpncpy_unterminated:
  assumes "cstr src s = ok (t @ u) s" and "off_block src b"
    and "at_block s b (pre @ xs @ Some c # post)" and "length xs = length t" and "c \<noteq> NUL"
  shows "\<exists>e s'. my_stpncpy (Obj b (int (length pre))) src (length t) s = ok e s' \<and> load e s' = ok c s'"
proof -
  let ?s = "set_block b (pre @ map Some t @ Some c # post) s"
  have "load (Obj b (int (length pre + length t))) ?s = ok c ?s"
    by (rule load_obj [OF at_block_set_same [OF assms(3)]]) (simp_all add: nth_append del: of_nat_add)
  with stpncpy_cut [OF assms(1-4)] show ?thesis by (auto simp: my_stpncpy_def)
qed

lemma native_strcasecmp_equal:
  assumes "cstr p s = ok a s" and "cstr q s = ok b s"
  shows "\<exists>r. native_strcasecmp p q s = ok r s \<and> (r = 0 \<longleftrightarrow> strcasecmp_eq a b)"
proof -
  have "NUL \<notin> set (map to_lower a)" "NUL \<notin> set (map to_lower b)"
    using cstr_no_nul [OF assms(1)] cstr_no_nul [OF assms(2)] by (auto dest: to_lower_NUL)
  with assms show ?thesis by (simp add: native_strcasecmp_def strcasecmp_eq_def)
qed

lemma length_takeWhile_full: "length X = length (takeWhile P X) \<longleftrightarrow> (\<forall>x \<in> set X. P x)"
  by (induction X) auto

text \<open>The length of a literal and that of the string it begins with agree when it has no zero inside.\<close>

lemma lex_string_of_literal:
  "lex_string_set (Lit X 0) s = ok \<lparr>str = fst (STRING_WITH_LEN X), len = length (takeWhile (\<lambda>c. c \<noteq> NUL) X)\<rparr> s"
  "snd (STRING_WITH_LEN X) = length (takeWhile (\<lambda>c. c \<noteq> NUL) X) \<longleftrightarrow> (\<forall>c \<in> set X. c \<noteq> NUL)"
  by (simp_all add: lex_string_set_def strlen_def STRING_WITH_LEN_def length_takeWhile_full)

end
