(* ===== verification/MysqlOptions.thy ===== *)
theory MysqlOptions
  imports "HOL-Library.Word"
begin

text \<open>
  The options of a client for encrypted connections: an entry of a table of options
  (\<open>struct my_option\<close> of \<open>my_getopt.h\<close>), the entries of \<open>sslopt-longopts.h\<close>, the variables of
  \<open>sslopt-vars.h\<close>, the cases of \<open>sslopt-case.h\<close> for the function that is called back for each option,
  and the macro \<open>SSL_SET_OPTIONS\<close>, which passes the variables to the client library. The client is
  built with OpenSSL or, where \<open>yassl\<close> holds, with yaSSL.
\<close>

section \<open>Entries of a table of options\<close>

datatype get_opt_arg_type = NO_ARG | OPT_ARG | REQUIRED_ARG

datatype var_type = GET_NO_ARG | GET_BOOL | GET_INT | GET_UINT | GET_LONG | GET_ULONG | GET_LL | GET_ULL | GET_STR
  | GET_STR_ALLOC | GET_DISABLED | GET_ENUM | GET_SET | GET_DOUBLE | GET_FLAGSET | GET_PASSWORD

fun var_type_value :: "var_type \<Rightarrow> 64 word" where
  "var_type_value GET_NO_ARG = 1"
| "var_type_value GET_BOOL = 2"
| "var_type_value GET_INT = 3"
| "var_type_value GET_UINT = 4"
| "var_type_value GET_LONG = 5"
| "var_type_value GET_ULONG = 6"
| "var_type_value GET_LL = 7"
| "var_type_value GET_ULL = 8"
| "var_type_value GET_STR = 9"
| "var_type_value GET_STR_ALLOC = 10"
| "var_type_value GET_DISABLED = 11"
| "var_type_value GET_ENUM = 12"
| "var_type_value GET_SET = 13"
| "var_type_value GET_DOUBLE = 14"
| "var_type_value GET_FLAGSET = 15"
| "var_type_value GET_PASSWORD = 16"

definition GET_ASK_ADDR :: "64 word" where "GET_ASK_ADDR = 128"
definition GET_TYPE_MASK :: "64 word" where "GET_TYPE_MASK = 127"

text \<open>
  The type of an option is kept beside the flag \<open>GET_ASK_ADDR\<close> in one word; the mask gives it back.
\<close>

lemma type_under_mask:
  "and (or (var_type_value t) GET_ASK_ADDR) GET_TYPE_MASK = var_type_value t"
  "and (var_type_value t) GET_TYPE_MASK = var_type_value t"
  by (cases t; simp add: GET_ASK_ADDR_def GET_TYPE_MASK_def)+

lemma var_type_value_inject: "var_type_value t = var_type_value u \<longleftrightarrow> t = u"
  by (cases t; cases u) simp_all

text \<open>The identifiers that the client gives to its options, and the variables that hold their values.\<close>

datatype ssl_option = OPT_SSL_SSL | OPT_SSL_CA | OPT_SSL_CAPATH | OPT_SSL_CERT | OPT_SSL_CIPHER | OPT_SSL_KEY
  | OPT_SSL_CRL | OPT_SSL_CRLPATH | OPT_SSL_VERIFY_SERVER_CERT

datatype ssl_var = Use_ssl | Ssl_ca | Ssl_capath | Ssl_cert | Ssl_cipher | Ssl_key | Ssl_crl | Ssl_crlpath
  | Ssl_verify_server_cert

text \<open>The members that are zero in every entry here (\<open>typelib\<close> and the limits) are left out.\<close>

record my_option =
  name :: string
  id :: ssl_option
  comment :: string
  "value" :: ssl_var
  u_max_value :: ssl_var
  var_type :: var_type
  arg_type :: get_opt_arg_type
  def_value :: int

definition string_option :: "string \<Rightarrow> ssl_option \<Rightarrow> string \<Rightarrow> ssl_var \<Rightarrow> my_option" where
  "string_option nm i text v = \<lparr>name = nm, id = i, comment = text, value = v, u_max_value = v,
     var_type = GET_STR, arg_type = REQUIRED_ARG, def_value = 0\<rparr>"

definition ssl_longopts :: "my_option list" where
  "ssl_longopts =
    [\<lparr>name = ''ssl'', id = OPT_SSL_SSL,
       comment = ''If set to ON, this option enforces that SSL is established before client '' @
         ''attempts to authenticate to the server. To disable client SSL capabilities '' @ ''use --ssl=OFF.'',
       value = Use_ssl, u_max_value = Use_ssl, var_type = GET_BOOL, arg_type = OPT_ARG, def_value = 0\<rparr>,
     string_option ''ssl-ca'' OPT_SSL_CA ''CA file in PEM format.'' Ssl_ca,
     string_option ''ssl-capath'' OPT_SSL_CAPATH ''CA directory.'' Ssl_capath,
     string_option ''ssl-cert'' OPT_SSL_CERT ''X509 cert in PEM format.'' Ssl_cert,
     string_option ''ssl-cipher'' OPT_SSL_CIPHER ''SSL cipher to use.'' Ssl_cipher,
     string_option ''ssl-key'' OPT_SSL_KEY ''X509 key in PEM format.'' Ssl_key,
     string_option ''ssl-crl'' OPT_SSL_CRL ''Certificate revocation list.'' Ssl_crl,
     string_option ''ssl-crlpath'' OPT_SSL_CRLPATH ''Certificate revocation list path.'' Ssl_crlpath,
     \<lparr>name = ''ssl-verify-server-cert'', id = OPT_SSL_VERIFY_SERVER_CERT,
       comment = ''Verify server's \"Common Name\" in its cert against hostname used '' @
         ''when connecting. This option is disabled by default.'',
       value = Ssl_verify_server_cert, u_max_value = Ssl_verify_server_cert, var_type = GET_BOOL,
       arg_type = OPT_ARG, def_value = 0\<rparr>]"

section \<open>The variables\<close>

record ssl_vars =
  opt_use_ssl :: bool
  opt_ssl_enforce :: bool
  opt_ssl_ca :: "string option"
  opt_ssl_capath :: "string option"
  opt_ssl_cert :: "string option"
  opt_ssl_cipher :: "string option"
  opt_ssl_key :: "string option"
  opt_ssl_crl :: "string option"
  opt_ssl_crlpath :: "string option"
  opt_ssl_verify_server_cert :: bool

definition ssl_vars_init :: ssl_vars where
  "ssl_vars_init = \<lparr>opt_use_ssl = True, opt_ssl_enforce = False, opt_ssl_ca = None, opt_ssl_capath = None,
     opt_ssl_cert = None, opt_ssl_cipher = None, opt_ssl_key = None, opt_ssl_crl = None, opt_ssl_crlpath = None,
     opt_ssl_verify_server_cert = False\<rparr>"

text \<open>What an argument is stored as: a truth value or a text.\<close>

datatype opt_value = Flag bool | Text string

fun set_var :: "ssl_var \<Rightarrow> opt_value \<Rightarrow> ssl_vars \<Rightarrow> ssl_vars" where
  "set_var Use_ssl (Flag b) s = s\<lparr>opt_use_ssl := b\<rparr>"
| "set_var Ssl_verify_server_cert (Flag b) s = s\<lparr>opt_ssl_verify_server_cert := b\<rparr>"
| "set_var Ssl_ca (Text t) s = s\<lparr>opt_ssl_ca := Some t\<rparr>"
| "set_var Ssl_capath (Text t) s = s\<lparr>opt_ssl_capath := Some t\<rparr>"
| "set_var Ssl_cert (Text t) s = s\<lparr>opt_ssl_cert := Some t\<rparr>"
| "set_var Ssl_cipher (Text t) s = s\<lparr>opt_ssl_cipher := Some t\<rparr>"
| "set_var Ssl_key (Text t) s = s\<lparr>opt_ssl_key := Some t\<rparr>"
| "set_var Ssl_crl (Text t) s = s\<lparr>opt_ssl_crl := Some t\<rparr>"
| "set_var Ssl_crlpath (Text t) s = s\<lparr>opt_ssl_crlpath := Some t\<rparr>"
| "set_var _ _ s = s"

section \<open>The callback\<close>

text \<open>
  The function is called with the identifier of an option whose value has been stored. An option
  without a case changes nothing.
\<close>

fun ssl_case :: "bool \<Rightarrow> ssl_option \<Rightarrow> ssl_vars \<Rightarrow> ssl_vars" where
  "ssl_case yassl OPT_SSL_SSL s = s\<lparr>opt_ssl_enforce := opt_use_ssl s\<rparr>"
| "ssl_case yassl OPT_SSL_VERIFY_SERVER_CERT s = s"
| "ssl_case yassl _ s =
     (let s = s\<lparr>opt_use_ssl := True\<rparr>
      in if yassl then s\<lparr>opt_ssl_crl := None, opt_ssl_crlpath := None\<rparr> else s)"

text \<open>
  A command line: the entries of the options given, each with the value of its argument. The library
  (\<open>handle_options\<close>) stores the value in the variable of the entry and calls the function.
\<close>

type_synonym given = "(my_option \<times> opt_value) list"

definition handle_option :: "bool \<Rightarrow> my_option \<times> opt_value \<Rightarrow> ssl_vars \<Rightarrow> ssl_vars" where
  "handle_option yassl g s = (case g of (opt, v) \<Rightarrow> ssl_case yassl (id opt) (set_var (value opt) v s))"

definition handle_given :: "bool \<Rightarrow> given \<Rightarrow> ssl_vars \<Rightarrow> ssl_vars" where
  "handle_given yassl gs s = fold (handle_option yassl) gs s"

text \<open>An option of the table, with a value of its type.\<close>

definition well_typed :: "my_option \<times> opt_value \<Rightarrow> bool" where
  "well_typed g \<longleftrightarrow> fst g \<in> set ssl_longopts \<and>
     (case snd g of Flag b \<Rightarrow> var_type (fst g) = GET_BOOL | Text t \<Rightarrow> var_type (fst g) = GET_STR)"

section \<open>What the library is told\<close>

datatype ssl_call =
    Mysql_ssl_set "string option" "string option" "string option" "string option" "string option"
  | Options_SSL_CRL "string option"
  | Options_SSL_CRLPATH "string option"
  | Options_SSL_ENFORCE bool
  | Options_SSL_VERIFY_SERVER_CERT bool

definition SSL_SET_OPTIONS :: "ssl_vars \<Rightarrow> ssl_call list" where
  "SSL_SET_OPTIONS s =
     (if opt_use_ssl s then
        [Mysql_ssl_set (opt_ssl_key s) (opt_ssl_cert s) (opt_ssl_ca s) (opt_ssl_capath s) (opt_ssl_cipher s),
         Options_SSL_CRL (opt_ssl_crl s), Options_SSL_CRLPATH (opt_ssl_crlpath s),
         Options_SSL_ENFORCE (opt_ssl_enforce s)]
      else [])
     @ [Options_SSL_VERIFY_SERVER_CERT (opt_ssl_verify_server_cert s)]"

section \<open>The meaning of a command line\<close>

text \<open>The value of the last option with an identifier, if there is one.\<close>

definition last_value :: "ssl_option \<Rightarrow> given \<Rightarrow> opt_value option" where
  "last_value i gs = map_option snd (find (\<lambda>g. id (fst g) = i) (rev gs))"

definition last_text :: "ssl_option \<Rightarrow> given \<Rightarrow> string option" where
  "last_text i gs = (case last_value i gs of Some (Text t) \<Rightarrow> Some t | _ \<Rightarrow> None)"

definition last_flag :: "ssl_option \<Rightarrow> given \<Rightarrow> bool" where
  "last_flag i gs \<longleftrightarrow> last_value i gs = Some (Flag True)"

text \<open>
  Encryption is used unless the last word on it is that it is not: no option that needs it follows
  the last \<open>--ssl=0\<close>.
\<close>

definition last_word :: "given \<Rightarrow> bool" where
  "last_word gs =
     (case find (\<lambda>g. id (fst g) \<noteq> OPT_SSL_VERIFY_SERVER_CERT) (rev gs) of
        Some (opt, Flag b) \<Rightarrow> b
      | _ \<Rightarrow> True)"

definition ssl_request :: "bool \<Rightarrow> given \<Rightarrow> ssl_call list" where
  "ssl_request yassl gs =
     (if last_word gs then
        [Mysql_ssl_set (last_text OPT_SSL_KEY gs) (last_text OPT_SSL_CERT gs) (last_text OPT_SSL_CA gs)
           (last_text OPT_SSL_CAPATH gs) (last_text OPT_SSL_CIPHER gs),
         Options_SSL_CRL (if yassl then None else last_text OPT_SSL_CRL gs),
         Options_SSL_CRLPATH (if yassl then None else last_text OPT_SSL_CRLPATH gs),
         Options_SSL_ENFORCE (last_flag OPT_SSL_SSL gs)]
      else [])
     @ [Options_SSL_VERIFY_SERVER_CERT (last_flag OPT_SSL_VERIFY_SERVER_CERT gs)]"

lemma last_snoc:
  "last_value i (gs @ [(opt, v)]) = (if id opt = i then Some v else last_value i gs)"
  "last_text i (gs @ [(opt, v)]) = (if id opt = i then case v of Text t \<Rightarrow> Some t | _ \<Rightarrow> None else last_text i gs)"
  "last_flag i (gs @ [(opt, v)]) = (if id opt = i then v = Flag True else last_flag i gs)"
  "last_word (gs @ [(opt, v)]) =
     (if id opt = OPT_SSL_VERIFY_SERVER_CERT then last_word gs else case v of Flag b \<Rightarrow> b | _ \<Rightarrow> True)"
  by (simp_all add: last_value_def last_text_def last_flag_def last_word_def split: opt_value.splits)

lemma handle_snoc: "handle_given yassl (gs @ [g]) s = handle_option yassl g (handle_given yassl gs s)"
  by (simp add: handle_given_def)

text \<open>The variables after the options \<open>gs\<close>.\<close>

definition vars_of :: "bool \<Rightarrow> given \<Rightarrow> ssl_vars" where
  "vars_of yassl gs = \<lparr>opt_use_ssl = last_word gs, opt_ssl_enforce = last_flag OPT_SSL_SSL gs,
     opt_ssl_ca = last_text OPT_SSL_CA gs, opt_ssl_capath = last_text OPT_SSL_CAPATH gs,
     opt_ssl_cert = last_text OPT_SSL_CERT gs, opt_ssl_cipher = last_text OPT_SSL_CIPHER gs,
     opt_ssl_key = last_text OPT_SSL_KEY gs, opt_ssl_crl = (if yassl then None else last_text OPT_SSL_CRL gs),
     opt_ssl_crlpath = (if yassl then None else last_text OPT_SSL_CRLPATH gs),
     opt_ssl_verify_server_cert = last_flag OPT_SSL_VERIFY_SERVER_CERT gs\<rparr>"

lemma well_typed_cases:
  assumes "well_typed (opt, v)"
  obtains (flag) b where "v = Flag b" and "id opt = OPT_SSL_SSL \<and> value opt = Use_ssl
      \<or> id opt = OPT_SSL_VERIFY_SERVER_CERT \<and> value opt = Ssl_verify_server_cert"
  | (path) t where "v = Text t" and "(id opt, value opt) \<in> {(OPT_SSL_CA, Ssl_ca), (OPT_SSL_CAPATH, Ssl_capath),
      (OPT_SSL_CERT, Ssl_cert), (OPT_SSL_CIPHER, Ssl_cipher), (OPT_SSL_KEY, Ssl_key), (OPT_SSL_CRL, Ssl_crl),
      (OPT_SSL_CRLPATH, Ssl_crlpath)}"
  using assms by (cases v) (auto simp: well_typed_def ssl_longopts_def string_option_def)

lemma handle_option_vars:
  "well_typed (opt, v) \<Longrightarrow> handle_option yassl (opt, v) (vars_of yassl gs) = vars_of yassl (gs @ [(opt, v)])"
  by (erule well_typed_cases) (auto simp: handle_option_def vars_of_def last_snoc Let_def)

lemma handle_given_vars: "\<forall>g \<in> set gs. well_typed g \<Longrightarrow> handle_given yassl gs ssl_vars_init = vars_of yassl gs"
proof (induction gs rule: rev_induct)
  case Nil
  show ?case
    by (simp add: handle_given_def ssl_vars_init_def vars_of_def last_value_def last_text_def last_flag_def last_word_def)
next
  case (snoc g gs)
  then show ?case by (cases g) (simp add: handle_snoc handle_option_vars)
qed


text \<open>The options \<open>--ssl=0 --ssl-ca=ca.pem\<close>: the second one brings encryption back, but not its enforcement.\<close>

definition sample_given :: given where
  "sample_given = [(ssl_longopts ! 0, Flag False), (ssl_longopts ! 1, Text ''ca.pem'')]"


section \<open>Enforcement\<close>

text \<open>Encryption that is enforced is used, after any option, also one of the wrong type.\<close>

definition enforced_is_used :: "ssl_vars \<Rightarrow> bool" where
  "enforced_is_used s \<longleftrightarrow> (opt_ssl_enforce s \<longrightarrow> opt_use_ssl s)"

text \<open>
  The step by which \<open>handle_option\<close> keeps this has two halves. Between them, when \<open>--ssl=0\<close> has been
  stored and the function has not been called, it does not hold.
\<close>

lemma handle_enforced:
  "fst g \<in> set ssl_longopts \<Longrightarrow> enforced_is_used s \<Longrightarrow> enforced_is_used (handle_option yassl g s)"
  by (cases g; cases "snd g") (auto simp: ssl_longopts_def string_option_def handle_option_def enforced_is_used_def Let_def)

lemma enforced_invariant:
  "\<forall>g \<in> set gs. fst g \<in> set ssl_longopts \<Longrightarrow> enforced_is_used s \<Longrightarrow> enforced_is_used (handle_given yassl gs s)"
  unfolding handle_given_def by (induction gs arbitrary: s) (simp_all add: handle_enforced)

lemma enforced_between: "enforced_is_used s \<Longrightarrow> opt_ssl_enforce s \<Longrightarrow> \<not> enforced_is_used (set_var Use_ssl (Flag False) s)"
  by (simp add: enforced_is_used_def)

text \<open>Without options encryption is tried and not enforced, and with \<open>handle_options\<close> first storing
  the defaults of the table, as its member \<open>def_value\<close> says, it would not even be tried.\<close>

lemma default_tries: "SSL_SET_OPTIONS (handle_given yassl [] ssl_vars_init) =
    [Mysql_ssl_set None None None None None, Options_SSL_CRL None, Options_SSL_CRLPATH None, Options_SSL_ENFORCE False,
     Options_SSL_VERIFY_SERVER_CERT False]"
  and default_of_table: "def_value (ssl_longopts ! 0) = 0 \<and> value (ssl_longopts ! 0) = Use_ssl
    \<and> SSL_SET_OPTIONS (set_var Use_ssl (Flag False) ssl_vars_init) = [Options_SSL_VERIFY_SERVER_CERT False]"
  by (simp_all add: ssl_longopts_def handle_given_def SSL_SET_OPTIONS_def ssl_vars_init_def)

end
