(* ===== verification/MysqlDebug.thy ===== *)
theory MysqlDebug
  imports Main
begin

text \<open>
  The debugging macros of \<open>my_dbug.h\<close>, in both variants: \<open>off\<close> says that \<open>DBUG_OFF\<close> is defined. The
  functions of the debugging library are not in the repository and so a parameter, on any state of
  their own. What matters of a macro is what it does to the program around it: whether control goes
  on behind it, and what it does to the state of the program.
\<close>

section \<open>Statements\<close>

text \<open>A statement goes on to the next one, returns from its function, or ends the process.\<close>

datatype 'a flow = Next | Returns 'a | Aborts

record ('w, 'd) dstate =
  app :: 'w
  dbg :: 'd

type_synonym ('w, 'd, 'a) stmt = "('w, 'd) dstate \<Rightarrow> 'a flow \<times> ('w, 'd) dstate"

definition skip :: "('w, 'd, 'a) stmt" where
  "skip s = (Next, s)"

definition before :: "('w, 'd, 'a) stmt \<Rightarrow> ('w, 'd, 'a) stmt \<Rightarrow> ('w, 'd, 'a) stmt" where
  "before m n s = (case m s of (Next, s') \<Rightarrow> n s' | r \<Rightarrow> r)"

text \<open>The statement \<open>return(e)\<close>, for an expression that may have side effects on the program.\<close>

definition returning :: "('w \<Rightarrow> 'a \<times> 'w) \<Rightarrow> ('w, 'd, 'a) stmt" where
  "returning e s = (case e (app s) of (a, w) \<Rightarrow> (Returns a, s\<lparr>app := w\<rparr>))"

definition aborting :: "('w, 'd, 'a) stmt" where
  "aborting s = (Aborts, s)"

section \<open>The debugging library\<close>

type_synonym place = "string \<times> nat"

record 'd dbug_api =
  db_on :: "'d \<Rightarrow> bool"
  db_set_on :: "bool \<Rightarrow> 'd \<Rightarrow> 'd"
  db_keyword :: "string \<Rightarrow> bool \<Rightarrow> 'd \<Rightarrow> bool \<times> 'd"
  db_enter :: "string \<Rightarrow> place \<Rightarrow> 'd \<Rightarrow> 'd"
  db_return :: "nat \<Rightarrow> 'd \<Rightarrow> 'd"
  db_pargs :: "nat \<Rightarrow> string \<Rightarrow> 'd \<Rightarrow> 'd"
  db_enabled :: "'d \<Rightarrow> bool \<times> 'd"
  db_doprnt :: "string \<Rightarrow> 'd \<Rightarrow> 'd"
  db_doputs :: "string \<Rightarrow> 'd \<Rightarrow> 'd"
  db_dump :: "nat \<Rightarrow> string \<Rightarrow> string \<Rightarrow> 'd \<Rightarrow> 'd"
  db_process :: "string \<Rightarrow> 'd \<Rightarrow> 'd"
  db_push :: "string \<Rightarrow> 'd \<Rightarrow> 'd"
  db_pop :: "'d \<Rightarrow> 'd"
  db_set :: "string \<Rightarrow> 'd \<Rightarrow> 'd"
  db_set_init :: "string \<Rightarrow> 'd \<Rightarrow> 'd"
  db_lock_file :: "'d \<Rightarrow> 'd"
  db_unlock_file :: "'d \<Rightarrow> 'd"
  db_end :: "'d \<Rightarrow> 'd"
  db_flush :: "'d \<Rightarrow> 'd"
  db_get_func :: "'d \<Rightarrow> string"
  strxnmov :: "nat \<Rightarrow> string list \<Rightarrow> string"

text \<open>A call of the library as a statement, when the macros are not empty.\<close>

definition dbug :: "bool \<Rightarrow> ('d \<Rightarrow> 'd) \<Rightarrow> ('w, 'd, 'a) stmt" where
  "dbug off f s = (Next, if off then s else s\<lparr>dbg := f (dbg s)\<rparr>)"

definition keyword_set :: "'d dbug_api \<Rightarrow> string \<Rightarrow> bool \<Rightarrow> ('w, 'd) dstate \<Rightarrow> bool \<times> ('w, 'd) dstate" where
  "keyword_set d keyword strict s = (case db_keyword d keyword strict (dbg s) of (b, x) \<Rightarrow> (b, s\<lparr>dbg := x\<rparr>))"

section \<open>Entering and leaving a function\<close>

definition DBUG_ENTER :: "bool \<Rightarrow> 'd dbug_api \<Rightarrow> place \<Rightarrow> string \<Rightarrow> ('w, 'd, 'a) stmt" where
  "DBUG_ENTER off d src a = dbug off (db_enter d a src)"

definition DBUG_LEAVE :: "bool \<Rightarrow> 'd dbug_api \<Rightarrow> nat \<Rightarrow> ('w, 'd, 'a) stmt" where
  "DBUG_LEAVE off d line = dbug off (db_return d line)"

definition DBUG_RETURN :: "bool \<Rightarrow> 'd dbug_api \<Rightarrow> nat \<Rightarrow> ('w \<Rightarrow> 'a \<times> 'w) \<Rightarrow> ('w, 'd, 'a) stmt" where
  "DBUG_RETURN off d line a1 = (if off then returning a1 else before (DBUG_LEAVE off d line) (returning a1))"

definition DBUG_VOID_RETURN :: "bool \<Rightarrow> 'd dbug_api \<Rightarrow> nat \<Rightarrow> ('w, 'd, unit) stmt" where
  "DBUG_VOID_RETURN off d line =
     (if off then returning (\<lambda>w. ((), w)) else before (DBUG_LEAVE off d line) (returning (\<lambda>w. ((), w))))"

section \<open>Code for a keyword\<close>

definition DBUG_EXECUTE :: "bool \<Rightarrow> 'd dbug_api \<Rightarrow> string \<Rightarrow> ('w, 'd, 'a) stmt \<Rightarrow> ('w, 'd, 'a) stmt" where
  "DBUG_EXECUTE off d keyword a1 s =
     (if off then skip s else case keyword_set d keyword False s of (b, s') \<Rightarrow> (if b then a1 s' else skip s'))"

definition DBUG_EXECUTE_IF :: "bool \<Rightarrow> 'd dbug_api \<Rightarrow> string \<Rightarrow> ('w, 'd, 'a) stmt \<Rightarrow> ('w, 'd, 'a) stmt" where
  "DBUG_EXECUTE_IF off d keyword a1 s =
     (if off then skip s else case keyword_set d keyword True s of (b, s') \<Rightarrow> (if b then a1 s' else skip s'))"

text \<open>Expressions: their value, and the state afterwards.\<close>

definition DBUG_EVALUATE :: "bool \<Rightarrow> 'd dbug_api \<Rightarrow> string \<Rightarrow> (('w, 'd) dstate \<Rightarrow> 'b \<times> ('w, 'd) dstate)
    \<Rightarrow> (('w, 'd) dstate \<Rightarrow> 'b \<times> ('w, 'd) dstate) \<Rightarrow> ('w, 'd) dstate \<Rightarrow> 'b \<times> ('w, 'd) dstate" where
  "DBUG_EVALUATE off d keyword a1 a2 s =
     (if off then a2 s else case keyword_set d keyword False s of (b, s') \<Rightarrow> (if b then a1 s' else a2 s'))"

definition DBUG_EVALUATE_IF :: "bool \<Rightarrow> 'd dbug_api \<Rightarrow> string \<Rightarrow> (('w, 'd) dstate \<Rightarrow> 'b \<times> ('w, 'd) dstate)
    \<Rightarrow> (('w, 'd) dstate \<Rightarrow> 'b \<times> ('w, 'd) dstate) \<Rightarrow> ('w, 'd) dstate \<Rightarrow> 'b \<times> ('w, 'd) dstate" where
  "DBUG_EVALUATE_IF off d keyword a1 a2 s =
     (if off then a2 s else case keyword_set d keyword True s of (b, s') \<Rightarrow> (if b then a1 s' else a2 s'))"

section \<open>Messages\<close>

text \<open>A message is written when debugging is on and the library wants it; \<open>put\<close> writes it.\<close>

definition message :: "'d dbug_api \<Rightarrow> nat \<Rightarrow> string \<Rightarrow> ('d \<Rightarrow> 'd) \<Rightarrow> 'd \<Rightarrow> 'd" where
  "message d line keyword put x =
     (if db_on d x then
        case db_enabled d (db_pargs d line keyword x) of (b, x') \<Rightarrow> (if b then put x' else x')
      else x)"

definition DBUG_PRINT :: "bool \<Rightarrow> 'd dbug_api \<Rightarrow> nat \<Rightarrow> string \<Rightarrow> string \<Rightarrow> ('w, 'd, 'a) stmt" where
  "DBUG_PRINT off d line keyword text = dbug off (message d line keyword (db_doprnt d text))"

definition DBUG_PUTS :: "bool \<Rightarrow> 'd dbug_api \<Rightarrow> nat \<Rightarrow> string \<Rightarrow> string \<Rightarrow> ('w, 'd, 'a) stmt" where
  "DBUG_PUTS off d line keyword arg = dbug off (message d line keyword (db_doputs d arg))"

definition DBUG_LOG :: "bool \<Rightarrow> 'd dbug_api \<Rightarrow> nat \<Rightarrow> string \<Rightarrow> string \<Rightarrow> ('w, 'd, 'a) stmt" where
  "DBUG_LOG off d line keyword v = (if off then skip else DBUG_PUTS off d line keyword v)"

definition DBUG_DUMP :: "bool \<Rightarrow> 'd dbug_api \<Rightarrow> nat \<Rightarrow> string \<Rightarrow> string \<Rightarrow> ('w, 'd, 'a) stmt" where
  "DBUG_DUMP off d line keyword bytes = dbug off (db_dump d line keyword bytes)"

section \<open>Control of the library\<close>

definition DBUG_PUSH :: "bool \<Rightarrow> 'd dbug_api \<Rightarrow> string \<Rightarrow> ('w, 'd, 'a) stmt" where
  "DBUG_PUSH off d a1 = dbug off (db_push d a1)"

definition DBUG_POP :: "bool \<Rightarrow> 'd dbug_api \<Rightarrow> ('w, 'd, 'a) stmt" where
  "DBUG_POP off d = dbug off (db_pop d)"

definition DBUG_SET :: "bool \<Rightarrow> 'd dbug_api \<Rightarrow> string \<Rightarrow> ('w, 'd, 'a) stmt" where
  "DBUG_SET off d a1 = dbug off (db_set d a1)"

definition DBUG_SET_INITIAL :: "bool \<Rightarrow> 'd dbug_api \<Rightarrow> string \<Rightarrow> ('w, 'd, 'a) stmt" where
  "DBUG_SET_INITIAL off d a1 = dbug off (db_set_init d a1)"

definition DBUG_PROCESS :: "bool \<Rightarrow> 'd dbug_api \<Rightarrow> string \<Rightarrow> ('w, 'd, 'a) stmt" where
  "DBUG_PROCESS off d a1 = dbug off (db_process d a1)"

definition DBUG_END :: "bool \<Rightarrow> 'd dbug_api \<Rightarrow> ('w, 'd, 'a) stmt" where
  "DBUG_END off d = dbug off (db_end d)"

definition DBUG_LOCK_FILE :: "bool \<Rightarrow> 'd dbug_api \<Rightarrow> ('w, 'd, 'a) stmt" where
  "DBUG_LOCK_FILE off d = dbug off (db_lock_file d)"

definition DBUG_UNLOCK_FILE :: "bool \<Rightarrow> 'd dbug_api \<Rightarrow> ('w, 'd, 'a) stmt" where
  "DBUG_UNLOCK_FILE off d = dbug off (db_unlock_file d)"

definition DEBUGGER_OFF :: "bool \<Rightarrow> 'd dbug_api \<Rightarrow> ('w, 'd, 'a) stmt" where
  "DEBUGGER_OFF off d = dbug off (db_set_on d False)"

definition DEBUGGER_ON :: "bool \<Rightarrow> 'd dbug_api \<Rightarrow> ('w, 'd, 'a) stmt" where
  "DEBUGGER_ON off d = dbug off (db_set_on d True)"

section \<open>Ending the process\<close>

definition DBUG_ASSERT :: "bool \<Rightarrow> ('w \<Rightarrow> bool) \<Rightarrow> ('w, 'd, 'a) stmt" where
  "DBUG_ASSERT off A s = (if off \<or> A (app s) then skip s else aborting s)"

definition DBUG_ABORT :: "bool \<Rightarrow> 'd dbug_api \<Rightarrow> ('w, 'd, 'a) stmt" where
  "DBUG_ABORT off d = (if off then skip else before (dbug off (db_flush d)) aborting)"

text \<open>
  The keyword of a crash is put together in an array of 255 bytes by \<open>strxnmov\<close>, which is not in the
  repository either. The macro exists only in a debugging build.
\<close>

definition DBUG_CHECK_CRASH :: "'d dbug_api \<Rightarrow> string \<Rightarrow> string \<Rightarrow> ('w, 'd, 'a) stmt" where
  "DBUG_CHECK_CRASH d func opr = DBUG_EXECUTE_IF False d (strxnmov d (255 - 1) [func, opr]) (DBUG_ABORT False d)"

definition DBUG_CRASH_ENTER :: "bool \<Rightarrow> 'd dbug_api \<Rightarrow> place \<Rightarrow> string \<Rightarrow> ('w, 'd, 'a) stmt" where
  "DBUG_CRASH_ENTER off d src func =
     (if off then skip
      else before (DBUG_ENTER off d src func) (DBUG_CHECK_CRASH d func ''_crash_enter''))"

definition DBUG_CRASH_RETURN :: "bool \<Rightarrow> 'd dbug_api \<Rightarrow> ('w \<Rightarrow> 'a \<times> 'w) \<Rightarrow> ('w, 'd, 'a) stmt" where
  "DBUG_CRASH_RETURN off d val s =
     (if off then returning val s
      else DBUG_CHECK_CRASH d (db_get_func d (dbg s)) ''_crash_return'' s)"

definition DBUG_CRASH_VOID_RETURN :: "bool \<Rightarrow> 'd dbug_api \<Rightarrow> ('w, 'd, unit) stmt" where
  "DBUG_CRASH_VOID_RETURN off d s =
     (if off then returning (\<lambda>w. ((), w)) s
      else DBUG_CHECK_CRASH d (db_get_func d (dbg s)) ''_crash_return'' s)"

section \<open>The program around the macros\<close>

text \<open>Two statements that a program cannot tell apart: they go on alike and leave it in the same state.\<close>

definition alike :: "('w, 'd, 'a) stmt \<Rightarrow> ('w, 'd, 'a) stmt \<Rightarrow> bool" where
  "alike m n \<longleftrightarrow> (\<forall>s t. app s = app t \<longrightarrow> fst (m s) = fst (n t) \<and> app (snd (m s)) = app (snd (n t)))"

named_theorems dbug_alike

lemma alike_skip [dbug_alike]: "alike skip skip"
  by (simp add: alike_def skip_def)

lemma alike_dbug [dbug_alike]: "alike (dbug off f) (dbug off' g)" "alike (dbug off f) skip" "alike skip (dbug off f)"
  by (simp_all add: alike_def dbug_def skip_def)

lemma alike_returning [dbug_alike]: "alike (returning e) (returning e)"
  by (auto simp: alike_def returning_def split: prod.splits)

lemma alikeD: "alike m n \<Longrightarrow> app s = app t \<Longrightarrow> fst (m s) = fst (n t) \<and> app (snd (m s)) = app (snd (n t))"
  by (simp add: alike_def)

lemma alike_before [dbug_alike]:
  assumes "alike m m'" and "alike n n'"
  shows "alike (before m n) (before m' n')"
  unfolding alike_def
proof (intro allI impI)
  fix s t :: "('a, 'b) dstate" assume st: "app s = app t"
  obtain r u where m: "m s = (r, u)" by (cases "m s")
  with alikeD [OF assms(1) st] obtain v where "m' t = (r, v)" "app u = app v" by (cases "m' t") simp
  with m show "fst (before m n s) = fst (before m' n' t) \<and> app (snd (before m n s)) = app (snd (before m' n' t))"
    using alikeD [OF assms(2), of u v] by (cases r) (simp_all add: before_def)
qed

lemma before_dbug: "\<exists>t. before (dbug off f) n s = n t \<and> app t = app s"
  by (simp add: before_def dbug_def) (metis dstate.select_convs(1) dstate.surjective dstate.update_convs(2))

lemma alike_leave_first [dbug_alike]:
  "alike n n' \<Longrightarrow> alike n (before (dbug off f) n')" "alike n n' \<Longrightarrow> alike (before (dbug off f) n) n'"
  unfolding alike_def using before_dbug by metis+

lemma alike_if [dbug_alike]: "alike m n \<Longrightarrow> alike m' n \<Longrightarrow> alike (if b then m else m') n"
  by simp

lemma alike_if' [dbug_alike]: "alike m n \<Longrightarrow> alike m n' \<Longrightarrow> alike m (if b then n else n')"
  by simp

text \<open>
  Whatever the library does, a program runs alike with these macros and without them: they never
  change its state nor its flow.
\<close>

lemmas dbug_plain_defs = DBUG_ENTER_def DBUG_LEAVE_def DBUG_RETURN_def DBUG_VOID_RETURN_def DBUG_PRINT_def
  DBUG_PUTS_def DBUG_LOG_def DBUG_DUMP_def DBUG_PUSH_def DBUG_POP_def DBUG_SET_def DBUG_SET_INITIAL_def DBUG_PROCESS_def
  DBUG_END_def DBUG_LOCK_FILE_def DBUG_UNLOCK_FILE_def DEBUGGER_OFF_def DEBUGGER_ON_def

lemma dbug_is_transparent:
  "alike (DBUG_ENTER off d src a) skip \<and> alike (DBUG_LEAVE off d line) skip
   \<and> alike (DBUG_RETURN off d line e) (returning e) \<and> alike (DBUG_VOID_RETURN off d line) (returning (\<lambda>w. ((), w)))
   \<and> alike (DBUG_PRINT off d line k t) skip \<and> alike (DBUG_PUTS off d line k t) skip
   \<and> alike (DBUG_LOG off d line k t) skip \<and> alike (DBUG_DUMP off d line k t) skip
   \<and> alike (DBUG_PUSH off d t) skip \<and> alike (DBUG_POP off d) skip \<and> alike (DBUG_SET off d t) skip
   \<and> alike (DBUG_SET_INITIAL off d t) skip \<and> alike (DBUG_PROCESS off d t) skip \<and> alike (DBUG_END off d) skip
   \<and> alike (DBUG_LOCK_FILE off d) skip \<and> alike (DBUG_UNLOCK_FILE off d) skip
   \<and> alike (DEBUGGER_OFF off d) skip \<and> alike (DEBUGGER_ON off d) skip"
  unfolding dbug_plain_defs by (intro conjI dbug_alike)

text \<open>A function that is entered and left with the macros is the function without them.\<close>

lemma traced_function:
  "alike m m' \<Longrightarrow> alike (before (DBUG_ENTER off d src a) (before m (DBUG_RETURN off d line e))) (before m' (returning e))"
  unfolding dbug_plain_defs by (intro dbug_alike) simp_all

text \<open>Code for a keyword runs only in a debugging build in which the keyword is set.\<close>

lemma code_for_a_keyword:
  "DBUG_EXECUTE_IF off d k m s =
     (if \<not> off \<and> fst (keyword_set d k True s) then m (snd (keyword_set d k True s))
      else (Next, if off then s else snd (keyword_set d k True s)))"
  by (simp add: DBUG_EXECUTE_IF_def skip_def split: prod.splits)

text \<open>
  The last macro for a function does not keep this: without debugging \<open>DBUG_CRASH_RETURN\<close> returns the
  value, in a debugging build it never returns one, but goes on with what follows.
\<close>

lemma crash_return_never_returns:
  "fst (DBUG_CRASH_RETURN False d val s) \<in> {Next, Aborts}"
  "fst (DBUG_CRASH_RETURN True d val s) = Returns (fst (val (app s)))"
  by (simp_all add: DBUG_CRASH_RETURN_def DBUG_CHECK_CRASH_def DBUG_EXECUTE_IF_def DBUG_ABORT_def before_def dbug_def
      aborting_def skip_def returning_def split: prod.splits)

lemma crash_return_is_not_a_return: "\<not> alike (DBUG_CRASH_RETURN False d val) (returning val :: ('w, 'd, 'a) stmt)"
proof
  assume "alike (DBUG_CRASH_RETURN False d val) (returning val :: ('w, 'd, 'a) stmt)"
  then have "fst (DBUG_CRASH_RETURN False d val s) = fst (returning val s)" for s :: "('w, 'd) dstate"
    by (simp add: alike_def)
  then show False
    using crash_return_never_returns(1) [of d val "\<lparr>app = undefined, dbg = undefined\<rparr>"]
    by (simp add: returning_def split: prod.splits)
qed

end
